(* ===== verification/Go_Prelude.thy ===== *)
theory Go_Prelude
  imports Main "HOL-Library.Monad_Syntax"
begin

text \<open>
  The shared vocabulary of the development: Go's \<open>string\<close> as a list of bytes, and the
  functions of the packages \<open>strings\<close> and \<open>strconv\<close> that the modelled code calls, each
  written so that it computes. A byte is a \<^typ>\<open>char\<close> and a string is a \<^typ>\<open>string\<close>;
  multi-byte UTF-8 sequences are several elements, as \<open>len\<close> counts them in Go.

  Case mapping is exact on ASCII bytes and on the non-ASCII runes whose image is an
  ASCII letter (U+0131, U+017F for \<open>ToUpper\<close>; U+0130, U+212A for \<open>ToLower\<close>; U+017F,
  U+212A for \<open>EqualFold\<close>). Every other byte from 0x80 on is left alone. A comparison of the
  result with an ASCII literal therefore comes out as in Go for every input, because the
  remaining runes are mapped by Go to non-ASCII runes. White space is Go's
  \<open>unicode.IsSpace\<close>, multi-byte white space included.

  An error value of Go is the text of its message: \<open>'a result\<close> is \<open>string + 'a\<close>, and a
  function that returns only an \<open>error\<close> is a \<open>string option\<close> with \<open>None\<close> for \<open>nil\<close>.
\<close>

named_theorems go_str \<open>evaluation and algebra of the string functions\<close>

type_synonym 'a result = "string + 'a"
type_synonym error = "string option"

section \<open>Bytes\<close>

abbreviation byte_val :: "char \<Rightarrow> int" where
  "byte_val c \<equiv> of_char c"

abbreviation len :: "'a list \<Rightarrow> int" where
  "len s \<equiv> int (length s)"

abbreviation CR :: char where "CR \<equiv> CHR 0x0D"
abbreviation LF :: char where "LF \<equiv> CHR 0x0A"
abbreviation TAB :: char where "TAB \<equiv> CHR 0x09"
abbreviation BSLASH :: char where "BSLASH \<equiv> CHR 0x5C"
abbreviation DQUOTE :: char where "DQUOTE \<equiv> CHR 0x22"

definition byte_in :: "int \<Rightarrow> int \<Rightarrow> char \<Rightarrow> bool" where
  "byte_in lo hi c \<longleftrightarrow> lo \<le> byte_val c \<and> byte_val c \<le> hi"

definition is_lower :: "char \<Rightarrow> bool" where "is_lower c \<longleftrightarrow> byte_in 97 122 c"
definition is_upper :: "char \<Rightarrow> bool" where "is_upper c \<longleftrightarrow> byte_in 65 90 c"
definition is_digit :: "char \<Rightarrow> bool" where "is_digit c \<longleftrightarrow> byte_in 48 57 c"
definition is_alpha :: "char \<Rightarrow> bool" where "is_alpha c \<longleftrightarrow> is_lower c \<or> is_upper c"
definition is_alnum :: "char \<Rightarrow> bool" where "is_alnum c \<longleftrightarrow> is_alpha c \<or> is_digit c"
definition is_ascii :: "char \<Rightarrow> bool" where "is_ascii c \<longleftrightarrow> byte_val c < 128"

lemmas byte_class_defs =
  byte_in_def is_lower_def is_upper_def is_digit_def is_alpha_def is_alnum_def is_ascii_def

definition upper_byte :: "char \<Rightarrow> char" where
  "upper_byte c = (if is_lower c then char_of (byte_val c - 32) else c)"

definition lower_byte :: "char \<Rightarrow> char" where
  "lower_byte c = (if is_upper c then char_of (byte_val c + 32) else c)"

section \<open>Case mapping\<close>

text \<open>\<open>strings.ToUpper\<close>, \<open>strings.ToLower\<close> and the folding behind \<open>strings.EqualFold\<close>.\<close>

fun ToUpper :: "string \<Rightarrow> string" where
  "ToUpper [] = []"
| "ToUpper [a] = [upper_byte a]"
| "ToUpper (a # b # s) =
     (if a = CHR 0xC4 \<and> b = CHR 0xB1 then CHR ''I'' # ToUpper s
      else if a = CHR 0xC5 \<and> b = CHR 0xBF then CHR ''S'' # ToUpper s
      else upper_byte a # ToUpper (b # s))"

fun ToLower :: "string \<Rightarrow> string" where
  "ToLower [] = []"
| "ToLower [a] = [lower_byte a]"
| "ToLower [a, b] =
     (if a = CHR 0xC4 \<and> b = CHR 0xB0 then [CHR ''i'']
      else [lower_byte a, lower_byte b])"
| "ToLower (a # b # c # s) =
     (if a = CHR 0xC4 \<and> b = CHR 0xB0 then CHR ''i'' # ToLower (c # s)
      else if a = CHR 0xE2 \<and> b = CHR 0x84 \<and> c = CHR 0xAA then CHR ''k'' # ToLower s
      else lower_byte a # ToLower (b # c # s))"

fun FoldCase :: "string \<Rightarrow> string" where
  "FoldCase [] = []"
| "FoldCase [a] = [upper_byte a]"
| "FoldCase [a, b] =
     (if a = CHR 0xC5 \<and> b = CHR 0xBF then [CHR ''S'']
      else [upper_byte a, upper_byte b])"
| "FoldCase (a # b # c # s) =
     (if a = CHR 0xC5 \<and> b = CHR 0xBF then CHR ''S'' # FoldCase (c # s)
      else if a = CHR 0xE2 \<and> b = CHR 0x84 \<and> c = CHR 0xAA then CHR ''K'' # FoldCase s
      else upper_byte a # FoldCase (b # c # s))"

definition EqualFold :: "string \<Rightarrow> string \<Rightarrow> bool" where
  "EqualFold s t \<longleftrightarrow> FoldCase s = FoldCase t"

definition ascii_str :: "string \<Rightarrow> bool" where
  "ascii_str s \<longleftrightarrow> list_all is_ascii s"

section \<open>White space\<close>

text \<open>
  \<open>space_len s\<close> is the length of the white-space rune that \<open>s\<close> starts with, 0 when it
  starts with none; \<open>rspace_len\<close> is the same for the last rune of a reversed string.
\<close>

definition ascii_space :: "char \<Rightarrow> bool" where
  "ascii_space c \<longleftrightarrow> byte_in 9 13 c \<or> byte_val c = 32"

definition space3 :: "char \<Rightarrow> char \<Rightarrow> char \<Rightarrow> bool" where
  "space3 a b c \<longleftrightarrow>
     (a = CHR 0xE1 \<and> b = CHR 0x9A \<and> c = CHR 0x80) \<or>
     (a = CHR 0xE2 \<and> b = CHR 0x80 \<and>
       (byte_in 0x80 0x8A c \<or> c = CHR 0xA8 \<or> c = CHR 0xA9 \<or> c = CHR 0xAF)) \<or>
     (a = CHR 0xE2 \<and> b = CHR 0x81 \<and> c = CHR 0x9F) \<or>
     (a = CHR 0xE3 \<and> b = CHR 0x80 \<and> c = CHR 0x80)"

definition space2 :: "char \<Rightarrow> char \<Rightarrow> bool" where
  "space2 a b \<longleftrightarrow> a = CHR 0xC2 \<and> (b = CHR 0x85 \<or> b = CHR 0xA0)"

definition space_len :: "string \<Rightarrow> nat" where
  "space_len s = (case s of [] \<Rightarrow> 0
     | a # s1 \<Rightarrow> if ascii_space a then 1 else (case s1 of [] \<Rightarrow> 0
         | b # s2 \<Rightarrow> if space2 a b then 2 else (case s2 of [] \<Rightarrow> 0
             | c # _ \<Rightarrow> if space3 a b c then 3 else 0)))"

definition rspace_len :: "string \<Rightarrow> nat" where
  "rspace_len s = (case s of [] \<Rightarrow> 0
     | a # s1 \<Rightarrow> if ascii_space a then 1 else (case s1 of [] \<Rightarrow> 0
         | b # s2 \<Rightarrow> if space2 b a then 2 else (case s2 of [] \<Rightarrow> 0
             | c # _ \<Rightarrow> if space3 c b a then 3 else 0)))"

lemma space_len_Nil [simp]: "space_len [] = 0"
  by (simp add: space_len_def)

lemma rspace_len_Nil [simp]: "rspace_len [] = 0"
  by (simp add: rspace_len_def)

function drop_space :: "(string \<Rightarrow> nat) \<Rightarrow> string \<Rightarrow> string" where
  "drop_space w s =
     (if s = [] \<or> w s = 0 then s else drop_space w (drop (w s) s))"
  by pat_completeness auto
termination
  by (relation "measure (\<lambda>(w, s). length s)") auto

declare drop_space.simps [simp del]

definition TrimSpace :: "string \<Rightarrow> string" where
  "TrimSpace s = rev (drop_space rspace_len (rev (drop_space space_len s)))"

text \<open>\<open>strings.Fields\<close>: the maximal runs of non-white-space; \<open>cur\<close> is the current run, reversed.\<close>

function fields_go :: "string \<Rightarrow> string \<Rightarrow> string list" where
  "fields_go cur s =
     (if s = [] then (if cur = [] then [] else [rev cur])
      else if space_len s = 0 then fields_go (hd s # cur) (tl s)
      else (if cur = [] then [] else [rev cur]) @ fields_go [] (drop (space_len s) s))"
  by pat_completeness auto
termination
  by (relation "measure (\<lambda>(cur, s). length s)") auto

declare fields_go.simps [simp del]

definition Fields :: "string \<Rightarrow> string list" where
  "Fields s = fields_go [] s"

section \<open>Searching and splitting\<close>

definition HasPrefix :: "string \<Rightarrow> string \<Rightarrow> bool" where
  "HasPrefix s p \<longleftrightarrow> length p \<le> length s \<and> take (length p) s = p"

definition HasSuffix :: "string \<Rightarrow> string \<Rightarrow> bool" where
  "HasSuffix s p \<longleftrightarrow> length p \<le> length s \<and> drop (length s - length p) s = p"

definition TrimPrefix :: "string \<Rightarrow> string \<Rightarrow> string" where
  "TrimPrefix s p = (if HasPrefix s p then drop (length p) s else s)"

definition TrimSuffix :: "string \<Rightarrow> string \<Rightarrow> string" where
  "TrimSuffix s p = (if HasSuffix s p then take (length s - length p) s else s)"

text \<open>\<open>strings.Trim\<close> with an ASCII cutset.\<close>

definition TrimSet :: "string \<Rightarrow> string \<Rightarrow> string" where
  "TrimSet s cs = rev (dropWhile (\<lambda>c. c \<in> set cs) (rev (dropWhile (\<lambda>c. c \<in> set cs) s)))"

fun Contains :: "string \<Rightarrow> string \<Rightarrow> bool" where
  "Contains [] p = (p = [])"
| "Contains (c # s) p = (HasPrefix (c # s) p \<or> Contains s p)"

fun Index :: "string \<Rightarrow> string \<Rightarrow> nat option" where
  "Index [] p = (if p = [] then Some 0 else None)"
| "Index (c # s) p = (if HasPrefix (c # s) p then Some 0 else map_option Suc (Index s p))"

definition TrimRightSet :: "string \<Rightarrow> string \<Rightarrow> string" where
  "TrimRightSet s cs = rev (dropWhile (\<lambda>c. c \<in> set cs) (rev s))"

fun IndexByte :: "string \<Rightarrow> char \<Rightarrow> nat option" where
  "IndexByte [] c = None"
| "IndexByte (x # s) c = (if x = c then Some 0 else map_option Suc (IndexByte s c))"

fun LastIndexByte :: "string \<Rightarrow> char \<Rightarrow> nat option" where
  "LastIndexByte [] c = None"
| "LastIndexByte (x # s) c =
     (case LastIndexByte s c of Some i \<Rightarrow> Some (Suc i) | None \<Rightarrow> if x = c then Some 0 else None)"

text \<open>\<open>strings.Cut\<close> at a one-byte separator: before, after, found.\<close>

fun Cut :: "string \<Rightarrow> char \<Rightarrow> string \<times> string \<times> bool" where
  "Cut [] c = ([], [], False)"
| "Cut (x # s) c =
     (if x = c then ([], s, True)
      else (case Cut s c of (b, a, f) \<Rightarrow> (x # b, a, f)))"

text \<open>\<open>strings.Split\<close> and \<open>strings.SplitN\<close> (at most \<open>n\<close> parts) at a one-byte separator.\<close>

fun Split :: "string \<Rightarrow> char \<Rightarrow> string list" where
  "Split [] c = [[]]"
| "Split (x # s) c =
     (if x = c then [] # Split s c
      else (case Split s c of [] \<Rightarrow> [[x]] | p # ps \<Rightarrow> (x # p) # ps))"

fun SplitN :: "nat \<Rightarrow> string \<Rightarrow> char \<Rightarrow> string list" where
  "SplitN 0 s c = []"
| "SplitN (Suc 0) s c = [s]"
| "SplitN (Suc (Suc n)) s c =
     (case Cut s c of (b, a, f) \<Rightarrow> if f then b # SplitN (Suc n) a c else [s])"

text \<open>The first error of a sequence of checks.\<close>

primrec first_error :: "('a \<Rightarrow> error) \<Rightarrow> 'a list \<Rightarrow> error" where
  "first_error f [] = None"
| "first_error f (x # xs) = (case f x of Some e \<Rightarrow> Some e | None \<Rightarrow> first_error f xs)"

fun Join :: "string list \<Rightarrow> string \<Rightarrow> string" where
  "Join [] sep = []"
| "Join [x] sep = x"
| "Join (x # y # xs) sep = x @ sep @ Join (y # xs) sep"

section \<open>Numbers\<close>

definition max_int64 :: int where "max_int64 = 9223372036854775807"
definition min_int64 :: int where "min_int64 = - 9223372036854775808"

text \<open>The value of a 64-bit signed addition: two's complement wrap-around.\<close>

definition wrap64 :: "int \<Rightarrow> int" where
  "wrap64 x = (x + 9223372036854775808) mod 18446744073709551616 - 9223372036854775808"

definition dec_value :: "string \<Rightarrow> int" where
  "dec_value s = foldl (\<lambda>n c. 10 * n + (byte_val c - 48)) 0 s"

text \<open>\<open>strconv.ParseInt (s, 10, 64)\<close>: a sign, then digits; \<open>None\<close> for a syntax or range error.\<close>

definition ParseInt64 :: "string \<Rightarrow> int option" where
  "ParseInt64 s =
     (let neg = (s \<noteq> [] \<and> hd s = CHR ''-'');
          ds = (if s \<noteq> [] \<and> (hd s = CHR ''-'' \<or> hd s = CHR ''+'') then tl s else s)
      in if ds = [] \<or> \<not> list_all is_digit ds then None
         else let v = (if neg then - dec_value ds else dec_value ds)
              in if min_int64 \<le> v \<and> v \<le> max_int64 then Some v else None)"

function show_pos :: "int \<Rightarrow> string" where
  "show_pos n =
     (if n < 10 then [char_of (n + 48)] else show_pos (n div 10) @ [char_of (n mod 10 + 48)])"
  by pat_completeness auto
termination
  by (relation "measure (\<lambda>n. nat n)") auto

declare show_pos.simps [simp del]

text \<open>\<open>strconv.FormatInt (i, 10)\<close>, and the verb \<open>%d\<close>.\<close>

definition show_int :: "int \<Rightarrow> string" where
  "show_int i = (if i < 0 then CHR ''-'' # show_pos (- i) else show_pos i)"

section \<open>Algebra of the string functions\<close>

lemma ascii_str_simps [simp]:
  "ascii_str []"
  "ascii_str (c # s) \<longleftrightarrow> is_ascii c \<and> ascii_str s"
  "ascii_str (s @ t) \<longleftrightarrow> ascii_str s \<and> ascii_str t"
  by (auto simp: ascii_str_def)

lemma not_ascii_lead:
  "\<not> is_ascii (CHR 0xC4)" "\<not> is_ascii (CHR 0xC5)" "\<not> is_ascii (CHR 0xE2)"
  by code_simp+

lemma ToUpper_ascii [go_str]: "ascii_str s \<Longrightarrow> ToUpper s = map upper_byte s"
  by (induction s rule: ToUpper.induct) (use not_ascii_lead in auto)

lemma ToLower_ascii [go_str]: "ascii_str s \<Longrightarrow> ToLower s = map lower_byte s"
  by (induction s rule: ToLower.induct) (use not_ascii_lead in auto)

lemma FoldCase_ascii [go_str]: "ascii_str s \<Longrightarrow> FoldCase s = map upper_byte s"
  by (induction s rule: FoldCase.induct) (use not_ascii_lead in auto)

lemma byte_val_bounds [simp]: "0 \<le> byte_val c" "byte_val c < 256"
proof -
  have "byte_val c = int (of_char c)" by (simp add: of_nat_of_char)
  then show "0 \<le> byte_val c" "byte_val c < 256"
    using nat_of_char_less_256 [of c] by linarith+
qed

lemma byte_val_upper: "byte_val (upper_byte c) = (if is_lower c then byte_val c - 32 else byte_val c)"
  using byte_val_bounds [of c] by (auto simp: upper_byte_def byte_class_defs)

lemma byte_val_lower: "byte_val (lower_byte c) = (if is_upper c then byte_val c + 32 else byte_val c)"
  using byte_val_bounds [of c] by (auto simp: lower_byte_def byte_class_defs)

lemma byte_eqI: "byte_val c = byte_val d \<Longrightarrow> c = d"
  by simp

lemmas byte_case_simps = byte_val_upper byte_val_lower byte_class_defs

lemma lower_byte_idem [simp]: "lower_byte (lower_byte c) = lower_byte c"
  by (rule byte_eqI) (unfold byte_case_simps, presburger)

lemma lower_byte_eq_iff:
  assumes "\<not> is_alpha d" shows "lower_byte c = d \<longleftrightarrow> c = d"
proof -
  have "byte_val (lower_byte c) = byte_val d \<longleftrightarrow> byte_val c = byte_val d"
    using assms unfolding byte_case_simps by presburger
  then show ?thesis by simp
qed

lemma upper_byte_eq_iff:
  assumes "\<not> is_alpha d" shows "upper_byte c = d \<longleftrightarrow> c = d"
proof -
  have "byte_val (upper_byte c) = byte_val d \<longleftrightarrow> byte_val c = byte_val d"
    using assms unfolding byte_case_simps by presburger
  then show ?thesis by simp
qed

lemma ToUpper_hd: "ToUpper (b # s) \<noteq> [] \<and> hd (ToUpper (b # s)) \<in> {CHR ''I'', CHR ''S'', upper_byte b}"
  by (cases s) auto

lemma upper_byte_high: "128 \<le> byte_val d \<Longrightarrow> (upper_byte a = d) = (a = d)"
  using byte_val_upper [of a] byte_eqI [of a d] by (auto simp: is_lower_def byte_in_def upper_byte_def split: if_splits)

lemma upper_byte_idem [simp]: "upper_byte (upper_byte a) = upper_byte a"
  using byte_val_upper [of a] by (auto simp: upper_byte_def is_lower_def byte_in_def)

lemma upper_byte_caps: "upper_byte (CHR ''I'') = CHR ''I''" "upper_byte (CHR ''S'') = CHR ''S''"
  by code_simp+

lemma ToUpper_ToUpper [simp]: "ToUpper (ToUpper s) = ToUpper s"
proof (induction s rule: ToUpper.induct)
  case (3 a b s)
  obtain c t where ct: "ToUpper (b # s) = c # t" "c \<in> {CHR ''I'', CHR ''S'', upper_byte b}"
    using ToUpper_hd [of b s] by (cases "ToUpper (b # s)") auto
  show ?case
  proof (cases "a = CHR 0xC4 \<and> b = CHR 0xB1 \<or> a = CHR 0xC5 \<and> b = CHR 0xBF")
    case True
    with 3 show ?thesis by (cases "ToUpper s") (auto simp: upper_byte_high upper_byte_caps)
  next
    case False
    with 3(3) ct show ?thesis by (auto simp: upper_byte_high upper_byte_caps)
  qed
qed (auto simp: upper_byte_high upper_byte_caps)

lemma set_drop_space: "set (drop_space f s) \<subseteq> set s"
proof (induction f s rule: drop_space.induct)
  case (1 f s)
  then show ?case by (subst drop_space.simps) (auto dest: in_set_dropD)
qed

lemma set_TrimSpace: "set (TrimSpace s) \<subseteq> set s"
  using set_drop_space [of rspace_len "rev (drop_space space_len s)"] set_drop_space [of space_len s]
  unfolding TrimSpace_def by (simp only: set_rev)

lemma LastIndexByte_None [simp]: "LastIndexByte s c = None \<longleftrightarrow> c \<notin> set s"
  by (induction s) (auto split: option.splits)

lemma LastIndexByte_append [go_str]:
  "c \<notin> set t \<Longrightarrow> LastIndexByte (s @ c # t) c = Some (length s)"
  by (induction s) (auto split: option.splits)

lemma LastIndexByte_SomeD:
  "LastIndexByte s c = Some i \<Longrightarrow>
     i < length s \<and> s ! i = c \<and> c \<notin> set (drop (Suc i) s) \<and> s = take i s @ c # drop (Suc i) s"
proof (induction s arbitrary: i)
  case (Cons x s)
  then show ?case
    by (cases "LastIndexByte s c") (auto split: if_splits)
qed simp

lemma Cut_append [go_str]: "c \<notin> set b \<Longrightarrow> Cut (b @ c # a) c = (b, a, True)"
  by (induction b) auto

lemma Cut_cases:
  "Cut s c = (b, a, f) \<Longrightarrow>
     if f then s = b @ c # a \<and> c \<notin> set b else c \<notin> set s \<and> b = s \<and> a = []"
proof (induction s arbitrary: b)
  case (Cons x s)
  obtain b' a' f' where "Cut s c = (b', a', f')" by (cases "Cut s c")
  with Cons show ?case by (cases "x = c"; cases f') fastforce+
qed simp

lemma Cut_map:
  assumes "\<And>x. f x = c \<longleftrightarrow> x = c"
  shows "Cut (map f s) c = (case Cut s c of (b, a, fd) \<Rightarrow> (map f b, map f a, fd))"
  by (induction s) (auto simp: assms split: prod.splits)

lemma SplitN_map:
  assumes f: "\<And>x. f x = c \<longleftrightarrow> x = c"
  shows "SplitN n (map f s) c = map (map f) (SplitN n s c)"
  using f
proof (induction n s c rule: SplitN.induct)
  case (3 n s c)
  obtain b a fd where cut: "Cut s c = (b, a, fd)" by (cases "Cut s c")
  then have "Cut (map f s) c = (map f b, map f a, fd)"
    using Cut_map [of f c s] "3.prems" by simp
  with cut "3.IH" [OF cut [symmetric] refl] "3.prems" show ?case by (cases fd) auto
qed auto

lemma SplitN_step [go_str]:
  "c \<notin> set b \<Longrightarrow> SplitN (Suc (Suc n)) (b @ c # a) c = b # SplitN (Suc n) a c"
  by (simp add: Cut_append)

lemma Cut_shorter: "Cut s c = (b, a, True) \<Longrightarrow> length a < length s"
  using Cut_cases [of s c b a True] by simp

text \<open>Words of printable characters, as command lines have them.\<close>

definition graphic :: "char \<Rightarrow> bool" where
  "graphic c \<longleftrightarrow> byte_in 33 126 c"

lemma graphic_not_lead: "\<not> graphic (CHR 0xC2)" "\<not> graphic (CHR 0xE1)" "\<not> graphic (CHR 0xE2)" "\<not> graphic (CHR 0xE3)"
  by code_simp+

lemma space_len_graphic [simp]:
  assumes "graphic c" shows "space_len (c # s) = 0"
proof -
  from assms graphic_not_lead have "c \<noteq> CHR 0xC2" "c \<noteq> CHR 0xE1" "c \<noteq> CHR 0xE2" "c \<noteq> CHR 0xE3" by blast+
  then have "\<not> space2 c b" "\<not> space3 c b d" for b d unfolding space2_def space3_def by blast+
  moreover have "\<not> ascii_space c" using assms unfolding ascii_space_def graphic_def byte_in_def by linarith
  ultimately show ?thesis by (simp add: space_len_def split: list.split)
qed

lemma space_len_space [simp]: "ascii_space c \<Longrightarrow> space_len (c # s) = 1"
  by (simp add: space_len_def)

lemma fields_go_word [go_str]:
  "list_all graphic u \<Longrightarrow> fields_go cur (u @ s) = fields_go (rev u @ cur) s"
  by (induction u arbitrary: cur) (simp_all add: fields_go.simps [of _ "_ # _"])

lemma fields_go_space [go_str]:
  "ascii_space c \<Longrightarrow> fields_go cur (c # s) = (if cur = [] then [] else [rev cur]) @ fields_go [] s"
  by (subst fields_go.simps) simp

lemma fields_go_Nil [simp]: "fields_go cur [] = (if cur = [] then [] else [rev cur])"
  by (simp add: fields_go.simps)

lemma Split_last [go_str]: "c \<notin> set s \<Longrightarrow> Split s c = [s]"
  by (induction s) auto

lemma Split_append [go_str]: "c \<notin> set b \<Longrightarrow> Split (b @ c # a) c = b # Split a c"
  by (induction b) auto

section \<open>Reachable states and invariants\<close>

inductive reach :: "('s \<Rightarrow> bool) \<Rightarrow> ('s \<Rightarrow> 's \<Rightarrow> bool) \<Rightarrow> 's \<Rightarrow> bool" for start step where
  reach_start: "start s \<Longrightarrow> reach start step s"
| reach_step: "reach start step s \<Longrightarrow> step s t \<Longrightarrow> reach start step t"

text \<open>What a component promises that keeps an invariant: its start and its steps do.\<close>

locale invariant_system =
  fixes start :: "'s \<Rightarrow> bool" and step :: "'s \<Rightarrow> 's \<Rightarrow> bool" and inv :: "'s \<Rightarrow> bool"
  assumes inv_start: "start s \<Longrightarrow> inv s"
    and inv_step: "inv s \<Longrightarrow> step s t \<Longrightarrow> inv t"
begin

lemma inv_reach: "reach start step s \<Longrightarrow> inv s"
  by (induction rule: reach.induct) (auto intro: inv_start inv_step)

lemma inv_run: "inv s \<Longrightarrow> step\<^sup>*\<^sup>* s t \<Longrightarrow> inv t"
  by (rotate_tac 1, induction rule: rtranclp_induct) (auto intro: inv_step)

end

end
