(* ===== verification/Session_State.thy ===== *)
theory Session_State
  imports Go_Prelude
begin

text \<open>
  The state manager of one SMTP session, \<open>internal/smtp/session_state.go\<close>, with the DSN
  parameter types of \<open>internal/smtp/dsn.go\<close>. The struct is a record, every method that
  changes it is a function from the record to the record (or to an error), and the wall
  clock that \<open>time.Now\<close> reads is the argument \<open>now\<close>. The mutex makes each method
  atomic, so a method is one step; log calls have no effect on the state and are left out.
\<close>

section \<open>Data\<close>

datatype SMTPPhase = PhaseInit | PhaseMail | PhaseRcpt | PhaseData | PhaseAuth | PhaseTLS | PhaseQuit

fun phase_String :: "SMTPPhase \<Rightarrow> string" where
  "phase_String PhaseInit = ''INIT''"
| "phase_String PhaseMail = ''MAIL''"
| "phase_String PhaseRcpt = ''RCPT''"
| "phase_String PhaseData = ''DATA''"
| "phase_String PhaseAuth = ''AUTH''"
| "phase_String PhaseTLS = ''TLS''"
| "phase_String PhaseQuit = ''QUIT''"

datatype DataTransferMode = DataModeNone | DataModeDATA | DataModeBDAT | DataModeBURL

fun mode_String :: "DataTransferMode \<Rightarrow> string" where
  "mode_String DataModeNone = ''NONE''"
| "mode_String DataModeDATA = ''DATA''"
| "mode_String DataModeBDAT = ''BDAT''"
| "mode_String DataModeBURL = ''BURL''"

text \<open>The zero value of the Go type, the empty string, is \<open>DSNReturnUnset\<close>.\<close>

datatype DSNReturnType = DSNReturnUnset | DSNReturnFull | DSNReturnHeaders

datatype DSNNotifyType = DSNNotifyNever | DSNNotifySuccess | DSNNotifyFailure | DSNNotifyDelay

record DSNParams =
  Return :: DSNReturnType
  EnvID :: string

record DSNRecipientParams =
  Notify :: "DSNNotifyType list"
  ORCPT :: string

record SessionState =
  phase :: SMTPPhase
  heloName :: string
  greeted :: bool
  authenticated :: bool
  username :: string
  mailFrom :: string
  rcptTo :: "string list"
  dataSize :: int
  declaredSize :: int
  tlsActive :: bool
  smtputf8 :: bool
  authAttempts :: int
  lastAuthAttempt :: int
  sessionStartTime :: int
  lastActivityTime :: int
  messageCount :: int
  bytesSent :: int
  bytesReceived :: int
  errors :: "string list"
  dataTransferMode :: DataTransferMode
  dsnParams :: "DSNParams option"
  dsnRecipientParams :: "(string \<rightharpoonup> DSNRecipientParams) option"
  requireTLS :: bool

definition NewSessionState :: "int \<Rightarrow> SessionState" where
  "NewSessionState now =
     \<lparr>phase = PhaseInit, heloName = [], greeted = False, authenticated = False, username = [],
      mailFrom = [], rcptTo = [], dataSize = 0, declaredSize = 0, tlsActive = False,
      smtputf8 = False, authAttempts = 0, lastAuthAttempt = 0, sessionStartTime = now,
      lastActivityTime = now, messageCount = 0, bytesSent = 0, bytesReceived = 0, errors = [],
      dataTransferMode = DataModeNone, dsnParams = None, dsnRecipientParams = None,
      requireTLS = False\<rparr>"

section \<open>Phases\<close>

fun validTransitions :: "SMTPPhase \<Rightarrow> SMTPPhase list" where
  "validTransitions PhaseInit = [PhaseMail, PhaseAuth, PhaseTLS, PhaseQuit, PhaseInit]"
| "validTransitions PhaseMail = [PhaseRcpt, PhaseMail, PhaseInit, PhaseQuit]"
| "validTransitions PhaseRcpt = [PhaseRcpt, PhaseData, PhaseMail, PhaseInit, PhaseQuit]"
| "validTransitions PhaseData = [PhaseMail, PhaseInit, PhaseQuit]"
| "validTransitions PhaseAuth = [PhaseInit, PhaseMail, PhaseQuit]"
| "validTransitions PhaseTLS = [PhaseInit, PhaseAuth, PhaseMail, PhaseQuit]"
| "validTransitions PhaseQuit = []"

definition isValidPhaseTransition :: "SMTPPhase \<Rightarrow> SMTPPhase \<Rightarrow> bool" where
  "isValidPhaseTransition from to \<longleftrightarrow> to \<in> set (validTransitions from)"

definition SetPhase :: "int \<Rightarrow> SMTPPhase \<Rightarrow> SessionState \<Rightarrow> SessionState result" where
  "SetPhase now ph ss =
     (if \<not> isValidPhaseTransition (phase ss) ph
      then Inl (''invalid phase transition from '' @ phase_String (phase ss) @ '' to '' @ phase_String ph)
      else Inr (ss\<lparr>phase := ph, lastActivityTime := now\<rparr>))"

fun allowedCommands :: "SMTPPhase \<Rightarrow> string list" where
  "allowedCommands PhaseInit =
     [''HELO'', ''EHLO'', ''QUIT'', ''RSET'', ''NOOP'', ''HELP'', ''AUTH'', ''STARTTLS'', ''VRFY'',
      ''EXPN'', ''XDEBUG'']"
| "allowedCommands PhaseMail =
     [''HELO'', ''EHLO'', ''MAIL'', ''AUTH'', ''STARTTLS'', ''QUIT'', ''RSET'', ''NOOP'', ''HELP'',
      ''VRFY'', ''EXPN'', ''XDEBUG'']"
| "allowedCommands PhaseRcpt =
     [''HELO'', ''EHLO'', ''RCPT'', ''QUIT'', ''RSET'', ''NOOP'', ''HELP'', ''DATA'', ''BDAT'',
      ''VRFY'', ''EXPN'', ''XDEBUG'']"
| "allowedCommands PhaseData = [''QUIT'', ''RSET'', ''NOOP'', ''HELP'', ''XDEBUG'']"
| "allowedCommands PhaseAuth = [''AUTH'', ''QUIT'', ''RSET'', ''NOOP'', ''HELP'', ''XDEBUG'']"
| "allowedCommands PhaseTLS =
     [''HELO'', ''EHLO'', ''QUIT'', ''RSET'', ''NOOP'', ''HELP'', ''AUTH'', ''MAIL'', ''VRFY'',
      ''EXPN'', ''XDEBUG'']"
| "allowedCommands PhaseQuit = []"

definition CanAcceptCommand :: "string \<Rightarrow> SessionState \<Rightarrow> bool" where
  "CanAcceptCommand command ss =
     (let c = ToUpper (TrimSpace command)
      in if dataTransferMode ss = DataModeBDAT
         then c \<in> set [''BDAT'', ''RSET'', ''QUIT'', ''NOOP'']
         else c \<in> set (allowedCommands (phase ss)))"

section \<open>Authentication and TLS status\<close>

definition SetAuthenticated :: "int \<Rightarrow> bool \<Rightarrow> string \<Rightarrow> SessionState \<Rightarrow> SessionState" where
  "SetAuthenticated now auth user ss =
     ss\<lparr>authenticated := auth, username := user, lastActivityTime := now\<rparr>"

definition SetTLSActive :: "int \<Rightarrow> bool \<Rightarrow> SessionState \<Rightarrow> SessionState" where
  "SetTLSActive now active ss = ss\<lparr>tlsActive := active, lastActivityTime := now\<rparr>"

definition IncrementAuthAttempts :: "int \<Rightarrow> SessionState \<Rightarrow> int \<times> SessionState" where
  "IncrementAuthAttempts now ss =
     (let n = authAttempts ss + 1
      in (n, ss\<lparr>authAttempts := n, lastAuthAttempt := now, lastActivityTime := now\<rparr>))"

definition SetHeloName :: "string \<Rightarrow> SessionState \<Rightarrow> SessionState" where
  "SetHeloName name ss = ss\<lparr>heloName := name\<rparr>"

definition SetGreeted :: "bool \<Rightarrow> SessionState \<Rightarrow> SessionState" where
  "SetGreeted b ss = ss\<lparr>greeted := b\<rparr>"

section \<open>The envelope\<close>

definition SetMailFrom :: "int \<Rightarrow> string \<Rightarrow> SessionState \<Rightarrow> SessionState result" where
  "SetMailFrom now from ss =
     (if phase ss \<noteq> PhaseInit \<and> phase ss \<noteq> PhaseMail
      then Inl (''cannot set MAIL FROM in phase '' @ phase_String (phase ss))
      else Inr (ss\<lparr>mailFrom := from, phase := PhaseMail, rcptTo := [], lastActivityTime := now\<rparr>))"

definition AcceptMail ::
  "int \<Rightarrow> string \<Rightarrow> int \<Rightarrow> bool \<Rightarrow> DSNParams option \<Rightarrow> bool \<Rightarrow> SessionState \<Rightarrow> SessionState result" where
  "AcceptMail now from sz utf8 dsn reqTLS ss =
     (if phase ss \<noteq> PhaseInit \<and> phase ss \<noteq> PhaseMail \<and> phase ss \<noteq> PhaseRcpt
      then Inl (''cannot set MAIL FROM in phase '' @ phase_String (phase ss))
      else Inr (ss\<lparr>mailFrom := from, phase := PhaseRcpt, rcptTo := [], declaredSize := sz,
                   smtputf8 := utf8, dsnParams := dsn, dsnRecipientParams := None,
                   requireTLS := reqTLS, lastActivityTime := now\<rparr>))"

definition AddRecipient :: "int \<Rightarrow> string \<Rightarrow> SessionState \<Rightarrow> SessionState result" where
  "AddRecipient now recipient ss =
     (if phase ss \<noteq> PhaseMail \<and> phase ss \<noteq> PhaseRcpt
      then Inl (''cannot add recipient in phase '' @ phase_String (phase ss))
      else Inr (ss\<lparr>rcptTo := rcptTo ss @ [recipient], phase := PhaseRcpt, lastActivityTime := now\<rparr>))"

definition GetRecipientCount :: "SessionState \<Rightarrow> int" where
  "GetRecipientCount ss = len (rcptTo ss)"

definition SetDSNParams :: "int \<Rightarrow> DSNParams \<Rightarrow> SessionState \<Rightarrow> SessionState" where
  "SetDSNParams now params ss = ss\<lparr>dsnParams := Some params, lastActivityTime := now\<rparr>"

definition SetDSNRecipientParams ::
  "int \<Rightarrow> string \<Rightarrow> DSNRecipientParams \<Rightarrow> SessionState \<Rightarrow> SessionState" where
  "SetDSNRecipientParams now addr params ss =
     (let m = (case dsnRecipientParams ss of None \<Rightarrow> Map.empty | Some m \<Rightarrow> m)
      in ss\<lparr>dsnRecipientParams := Some (m(addr \<mapsto> params)), lastActivityTime := now\<rparr>)"

definition SetRequireTLS :: "int \<Rightarrow> bool \<Rightarrow> SessionState \<Rightarrow> SessionState" where
  "SetRequireTLS now b ss = ss\<lparr>requireTLS := b, lastActivityTime := now\<rparr>"

definition SetSMTPUTF8 :: "int \<Rightarrow> bool \<Rightarrow> SessionState \<Rightarrow> SessionState" where
  "SetSMTPUTF8 now b ss = ss\<lparr>smtputf8 := b, lastActivityTime := now\<rparr>"

definition SetDataSize :: "int \<Rightarrow> int \<Rightarrow> SessionState \<Rightarrow> SessionState" where
  "SetDataSize now sz ss = ss\<lparr>dataSize := sz, lastActivityTime := now\<rparr>"

definition SetDeclaredSize :: "int \<Rightarrow> int \<Rightarrow> SessionState \<Rightarrow> SessionState" where
  "SetDeclaredSize now sz ss = ss\<lparr>declaredSize := sz, lastActivityTime := now\<rparr>"

definition Reset :: "int \<Rightarrow> SessionState \<Rightarrow> SessionState" where
  "Reset now ss =
     ss\<lparr>phase := (if greeted ss then PhaseMail else PhaseInit),
        mailFrom := [], rcptTo := [], dataSize := 0, declaredSize := 0, smtputf8 := False,
        dataTransferMode := DataModeNone, dsnParams := None, dsnRecipientParams := None,
        requireTLS := False, lastActivityTime := now\<rparr>"

section \<open>Data transfer mode\<close>

definition SetDataTransferMode :: "int \<Rightarrow> DataTransferMode \<Rightarrow> SessionState \<Rightarrow> SessionState result" where
  "SetDataTransferMode now mode ss =
     (if dataTransferMode ss \<noteq> DataModeNone \<and> dataTransferMode ss \<noteq> mode
      then Inl (''cannot switch from '' @ mode_String (dataTransferMode ss) @ '' to ''
                @ mode_String mode @ '' - data transfer mode conflict'')
      else Inr (ss\<lparr>dataTransferMode := mode, lastActivityTime := now\<rparr>))"

definition CanAcceptDataCommand :: "string \<Rightarrow> SessionState \<Rightarrow> bool" where
  "CanAcceptDataCommand command ss =
     (let c = ToUpper (TrimSpace command)
      in (case dataTransferMode ss of
            DataModeDATA \<Rightarrow> c = ''DATA''
          | DataModeBDAT \<Rightarrow> c = ''BDAT''
          | DataModeBURL \<Rightarrow> c = ''BURL''
          | DataModeNone \<Rightarrow> True)
         \<and> phase ss = PhaseRcpt)"

definition ClearDataTransferMode :: "int \<Rightarrow> SessionState \<Rightarrow> SessionState" where
  "ClearDataTransferMode now ss = ss\<lparr>dataTransferMode := DataModeNone, lastActivityTime := now\<rparr>"

section \<open>Counters\<close>

definition UpdateActivity :: "int \<Rightarrow> SessionState \<Rightarrow> SessionState" where
  "UpdateActivity now ss = ss\<lparr>lastActivityTime := now\<rparr>"

definition GetSessionDuration :: "int \<Rightarrow> SessionState \<Rightarrow> int" where
  "GetSessionDuration now ss = now - sessionStartTime ss"

definition GetIdleTime :: "int \<Rightarrow> SessionState \<Rightarrow> int" where
  "GetIdleTime now ss = now - lastActivityTime ss"

definition IncrementMessageCount :: "int \<Rightarrow> SessionState \<Rightarrow> SessionState" where
  "IncrementMessageCount now ss = ss\<lparr>messageCount := messageCount ss + 1, lastActivityTime := now\<rparr>"

definition AddBytesSent :: "int \<Rightarrow> int \<Rightarrow> SessionState \<Rightarrow> SessionState" where
  "AddBytesSent now n ss = ss\<lparr>bytesSent := bytesSent ss + n, lastActivityTime := now\<rparr>"

definition AddBytesReceived :: "int \<Rightarrow> int \<Rightarrow> SessionState \<Rightarrow> SessionState" where
  "AddBytesReceived now n ss = ss\<lparr>bytesReceived := bytesReceived ss + n, lastActivityTime := now\<rparr>"

definition AddError :: "int \<Rightarrow> string \<Rightarrow> SessionState \<Rightarrow> SessionState" where
  "AddError now err ss = ss\<lparr>errors := errors ss @ [err], lastActivityTime := now\<rparr>"

lemmas session_state_defs =
  SetPhase_def SetAuthenticated_def SetTLSActive_def IncrementAuthAttempts_def SetHeloName_def
  SetGreeted_def SetMailFrom_def AcceptMail_def AddRecipient_def SetDSNParams_def
  SetDSNRecipientParams_def SetRequireTLS_def SetSMTPUTF8_def SetDataSize_def SetDeclaredSize_def
  Reset_def SetDataTransferMode_def ClearDataTransferMode_def UpdateActivity_def
  IncrementMessageCount_def AddBytesSent_def AddBytesReceived_def AddError_def

end
