(* ===== verification/Line_Reader.thy ===== *)
theory Line_Reader
  imports Go_Prelude
begin

text \<open>
  Reading from the connection. The input still to come is a \<open>wire\<close>: \<open>Some c\<close> is a byte,
  \<open>None\<close> is the point where a read deadline expires, and the end of the list is the end of
  the stream. \<open>ReadSlice\<close>, \<open>ReadLine\<close>, \<open>ReadFull\<close> and \<open>CopyN\<close> are the operations of
  \<open>bufio.Reader\<close> and \<open>io\<close> that the server uses, with the reader's buffer size as an argument
  (4096 for \<open>bufio.NewReader\<close>, never below 16); on them stands \<open>readBoundedSMTPLine\<close> of
  \<open>internal/smtp/line_reader.go\<close>.
\<close>

type_synonym wire = "char option list"

datatype read_err = BufferFull | EOF | Timeout

definition bufio_size :: int where "bufio_size = 4096"

text \<open>
  \<open>ReadSlice('\n')\<close>: the bytes up to and including a newline; fewer with an error when the
  stream ends or a deadline expires first, or when the buffer is full without a newline.
\<close>

primrec read_slice :: "wire \<Rightarrow> int \<Rightarrow> string \<times> read_err option \<times> wire" where
  "read_slice [] room = (if room \<le> 0 then ([], Some BufferFull, []) else ([], Some EOF, []))"
| "read_slice (x # w) room =
     (if room \<le> 0 then ([], Some BufferFull, x # w)
      else case x of None \<Rightarrow> ([], Some Timeout, w)
      | Some c \<Rightarrow> if c = LF then ([c], None, w)
                  else (case read_slice w (room - 1) of (f, e, w') \<Rightarrow> (c # f, e, w')))"

definition ReadSlice :: "int \<Rightarrow> wire \<Rightarrow> string \<times> read_err option \<times> wire" where
  "ReadSlice bufsz w = read_slice w (max 16 bufsz)"

datatype line_outcome = LineOk string | LineTooLong | LineErr string read_err

lemma read_slice_progress:
  "read_slice w room = (f, Some BufferFull, w') \<Longrightarrow> 0 < room \<Longrightarrow> length w' < length w"
proof (induction w arbitrary: room f)
  case (Cons x w)
  show ?case
  proof (cases "1 < room")
    case True
    with Cons.prems Cons.IH [of "room - 1"] show ?thesis
      by (force split: option.splits if_splits prod.splits)
  next
    case False
    with Cons.prems have "room = 1" by simp
    with Cons.prems show ?thesis
      by (cases w) (auto split: option.splits if_splits prod.splits)
  qed
qed (auto split: if_splits)

function bounded_line :: "int \<Rightarrow> int \<Rightarrow> string \<Rightarrow> wire \<Rightarrow> line_outcome \<times> wire" where
  "bounded_line bufsz limit line w =
     (case ReadSlice bufsz w of (fragment, e, w') \<Rightarrow>
        if len fragment > limit - len line then (LineTooLong, w')
        else (case e of
            None \<Rightarrow> (LineOk (line @ fragment), w')
          | Some BufferFull \<Rightarrow> bounded_line bufsz limit (line @ fragment) w'
          | Some err \<Rightarrow> (LineErr (line @ fragment) err, w')))"
  by pat_completeness auto
termination
  by (relation "measure (\<lambda>(bufsz, limit, line, w). length w)")
    (auto simp: ReadSlice_def intro: read_slice_progress dest!: sym [of _ "read_slice _ _"])

declare bounded_line.simps [simp del]

definition readBoundedSMTPLine :: "int \<Rightarrow> int \<Rightarrow> wire \<Rightarrow> line_outcome \<times> wire" where
  "readBoundedSMTPLine bufsz limit w = bounded_line bufsz limit [] w"

text \<open>
  \<open>bufio.Reader.ReadLine\<close>: one line without its line end, cut at the buffer size. An error
  comes back only when no byte was read. A full buffer that ends in CR gives that byte back.
\<close>

definition strip_eol :: "string \<Rightarrow> string" where
  "strip_eol l =
     (if l \<noteq> [] \<and> last l = LF
      then (let m = butlast l in if m \<noteq> [] \<and> last m = CR then butlast m else m) else l)"

definition ReadLine :: "int \<Rightarrow> wire \<Rightarrow> (read_err + string) \<times> wire" where
  "ReadLine bufsz w =
     (case ReadSlice bufsz w of (f, e, w') \<Rightarrow>
        (case e of
           Some BufferFull \<Rightarrow>
             if f \<noteq> [] \<and> last f = CR then (Inr (butlast f), Some CR # w') else (Inr f, w')
         | _ \<Rightarrow> if f = [] then (Inl (case e of Some x \<Rightarrow> x | None \<Rightarrow> EOF), w')
                else (Inr (strip_eol f), w')))"

text \<open>
  \<open>io.ReadFull\<close> and \<open>io.CopyN\<close>: exactly \<open>n\<close> bytes, or the error that came first with the
  bytes already taken off the wire.
\<close>

primrec read_full :: "wire \<Rightarrow> int \<Rightarrow> (read_err + string) \<times> wire" where
  "read_full [] n = (if n \<le> 0 then (Inr [], []) else (Inl EOF, []))"
| "read_full (x # w) n =
     (if n \<le> 0 then (Inr [], x # w)
      else case x of None \<Rightarrow> (Inl Timeout, w)
      | Some c \<Rightarrow> (case read_full w (n - 1) of
          (Inl e, w') \<Rightarrow> (Inl e, w') | (Inr s, w') \<Rightarrow> (Inr (c # s), w')))"

definition ReadFull :: "wire \<Rightarrow> int \<Rightarrow> (read_err + string) \<times> wire" where
  "ReadFull w n = read_full w n"

definition CopyN :: "wire \<Rightarrow> int \<Rightarrow> read_err option \<times> wire" where
  "CopyN w n = (case read_full w n of (Inl e, w') \<Rightarrow> (Some e, w') | (Inr _, w') \<Rightarrow> (None, w'))"

section \<open>What a line is\<close>

text \<open>The reference reader: everything up to the next newline, whatever its length.\<close>

fun next_line :: "wire \<Rightarrow> string \<times> read_err option \<times> wire" where
  "next_line [] = ([], Some EOF, [])"
| "next_line (None # w) = ([], Some Timeout, w)"
| "next_line (Some c # w) =
     (if c = LF then ([c], None, w)
      else (case next_line w of (l, e, w') \<Rightarrow> (c # l, e, w')))"

definition whole_line :: "int \<Rightarrow> wire \<Rightarrow> line_outcome \<times> wire" where
  "whole_line limit w =
     (case next_line w of (l, e, w') \<Rightarrow>
        (if len l > limit then LineTooLong
         else case e of None \<Rightarrow> LineOk l | Some err \<Rightarrow> LineErr l err, w'))"

lemma read_slice_next_line:
  "read_slice w room = (f, e, w') \<Longrightarrow>
     (e = Some BufferFull \<and> w = map Some f @ w' \<and> LF \<notin> set f \<and> int (length f) = max 0 room) \<or>
     (e \<noteq> Some BufferFull \<and> next_line w = (f, e, w'))"
proof (induction w arbitrary: room f)
  case (Cons x w)
  show ?case
  proof (cases "x = None \<or> x = Some LF \<or> room \<le> 0")
    case True
    with Cons.prems show ?thesis by (auto split: if_splits)
  next
    case False
    then obtain c where x: "x = Some c" "c \<noteq> LF" "0 < room" by auto
    obtain g e2 w2 where g: "read_slice w (room - 1) = (g, e2, w2)" by (cases "read_slice w (room - 1)")
    with Cons.prems x have f: "f = c # g" "e2 = e" "w2 = w'" by auto
    with g have "read_slice w (room - 1) = (g, e, w')" by simp
    from Cons.IH [OF this] x f show ?thesis by auto
  qed
qed (auto split: if_splits)

lemma next_line_append:
  "LF \<notin> set f \<Longrightarrow> next_line (map Some f @ w) = (case next_line w of (l, e, w') \<Rightarrow> (f @ l, e, w'))"
  by (induction f) (auto split: prod.splits)

lemma next_line_no_full: "next_line w = (l, e, w') \<Longrightarrow> e \<noteq> Some BufferFull"
  by (induction w arbitrary: l rule: next_line.induct) (auto split: if_splits prod.splits)

lemma bounded_line_whole:
  "next_line w = (l, e, r) \<Longrightarrow>
     (limit < len line + len l \<longrightarrow> fst (bounded_line bufsz limit line w) = LineTooLong) \<and>
     (len line + len l \<le> limit \<longrightarrow> bounded_line bufsz limit line w =
        (case e of None \<Rightarrow> LineOk (line @ l) | Some err \<Rightarrow> LineErr (line @ l) err, r))"
proof (induction bufsz limit line w arbitrary: l rule: bounded_line.induct)
  case (1 bufsz limit line w)
  obtain f e' w' where sl: "ReadSlice bufsz w = (f, e', w')" by (cases "ReadSlice bufsz w")
  then have "read_slice w (max 16 bufsz) = (f, e', w')" by (simp add: ReadSlice_def)
  from read_slice_next_line [OF this] show ?case
  proof
    assume a: "e' = Some BufferFull \<and> w = map Some f @ w' \<and> LF \<notin> set f \<and> len f = max 0 (max 16 bufsz)"
    then obtain l3 where l3: "next_line w' = (l3, e, r)" "l = f @ l3"
      using next_line_append [of f w'] "1.prems" by (cases "next_line w'") auto
    show ?thesis
    proof (cases "len f > limit - len line")
      case True
      then have "bounded_line bufsz limit line w = (LineTooLong, w')"
        by (subst bounded_line.simps) (simp add: sl)
      with True l3 show ?thesis by simp
    next
      case False
      with conjunct1 [OF a] have "bounded_line bufsz limit line w = bounded_line bufsz limit (line @ f) w'"
        by (subst bounded_line.simps) (simp add: sl)
      with "1.IH" [OF sl [symmetric] refl _ _ _ l3(1)] False a l3(2) show ?thesis
        by (cases e) (simp_all add: add.assoc)
    qed
  next
    assume "e' \<noteq> Some BufferFull \<and> next_line w = (f, e', w')"
    with "1.prems" show ?thesis
      by (subst (1 2) bounded_line.simps) (auto simp: sl split: option.splits read_err.splits)
  qed
qed

lemma next_line_length:
  "next_line w = (l, e, w') \<Longrightarrow> length w \<le> length l + length w' + 1 \<and> length w' \<le> length w"
  by (induction w arbitrary: l rule: next_line.induct) (fastforce split: if_splits prod.splits)+

lemma next_line_text: "LF \<notin> set m \<Longrightarrow> next_line (map Some m @ Some LF # w) = (m @ [LF], None, w)"
  by (simp add: next_line_append)

lemma next_line_OkD:
  "next_line w = (l, None, w') \<Longrightarrow> \<exists>m. l = m @ [LF] \<and> LF \<notin> set m \<and> w = map Some l @ w'"
proof (induction w arbitrary: l rule: next_line.induct)
  case (3 c w)
  show ?case
  proof (cases "c = LF")
    case False
    obtain l2 e2 w2 where nl: "next_line w = (l2, e2, w2)" by (cases "next_line w")
    with "3.prems" False have "l = c # l2" "next_line w = (l2, None, w')" by auto
    from "3.IH" [OF False this(2)] this(1) False show ?thesis by (auto intro: exI [of _ "c # _"])
  qed (use "3.prems" in auto)
qed auto

lemma read_line_outcome:
  assumes "next_line w = (l, e, w')"
  shows "limit < len l \<Longrightarrow> fst (readBoundedSMTPLine n limit w) = LineTooLong"
    and "len l \<le> limit \<Longrightarrow> readBoundedSMTPLine n limit w =
           (case e of None \<Rightarrow> LineOk l | Some err \<Rightarrow> LineErr l err, w')"
  using bounded_line_whole [OF assms, of limit "[]" n]
  by (cases e; simp add: readBoundedSMTPLine_def)+

lemma readBoundedSMTPLine_Ok:
  "readBoundedSMTPLine n limit w = (LineOk l, w') \<longleftrightarrow> next_line w = (l, None, w') \<and> len l \<le> limit"
proof -
  obtain l2 e2 w2 where nl: "next_line w = (l2, e2, w2)" by (cases "next_line w")
  show ?thesis
    using read_line_outcome [OF nl, of limit n]
    by (cases "limit < len l2") (auto simp: nl split: option.splits)
qed

lemma readBoundedSMTPLine_Err:
  "readBoundedSMTPLine n limit w = (LineErr l err, w') \<longleftrightarrow> next_line w = (l, Some err, w') \<and> len l \<le> limit"
proof -
  obtain l2 e2 w2 where nl: "next_line w = (l2, e2, w2)" by (cases "next_line w")
  show ?thesis
    using read_line_outcome [OF nl, of limit n]
    by (cases "limit < len l2") (auto simp: nl split: option.splits)
qed

lemma read_slice_length:
  "read_slice w room = (f, e, w') \<Longrightarrow> len f \<le> max 0 room \<and> length w \<le> length f + length w' + 1
     \<and> length w' \<le> length w \<and> (e = Some BufferFull \<longrightarrow> length w = length f + length w')"
proof (induction w arbitrary: room f)
  case (Cons x w)
  obtain g e2 w2 where g: "read_slice w (room - 1) = (g, e2, w2)" by (cases "read_slice w (room - 1)")
  show ?case
  proof (cases "x = None \<or> x = Some LF \<or> room \<le> 0")
    case True
    with Cons.prems show ?thesis by (auto split: if_splits)
  next
    case False
    with Cons.prems g have f: "f = the x # g" "e2 = e" "w2 = w'" by (auto split: if_splits)
    with g have "read_slice w (room - 1) = (g, e, w')" by simp
    from Cons.IH [OF this] f False show ?thesis by auto
  qed
qed (auto split: if_splits)

text \<open>However the line is split into buffers, what was taken off the wire is bounded.\<close>

lemma bounded_line_consumed:
  "len line \<le> max 0 limit \<Longrightarrow> length (snd (bounded_line n limit line w)) \<le> length w \<and>
     len line + len w \<le> len (snd (bounded_line n limit line w)) + max 0 limit + max 16 n + 1"
proof (induction n limit line w rule: bounded_line.induct)
  case (1 n limit line w)
  obtain f e w' where sl: "ReadSlice n w = (f, e, w')" by (cases "ReadSlice n w")
  then have "read_slice w (max 16 n) = (f, e, w')" by (simp add: ReadSlice_def)
  note len = read_slice_length [OF this]
  show ?case
  proof (cases "len f > limit - len line \<or> e \<noteq> Some BufferFull")
    case True
    then have "snd (bounded_line n limit line w) = w'"
      by (subst bounded_line.simps) (auto simp: sl split: option.splits read_err.splits)
    with len "1.prems" show ?thesis by auto
  next
    case False
    then have "bounded_line n limit line w = bounded_line n limit (line @ f) w'"
      by (subst bounded_line.simps) (simp add: sl)
    with "1.IH" [OF sl [symmetric] refl] False len "1.prems" show ?thesis by auto
  qed
qed

lemma readBoundedSMTPLine_shorter:
  "readBoundedSMTPLine n limit w = (r, w') \<Longrightarrow> length w' \<le> length w"
  using bounded_line_consumed [of "[]" limit n w] by (simp add: readBoundedSMTPLine_def)

lemma readBoundedSMTPLine_Ok_shorter:
  "readBoundedSMTPLine n limit w = (LineOk l, w') \<Longrightarrow> length w' < length w"
  by (auto simp: readBoundedSMTPLine_Ok dest: next_line_OkD)

lemma ReadLine_shorter: "ReadLine n w = (r, w') \<Longrightarrow> length w' \<le> length w"
proof -
  assume r: "ReadLine n w = (r, w')"
  obtain f e v where "ReadSlice n w = (f, e, v)" by (cases "ReadSlice n w")
  moreover from this read_slice_length have "length v \<le> length w \<and> (e = Some BufferFull \<longrightarrow> length w = length f + length v)"
    unfolding ReadSlice_def by blast
  ultimately show ?thesis
    using r by (cases f) (auto simp: ReadLine_def split: option.splits read_err.splits if_splits)
qed

section \<open>Properties\<close>

text \<open>
  C15. The size of the reader's buffer is not observable: for every buffer size the bounded
  reader returns the line, the early end of stream or the time-out that a reader without a
  buffer would return, and leaves the same input, unless the line is over the limit, which
  both report.
\<close>

theorem line_reader_refines_whole_line:
  "(let r = readBoundedSMTPLine n limit w; s = whole_line limit w
    in if fst r = LineTooLong then fst s = LineTooLong else r = s)"
proof -
  obtain l e w' where "next_line w = (l, e, w')" by (cases "next_line w")
  from read_line_outcome [OF this, of limit n] this show ?thesis
    by (cases "limit < len l") (auto simp: whole_line_def Let_def split: option.splits)
qed

text \<open>
  C16. A peer that never ends its line makes the server take in at most the limit and one
  buffer: that many bytes (and at most one expired deadline) leave the wire, whatever is on it.
\<close>

theorem line_reader_bounded:
  "len w \<le> len (snd (readBoundedSMTPLine n limit w)) + max 0 limit + max 16 n + 1"
  using bounded_line_consumed [of "[]" limit n w] by (simp add: readBoundedSMTPLine_def)

end
