(* ===== verification/Go_Regexp.thy ===== *)
theory Go_Regexp
  imports Go_Prelude
begin

text \<open>
  The part of Go's \<open>regexp\<close> package the validators use: whether a pattern matches somewhere in a
  string. A pattern is a value of \<open>re\<close>, over bytes: classes are lists of byte ranges, and a
  non-ASCII letter that folds to an ASCII one is a sequence of classes. A position is the byte
  before it, if there is one, and the text after it. \<open>ends\<close> computes every position a match can
  end in; \<open>ends_matches\<close> shows that it is the declarative meaning of a pattern, \<open>matches\<close>.
\<close>

section \<open>Patterns\<close>

datatype re =
    Eps
  | Cls "(int \<times> int) list"
  | Cat re re
  | Alt re re
  | Star re
  | Boundary

type_synonym pos = "char option \<times> string"

definition in_class :: "(int \<times> int) list \<Rightarrow> char \<Rightarrow> bool" where
  "in_class rs c \<longleftrightarrow> list_ex (\<lambda>(lo, hi). byte_in lo hi c) rs"

definition word_byte :: "char \<Rightarrow> bool" where
  "word_byte c \<longleftrightarrow> is_alnum c \<or> c = CHR ''_''"

definition at_boundary :: "pos \<Rightarrow> bool" where
  "at_boundary p \<longleftrightarrow>
     ((case fst p of None \<Rightarrow> False | Some c \<Rightarrow> word_byte c) \<noteq> (case snd p of [] \<Rightarrow> False | c # _ \<Rightarrow> word_byte c))"

inductive matches :: "re \<Rightarrow> pos \<Rightarrow> pos \<Rightarrow> bool" where
  eps: "matches Eps p p"
| cls: "in_class rs c \<Longrightarrow> matches (Cls rs) (b, c # s) (Some c, s)"
| cat: "matches r1 p q \<Longrightarrow> matches r2 q t \<Longrightarrow> matches (Cat r1 r2) p t"
| alt1: "matches r1 p q \<Longrightarrow> matches (Alt r1 r2) p q"
| alt2: "matches r2 p q \<Longrightarrow> matches (Alt r1 r2) p q"
| star0: "matches (Star r) p p"
| star1: "matches r p q \<Longrightarrow> matches (Star r) q t \<Longrightarrow> matches (Star r) p t"
| boundary: "at_boundary p \<Longrightarrow> matches Boundary p p"

inductive_cases matches_elims [elim!]:
  "matches Eps p q" "matches (Cls rs) p q" "matches (Cat r1 r2) p q" "matches (Alt r1 r2) p q" "matches Boundary p q"

section \<open>Matching\<close>

text \<open>Repetition: each round must consume something, so the length of the text bounds the rounds.\<close>

fun star_ends :: "nat \<Rightarrow> (pos \<Rightarrow> pos list) \<Rightarrow> pos \<Rightarrow> pos list" where
  "star_ends 0 f p = [p]"
| "star_ends (Suc n) f p =
     p # concat (map (star_ends n f) (filter (\<lambda>q. length (snd q) < length (snd p)) (f p)))"

fun ends :: "re \<Rightarrow> pos \<Rightarrow> pos list" where
  "ends Eps p = [p]"
| "ends (Cls rs) p = (case snd p of [] \<Rightarrow> [] | c # s \<Rightarrow> if in_class rs c then [(Some c, s)] else [])"
| "ends (Cat r1 r2) p = concat (map (ends r2) (ends r1 p))"
| "ends (Alt r1 r2) p = ends r1 p @ ends r2 p"
| "ends (Star r) p = star_ends (length (snd p)) (ends r) p"
| "ends Boundary p = (if at_boundary p then [p] else [])"

fun positions :: "char option \<Rightarrow> string \<Rightarrow> pos list" where
  "positions b [] = [(b, [])]"
| "positions b (c # s) = (b, c # s) # positions (Some c) s"

definition MatchString :: "re \<Rightarrow> string \<Rightarrow> bool" where
  "MatchString r s \<longleftrightarrow> list_ex (\<lambda>p. ends r p \<noteq> []) (positions None s)"

section \<open>Writing patterns\<close>

definition re_lit :: "char \<Rightarrow> re" where
  "re_lit c = Cls [(byte_val c, byte_val c)]"

definition re_seq :: "re list \<Rightarrow> re" where
  "re_seq rs = foldr Cat rs Eps"

definition re_any :: "re list \<Rightarrow> re" where
  "re_any rs = (case rs of [] \<Rightarrow> Cls [] | r # rs' \<Rightarrow> foldl Alt r rs')"

definition re_str :: "string \<Rightarrow> re" where
  "re_str s = re_seq (map re_lit s)"

text \<open>
  A literal under \<open>(?i)\<close>. Besides the two cases of a letter, \<open>k\<close> matches the Kelvin sign and \<open>s\<close>
  the long s.
\<close>

definition re_ilit :: "char \<Rightarrow> re" where
  "re_ilit c =
     (let u = byte_val (upper_byte c); l = byte_val (lower_byte c); both = Cls [(u, u), (l, l)] in
      if l = 107 then Alt both (re_str [CHR 0xE2, CHR 0x84, CHR 0xAA])
      else if l = 115 then Alt both (re_str [CHR 0xC5, CHR 0xBF])
      else both)"

definition re_istr :: "string \<Rightarrow> re" where
  "re_istr s = re_seq (map re_ilit s)"

definition re_opt :: "re \<Rightarrow> re" where "re_opt r = Alt r Eps"

definition re_plus :: "re \<Rightarrow> re" where "re_plus r = Cat r (Star r)"

abbreviation re_dot :: re where "re_dot \<equiv> Cls [(0, 9), (11, 255)]"

abbreviation re_space :: re where "re_space \<equiv> Cls [(9, 10), (12, 13), (32, 32)]"

section \<open>The matcher is right\<close>

lemma matches_shorter: "matches r p q \<Longrightarrow> length (snd q) \<le> length (snd p)"
  by (induction rule: matches.induct) auto

lemma matches_stay: "matches r p q \<Longrightarrow> length (snd q) = length (snd p) \<Longrightarrow> q = p"
proof (induction rule: matches.induct)
  case (cat r1 p q r2 t)
  then show ?case using matches_shorter [OF cat(1)] matches_shorter [OF cat(2)] by simp
next
  case (star1 r p q t)
  then show ?case using matches_shorter [OF star1(1)] matches_shorter [OF star1(2)] by simp
qed auto

lemma star_ends_sound:
  assumes "\<And>p q. q \<in> set (f p) \<Longrightarrow> matches r p q"
  shows "q \<in> set (star_ends n f p) \<Longrightarrow> matches (Star r) p q"
proof (induction n arbitrary: p)
  case (Suc n)
  then have "q = p \<or> (\<exists>x \<in> set (f p). q \<in> set (star_ends n f x))" by auto
  then show ?case using assms Suc.IH matches.star0 matches.star1 by blast
qed (simp add: matches.star0)

lemma star_ends_complete:
  assumes "matches (Star r) p q" and "\<And>p q. matches r p q \<Longrightarrow> q \<in> set (f p)" and "length (snd p) \<le> n"
  shows "q \<in> set (star_ends n f p)"
  using assms(1,3)
proof (induction "Star r" p q arbitrary: n rule: matches.induct)
  case (star0 p)
  then show ?case by (cases n) auto
next
  case (star1 p q t)
  show ?case
  proof (cases "q = p")
    case True
    with star1 show ?thesis by simp
  next
    case False
    then have less: "length (snd q) < length (snd p)"
      using matches_shorter [OF star1(1)] matches_stay [OF star1(1)] by force
    then obtain m where "n = Suc m" using star1(5) by (cases n) auto
    moreover have "t \<in> set (star_ends m f q)" using less star1(4) [of m] star1(5) \<open>n = Suc m\<close> by simp
    moreover have "q \<in> set (filter (\<lambda>q. length (snd q) < length (snd p)) (f p))" using assms(2) [OF star1(1)] less by simp
    ultimately show ?thesis by (simp del: set_filter) blast
  qed
qed

lemma ends_matches: "q \<in> set (ends r p) \<longleftrightarrow> matches r p q"
proof (induction r arbitrary: p q)
  case (Cls rs)
  then show ?case by (cases p; cases "snd p") (auto intro: matches.cls)
next
  case (Star r)
  show ?case
    using star_ends_sound [of "ends r" r q "length (snd p)" p] star_ends_complete [of r p q "ends r" "length (snd p)"] Star
    by (simp only: ends.simps order_refl) blast
qed (auto intro: matches.intros)

lemma positions_iff: "(x, rest) \<in> set (positions b s) \<longleftrightarrow>
   (\<exists>pre. s = pre @ rest \<and> x = (if pre = [] then b else Some (last pre)))"
proof (induction s arbitrary: b)
  case (Cons c s)
  have "(\<exists>pre. c # s = pre @ rest \<and> x = (if pre = [] then b else Some (last pre))) \<longleftrightarrow>
    rest = c # s \<and> x = b \<or> (\<exists>pre. s = pre @ rest \<and> x = Some (last (c # pre)))"
    unfolding Cons_eq_append_conv by (rule iffI; elim exE conjE disjE; (hypsubst)?; force)
  also have "\<dots> \<longleftrightarrow> (x, rest) = (b, c # s) \<or> (x, rest) \<in> set (positions (Some c) s)"
    by (auto simp: Cons)
  finally show ?case by auto
qed auto

text \<open>A pattern matches a string exactly if it matches from some position of the string.\<close>

lemma MatchString_iff:
  "MatchString r s \<longleftrightarrow> (\<exists>pre rest q. s = pre @ rest \<and> matches r (if pre = [] then None else Some (last pre), rest) q)"
proof -
  have "ends r p \<noteq> [] \<longleftrightarrow> (\<exists>q. matches r p q)" for p
    using ends_matches [of _ r p] by (cases "ends r p") (auto simp del: split_paired_Ex)
  then have "MatchString r s \<longleftrightarrow> (\<exists>x rest. (x, rest) \<in> set (positions None s) \<and> (\<exists>q. matches r (x, rest) q))"
    by (simp only: MatchString_def list_ex_iff Bex_def split_paired_Ex)
  then show ?thesis unfolding positions_iff by blast
qed

end
