(* ===== verification/Utf8.thy ===== *)
theory Utf8
  imports Go_Prelude
begin

text \<open>
  UTF-8 as Go's \<open>unicode/utf8\<close>, \<open>range\<close> over a string and \<open>strings.Map\<close> see it: what
  \<open>internal/smtp/enhanced_validation.go\<close> and \<open>internal/smtp/rbl.go\<close> use.
\<close>

text \<open>\<open>utf8.DecodeRuneInString\<close>: the rune and its width; U+FFFD of width 1 for a malformed byte.\<close>

definition cont_byte :: "int \<Rightarrow> bool" where "cont_byte b \<longleftrightarrow> 128 \<le> b \<and> b \<le> 191"

definition second_byte :: "int \<Rightarrow> int \<Rightarrow> bool" where
  "second_byte b0 b1 \<longleftrightarrow>
     (if b0 = 224 then 160 \<le> b1 \<and> b1 \<le> 191
      else if b0 = 237 then 128 \<le> b1 \<and> b1 \<le> 159
      else if b0 = 240 then 144 \<le> b1 \<and> b1 \<le> 191
      else if b0 = 244 then 128 \<le> b1 \<and> b1 \<le> 143
      else cont_byte b1)"

definition RuneError :: int where "RuneError = 65533"

definition rune_width :: "int \<Rightarrow> nat" where
  "rune_width b0 = (if b0 < 128 then 1 else if 194 \<le> b0 \<and> b0 \<le> 223 then 2
     else if 224 \<le> b0 \<and> b0 \<le> 239 then 3 else if 240 \<le> b0 \<and> b0 \<le> 244 then 4 else 0)"

fun DecodeRune :: "string \<Rightarrow> int \<times> nat" where
  "DecodeRune [] = (RuneError, 0)"
| "DecodeRune (a # s) =
     (let b0 = byte_val a; w = rune_width b0; t = map byte_val (take (w - 1) s) in
      if w = 1 then (b0, 1)
      else if w = 0 \<or> length t < w - 1 \<or> \<not> second_byte b0 (hd t) \<or> \<not> list_all cont_byte (tl t) then (RuneError, 1)
      else if w = 2 then ((b0 - 192) * 64 + (t ! 0 - 128), 2)
      else if w = 3 then ((b0 - 224) * 4096 + (t ! 0 - 128) * 64 + (t ! 1 - 128), 3)
      else ((b0 - 240) * 262144 + (t ! 0 - 128) * 4096 + (t ! 1 - 128) * 64 + (t ! 2 - 128), 4))"

lemma DecodeRune_pos: "DecodeRune s = (r, w) \<Longrightarrow> s = [] \<or> 0 < w"
  by (cases s) (auto simp: Let_def split: if_splits)

text \<open>The runes a \<open>range\<close> over a string visits.\<close>

function runes :: "string \<Rightarrow> int list" where
  "runes s = (if s = [] then [] else case DecodeRune s of (r, w) \<Rightarrow> r # runes (drop w s))"
  by pat_completeness auto
termination
  by (relation "measure length") (auto simp del: DecodeRune.simps dest!: sym [of "(_, _)"] DecodeRune_pos)

declare runes.simps [simp del]

function ValidString :: "string \<Rightarrow> bool" where
  "ValidString s = (if s = [] then True
     else case DecodeRune s of (r, w) \<Rightarrow> if (r, w) = (RuneError, 1) then False else ValidString (drop w s))"
  by pat_completeness auto
termination
  by (relation "measure length") (auto simp del: DecodeRune.simps dest!: sym [of "(_, _)"] DecodeRune_pos)

declare ValidString.simps [simp del]

text \<open>
  \<open>strings.Map\<close> with a function that keeps or replaces a rune by an ASCII character: a
  malformed byte becomes the encoding of U+FFFD.
\<close>

function map_runes :: "(int \<Rightarrow> char option) \<Rightarrow> string \<Rightarrow> string" where
  "map_runes f s = (if s = [] then []
     else case DecodeRune s of (r, w) \<Rightarrow>
       (case f r of
          Some c \<Rightarrow> [c]
        | None \<Rightarrow> if (r, w) = (RuneError, 1) then [CHR 0xEF, CHR 0xBF, CHR 0xBD] else take w s)
       @ map_runes f (drop w s))"
  by pat_completeness auto
termination
  by (relation "measure (length \<circ> snd)") (auto simp del: DecodeRune.simps dest!: sym [of "(_, _)"] DecodeRune_pos)

declare map_runes.simps [simp del]

section \<open>Bytes of a rune\<close>

lemma rune_width_cases: "rune_width b \<in> {0, 1, 2, 3, 4}"
  by (simp add: rune_width_def)

lemma DecodeRune_long:
  assumes "DecodeRune (a # t) = (r, w)" and "(r, w) \<noteq> (RuneError, 1)" and "rune_width (byte_val a) \<noteq> 1"
  defines "b \<equiv> map byte_val (take (rune_width (byte_val a) - 1) t)"
  shows "w = rune_width (byte_val a)" and "b \<noteq> []" and "second_byte (byte_val a) (hd b)" and "list_all cont_byte (tl b)"
proof -
  let ?n = "rune_width (byte_val a)"
  let ?bad = "?n = 0 \<or> length b < ?n - 1 \<or> \<not> second_byte (byte_val a) (hd b) \<or> \<not> list_all cont_byte (tl b)"
  obtain x y z where "DecodeRune (a # t) = (if ?n = 1 then (byte_val a, 1) else if ?bad then (RuneError, 1)
      else if ?n = 2 then (x, 2) else if ?n = 3 then (y, 3) else (z, 4))"
    unfolding DecodeRune.simps Let_def b_def by blast
  then have ok: "\<not> ?bad" and w: "(r, w) = (if ?n = 2 then (x, 2) else if ?n = 3 then (y, 3) else (z, 4))"
    using assms(1-3) by (metis, metis)
  have "?n = 2 \<or> ?n = 3 \<or> ?n = 4" using ok assms(3) rune_width_cases [of "byte_val a"] by blast
  then show "w = ?n" using w by fastforce
  from ok assms(3) show "b \<noteq> []" "second_byte (byte_val a) (hd b)" "list_all cont_byte (tl b)" by auto
qed

lemma DecodeRune_wide:
  assumes "DecodeRune s = (r, w)" and "s \<noteq> []" and "r \<ge> 32" and "(r, w) \<noteq> (RuneError, 1)"
  shows "\<forall>c \<in> set (take w s). 32 \<le> byte_val c"
proof -
  obtain a t where s: "s = a # t" using assms(2) by (cases s) auto
  show ?thesis
  proof (cases "rune_width (byte_val a) = 1")
    case True
    then have "DecodeRune (a # t) = (byte_val a, 1)" by (simp only: DecodeRune.simps Let_def if_True simp_thms)
    with assms(1) s have "w = 1" "r = byte_val a" by (simp_all only: prod.inject)
    with assms(3) s show ?thesis by simp
  next
    case False
    let ?b = "map byte_val (take (rune_width (byte_val a) - 1) t)"
    note ok = DecodeRune_long [OF assms(1) [unfolded s] assms(4) False]
    have w: "0 < w" using DecodeRune_pos [OF assms(1)] assms(2) by simp
    have "cont_byte (hd ?b)" using ok(3) by (auto simp: second_byte_def cont_byte_def split: if_splits)
    then have "\<forall>x \<in> set ?b. 128 \<le> x" using ok(2,4) by (cases ?b) (auto simp: list_all_iff cont_byte_def)
    moreover have "32 \<le> byte_val a" using False by (auto simp: rune_width_def split: if_splits)
    moreover have "take w s = a # take (w - 1) t" using s w by (cases w) auto
    ultimately show ?thesis using ok(1) by auto
  qed
qed

end
