(* ===== verification/Net_Addr.thy ===== *)
theory Net_Addr
  imports Go_Prelude "HOL-Library.Word"
begin

text \<open>
  IP addresses, networks and the relay decision: the parts of Go's \<open>net\<close> and
  \<open>net/netip\<close> that the server calls (\<open>ParseIP\<close>, \<open>ParseCIDR\<close>, \<open>IPNet.Contains\<close>,
  \<open>IP.To4\<close>, \<open>IP.String\<close>, \<open>SplitHostPort\<close>) and, over them, the functions of
  \<open>internal/smtp/network.go\<close>. An \<open>IP\<close> is its list of bytes, 4 or 16 of them; the empty
  list is the nil slice of an address that carries none.
\<close>

unbundle bit_operations_syntax

type_synonym byte = "8 word"
type_synonym IP = "byte list"

section \<open>Parsing addresses\<close>

definition v4InV6Prefix :: IP where
  "v4InV6Prefix = [0, 0, 0, 0, 0, 0, 0, 0, 0, 0, 0xFF, 0xFF]"

text \<open>One decimal field of a dotted address: no sign, no leading zero, at most 255.\<close>

definition parse_octet :: "string \<Rightarrow> byte option" where
  "parse_octet s =
     (if s = [] \<or> len s > 3 \<or> \<not> list_all is_digit s \<or> (len s > 1 \<and> hd s = CHR ''0'')
         \<or> dec_value s > 255
      then None else Some (word_of_int (dec_value s)))"

definition parse_v4 :: "string \<Rightarrow> byte list option" where
  "parse_v4 s = (let fs = Split s (CHR ''.'') in
     if len fs \<noteq> 4 then None
     else those (map parse_octet fs))"

definition hex_val :: "char \<Rightarrow> int option" where
  "hex_val c =
     (if is_digit c then Some (byte_val c - 48)
      else if byte_in 97 102 c then Some (byte_val c - 87)
      else if byte_in 65 70 c then Some (byte_val c - 55)
      else None)"

definition is_hex :: "char \<Rightarrow> bool" where
  "is_hex c \<longleftrightarrow> hex_val c \<noteq> None"

definition hex_value :: "string \<Rightarrow> int" where
  "hex_value s = foldl (\<lambda>n c. 16 * n + the (hex_val c)) 0 s"

text \<open>
  The group loop of \<open>netip.parseIPv6\<close>. \<open>room\<close> is the number of 16-bit groups still free,
  \<open>acc\<close> the bytes read so far and \<open>ell\<close> the position of \<open>::\<close>. The result is what the loop
  leaves: the bytes, the ellipsis, and the text it did not use.
\<close>

fun v6_loop :: "nat \<Rightarrow> byte list \<Rightarrow> nat option \<Rightarrow> string \<Rightarrow> (byte list \<times> nat option \<times> string) option" where
  "v6_loop 0 acc ell s = Some (acc, ell, s)"
| "v6_loop (Suc room) acc ell s =
     (let g = takeWhile is_hex s; rest = dropWhile is_hex s in
      if g = [] \<or> len g > 4 then None
      else if rest \<noteq> [] \<and> hd rest = CHR ''.'' then
        (if ell = None \<and> length acc \<noteq> 12 then None
         else if len acc + 4 > 16 then None
         else map_option (\<lambda>b. (acc @ b, ell, [])) (parse_v4 s))
      else
        (let v = hex_value g;
             acc' = acc @ [word_of_int (v div 256), word_of_int (v mod 256)] in
         if rest = [] then Some (acc', ell, [])
         else if hd rest \<noteq> CHR '':'' \<or> tl rest = [] then None
         else if hd (tl rest) = CHR '':'' then
           (if ell \<noteq> None then None
            else if tl (tl rest) = [] then Some (acc', Some (length acc'), [])
            else v6_loop room acc' (Some (length acc')) (tl (tl rest)))
         else v6_loop room acc' ell (tl rest)))"

definition v6_finish :: "byte list \<times> nat option \<times> string \<Rightarrow> byte list option" where
  "v6_finish r = (case r of (acc, ell, s) \<Rightarrow>
     if s \<noteq> [] then None
     else if len acc < 16 then
       (case ell of None \<Rightarrow> None
        | Some e \<Rightarrow> Some (take e acc @ replicate (16 - length acc) 0 @ drop e acc))
     else if ell \<noteq> None then None else Some acc)"

text \<open>An address with a zone is never valid for \<open>net.ParseIP\<close>, so a \<open>%\<close> ends the parse.\<close>

definition parse_v6 :: "string \<Rightarrow> byte list option" where
  "parse_v6 s =
     (if CHR ''%'' \<in> set s then None
      else if HasPrefix s ''::'' then
        (if tl (tl s) = [] then Some (replicate 16 0)
         else Option.bind (v6_loop 8 [] (Some 0) (tl (tl s))) v6_finish)
      else Option.bind (v6_loop 8 [] None s) v6_finish)"

text \<open>\<open>netip.ParseAddr\<close>: the first of dot, colon and percent decides. The result is 4 or 16 bytes.\<close>

definition ParseAddr :: "string \<Rightarrow> byte list option" where
  "ParseAddr s =
     (case dropWhile (\<lambda>c. c \<noteq> CHR ''.'' \<and> c \<noteq> CHR '':'' \<and> c \<noteq> CHR ''%'') s of
        [] \<Rightarrow> None
      | c # _ \<Rightarrow> if c = CHR ''.'' then parse_v4 s else if c = CHR '':'' then parse_v6 s else None)"

definition As16 :: "byte list \<Rightarrow> IP" where
  "As16 b = (if len b = 4 then v4InV6Prefix @ b else b)"

definition ParseIP :: "string \<Rightarrow> IP option" where
  "ParseIP s = map_option As16 (ParseAddr s)"

definition To4 :: "IP \<Rightarrow> IP option" where
  "To4 ip =
     (if len ip = 4 then Some ip
      else if len ip = 16 \<and> take 12 ip = v4InV6Prefix then Some (drop 12 ip)
      else None)"

section \<open>Networks\<close>

record IPNet =
  nIP :: IP
  nMask :: "byte list"

definition mask_byte :: "int \<Rightarrow> byte" where
  "mask_byte k = (if k \<le> 0 then 0 else if 8 \<le> k then 0xFF else word_of_int (256 - 2 ^ nat (8 - k)))"

fun mask_bytes :: "nat \<Rightarrow> int \<Rightarrow> byte list" where
  "mask_bytes 0 ones = []"
| "mask_bytes (Suc n) ones = mask_byte ones # mask_bytes n (ones - 8)"

definition CIDRMask :: "int \<Rightarrow> nat \<Rightarrow> byte list" where
  "CIDRMask ones nbytes = mask_bytes nbytes ones"

definition and_bytes :: "byte list \<Rightarrow> byte list \<Rightarrow> byte list" where
  "and_bytes xs ys = map2 (AND) xs ys"

text \<open>\<open>net.dtoi\<close> on the whole text: digits only, below 0xFFFFFF.\<close>

definition dtoi :: "string \<Rightarrow> int option" where
  "dtoi s = (if s = [] \<or> \<not> list_all is_digit s \<or> dec_value s \<ge> 0xFFFFFF then None
             else Some (dec_value s))"

definition ParseCIDR :: "string \<Rightarrow> IPNet option" where
  "ParseCIDR s = (case Cut s (CHR ''/'') of (addr, ml, found) \<Rightarrow>
     if \<not> found then None
     else case ParseAddr addr of None \<Rightarrow> None
     | Some b \<Rightarrow> (case dtoi ml of None \<Rightarrow> None
        | Some n \<Rightarrow> if n > 8 * len b then None
                   else (let m = CIDRMask n (length b)
                         in Some \<lparr>nIP = and_bytes b m, nMask = m\<rparr>)))"

definition networkNumberAndMask :: "IPNet \<Rightarrow> (byte list \<times> byte list) option" where
  "networkNumberAndMask n =
     (let ip = (case To4 (nIP n) of Some b \<Rightarrow> b | None \<Rightarrow> nIP n); m = nMask n in
      if len ip \<noteq> 4 \<and> len ip \<noteq> 16 then None
      else if len m = 4 then (if len ip = 4 then Some (ip, m) else None)
      else if len m = 16 then (if len ip = 4 then Some (ip, drop 12 m) else Some (ip, m))
      else None)"

definition NetContains :: "IPNet \<Rightarrow> IP \<Rightarrow> bool" where
  "NetContains n ip = (case networkNumberAndMask n of None \<Rightarrow> ip = []
     | Some (nn, m) \<Rightarrow>
         (let x = (case To4 ip of Some b \<Rightarrow> b | None \<Rightarrow> ip)
          in len x = len nn \<and> and_bytes nn m = and_bytes x m))"

definition IsLoopback :: "IP \<Rightarrow> bool" where
  "IsLoopback ip = (case To4 ip of Some b \<Rightarrow> hd b = 127 | None \<Rightarrow> ip = replicate 15 0 @ [1])"

section \<open>Printing addresses\<close>

definition hex_digit :: "int \<Rightarrow> char" where
  "hex_digit n = (if n < 10 then char_of (n + 48) else char_of (n + 87))"

definition show_hex16 :: "int \<Rightarrow> string" where
  "show_hex16 v =
     (let d = dropWhile (\<lambda>c. c = CHR ''0'')
                [hex_digit (v div 4096), hex_digit (v div 256 mod 16), hex_digit (v div 16 mod 16)]
      in d @ [hex_digit (v mod 16)])"

fun words16 :: "byte list \<Rightarrow> int list" where
  "words16 (a # b # r) = (256 * uint a + uint b) # words16 r"
| "words16 _ = []"

text \<open>The longest run of at least two zero groups, the first of equals: start and end.\<close>

fun zero_run :: "nat \<Rightarrow> int list \<Rightarrow> nat \<times> nat \<Rightarrow> nat \<times> nat" where
  "zero_run i [] best = best"
| "zero_run i (g # gs) best =
     (let l = length (takeWhile (\<lambda>x. x = 0) (g # gs))
      in zero_run (Suc i) gs (if 2 \<le> l \<and> snd best - fst best < l then (i, i + l) else best))"

definition show_v6 :: "byte list \<Rightarrow> string" where
  "show_v6 b =
     (let gs = words16 b; (zs, ze) = zero_run 0 gs (8, 8) in
      if 8 \<le> zs then Join (map show_hex16 gs) '':''
      else Join (map show_hex16 (take zs gs)) '':'' @ ''::'' @ Join (map show_hex16 (drop ze gs)) '':'')"

definition show_v4 :: "byte list \<Rightarrow> string" where
  "show_v4 b = Join (map (\<lambda>x. show_int (uint x)) b) ''.''"

definition hexString :: "byte list \<Rightarrow> string" where
  "hexString b = concat (map (\<lambda>x. [hex_digit (uint x div 16), hex_digit (uint x mod 16)]) b)"

definition IP_String :: "IP \<Rightarrow> string" where
  "IP_String ip =
     (if ip = [] then ''<nil>''
      else if len ip \<noteq> 4 \<and> len ip \<noteq> 16 then ''?'' @ hexString ip
      else case To4 ip of Some b \<Rightarrow> show_v4 b | None \<Rightarrow> show_v6 ip)"

fun leading_ones :: "nat \<Rightarrow> byte \<Rightarrow> int" where
  "leading_ones 0 b = 0"
| "leading_ones (Suc k) b = (if bit b k then 1 + leading_ones k b else 0)"

text \<open>The prefix length of a mask that \<open>CIDRMask\<close> made.\<close>

fun mask_length :: "byte list \<Rightarrow> int" where
  "mask_length [] = 0"
| "mask_length (m # ms) = (if m = 0xFF then 8 + mask_length ms else leading_ones 8 m)"

definition IPNet_String :: "IPNet \<Rightarrow> string" where
  "IPNet_String n = (case networkNumberAndMask n of None \<Rightarrow> ''<nil>''
     | Some (nn, m) \<Rightarrow> IP_String nn @ ''/'' @ show_int (mask_length m))"

section \<open>Peer addresses\<close>

text \<open>\<open>net.Addr\<close>: the TCP and UDP forms carry an IP, a zone and a port, any other form its text.\<close>

datatype NetAddr = TCPAddr IP string int | UDPAddr IP string int | OtherAddr string

definition JoinHostPort :: "string \<Rightarrow> string \<Rightarrow> string" where
  "JoinHostPort host port =
     (if CHR '':'' \<in> set host then ''['' @ host @ '']:'' @ port else host @ '':'' @ port)"

definition host_port_String :: "IP \<Rightarrow> string \<Rightarrow> int \<Rightarrow> string" where
  "host_port_String ip zone port =
     (let h = (if ip = [] then [] else IP_String ip)
      in JoinHostPort (if zone = [] then h else h @ ''%'' @ zone) (show_int port))"

fun NetAddr_String :: "NetAddr \<Rightarrow> string" where
  "NetAddr_String (TCPAddr ip zone port) = host_port_String ip zone port"
| "NetAddr_String (UDPAddr ip zone port) = host_port_String ip zone port"
| "NetAddr_String (OtherAddr s) = s"

definition SplitHostPort :: "string \<Rightarrow> (string \<times> string) option" where
  "SplitHostPort hp = (case LastIndexByte hp (CHR '':'') of None \<Rightarrow> None
     | Some i \<Rightarrow>
         (if hd hp = CHR ''['' then
            (case IndexByte hp (CHR '']'') of None \<Rightarrow> None
             | Some e \<Rightarrow>
                 if Suc e \<noteq> i then None
                 else if CHR ''['' \<in> set (tl hp) \<or> CHR '']'' \<in> set (drop (Suc e) hp) then None
                 else Some (take (e - 1) (tl hp), drop (Suc i) hp))
          else if CHR '':'' \<in> set (take i hp) \<or> CHR ''['' \<in> set hp \<or> CHR '']'' \<in> set hp then None
          else Some (take i hp, drop (Suc i) hp)))"

section \<open>network.go: trusted and private networks\<close>

definition parseNetwork :: "string \<Rightarrow> IPNet option" where
  "parseNetwork cidr = ParseCIDR cidr"

definition initPrivateNetworks :: "IPNet list option" where
  "initPrivateNetworks = those (map parseNetwork
     [''10.0.0.0/8'', ''172.16.0.0/12'', ''192.168.0.0/16'', ''127.0.0.0/8'', ''169.254.0.0/16'',
      ''::1/128'', ''fc00::/7'', ''fe80::/10''])"

definition privateNetworks :: "IPNet list" where
  "privateNetworks = (case initPrivateNetworks of None \<Rightarrow> [] | Some ns \<Rightarrow> ns)"

definition IsPrivateNetwork :: "IP \<Rightarrow> bool" where
  "IsPrivateNetwork ip \<longleftrightarrow> ip \<noteq> [] \<and> list_ex (\<lambda>n. NetContains n ip) privateNetworks"

definition DefaultTrustedNetworks :: "IPNet list" where
  "DefaultTrustedNetworks = List.map_filter parseNetwork
     [''127.0.0.0/8'', ''::1/128'', ''10.0.0.0/8'', ''172.16.0.0/12'']"

text \<open>\<open>None\<close> is the nil slice of the configuration, which stands for the defaults.\<close>

definition ParseTrustedNetworks :: "string list option \<Rightarrow> IPNet list option" where
  "ParseTrustedNetworks cidrs = (case cidrs of None \<Rightarrow> Some DefaultTrustedNetworks
     | Some cs \<Rightarrow> those (map (\<lambda>c. parseNetwork (TrimSpace c)) cs))"

definition drop_zone :: "string \<Rightarrow> string" where
  "drop_zone host = takeWhile (\<lambda>c. c \<noteq> CHR ''%'') host"

text \<open>The host text of a peer: no port, no brackets, no zone.\<close>

definition peer_host :: "NetAddr \<Rightarrow> string" where
  "peer_host a =
     (let s = NetAddr_String a;
          h = (case SplitHostPort s of Some (h, _) \<Rightarrow> h | None \<Rightarrow> s)
      in drop_zone (TrimSet h ''[]''))"

definition PeerIsWithin :: "NetAddr option \<Rightarrow> IPNet list \<Rightarrow> bool" where
  "PeerIsWithin remote networks = (case remote of None \<Rightarrow> False
     | Some a \<Rightarrow> (case ParseIP (peer_host a) of None \<Rightarrow> False
        | Some ip \<Rightarrow> list_ex (\<lambda>n. NetContains n ip) networks))"

definition IsPrivateNetworkAddr :: "string \<Rightarrow> bool" where
  "IsPrivateNetworkAddr addr =
     (let host = (case SplitHostPort addr of Some (h, _) \<Rightarrow> h | None \<Rightarrow> addr)
      in case ParseIP host of None \<Rightarrow> False | Some ip \<Rightarrow> IsPrivateNetwork ip)"

definition IsInternalConnection :: "NetAddr option \<Rightarrow> bool" where
  "IsInternalConnection remote = (case remote of None \<Rightarrow> False
     | Some a \<Rightarrow> IsPrivateNetworkAddr (NetAddr_String a))"

text \<open>\<open>None\<close> is a nil \<open>net.IP\<close>.\<close>

definition GetClientIP :: "NetAddr option \<Rightarrow> IP option" where
  "GetClientIP remote = (case remote of None \<Rightarrow> None
     | Some (TCPAddr ip _ _) \<Rightarrow> if ip = [] then None else Some ip
     | Some (UDPAddr ip _ _) \<Rightarrow> if ip = [] then None else Some ip
     | Some (OtherAddr s) \<Rightarrow>
         ParseIP (case SplitHostPort s of Some (h, _) \<Rightarrow> h | None \<Rightarrow> s))"

section \<open>network.go: who may relay\<close>

definition mustParseNetworks :: "string list \<Rightarrow> IPNet list" where
  "mustParseNetworks cidrs = List.map_filter ParseCIDR cidrs"

definition relayNetworkSets :: "string \<Rightarrow> IPNet list option" where
  "relayNetworkSets name =
     (if name = ''private'' then
        Some (mustParseNetworks
          [''10.0.0.0/8'', ''172.16.0.0/12'', ''192.168.0.0/16'', ''100.64.0.0/10'',
           ''169.254.0.0/16'', ''fc00::/7'', ''fe80::/10''])
      else if name = ''loopback'' then Some (mustParseNetworks [''127.0.0.0/8'', ''::1/128''])
      else None)"

definition relay_entry_allows :: "IP \<Rightarrow> string \<Rightarrow> bool" where
  "relay_entry_allows ip relay =
     (case relayNetworkSets (ToLower (TrimSpace relay)) of
        Some ns \<Rightarrow> list_ex (\<lambda>n. NetContains n ip) ns
      | None \<Rightarrow>
          if CHR ''/'' \<in> set relay
          then (case ParseCIDR relay of None \<Rightarrow> False | Some n \<Rightarrow> NetContains n ip)
          else relay = IP_String ip)"

definition IsAllowedRelay :: "IP option \<Rightarrow> string list \<Rightarrow> bool" where
  "IsAllowedRelay ipo allowedRelays = (case ipo of None \<Rightarrow> False
     | Some ip \<Rightarrow> list_ex (relay_entry_allows ip) allowedRelays \<or> IsLoopback ip)"

definition IsAllowedRelayAddr :: "string \<Rightarrow> string list \<Rightarrow> bool" where
  "IsAllowedRelayAddr addr allowedRelays = (case ParseIP addr of
       Some ip \<Rightarrow> IsAllowedRelay (Some ip) allowedRelays
     | None \<Rightarrow> (case SplitHostPort addr of None \<Rightarrow> False
        | Some (host, _) \<Rightarrow> IsAllowedRelay (ParseIP host) allowedRelays))"

end
