(* ===== verification/Srs.thy ===== *)
theory Srs
  imports Go_Prelude "HOL-Library.Word"
begin

text \<open>
  The Sender Rewriting Scheme, \<open>internal/srs/srs.go\<close>: \<open>Forward\<close> encodes a sender into an
  address of the forwarder, \<open>Reverse\<close> recovers it from a bounce. HMAC-SHA256 is the
  parameter \<open>mac\<close>, a function of the key and the text to a 256-bit word; the base32 prefix
  that the code keeps of it is computed. \<open>Forward\<close> and \<open>Reverse\<close> take the signing function
  \<open>sg\<close> they call as an argument, which is \<open>sign mac\<close> in the server. Times are Unix seconds
  of a clock past 1970.
\<close>

section \<open>Addresses\<close>

definition alphabet :: string where
  "alphabet = ''abcdefghijklmnopqrstuvwxyz234567''"

definition alphabet_at :: "int \<Rightarrow> char" where
  "alphabet_at i = alphabet ! nat i"

definition maxLocal :: int where "maxLocal = 64"

definition timestampRange :: int where "timestampRange = 1024"

definition day_seconds :: int where "day_seconds = 86400"

definition max_age_days :: int where "max_age_days = 21"

datatype srs_error = ErrNotSRS | ErrInvalid | ErrExpired | ErrTooLong | ErrNoDomain

record Rewriter =
  secrets :: "string list"

definition NewRewriter :: "string list \<Rightarrow> Rewriter option" where
  "NewRewriter ss =
     (let ks = filter (\<lambda>s. s \<noteq> []) (map TrimSpace ss)
      in if ks = [] then None else Some \<lparr>secrets = ks\<rparr>)"

definition cut_at :: "string \<Rightarrow> (string \<times> string) option" where
  "cut_at address = (case LastIndexByte address (CHR ''@'') of None \<Rightarrow> None
     | Some at \<Rightarrow> if at = 0 \<or> Suc at = length address then None
                 else Some (take at address, drop (Suc at) address))"

definition srs_Is :: "string \<Rightarrow> bool" where
  "srs_Is address = (case cut_at address of None \<Rightarrow> False
     | Some (l, _) \<Rightarrow> 5 \<le> length l \<and> (let p = ToUpper (take 5 l) in p = ''SRS0='' \<or> p = ''SRS1=''))"

section \<open>Signatures and time stamps\<close>

text \<open>
  The text that is signed: each part in lower case and closed by a zero byte. The first six
  characters of the base32 form of the 32-byte mac are its top thirty bits, five at a time.
\<close>

definition sign_input :: "string list \<Rightarrow> string" where
  "sign_input parts = concat (map (\<lambda>p. ToLower p @ [CHR 0x00]) parts)"

definition sign :: "(string \<Rightarrow> string \<Rightarrow> 256 word) \<Rightarrow> string \<Rightarrow> string list \<Rightarrow> string" where
  "sign mac secret parts =
     (let h = uint (mac secret (sign_input parts))
      in map (\<lambda>k. alphabet_at (h div 2 ^ k mod 32)) [251, 246, 241, 236, 231, 226])"

definition timestamp :: "int \<Rightarrow> string" where
  "timestamp now =
     (let days = now div day_seconds mod timestampRange
      in [alphabet_at (days div 32), alphabet_at (days mod 32)])"

definition current :: "string \<Rightarrow> int \<Rightarrow> bool" where
  "current stamp now =
     (if length stamp \<noteq> 2 then False
      else let s = ToLower stamp in
        case (IndexByte alphabet (s ! 0), IndexByte alphabet (s ! 1)) of
          (Some high, Some low) \<Rightarrow>
            (let today = now div day_seconds mod timestampRange;
                 age = (today - (32 * int high + int low) + timestampRange) mod timestampRange
             in age \<le> max_age_days)
        | _ \<Rightarrow> False)"

type_synonym signer_fun = "string \<Rightarrow> string list \<Rightarrow> string"

definition hash :: "signer_fun \<Rightarrow> Rewriter \<Rightarrow> string list \<Rightarrow> string" where
  "hash sg r parts = sg (hd (secrets r)) parts"

definition check :: "signer_fun \<Rightarrow> Rewriter \<Rightarrow> string \<Rightarrow> string list \<Rightarrow> bool" where
  "check sg r got parts = list_ex (\<lambda>secret. ToLower got = sg secret parts) (secrets r)"

section \<open>Rewriting and reversing\<close>

definition Forward :: "signer_fun \<Rightarrow> int \<Rightarrow> Rewriter \<Rightarrow> string \<Rightarrow> string \<Rightarrow> srs_error + string" where
  "Forward sg now r sender domain =
     (case cut_at sender of None \<Rightarrow> Inl ErrNoDomain
      | Some (l, sd) \<Rightarrow>
          if domain = [] then Inl ErrNoDomain
          else if EqualFold sd domain then Inr sender
          else
            (let finish = (\<lambda>rewritten. if len rewritten > maxLocal then Inl ErrTooLong
                                       else Inr (rewritten @ ''@'' @ domain));
                 prefix = ToUpper (take 5 l)
             in if prefix = ''SRS0='' then
                  (let rest = drop 4 l
                   in finish (''SRS1='' @ hash sg r [sd, rest] @ ''='' @ sd @ ''='' @ rest))
                else if prefix = ''SRS1='' then
                  (let fields = SplitN 4 l (CHR ''='')
                   in if length fields < 4 then Inl ErrNotSRS
                      else finish (''SRS1='' @ hash sg r [fields ! 2, fields ! 3] @ ''='' @ fields ! 2
                                   @ ''='' @ fields ! 3))
                else
                  (let stamp = timestamp now
                   in finish (''SRS0='' @ hash sg r [stamp, sd, l] @ ''='' @ stamp @ ''='' @ sd @ ''='' @ l))))"

definition Reverse :: "signer_fun \<Rightarrow> int \<Rightarrow> Rewriter \<Rightarrow> string \<Rightarrow> srs_error + string" where
  "Reverse sg now r address =
     (case cut_at address of None \<Rightarrow> Inl ErrNotSRS
      | Some (l, _) \<Rightarrow>
          if \<not> srs_Is address then Inl ErrNotSRS
          else if EqualFold (take 5 l) ''SRS1='' then
            (let fields = SplitN 4 l (CHR ''='')
             in if length fields < 4 \<or> \<not> check sg r (fields ! 1) [fields ! 2, fields ! 3]
                then Inl ErrInvalid
                else Inr (''SRS0'' @ fields ! 3 @ ''@'' @ fields ! 2))
          else
            (let fields = SplitN 5 l (CHR ''='')
             in if length fields < 5 then Inl ErrNotSRS
                else if fields ! 4 = [] \<or> fields ! 3 = [] then Inl ErrNotSRS
                else if \<not> check sg r (fields ! 1) [fields ! 2, fields ! 3, fields ! 4] then Inl ErrInvalid
                else if \<not> current (fields ! 2) now then Inl ErrExpired
                else Inr (fields ! 4 @ ''@'' @ fields ! 3)))"

section \<open>Signatures and stamps\<close>

lemma alphabet_index:
  "list_all (\<lambda>i. IndexByte alphabet (alphabet_at (int i)) = Some i
     \<and> lower_byte (alphabet_at (int i)) = alphabet_at (int i)
     \<and> alphabet_at (int i) \<noteq> CHR ''='' \<and> is_ascii (alphabet_at (int i))) [0..<32]"
  by code_simp

lemma alphabet_at_props:
  assumes "0 \<le> i" "i < 32"
  shows "IndexByte alphabet (alphabet_at i) = Some (nat i)"
    "lower_byte (alphabet_at i) = alphabet_at i" "alphabet_at i \<noteq> CHR ''=''"
    "is_ascii (alphabet_at i)"
proof -
  have "nat i \<in> set [0..<32]" using assms by simp
  with alphabet_index have "IndexByte alphabet (alphabet_at (int (nat i))) = Some (nat i)
     \<and> lower_byte (alphabet_at (int (nat i))) = alphabet_at (int (nat i))
     \<and> alphabet_at (int (nat i)) \<noteq> CHR ''='' \<and> is_ascii (alphabet_at (int (nat i)))"
    unfolding list_all_iff by blast
  with assms show "IndexByte alphabet (alphabet_at i) = Some (nat i)"
    "lower_byte (alphabet_at i) = alphabet_at i" "alphabet_at i \<noteq> CHR ''=''"
    "is_ascii (alphabet_at i)" by simp_all
qed

lemma sign_props:
  "ToLower (sign mac k ps) = sign mac k ps" "CHR ''='' \<notin> set (sign mac k ps)"
proof -
  have ran: "0 \<le> h mod 32" "h mod 32 < 32" for h :: int by simp_all
  have asc: "ascii_str (sign mac k ps)"
    by (simp add: sign_def Let_def alphabet_at_props [OF ran])
  then show "ToLower (sign mac k ps) = sign mac k ps"
    by (subst ToLower_ascii) (simp_all add: sign_def Let_def alphabet_at_props [OF ran])
  show "CHR ''='' \<notin> set (sign mac k ps)"
    using alphabet_at_props(3) [OF ran] by (fastforce simp: sign_def Let_def)
qed

lemma sign_fold: "map ToLower ps = map ToLower qs \<Longrightarrow> sign mac k ps = sign mac k qs"
proof -
  assume eq: "map ToLower ps = map ToLower qs"
  have "sign_input xs = concat (map (\<lambda>p. p @ [CHR 0x00]) (map ToLower xs))" for xs
    by (simp add: sign_input_def comp_def)
  with eq have "sign_input ps = sign_input qs" by metis
  then show ?thesis by (simp add: sign_def)
qed

text \<open>The age test of a stamp made at \<open>t0\<close> and read at \<open>t\<close>: the days between them, modulo 1024.\<close>

lemma timestamp_plain: "CHR ''='' \<notin> set (timestamp t)"
proof -
  define d where "d = t div day_seconds mod timestampRange"
  have "0 \<le> d" "d < 1024" by (simp_all add: d_def timestampRange_def)
  then have "0 \<le> d div 32" "d div 32 < 32" "0 \<le> d mod 32" "d mod 32 < 32" by auto
  then have "alphabet_at (d div 32) \<noteq> CHR ''=''" "alphabet_at (d mod 32) \<noteq> CHR ''=''"
    by (simp_all only: alphabet_at_props not_False_eq_True)
  then show ?thesis by (simp add: timestamp_def Let_def d_def [symmetric] eq_commute [of "CHR ''=''"])
qed

lemma current_timestamp:
  "current (timestamp t0) t \<longleftrightarrow> (t div day_seconds - t0 div day_seconds) mod timestampRange \<le> max_age_days"
proof -
  define d where "d = t0 div day_seconds mod timestampRange"
  have d: "0 \<le> d" "d < 1024" by (simp_all add: d_def timestampRange_def)
  have r: "0 \<le> d div 32" "d div 32 < 32" "0 \<le> d mod 32" "d mod 32 < 32" using d by auto
  have st: "timestamp t0 = [alphabet_at (d div 32), alphabet_at (d mod 32)]"
    by (simp add: timestamp_def Let_def d_def)
  have low: "ToLower (timestamp t0) = timestamp t0"
    unfolding st using r alphabet_at_props(2,4) by (subst ToLower_ascii) auto
  have "32 * int (nat (d div 32)) + int (nat (d mod 32)) = d"
    using r by simp
  then have "current (timestamp t0) t \<longleftrightarrow>
     (t div day_seconds mod timestampRange - d + timestampRange) mod timestampRange \<le> max_age_days"
    unfolding current_def low using r alphabet_at_props(1) by (simp add: st Let_def)
  also have "(t div day_seconds mod timestampRange - d + timestampRange) mod timestampRange
     = (t div day_seconds - t0 div day_seconds) mod timestampRange"
    by (simp add: d_def mod_diff_eq)
  finally show ?thesis .
qed


section \<open>Round trips\<close>

lemma cut_at_append:
  "x \<noteq> [] \<Longrightarrow> d \<noteq> [] \<Longrightarrow> CHR ''@'' \<notin> set d \<Longrightarrow> cut_at (x @ ''@'' @ d) = Some (x, d)"
  by (simp add: cut_at_def LastIndexByte_append)

lemma cut_at_SomeD:
  "cut_at s = Some (l, d) \<Longrightarrow> s = l @ ''@'' @ d \<and> l \<noteq> [] \<and> d \<noteq> [] \<and> CHR ''@'' \<notin> set d"
  by (auto simp: cut_at_def split: option.splits if_splits dest!: LastIndexByte_SomeD)

lemma srs_prefixes:
  "ToUpper ''SRS0='' = ''SRS0=''" "ToUpper ''SRS1='' = ''SRS1=''"
  "\<not> EqualFold ''SRS0='' ''SRS1=''" "EqualFold ''SRS1='' ''SRS1=''"
  by code_simp+

lemma SplitN_5:
  assumes "CHR ''='' \<notin> set a" "CHR ''='' \<notin> set b" "CHR ''='' \<notin> set c" "CHR ''='' \<notin> set d"
  shows "SplitN 5 (a @ ''='' @ b @ ''='' @ c @ ''='' @ d @ ''='' @ e) (CHR ''='') = [a, b, c, d, e]"
  using assms by (simp add: numeral_eq_Suc SplitN_step del: SplitN.simps(3))

lemma SplitN_4:
  assumes "CHR ''='' \<notin> set a" "CHR ''='' \<notin> set b" "CHR ''='' \<notin> set c"
  shows "SplitN 4 (a @ ''='' @ b @ ''='' @ c @ ''='' @ d) (CHR ''='') = [a, b, c, d]"
  using assms by (simp add: numeral_eq_Suc SplitN_step del: SplitN.simps(3))

text \<open>Changing the case of an ASCII address commutes with taking it apart.\<close>

lemma upper_lower_byte [simp]: "upper_byte (lower_byte c) = upper_byte c"
  by (rule byte_eqI) (unfold byte_case_simps, presburger)

lemma ascii_lower_byte [simp]: "is_ascii (lower_byte c) \<longleftrightarrow> is_ascii c"
  unfolding byte_case_simps by presburger

lemma ascii_map_lower [simp]: "ascii_str (map lower_byte s) \<longleftrightarrow> ascii_str s"
  by (induction s) auto

lemma separators_not_alpha: "\<not> is_alpha (CHR ''='')" "\<not> is_alpha (CHR ''@'')"
  by code_simp+

lemma LastIndexByte_map:
  "(\<And>x. f x = c \<longleftrightarrow> x = c) \<Longrightarrow> LastIndexByte (map f s) c = LastIndexByte s c"
  by (induction s) (auto split: option.splits)

lemma cut_at_lower:
  "cut_at (map lower_byte s) = map_option (\<lambda>(l, d). (map lower_byte l, map lower_byte d)) (cut_at s)"
  by (cases "LastIndexByte s (CHR ''@'')")
    (simp_all add: cut_at_def LastIndexByte_map lower_byte_eq_iff separators_not_alpha take_map drop_map
      del: LastIndexByte_None)

lemma SplitN_lower: "SplitN n (map lower_byte s) (CHR ''='') = map (map lower_byte) (SplitN n s (CHR ''=''))"
  by (rule SplitN_map) (simp add: lower_byte_eq_iff separators_not_alpha)

lemma SplitN_ascii: "ascii_str s \<Longrightarrow> p \<in> set (SplitN n s c) \<Longrightarrow> ascii_str p"
proof (induction n s c rule: SplitN.induct)
  case (3 n s c)
  obtain b a fd where cut: "Cut s c = (b, a, fd)" by (cases "Cut s c")
  with Cut_cases [OF cut] "3.prems" "3.IH" [OF cut [symmetric] refl] show ?case
    by (cases fd) auto
qed auto

lemma ascii_take: "ascii_str s \<Longrightarrow> ascii_str (take n s)"
  by (metis append_take_drop_id ascii_str_simps(3))

lemma ToLower_map_lower: "ascii_str s \<Longrightarrow> ToLower (map lower_byte s) = ToLower s"
  by (simp add: ToLower_ascii comp_def)

text \<open>
  What \<open>Forward\<close> and \<open>Reverse\<close> rely on in a signing function: its value is its own lower
  case, holds no field separator, and does not depend on the case of what is signed.
\<close>

locale signer =
  fixes sg :: "string \<Rightarrow> string list \<Rightarrow> string"
  assumes sg_lower: "ToLower (sg k ps) = sg k ps"
    and sg_plain: "CHR ''='' \<notin> set (sg k ps)"
    and sg_fold: "map ToLower ps = map ToLower qs \<Longrightarrow> sg k ps = sg k qs"
begin

lemma check_hash: "secrets r \<noteq> [] \<Longrightarrow> check sg r (hash sg r ps) ps"
  by (cases "secrets r") (simp_all add: check_def hash_def sg_lower)

lemma check_lower:
  assumes "ascii_str got" and "list_all ascii_str ps"
  shows "check sg r (map lower_byte got) (map (map lower_byte) ps) = check sg r got ps"
proof -
  have "map ToLower (map (map lower_byte) ps) = map ToLower ps"
    using assms(2) by (induction ps) (auto simp: ToLower_map_lower)
  then have "sg k (map (map lower_byte) ps) = sg k ps" for k by (rule sg_fold)
  then show ?thesis using assms(1) by (simp add: check_def ToLower_map_lower)
qed

lemma current_lower: "ascii_str st \<Longrightarrow> current (map lower_byte st) t = current st t"
  by (simp add: current_def ToLower_map_lower)

lemma reverse_srs0:
  assumes "CHR ''='' \<notin> set h" "CHR ''='' \<notin> set st" "CHR ''='' \<notin> set d" "d \<noteq> []" "l \<noteq> []"
    and "domain \<noteq> []" "CHR ''@'' \<notin> set domain"
  shows "Reverse sg t r (''SRS0='' @ h @ ''='' @ st @ ''='' @ d @ ''='' @ l @ ''@'' @ domain) =
     (if \<not> check sg r h [st, d, l] then Inl ErrInvalid
      else if \<not> current st t then Inl ErrExpired else Inr (l @ ''@'' @ d))"
proof -
  define x where "x = ''SRS0'' @ ''='' @ h @ ''='' @ st @ ''='' @ d @ ''='' @ l"
  have c: "cut_at (x @ ''@'' @ domain) = Some (x, domain)"
    using assms by (intro cut_at_append) (auto simp: x_def)
  have p: "take 5 x = ''SRS0=''" "5 \<le> length x" by (simp_all add: x_def numeral_eq_Suc)
  have s: "SplitN 5 x (CHR ''='') = [''SRS0'', h, st, d, l]"
    unfolding x_def using assms by (intro SplitN_5) auto
  have "Reverse sg t r (x @ ''@'' @ domain) =
     (if \<not> check sg r h [st, d, l] then Inl ErrInvalid
      else if \<not> current st t then Inl ErrExpired else Inr (l @ ''@'' @ d))"
    unfolding Reverse_def srs_Is_def c option.case prod.case Let_def p(1) s
    using assms p(2) srs_prefixes by simp
  then show ?thesis by (simp add: x_def)
qed

lemma reverse_srs1:
  assumes "CHR ''='' \<notin> set h" "CHR ''='' \<notin> set d"
    and "domain \<noteq> []" "CHR ''@'' \<notin> set domain"
  shows "Reverse sg t r (''SRS1='' @ h @ ''='' @ d @ ''='' @ rest @ ''@'' @ domain) =
     (if check sg r h [d, rest] then Inr (''SRS0'' @ rest @ ''@'' @ d) else Inl ErrInvalid)"
proof -
  define x where "x = ''SRS1'' @ ''='' @ h @ ''='' @ d @ ''='' @ rest"
  have c: "cut_at (x @ ''@'' @ domain) = Some (x, domain)"
    using assms by (intro cut_at_append) (auto simp: x_def)
  have p: "take 5 x = ''SRS1=''" "5 \<le> length x" by (simp_all add: x_def numeral_eq_Suc)
  have s: "SplitN 4 x (CHR ''='') = [''SRS1'', h, d, rest]"
    unfolding x_def using assms by (intro SplitN_4) auto
  have "Reverse sg t r (x @ ''@'' @ domain) =
     (if check sg r h [d, rest] then Inr (''SRS0'' @ rest @ ''@'' @ d) else Inl ErrInvalid)"
    unfolding Reverse_def srs_Is_def c option.case prod.case Let_def p(1) s
    using assms p(2) srs_prefixes by simp
  then show ?thesis by (simp add: x_def)
qed

lemma forward_reverse:
  assumes r: "secrets r \<noteq> []" and c: "cut_at sender = Some (l, sd)"
    and plain: "ToUpper (take 5 l) \<noteq> ''SRS0=''" "ToUpper (take 5 l) \<noteq> ''SRS1=''"
    and sep: "CHR ''='' \<notin> set sd" "CHR ''@'' \<notin> set domain"
    and away: "\<not> EqualFold sd domain" and fwd: "Forward sg t0 r sender domain = Inr a"
  shows "Reverse sg t r a =
     (if (t div day_seconds - t0 div day_seconds) mod timestampRange \<le> max_age_days
      then Inr sender else Inl ErrExpired)"
proof -
  note parts = cut_at_SomeD [OF c]
  define h where "h = hash sg r [timestamp t0, sd, l]"
  have h: "CHR ''='' \<notin> set h" by (simp add: h_def hash_def sg_plain)
  have dom: "domain \<noteq> []" and a: "a = ''SRS0='' @ h @ ''='' @ timestamp t0 @ ''='' @ sd @ ''='' @ l @ ''@'' @ domain"
    using fwd plain away by (auto simp: Forward_def c Let_def h_def split: if_splits)
  have "check sg r h [timestamp t0, sd, l]" unfolding h_def using r by (rule check_hash)
  then show ?thesis
    unfolding a using parts sep dom h timestamp_plain [of t0]
    by (subst reverse_srs0) (auto simp: current_timestamp)
qed

lemma forward_reverse_twice:
  assumes r: "secrets r \<noteq> []" and c: "cut_at sender = Some (''SRS0='' @ l, sd)"
    and sep: "CHR ''='' \<notin> set sd" "CHR ''@'' \<notin> set domain"
    and away: "\<not> EqualFold sd domain" and fwd: "Forward sg t0 r sender domain = Inr a"
  shows "Reverse sg t r a = Inr sender"
proof -
  note parts = cut_at_SomeD [OF c]
  define h where "h = hash sg r [sd, ''='' @ l]"
  have h: "CHR ''='' \<notin> set h" by (simp add: h_def hash_def sg_plain)
  have p: "take 5 (''SRS0='' @ l) = ''SRS0=''" "drop 4 (''SRS0='' @ l) = ''='' @ l"
    by (simp_all add: numeral_eq_Suc)
  have dom: "domain \<noteq> []" and a: "a = ''SRS1='' @ h @ ''='' @ sd @ ''='' @ (''='' @ l) @ ''@'' @ domain"
    using fwd away unfolding Forward_def c option.case prod.case p srs_prefixes Let_def
    by (auto simp: h_def split: if_splits)
  have "check sg r h [sd, ''='' @ l]" unfolding h_def using r by (rule check_hash)
  then show ?thesis
    unfolding a using parts sep dom h by (subst reverse_srs1) auto
qed

end

context signer
begin

text \<open>Reversing does not see the case of the address, and only the case of the result follows it.\<close>

lemma reverse_lower:
  assumes asc: "ascii_str a"
  shows "map_sum id (map lower_byte) (Reverse sg t r (map lower_byte a)) =
         map_sum id (map lower_byte) (Reverse sg t r a)"
proof (cases "cut_at a")
  case None
  then show ?thesis by (simp add: Reverse_def cut_at_lower)
next
  case (Some p)
  then obtain l d where c: "cut_at a = Some (l, d)" by (cases p) auto
  have l: "ascii_str l" using cut_at_SomeD [OF c] asc by auto
  have up: "ToUpper (take 5 (map lower_byte l)) = ToUpper (take 5 l)"
    using ascii_take [OF l] by (simp add: ToUpper_ascii take_map comp_def)
  have fold: "EqualFold (take 5 (map lower_byte l)) s = EqualFold (take 5 l) s" for s
    using ascii_take [OF l] by (simp add: EqualFold_def FoldCase_ascii take_map comp_def)
  have is_eq: "srs_Is (map lower_byte a) = srs_Is a" by (simp add: srs_Is_def cut_at_lower c up)
  define F where "F = (\<lambda>n. SplitN n l (CHR ''=''))"
  have F: "SplitN n l (CHR ''='') = F n" for n by (simp add: F_def)
  have f: "i < length (F n) \<Longrightarrow> ascii_str (F n ! i)" for n i
    unfolding F_def by (rule SplitN_ascii [OF l nth_mem])
  have chk4: "4 \<le> length (F 4) \<Longrightarrow>
      check sg r (map lower_byte (F 4 ! 1)) [map lower_byte (F 4 ! 2), map lower_byte (F 4 ! 3)] =
      check sg r (F 4 ! 1) [F 4 ! 2, F 4 ! 3]"
    using check_lower [of "F 4 ! 1" "[F 4 ! 2, F 4 ! 3]" r] f [of _ 4] by simp
  have chk5: "5 \<le> length (F 5) \<Longrightarrow>
      check sg r (map lower_byte (F 5 ! 1))
        [map lower_byte (F 5 ! 2), map lower_byte (F 5 ! 3), map lower_byte (F 5 ! 4)] =
      check sg r (F 5 ! 1) [F 5 ! 2, F 5 ! 3, F 5 ! 4]"
    using check_lower [of "F 5 ! 1" "[F 5 ! 2, F 5 ! 3, F 5 ! 4]" r] f [of _ 5] by simp
  have cur: "5 \<le> length (F 5) \<Longrightarrow> current (map lower_byte (F 5 ! 2)) t = current (F 5 ! 2) t"
    using current_lower [OF f [of 2 5]] by simp
  have lit: "map lower_byte ''@'' = ''@''" by code_simp
  show ?thesis
  proof (cases "EqualFold (take 5 l) ''SRS1=''")
    case True
    then show ?thesis
      using chk4 lit
      by (cases "length (F 4) < 4") (simp_all add: Reverse_def cut_at_lower c is_eq fold SplitN_lower F Let_def comp_def)
  next
    case False
    then show ?thesis
      using chk5 cur lit
      by (cases "length (F 5) < 5") (simp_all add: Reverse_def cut_at_lower c is_eq fold SplitN_lower F Let_def comp_def)
  qed
qed

end

interpretation hmac: signer "sign mac" for mac
  by unfold_locales (rule sign_props sign_fold; assumption?)+

section \<open>Properties\<close>

text \<open>
  C33. Reversing undoes forwarding: a sender that \<open>Forward\<close> rewrote at time \<open>t0\<close> is
  recovered by \<open>Reverse\<close> at time \<open>t\<close> whenever the days between the two, modulo the 1024 days
  after which the stamp wraps, are at most 21, and is refused as expired otherwise. The
  sender is any address that is not itself an SRS address and not already at the forwarder's
  domain; its domain holds no \<open>=\<close> and the forwarder's no \<open>@\<close>.
\<close>

theorem srs_round_trip:
  assumes "secrets r \<noteq> []" and "cut_at sender = Some (l, sd)"
    and "ToUpper (take 5 l) \<noteq> ''SRS0=''" and "ToUpper (take 5 l) \<noteq> ''SRS1=''"
    and "CHR ''='' \<notin> set sd" and "CHR ''@'' \<notin> set domain"
    and "\<not> EqualFold sd domain" and "Forward (sign mac) t0 r sender domain = Inr a"
  shows "Reverse (sign mac) t r a =
     (if (t div 86400 - t0 div 86400) mod 1024 \<le> 21 then Inr sender else Inl ErrExpired)"
  using hmac.forward_reverse [OF assms]
  by (simp add: day_seconds_def timestampRange_def max_age_days_def)

theorem srs_round_trip_witness:
  "Forward (sign (\<lambda>k x. of_nat (length x) * 2 ^ 230)) 864000000 \<lparr>secrets = [''key'']\<rparr>
     ''alice@example.org'' ''fwd.example'' = Inr ''SRS0=aaaakq=yq=example.org=alice@fwd.example''
   \<and> Reverse (sign (\<lambda>k x. of_nat (length x) * 2 ^ 230)) 865814400 \<lparr>secrets = [''key'']\<rparr>
     ''SRS0=aaaakq=yq=example.org=alice@fwd.example'' = Inr ''alice@example.org''
   \<and> Reverse (sign (\<lambda>k x. of_nat (length x) * 2 ^ 230)) 865900800 \<lparr>secrets = [''key'']\<rparr>
     ''SRS0=aaaakq=yq=example.org=alice@fwd.example'' = Inl ErrExpired"
proof -
  have h: "secrets \<lparr>secrets = [''key'']\<rparr> \<noteq> []"
    "cut_at ''alice@example.org'' = Some (''alice'', ''example.org'')"
    "ToUpper (take 5 ''alice'') \<noteq> ''SRS0=''" "ToUpper (take 5 ''alice'') \<noteq> ''SRS1=''"
    "CHR ''='' \<notin> set ''example.org''" "CHR ''@'' \<notin> set ''fwd.example''"
    "\<not> EqualFold ''example.org'' ''fwd.example''"
    "Forward (sign (\<lambda>k x. of_nat (length x) * 2 ^ 230)) 864000000 \<lparr>secrets = [''key'']\<rparr>
       ''alice@example.org'' ''fwd.example'' = Inr ''SRS0=aaaakq=yq=example.org=alice@fwd.example''"
    by code_simp+
  show ?thesis
    using srs_round_trip [OF h, of 865814400] srs_round_trip [OF h, of 865900800] h(8) by simp
qed

text \<open>
  C34. Mail that is forwarded twice comes back to the first forwarder: rewriting another
  server's SRS0 address and reversing the result gives that SRS0 address again, at any time,
  since only the first forwarder checks the stamp.
\<close>

theorem srs_round_trip_twice:
  assumes "secrets r \<noteq> []" and "cut_at sender = Some (''SRS0='' @ l, sd)"
    and "CHR ''='' \<notin> set sd" and "CHR ''@'' \<notin> set domain"
    and "\<not> EqualFold sd domain" and "Forward (sign mac) t0 r sender domain = Inr a"
  shows "Reverse (sign mac) t r a = Inr sender"
  using hmac.forward_reverse_twice [OF assms] .

theorem srs_round_trip_twice_witness:
  "Reverse (sign (\<lambda>k x. of_nat (length x))) 0 \<lparr>secrets = [''k'']\<rparr>
     ''SRS1=aaaaaa=fwd.example==abcdef=tt=example.org=bob@hop.example'' =
   Inr ''SRS0=abcdef=tt=example.org=bob@fwd.example''"
proof (rule srs_round_trip_twice)
  show "secrets \<lparr>secrets = [''k'']\<rparr> \<noteq> []" by simp
  show "cut_at ''SRS0=abcdef=tt=example.org=bob@fwd.example'' =
      Some (''SRS0='' @ ''abcdef=tt=example.org=bob'', ''fwd.example'')" by code_simp
  show "CHR ''='' \<notin> set ''fwd.example''" "CHR ''@'' \<notin> set ''hop.example''" by code_simp+
  show "\<not> EqualFold ''fwd.example'' ''hop.example''" by code_simp
  show "Forward (sign (\<lambda>k x. of_nat (length x))) 0 \<lparr>secrets = [''k'']\<rparr>
      ''SRS0=abcdef=tt=example.org=bob@fwd.example'' ''hop.example'' =
    Inr ''SRS1=aaaaaa=fwd.example==abcdef=tt=example.org=bob@hop.example''" by code_simp
qed

text \<open>
  C35. A server on the way that changes the case of an address does not break the bounce:
  two ASCII addresses that differ only in case are both accepted or both refused with the
  same error, and the recovered senders differ only in case.
\<close>

theorem srs_case_insensitive:
  assumes "ascii_str a" and "ascii_str b" and "map lower_byte a = map lower_byte b"
  shows "map_sum id (map lower_byte) (Reverse (sign mac) t r a) =
         map_sum id (map lower_byte) (Reverse (sign mac) t r b)"
  using hmac.reverse_lower [OF assms(1), of mac t r] hmac.reverse_lower [OF assms(2), of mac t r]
    assms(3) by simp

theorem srs_case_insensitive_witness:
  "map_sum id (map lower_byte) (Reverse (sign (\<lambda>k x. of_nat (length x))) 864000000 \<lparr>secrets = [''k'']\<rparr>
     ''SRS0=AAAAAA=YQ=EXAMPLE.ORG=ALICE@FWD.EXAMPLE'') = Inr ''alice@example.org''"
proof -
  have "map_sum id (map lower_byte) (Reverse (sign (\<lambda>k x. of_nat (length x))) 864000000 \<lparr>secrets = [''k'']\<rparr>
      ''SRS0=AAAAAA=YQ=EXAMPLE.ORG=ALICE@FWD.EXAMPLE'') =
    map_sum id (map lower_byte) (Reverse (sign (\<lambda>k x. of_nat (length x))) 864000000 \<lparr>secrets = [''k'']\<rparr>
      ''srs0=aaaaaa=yq=example.org=alice@fwd.example'')"
    by (rule srs_case_insensitive) code_simp+
  also have "\<dots> = Inr ''alice@example.org''" by code_simp
  finally show ?thesis .
qed

end
