(* ===== verification/Smtp_Config.thy ===== *)
theory Smtp_Config
  imports Net_Addr Srs Complex_Main
begin

text \<open>
  The fields of the server configuration that the modelled code reads
  (\<open>internal/smtp/config.go\<close>, \<open>internal/smtp/message_checks.go\<close>). A nil pointer or nil slice
  is \<open>None\<close>. A \<open>float64\<close> is a rational number. \<open>SenderAliases\<close> is an association list; the code ranges over the map and only
  asks whether some entry grants the address, so the order does not matter.
\<close>

record AuthConfig =
  auth_Enabled :: bool
  auth_Required :: bool
  AllowPlaintextAuth :: bool
  AllowAnySender :: bool
  SenderAliases :: "(string \<times> string list) list"

record MessageChecksConfig =
  HeaderMode :: string
  BodyMode :: string
  StrictAddressHeaders :: bool
  mc_MaxHeaderLength :: int
  RejectInvalidUTF8 :: bool

record AntispamConfig =
  RejectOnSpam :: bool
  Quarantine :: bool
  rspamd_Threshold :: "rat option"

record Config =
  Hostname :: string
  MaxSize :: int
  LocalDomains :: "string list"
  AllowedRelays :: "string list"
  Auth :: "AuthConfig option"
  DevMode :: bool
  StrictLineEndings :: "bool option"
  MessageChecks :: "MessageChecksConfig option"
  TrustedNetworks :: "string list option"
  trustedNets :: "IPNet list option"
  SRS :: "Rewriter option"
  Antispam :: "AntispamConfig option"

definition StrictLineEndingsEnabled :: "Config \<Rightarrow> bool" where
  "StrictLineEndingsEnabled c = (case StrictLineEndings c of None \<Rightarrow> True | Some b \<Rightarrow> b)"

definition TrustedNetworkList :: "Config \<Rightarrow> IPNet list" where
  "TrustedNetworkList c = (case trustedNets c of Some ns \<Rightarrow> ns
     | None \<Rightarrow> (case TrustedNetworks c of None \<Rightarrow> DefaultTrustedNetworks
        | Some cs \<Rightarrow> (case ParseTrustedNetworks (Some cs) of None \<Rightarrow> [] | Some ns \<Rightarrow> ns)))"

definition checkMode :: "string \<Rightarrow> string" where
  "checkMode raw =
     (let m = ToLower (TrimSpace raw)
      in if m = ''off'' \<or> m = ''warn'' then m else ''reject'')"

definition messageChecks :: "Config \<Rightarrow> MessageChecksConfig" where
  "messageChecks c = (case MessageChecks c of
       None \<Rightarrow> \<lparr>HeaderMode = [], BodyMode = [], StrictAddressHeaders = False, mc_MaxHeaderLength = 0,
               RejectInvalidUTF8 = False\<rparr>
     | Some m \<Rightarrow> m)"

definition headerMode :: "MessageChecksConfig \<Rightarrow> string" where
  "headerMode m = checkMode (HeaderMode m)"

definition bodyMode :: "MessageChecksConfig \<Rightarrow> string" where
  "bodyMode m = checkMode (BodyMode m)"

text \<open>\<open>sanitizeEmailForHeader\<close> and \<open>sanitizeHeloForHeader\<close> of \<open>internal/smtp/sanitization.go\<close>.\<close>

definition sanitizeEmailForHeader :: "string \<Rightarrow> string" where
  "sanitizeEmailForHeader email = filter (\<lambda>c. c \<noteq> LF) (filter (\<lambda>c. c \<noteq> CR) email)"

definition helo_char :: "char \<Rightarrow> bool" where
  "helo_char c \<longleftrightarrow> is_alnum c \<or> c \<in> set ''.-_:[]''"

definition sanitizeHeloForHeader :: "string \<Rightarrow> string" where
  "sanitizeHeloForHeader helo = take 255 (filter helo_char helo)"

end
