(* ===== verification/Validation.thy ===== *)
theory Validation
  imports Go_Regexp Utf8 Smtp_Config
begin

text \<open>
  The validator of message content, \<open>internal/smtp/enhanced_validation.go\<close>, as the DATA handler
  configures it (\<open>newMessageValidator\<close>, \<open>applyMessageChecks\<close>). A result is its three fields that
  decide anything: \<open>Valid\<close>, \<open>ErrorType\<close> and \<open>ErrorMessage\<close>; threat names, scores, details and
  sanitised copies only reach the log. Not under \<open>src/\<close> and so parameters, in \<open>UnicodeTables\<close>:
  normalisation (\<open>golang.org/x/text/unicode/norm\<close>), the Unicode categories above Latin-1 that
  depend on the version of the tables, and \<open>ParseAddress\<close> and \<open>ParseAddressList\<close> of \<open>net/mail\<close>.
\<close>

section \<open>The validator\<close>

record UnicodeTables =
  u_nfc :: "string \<Rightarrow> string"
  u_letter :: "int \<Rightarrow> bool"
  u_digit :: "int \<Rightarrow> bool"
  u_format :: "int \<Rightarrow> bool"
  u_parseAddress :: "string \<Rightarrow> string option"
  u_parseAddressList :: "string \<Rightarrow> string list result"

record ValidationResult =
  Valid :: bool
  ErrorType :: string
  ErrorMessage :: string

record SMTPParameterLimits =
  lim_MaxCommandLength :: int
  MaxLocalPartLength :: int
  MaxDomainLength :: int
  MaxPathLength :: int
  MaxLineLength :: int
  MaxHeaderLength :: int
  MaxHeaderCount :: int
  MaxHeaderBlockLength :: int
  lim_MaxParameterLength :: int
  MaxSizeValue :: int

definition DefaultSMTPParameterLimits :: SMTPParameterLimits where
  "DefaultSMTPParameterLimits =
     \<lparr>lim_MaxCommandLength = 512, MaxLocalPartLength = 64, MaxDomainLength = 255, MaxPathLength = 256,
      MaxLineLength = 1000, MaxHeaderLength = 998, MaxHeaderCount = 100, MaxHeaderBlockLength = 100 * 1024,
      lim_MaxParameterLength = 256, MaxSizeValue = 50 * 1024 * 1024\<rparr>"

definition applyMessageChecks :: "MessageChecksConfig \<Rightarrow> SMTPParameterLimits \<Rightarrow> SMTPParameterLimits" where
  "applyMessageChecks c l = l\<lparr>MaxHeaderLength := (if mc_MaxHeaderLength c > 0 then mc_MaxHeaderLength c else 2147483647)\<rparr>"

definition headerBlockLimit :: "SMTPParameterLimits \<Rightarrow> int" where
  "headerBlockLimit l = (if MaxHeaderBlockLength l > 0 then MaxHeaderBlockLength l else 100 * 1024)"

definition vr_ok :: ValidationResult where
  "vr_ok = \<lparr>Valid = True, ErrorType = [], ErrorMessage = []\<rparr>"

definition vr_fail :: "string \<Rightarrow> string \<Rightarrow> ValidationResult" where
  "vr_fail typ msg = \<lparr>Valid = False, ErrorType = typ, ErrorMessage = msg\<rparr>"

section \<open>Patterns\<close>

definition control_chars :: re where "control_chars = Cls [(0, 8), (11, 12), (14, 15)]"

definition suspicious_patterns :: "re list" where
  "suspicious_patterns =
     [re_seq [re_istr ''<script'', Star (Cls [(0, 61), (63, 255)]), re_str ''>'', Star re_dot, re_istr ''</script>''],
      re_istr ''javascript:'', re_istr ''vbscript:'',
      re_seq [re_istr ''data:'', Star re_dot, re_istr ''base64''],
      re_seq [re_istr ''eval'', Star re_space, re_str ''(''],
      re_seq [re_istr ''expression'', Star re_space, re_str ''(''], control_chars]"

definition two_words :: "string \<Rightarrow> string \<Rightarrow> re" where
  "two_words a b = re_seq [re_istr a, re_plus re_space, re_istr b]"

definition words_between :: "string \<Rightarrow> string \<Rightarrow> re" where
  "words_between a b = re_seq [re_istr a, re_plus re_space, Star re_dot, re_plus re_space, re_istr b]"

definition call_of :: "string \<Rightarrow> re" where
  "call_of f = re_seq [re_istr f, Star re_space, re_str ''('']"

definition whole_words :: "re list \<Rightarrow> re" where
  "whole_words rs = re_seq [Boundary, re_any rs, Boundary]"

definition sqlInjectionPatterns :: "re list" where
  "sqlInjectionPatterns =
     [whole_words [two_words ''union'' ''select'', words_between ''select'' ''from''],
      whole_words [two_words ''insert'' ''into'', two_words ''delete'' ''from'', words_between ''update'' ''set''],
      whole_words [two_words ''drop'' ''table'', two_words ''alter'' ''table'', two_words ''create'' ''table''],
      whole_words [call_of ''exec'', call_of ''execute'', re_istr ''sp_'', re_istr ''xp_''],
      whole_words [re_str ''@@'', call_of ''char'', call_of ''cast'', call_of ''convert''],
      whole_words [two_words ''waitfor'' ''delay'', call_of ''benchmark'', call_of ''sleep''],
      whole_words [re_istr ''information_schema'', re_istr ''sys.tables'', re_istr ''sysobjects''],
      re_any [re_str [CHR 0x27], re_str [DQUOTE], re_str '';'', re_str ''--'', re_str ''||'']]"

definition commandInjectionPatterns :: "re list" where
  "commandInjectionPatterns =
     [re_any (map re_lit (''|&;'' @ [CHR 0x60] @ ''$'')),
      re_seq [re_str ''${'', Star re_dot, re_str ''}''],
      re_seq [re_str ''$('', Star re_dot, re_str '')''],
      re_seq [re_str ''..'', re_any [re_str [BSLASH], re_str ''/'']],
      whole_words (map (\<lambda>w. re_seq [re_istr w, re_plus re_space]) [''rm'', ''del'', ''format'', ''fdisk''])]"

definition after_blank_line :: "re \<Rightarrow> re" where
  "after_blank_line r =
     re_seq [re_opt (re_str [CR]), re_str [LF], re_opt (re_str [CR]), re_str [LF], Star re_dot,
             re_opt (re_str [CR]), re_str [LF], Star re_space, r]"

definition headerInjectionPatterns :: "re list" where
  "headerInjectionPatterns =
     [control_chars,
      after_blank_line (re_seq [re_any (map re_istr [''to'', ''from'', ''cc'', ''bcc'', ''subject'', ''reply-to'',
         ''return-path'', ''message-id'', ''date'']), re_str '':'']),
      after_blank_line (re_istr ''x-'')]"

definition containsHeaderInjection :: "string \<Rightarrow> bool" where
  "containsHeaderInjection input = list_ex (\<lambda>r. MatchString r input) headerInjectionPatterns"

text \<open>The same three patterns, compiled again at every call.\<close>

definition containsObviousHeaderInjection :: "string \<Rightarrow> bool" where
  "containsObviousHeaderInjection input = list_ex (\<lambda>r. MatchString r input) headerInjectionPatterns"

definition validateSecurityPatterns :: "string \<Rightarrow> ValidationResult" where
  "validateSecurityPatterns input =
     (if list_ex (\<lambda>r. MatchString r input) suspicious_patterns
      then vr_fail ''suspicious_pattern'' ''Input contains suspicious patterns''
      else if list_ex (\<lambda>r. MatchString r input) sqlInjectionPatterns
      then vr_fail ''sql_injection'' ''Input contains SQL injection patterns''
      else if list_ex (\<lambda>r. MatchString r input) commandInjectionPatterns
      then vr_fail ''command_injection'' ''Input contains command injection patterns''
      else vr_ok)"

section \<open>Unicode\<close>

definition rune_in :: "int \<Rightarrow> int \<Rightarrow> int \<Rightarrow> bool" where "rune_in lo hi r \<longleftrightarrow> lo \<le> r \<and> r \<le> hi"

definition is_Cc :: "int \<Rightarrow> bool" where "is_Cc r \<longleftrightarrow> rune_in 0 31 r \<or> rune_in 127 159 r"

definition is_Co :: "int \<Rightarrow> bool" where
  "is_Co r \<longleftrightarrow> rune_in 57344 63743 r \<or> rune_in 983040 1048573 r \<or> rune_in 1048576 1114109 r"

definition is_Cs :: "int \<Rightarrow> bool" where "is_Cs r \<longleftrightarrow> rune_in 55296 57343 r"

definition is_Cf :: "UnicodeTables \<Rightarrow> int \<Rightarrow> bool" where
  "is_Cf u r \<longleftrightarrow> r = 173 \<or> rune_in 8203 8207 r \<or> r = 65279 \<or> (r > 255 \<and> u_format u r)"

definition IsLetter :: "UnicodeTables \<Rightarrow> int \<Rightarrow> bool" where
  "IsLetter u r \<longleftrightarrow> rune_in 65 90 r \<or> rune_in 97 122 r \<or> r = 170 \<or> r = 181 \<or> r = 186 \<or> rune_in 192 214 r
     \<or> rune_in 216 246 r \<or> rune_in 248 255 r \<or> (r > 255 \<and> u_letter u r)"

definition IsDigit :: "UnicodeTables \<Rightarrow> int \<Rightarrow> bool" where
  "IsDigit u r \<longleftrightarrow> rune_in 48 57 r \<or> (r > 255 \<and> u_digit u r)"

definition dangerous_rune :: "UnicodeTables \<Rightarrow> int \<Rightarrow> bool" where
  "dangerous_rune u r \<longleftrightarrow>
     (is_Cc r \<and> r \<noteq> 9 \<and> r \<noteq> 10 \<and> r \<noteq> 13) \<or> is_Cf u r \<or> is_Co r \<or> is_Cs r
     \<or> r \<in> set [8203, 8204, 8205, 8206, 8207] \<or> r = 65279 \<or> r \<in> set [8232, 8233]"

definition containsDangerousUnicode :: "UnicodeTables \<Rightarrow> string \<Rightarrow> bool" where
  "containsDangerousUnicode u input = list_ex (dangerous_rune u) (runes input)"

definition containsHomographAttack :: "string \<Rightarrow> bool" where
  "containsHomographAttack input =
     (let rs = runes input in
      list_ex (\<lambda>r. rune_in 65 90 r \<or> rune_in 97 122 r) rs \<and>
      (list_ex (rune_in 1024 1279) rs \<or> list_ex (rune_in 880 1023) rs))"

definition ValidateAndNormalizeUnicode :: "UnicodeTables \<Rightarrow> string \<Rightarrow> ValidationResult \<times> string" where
  "ValidateAndNormalizeUnicode u input =
     (if \<not> ValidString input then (vr_fail ''invalid_utf8'' ''Input contains invalid UTF-8 sequences'', [])
      else let normalized = u_nfc u input in
        if containsDangerousUnicode u normalized
        then (vr_fail ''dangerous_unicode'' ''Input contains potentially dangerous Unicode characters'', normalized)
        else if containsHomographAttack normalized
        then (vr_fail ''homograph_attack'' ''Input contains characters that may be used for homograph attacks'', normalized)
        else (vr_ok, normalized))"

section \<open>Parameters\<close>

definition validateEmailParameter :: "UnicodeTables \<Rightarrow> SMTPParameterLimits \<Rightarrow> string \<Rightarrow> ValidationResult" where
  "validateEmailParameter u l email =
     (if len email > MaxPathLength l then
        vr_fail ''parameter_too_long'' (''Email parameter exceeds RFC 5321 limit ('' @ show_int (MaxPathLength l) @ '' characters)'')
      else if email = [] \<or> email = ''<>'' then vr_ok
      else case u_parseAddress u (TrimSet email ''<>'') of
        None \<Rightarrow> vr_fail ''invalid_email_format'' ''Email address does not conform to RFC 5322''
      | Some addr \<Rightarrow>
          (case Split addr (CHR ''@'') of
             [localPart, domain] \<Rightarrow>
               if len localPart > MaxLocalPartLength l then
                 vr_fail ''local_part_too_long'' (''Local part exceeds RFC 5321 limit ('' @ show_int (MaxLocalPartLength l) @ '' characters)'')
               else if len domain > MaxDomainLength l then
                 vr_fail ''domain_too_long'' (''Domain exceeds RFC 5321 limit ('' @ show_int (MaxDomainLength l) @ '' characters)'')
               else validateSecurityPatterns email
           | _ \<Rightarrow> vr_fail ''invalid_email_structure'' ''Email address must contain exactly one @ symbol''))"

definition hostname_label_ok :: "UnicodeTables \<Rightarrow> string \<Rightarrow> bool" where
  "hostname_label_ok u label \<longleftrightarrow>
     label \<noteq> [] \<and> len label \<le> 63
     \<and> (IsLetter u (byte_val (hd label)) \<or> IsDigit u (byte_val (hd label)))
     \<and> (IsLetter u (byte_val (last label)) \<or> IsDigit u (byte_val (last label)))
     \<and> list_all (\<lambda>r. IsLetter u r \<or> IsDigit u r \<or> r = 45) (runes label)"

definition isValidHostnameFormat :: "UnicodeTables \<Rightarrow> string \<Rightarrow> bool" where
  "isValidHostnameFormat u hostname \<longleftrightarrow>
     hostname \<noteq> [] \<and> len hostname \<le> 253 \<and> list_all (hostname_label_ok u) (Split hostname (CHR ''.''))"

definition ev_validateHostnameParameter :: "UnicodeTables \<Rightarrow> SMTPParameterLimits \<Rightarrow> string \<Rightarrow> ValidationResult" where
  "ev_validateHostnameParameter u l hostname =
     (if len hostname > MaxDomainLength l then
        vr_fail ''hostname_too_long'' (''Hostname exceeds RFC 5321 limit ('' @ show_int (MaxDomainLength l) @ '' characters)'')
      else if \<not> isValidHostnameFormat u hostname
      then vr_fail ''invalid_hostname_format'' ''Hostname does not conform to RFC standards''
      else validateSecurityPatterns hostname)"

definition validateAuthTypeParameter :: "SMTPParameterLimits \<Rightarrow> string \<Rightarrow> ValidationResult" where
  "validateAuthTypeParameter l authType =
     (if len authType > lim_MaxParameterLength l then
        vr_fail ''auth_type_too_long'' (''AUTH type exceeds maximum length ('' @ show_int (lim_MaxParameterLength l) @ '' characters)'')
      else let t = ToUpper authType in
        if t \<in> set [''PLAIN'', ''LOGIN''] then vr_ok
        else if t \<in> set [''CRAM-MD5'', ''DIGEST-MD5'', ''NTLM'']
        then vr_fail ''disabled_auth_type'' ''Authentication type disabled for security reasons''
        else vr_fail ''unknown_auth_type'' ''Unknown authentication type'')"

definition validateSizeParameter :: "SMTPParameterLimits \<Rightarrow> string \<Rightarrow> ValidationResult" where
  "validateSizeParameter l sizeStr =
     (if len sizeStr > 20 then vr_fail ''size_param_too_long'' ''SIZE parameter too long''
      else case ParseInt64 sizeStr of
        None \<Rightarrow> vr_fail ''invalid_size_format'' ''SIZE parameter must be a valid integer''
      | Some n \<Rightarrow>
          if n < 0 then vr_fail ''negative_size'' ''SIZE parameter cannot be negative''
          else if n > MaxSizeValue l then
            vr_fail ''size_too_large'' (''SIZE parameter exceeds maximum allowed value ('' @ show_int (MaxSizeValue l) @ '' bytes)'')
          else vr_ok)"

definition validateGenericParameter :: "SMTPParameterLimits \<Rightarrow> string \<Rightarrow> ValidationResult" where
  "validateGenericParameter l param =
     (if len param > lim_MaxParameterLength l then
        vr_fail ''parameter_too_long'' (''Parameter exceeds maximum length ('' @ show_int (lim_MaxParameterLength l) @ '' characters)'')
      else validateSecurityPatterns param)"

section \<open>Headers and lines\<close>

definition validateHeaderParameter :: "UnicodeTables \<Rightarrow> SMTPParameterLimits \<Rightarrow> string \<Rightarrow> ValidationResult" where
  "validateHeaderParameter u l headers =
     (if len headers > headerBlockLimit l then
        vr_fail ''headers_too_long'' (''Headers exceed maximum length ('' @ show_int (headerBlockLimit l) @ '' characters)'')
      else if containsDangerousUnicode u headers
      then vr_fail ''dangerous_unicode'' ''Headers contain dangerous Unicode characters''
      else if containsHomographAttack headers
      then vr_fail ''homograph_attack'' ''Headers contain potential homograph attack patterns''
      else if containsObviousHeaderInjection headers
      then vr_fail ''header_injection'' ''Headers contain obvious injection patterns''
      else vr_ok)"

definition validateHeaderValueRelaxed :: "string \<Rightarrow> ValidationResult" where
  "validateHeaderValueRelaxed headerValue =
     (if MatchString (Cls [(10, 10), (13, 13)]) headerValue
         \<or> MatchString (Cls [(0, 8), (11, 12), (14, 31), (127, 127)]) headerValue
      then vr_fail ''header_security_violation'' ''Header contains dangerous patterns''
      else vr_ok)"

definition validateHeaderSecurityPatterns :: "string \<Rightarrow> string \<Rightarrow> ValidationResult" where
  "validateHeaderSecurityPatterns _ headerValue = validateHeaderValueRelaxed headerValue"

definition field_name_ok :: "string \<Rightarrow> bool" where
  "field_name_ok name \<longleftrightarrow> list_all (\<lambda>r. 33 \<le> r \<and> r \<le> 126) (runes name)"

definition validateHeaderLineRelaxed :: "SMTPParameterLimits \<Rightarrow> string \<Rightarrow> ValidationResult" where
  "validateHeaderLineRelaxed l line =
     (if len line > MaxHeaderLength l then
        vr_fail ''header_too_long'' (''Header exceeds RFC 5322 limit ('' @ show_int (MaxHeaderLength l) @ '' characters)'')
      else case Cut line (CHR '':'') of (n, v, found) \<Rightarrow>
        if \<not> found then vr_ok
        else let name = TrimSpace n in
          if name = [] then vr_fail ''empty_header_name'' ''Header name cannot be empty''
          else if \<not> field_name_ok name then vr_fail ''invalid_header_name'' ''Header name contains invalid characters''
          else let r = validateHeaderValueRelaxed (TrimSpace v) in
            if \<not> Valid r then vr_fail (ErrorType r) (''Header value: '' @ ErrorMessage r)
            else vr_ok)"

definition looksLikeHeader :: "UnicodeTables \<Rightarrow> string \<Rightarrow> bool" where
  "looksLikeHeader u line = (case Cut line (CHR '':'') of (n, _, found) \<Rightarrow>
     found \<and> list_all (\<lambda>r. IsLetter u r \<or> IsDigit u r \<or> r = 45 \<or> r = 95) (runes (TrimSpace n)) \<and> TrimSpace n \<noteq> [])"

definition validateDataLineParameter :: "UnicodeTables \<Rightarrow> SMTPParameterLimits \<Rightarrow> string \<Rightarrow> ValidationResult" where
  "validateDataLineParameter u l line =
     (if len line > MaxLineLength l then
        vr_fail ''line_too_long'' (''Line exceeds RFC 5321 limit ('' @ show_int (MaxLineLength l) @ '' characters)'')
      else if looksLikeHeader u line then validateHeaderLineRelaxed l line
      else if containsHeaderInjection line
      then vr_fail ''header_injection'' ''Line contains header injection patterns''
      else validateHeaderValueRelaxed (TrimRightSet line [CR, LF]))"

definition ValidateSMTPParameter :: "UnicodeTables \<Rightarrow> SMTPParameterLimits \<Rightarrow> string \<Rightarrow> string \<Rightarrow> ValidationResult" where
  "ValidateSMTPParameter u l paramType paramValue =
     (case ValidateAndNormalizeUnicode u paramValue of (r, v) \<Rightarrow>
        if \<not> Valid r then r
        else let t = ToUpper paramType in
          if t = ''MAIL_FROM'' \<or> t = ''RCPT_TO'' then validateEmailParameter u l v
          else if t = ''HELO'' \<or> t = ''EHLO'' then ev_validateHostnameParameter u l v
          else if t = ''AUTH_TYPE'' then validateAuthTypeParameter l v
          else if t = ''SIZE'' then validateSizeParameter l v
          else if t = ''DATA_LINE'' then validateDataLineParameter u l v
          else if t = ''HEADER'' then validateHeaderParameter u l v
          else validateGenericParameter l v)"

text \<open>Unfolding: \<open>acc\<close> holds the lines so far, the last one first.\<close>

fun unfold_lines :: "string list \<Rightarrow> string list \<Rightarrow> string list" where
  "unfold_lines acc [] = rev acc"
| "unfold_lines acc (l0 # ls) =
     (let line = TrimRightSet l0 [CR] in
      if (HasPrefix line '' '' \<or> HasPrefix line [TAB]) \<and> acc \<noteq> []
      then unfold_lines ((hd acc @ '' '' @ TrimSpace line) # tl acc) ls
      else unfold_lines (line # acc) ls)"

definition unfoldHeaders :: "string \<Rightarrow> string" where
  "unfoldHeaders headers = Join (unfold_lines [] (Split headers LF)) [LF]"

definition validateSingleHeader :: "SMTPParameterLimits \<Rightarrow> string \<Rightarrow> ValidationResult" where
  "validateSingleHeader l header =
     (if len header > MaxHeaderLength l then
        vr_fail ''header_too_long'' (''Header exceeds RFC 5322 limit ('' @ show_int (MaxHeaderLength l) @ '' characters)'')
      else case Cut header (CHR '':'') of (n, v, found) \<Rightarrow>
        if \<not> found then vr_fail ''invalid_header_format'' ''Header must contain a colon''
        else let name = TrimSpace n; val = TrimSpace v in
          if name = [] then vr_fail ''empty_header_name'' ''Header name cannot be empty''
          else if \<not> field_name_ok name then vr_fail ''invalid_header_name'' ''Header name contains invalid characters''
          else if containsHeaderInjection val
          then vr_fail ''header_injection'' ''Header value contains injection patterns''
          else let r = validateHeaderSecurityPatterns name val in
            if \<not> Valid r then vr_fail (ErrorType r) (''Header value: '' @ ErrorMessage r)
            else vr_ok)"

fun check_headers :: "SMTPParameterLimits \<Rightarrow> int \<Rightarrow> int \<Rightarrow> string list \<Rightarrow> ValidationResult" where
  "check_headers l i headerCount [] = vr_ok"
| "check_headers l i headerCount (l0 # ls) =
     (let line = TrimSpace l0 in
      if line = [] then check_headers l (i + 1) headerCount ls
      else if headerCount + 1 > MaxHeaderCount l then
        vr_fail ''too_many_headers'' (''Too many headers (limit: '' @ show_int (MaxHeaderCount l) @ '')'')
      else let r = validateSingleHeader l line in
        if \<not> Valid r then vr_fail (ErrorType r) (''Header '' @ show_int (i + 1) @ '': '' @ ErrorMessage r)
        else check_headers l (i + 1) (headerCount + 1) ls)"

definition ValidateEmailHeaders :: "SMTPParameterLimits \<Rightarrow> string \<Rightarrow> ValidationResult" where
  "ValidateEmailHeaders l headers = check_headers l 0 0 (Split (unfoldHeaders headers) LF)"

end
