(* ===== verification/Access_Control.thy ===== *)
theory Access_Control
  imports Net_Addr
begin

text \<open>
  The operator's allow and deny lists for peers and sender domains,
  \<open>internal/smtp/access_control.go\<close>: building the matcher from the configuration, the peer
  check and the sender check. The domain sets of the source are lists without repetition
  that are only asked for membership.
\<close>

section \<open>Data\<close>

record AccessDecision =
  Denied :: bool
  Reason :: string
  Rule :: string

definition no_decision :: AccessDecision where
  "no_decision = \<lparr>Denied = False, Reason = [], Rule = []\<rparr>"

record AccessControlConfig =
  ac_Enabled :: bool
  AllowIPs :: "string list"
  DenyIPs :: "string list"
  AllowDomains :: "string list"
  DenyDomains :: "string list"

record AccessControl =
  ac_enabled :: bool
  allowNets :: "IPNet list"
  denyNets :: "IPNet list"
  allowDomains :: "string list"
  denyDomains :: "string list"

section \<open>Building the matcher\<close>

definition normalizeAccessDomain :: "string \<Rightarrow> string" where
  "normalizeAccessDomain d = ToLower (TrimSet (TrimSpace d) ''.'')"

fun parseAccessNetworks :: "string list \<Rightarrow> IPNet list result" where
  "parseAccessNetworks [] = Inr []"
| "parseAccessNetworks (raw # entries) =
     (let entry = TrimSpace raw in
      if entry = [] \<or> HasPrefix entry ''#'' then parseAccessNetworks entries
      else case ParseCIDR entry of
        Some network \<Rightarrow> map_sum id ((#) network) (parseAccessNetworks entries)
      | None \<Rightarrow> (case ParseIP entry of
            None \<Rightarrow> Inl ([DQUOTE] @ entry @ [DQUOTE] @ '' is not an IP address or CIDR range'')
          | Some ip \<Rightarrow>
              (let m = (if To4 ip = None then CIDRMask 128 16 else CIDRMask 32 4)
               in map_sum id ((#) \<lparr>nIP = ip, nMask = m\<rparr>) (parseAccessNetworks entries))))"

definition domain_set :: "string list \<Rightarrow> string list" where
  "domain_set ds = fold (\<lambda>d acc. let n = normalizeAccessDomain d
                                 in if n \<noteq> [] then List.insert n acc else acc) ds []"

definition NewAccessControl :: "AccessControlConfig option \<Rightarrow> AccessControl result" where
  "NewAccessControl cfg =
     (let off = \<lparr>ac_enabled = False, allowNets = [], denyNets = [], allowDomains = [], denyDomains = []\<rparr>
      in case cfg of None \<Rightarrow> Inr off
      | Some c \<Rightarrow>
          if \<not> ac_Enabled c then Inr off
          else (case parseAccessNetworks (AllowIPs c) of
              Inl e \<Rightarrow> Inl (''allow_ips: '' @ e)
            | Inr an \<Rightarrow> (case parseAccessNetworks (DenyIPs c) of
                  Inl e \<Rightarrow> Inl (''deny_ips: '' @ e)
                | Inr dn \<Rightarrow>
                    Inr \<lparr>ac_enabled = True, allowNets = an, denyNets = dn,
                         allowDomains = domain_set (AllowDomains c),
                         denyDomains = domain_set (DenyDomains c)\<rparr>)))"

section \<open>Decisions\<close>

text \<open>A nil \<open>*AccessControl\<close> is \<open>None\<close>.\<close>

definition AccessEnabled :: "AccessControl option \<Rightarrow> bool" where
  "AccessEnabled ac = (case ac of None \<Rightarrow> False | Some a \<Rightarrow> ac_enabled a)"

fun matchNetwork :: "IP \<Rightarrow> IPNet list \<Rightarrow> string" where
  "matchNetwork ip [] = []"
| "matchNetwork ip (network # ns) =
     (if NetContains network ip then IPNet_String network else matchNetwork ip ns)"

definition ipFromAddr :: "NetAddr \<Rightarrow> IP option" where
  "ipFromAddr addr = ParseIP (peer_host addr)"

definition CheckPeer :: "AccessControl option \<Rightarrow> NetAddr option \<Rightarrow> AccessDecision" where
  "CheckPeer ac addr =
     (case (ac, addr) of
        (Some a, Some ad) \<Rightarrow>
          if \<not> ac_enabled a then no_decision
          else (case ipFromAddr ad of None \<Rightarrow> no_decision
            | Some ip \<Rightarrow>
                (let al = matchNetwork ip (allowNets a); de = matchNetwork ip (denyNets a) in
                 if al \<noteq> [] then no_decision\<lparr>Rule := ''allow_ips '' @ al\<rparr>
                 else if de \<noteq> [] then
                   \<lparr>Denied = True, Reason = ''connection refused by policy'', Rule = ''deny_ips '' @ de\<rparr>
                 else no_decision))
      | _ \<Rightarrow> no_decision)"

definition senderDomain :: "string \<Rightarrow> string" where
  "senderDomain sender =
     (let s = TrimSuffix (TrimPrefix (TrimSpace sender) ''<'') ''>''
      in case LastIndexByte s (CHR ''@'') of None \<Rightarrow> []
         | Some at \<Rightarrow> if Suc at = length s then [] else normalizeAccessDomain (drop (Suc at) s))"

function parents :: "string \<Rightarrow> string list" where
  "parents domain = (case Cut domain (CHR ''.'') of (_, rest, found) \<Rightarrow>
     if \<not> found \<or> CHR ''.'' \<notin> set rest then [] else rest # parents rest)"
  by pat_completeness auto

termination parents
  by (relation "measure length") (auto dest!: sym[of _ "Cut _ _"] intro: Cut_shorter)

declare parents.simps [simp del]

definition domainAndParents :: "string \<Rightarrow> string list" where
  "domainAndParents domain = domain # parents domain"

definition CheckSender :: "AccessControl option \<Rightarrow> string \<Rightarrow> AccessDecision" where
  "CheckSender ac sender = (case ac of None \<Rightarrow> no_decision
     | Some a \<Rightarrow>
         if \<not> ac_enabled a then no_decision
         else (let domain = senderDomain sender in
           if domain = [] then no_decision
           else (case List.find (\<lambda>c. c \<in> set (allowDomains a)) (domainAndParents domain) of
               Some c \<Rightarrow> no_decision\<lparr>Rule := ''allow_domains '' @ c\<rparr>
             | None \<Rightarrow> (case List.find (\<lambda>c. c \<in> set (denyDomains a)) (domainAndParents domain) of
                 Some c \<Rightarrow> \<lparr>Denied = True, Reason = ''sender domain refused by policy'',
                           Rule = ''deny_domains '' @ c\<rparr>
               | None \<Rightarrow> no_decision))))"

end
