(* ===== verification/Block_Lists.thy ===== *)
theory Block_Lists
  imports Utf8 Access_Control "HOL-Library.AList"
begin

text \<open>
  DNS block lists, \<open>internal/smtp/rbl.go\<close>: building the checker from its settings, the query
  name of an address, what the answers of one list mean, the check over all lists, and the
  cache of verdicts. The resolver is a parameter: \<open>LookupIPAddr\<close> answers a list of addresses or
  an error that does or does not say \<open>not found\<close>, \<open>LookupTXT\<close> a list of texts or an error. The
  lists are asked concurrently, so the check takes the order in which their answers arrive. The
  cache is an association list in the order Go's map happens to be ranged over. Times are
  nanoseconds; log lines are left out.
\<close>

section \<open>Settings\<close>

record RBLConfig =
  rbl_cfg_Enabled :: bool
  rbl_cfg_Zones :: "string list"
  rbl_cfg_Reject :: bool
  rbl_cfg_Timeout :: int
  rbl_cfg_CacheTTL :: int
  rbl_cfg_CacheSize :: int
  rbl_cfg_SkipIPs :: "string list"

record RBLDecision =
  Listed :: bool
  Zone :: string
  rbl_Reason :: string
  Code :: string

record rblCacheEntry =
  ce_decision :: RBLDecision
  ce_expires :: int

record rblCache =
  rc_entries :: "(string \<times> rblCacheEntry) list"
  rc_maxSize :: int
  rc_ttl :: int

record RBLChecker =
  rbl_enabled :: bool
  checker_zones :: "string list"
  rbl_timeout :: int
  rbl_reject :: bool
  skipNets :: "IPNet list"
  listedNet :: IPNet
  checker_cache :: "rblCache option"

record rblResolver =
  LookupIPAddr :: "string \<Rightarrow> bool + IP list"
  LookupTXT :: "string \<Rightarrow> string list option"

definition unlisted :: RBLDecision where
  "unlisted = \<lparr>Listed = False, Zone = [], rbl_Reason = [], Code = []\<rparr>"

definition ns_second :: int where "ns_second = 1000000000"

definition newRBLCache :: "int \<Rightarrow> int \<Rightarrow> rblCache" where
  "newRBLCache n t = \<lparr>rc_entries = [], rc_maxSize = n, rc_ttl = t\<rparr>"

fun rbl_zones :: "string list \<Rightarrow> string list result" where
  "rbl_zones [] = Inr []"
| "rbl_zones (z # zs) =
     (let zone = TrimSpace (ToLower (TrimSet z ''.'')) in
      if zone = [] then rbl_zones zs
      else if list_ex (\<lambda>c. c \<in> set zone) [CHR '' '', TAB, CHR ''/'', CHR '':''] \<or> CHR ''.'' \<notin> set zone
      then Inl (''zone '' @ [DQUOTE] @ zone @ [DQUOTE] @ '' is not a domain name'')
      else map_sum id ((#) zone) (rbl_zones zs))"

definition NewRBLChecker :: "RBLConfig option \<Rightarrow> RBLChecker result" where
  "NewRBLChecker cfg =
     (case ParseCIDR ''127.0.0.0/24'' of
        None \<Rightarrow> Inl ''parsing the listed range: invalid CIDR address: 127.0.0.0/24''
      | Some ln \<Rightarrow>
          (let off = \<lparr>rbl_enabled = False, checker_zones = [], rbl_timeout = 0, rbl_reject = False, skipNets = [],
                      listedNet = ln, checker_cache = None\<rparr>
           in case cfg of None \<Rightarrow> Inr off
           | Some c \<Rightarrow>
               if \<not> rbl_cfg_Enabled c then Inr off
               else (case rbl_zones (rbl_cfg_Zones c) of
                   Inl e \<Rightarrow> Inl e
                 | Inr zs \<Rightarrow>
                     if zs = [] then Inl ''rbl is enabled but no checker_zones are configured''
                     else (case parseAccessNetworks (rbl_cfg_SkipIPs c) of
                         Inl e \<Rightarrow> Inl (''skip_ips: '' @ e)
                       | Inr nets \<Rightarrow>
                           Inr \<lparr>rbl_enabled = True, checker_zones = zs,
                                rbl_timeout = (if wrap64 (rbl_cfg_Timeout c * ns_second) \<le> 0 then 5 * ns_second else wrap64 (rbl_cfg_Timeout c * ns_second)),
                                rbl_reject = rbl_cfg_Reject c, skipNets = nets, listedNet = ln,
                                checker_cache = Some (newRBLCache
                                  (if rbl_cfg_CacheSize c \<le> 0 then 10000 else rbl_cfg_CacheSize c)
                                  (if wrap64 (rbl_cfg_CacheTTL c * ns_second) \<le> 0 then 3600 * ns_second else wrap64 (rbl_cfg_CacheTTL c * ns_second)))\<rparr>))))"

definition RBLEnabled :: "RBLChecker option \<Rightarrow> bool" where
  "RBLEnabled r = (case r of None \<Rightarrow> False | Some c \<Rightarrow> rbl_enabled c)"

definition RBLReject :: "RBLChecker option \<Rightarrow> bool" where
  "RBLReject r = (case r of None \<Rightarrow> False | Some c \<Rightarrow> rbl_reject c)"

section \<open>One list\<close>

definition nibbles :: "byte \<Rightarrow> string" where
  "nibbles b = (let v = uint b in [hex_digit (v mod 16), CHR ''.'', hex_digit (v div 16), CHR ''.''])"

text \<open>\<open>To16\<close> of an address that is not an IPv4 one succeeds for 16 bytes only.\<close>

definition rblQueryName :: "IP \<Rightarrow> string \<Rightarrow> string option" where
  "rblQueryName ip zone = (case To4 ip of
       Some v4 \<Rightarrow> Some (concat (map (\<lambda>b. show_int (uint b) @ ''.'') (rev v4)) @ zone)
     | None \<Rightarrow> if len ip = 16 then Some (concat (map nibbles (rev ip)) @ zone) else None)"

definition reason_rune :: "int \<Rightarrow> char option" where
  "reason_rune r = (if r < 32 then Some (CHR '' '') else None)"

definition sanitizeRBLReason :: "string \<Rightarrow> string" where
  "sanitizeRBLReason txt0 =
     (let txt = TrimSpace (map_runes reason_rune txt0)
      in if len txt > 200 then take 200 txt @ ''...'' else txt)"

definition RBL_Message :: "RBLDecision \<Rightarrow> string" where
  "RBL_Message d = ''Client host blocked by '' @ Zone d @ (if rbl_Reason d \<noteq> [] then '': '' @ rbl_Reason d else [])"

text \<open>The first answer in the range that means listed decides.\<close>

fun first_listing :: "IPNet \<Rightarrow> IP list \<Rightarrow> IP option" where
  "first_listing net [] = None"
| "first_listing net (a # as) =
     (case To4 a of
        None \<Rightarrow> first_listing net as
      | Some v4 \<Rightarrow> if NetContains net v4 then Some v4 else first_listing net as)"

definition checkZone :: "rblResolver \<Rightarrow> IPNet \<Rightarrow> IP \<Rightarrow> string \<Rightarrow> RBLDecision" where
  "checkZone dns net ip zone = (case rblQueryName ip zone of
       None \<Rightarrow> unlisted
     | Some host \<Rightarrow>
         (case LookupIPAddr dns host of
            Inl notFound \<Rightarrow> unlisted
          | Inr addrs \<Rightarrow>
              (case first_listing net addrs of
                 None \<Rightarrow> unlisted
               | Some v4 \<Rightarrow>
                   \<lparr>Listed = True, Zone = zone,
                    rbl_Reason = (case LookupTXT dns host of Some (t # _) \<Rightarrow> sanitizeRBLReason t | _ \<Rightarrow> []),
                    Code = IP_String v4\<rparr>)))"

section \<open>The cache\<close>

definition cache_get :: "int \<Rightarrow> string \<Rightarrow> rblCache option \<Rightarrow> RBLDecision option \<times> rblCache option" where
  "cache_get now key c = (case c of
       None \<Rightarrow> (None, None)
     | Some m \<Rightarrow>
         (case map_of (rc_entries m) key of
            None \<Rightarrow> (None, Some m)
          | Some e \<Rightarrow>
              if now > ce_expires e then (None, Some (m\<lparr>rc_entries := AList.delete key (rc_entries m)\<rparr>))
              else (Some (ce_decision e), Some m)))"

text \<open>Expired entries go first; if that was not enough, others until there is room for one.\<close>

definition evictLocked :: "int \<Rightarrow> rblCache \<Rightarrow> rblCache" where
  "evictLocked now m =
     (let live = filter (\<lambda>(k, e). \<not> now > ce_expires e) (rc_entries m);
          surplus = nat (len live - rc_maxSize m + 1)
      in m\<lparr>rc_entries := drop surplus live\<rparr>)"

definition cache_put :: "int \<Rightarrow> string \<Rightarrow> RBLDecision \<Rightarrow> rblCache option \<Rightarrow> rblCache option" where
  "cache_put now key d c = (case c of
       None \<Rightarrow> None
     | Some m \<Rightarrow>
         (let m1 = (if len (rc_entries m) \<ge> rc_maxSize m then evictLocked now m else m)
          in Some (m1\<lparr>rc_entries := AList.update key \<lparr>ce_decision = d, ce_expires = now + rc_ttl m1\<rparr> (rc_entries m1)\<rparr>)))"

section \<open>The check\<close>

text \<open>\<open>order\<close> is the order in which the lists answer; a listing ends the wait.\<close>

definition Check :: "rblResolver \<Rightarrow> string list \<Rightarrow> int \<Rightarrow> RBLChecker option \<Rightarrow> IP \<Rightarrow> RBLDecision \<times> RBLChecker option" where
  "Check dns order now r ip = (case r of
       None \<Rightarrow> (unlisted, None)
     | Some c \<Rightarrow>
         if \<not> rbl_enabled c \<or> ip = [] then (unlisted, Some c)
         else if list_ex (\<lambda>n. NetContains n ip) (skipNets c) then (unlisted, Some c)
         else (let key = IP_String ip in
           case cache_get now key (checker_cache c) of
             (Some d, ch) \<Rightarrow> (d, Some (c\<lparr>checker_cache := ch\<rparr>))
           | (None, ch) \<Rightarrow>
               (let d = (case filter Listed (map (checkZone dns (listedNet c) ip) order) of [] \<Rightarrow> unlisted | d # _ \<Rightarrow> d)
                in (d, Some (c\<lparr>checker_cache := cache_put now key d ch\<rparr>)))))"

section \<open>The cache stays bounded\<close>

definition cache_ok :: "rblCache \<Rightarrow> bool" where
  "cache_ok m \<longleftrightarrow> 0 < rc_maxSize m \<and> distinct (map fst (rc_entries m)) \<and> len (rc_entries m) \<le> rc_maxSize m"

definition checker_ok :: "RBLChecker \<Rightarrow> bool" where
  "checker_ok c \<longleftrightarrow> (rbl_enabled c \<longrightarrow> checker_cache c \<noteq> None) \<and> (\<forall>m. checker_cache c = Some m \<longrightarrow> cache_ok m)
     \<and> listedNet c = \<lparr>nIP = [127, 0, 0, 0], nMask = [255, 255, 255, 0]\<rparr>"

definition rbl_start :: "RBLChecker \<Rightarrow> bool" where
  "rbl_start c \<longleftrightarrow> (\<exists>cfg. NewRBLChecker cfg = Inr c)"

text \<open>A checker with one list and room for one verdict, and a resolver that lists everyone.\<close>

definition sample_rbl :: RBLChecker where
  "sample_rbl = \<lparr>rbl_enabled = True, checker_zones = [''rbl.example''], rbl_timeout = 5 * ns_second, rbl_reject = True, skipNets = [],
     listedNet = \<lparr>nIP = [127, 0, 0, 0], nMask = [255, 255, 255, 0]\<rparr>, checker_cache = Some (newRBLCache 1 (3600 * ns_second))\<rparr>"

definition sample_dns :: rblResolver where
  "sample_dns = \<lparr>LookupIPAddr = (\<lambda>h. Inr [[127, 0, 0, 2]]), LookupTXT = (\<lambda>h. Some [''spam source''])\<rparr>"

definition rbl_step :: "RBLChecker \<Rightarrow> RBLChecker \<Rightarrow> bool" where
  "rbl_step c c' \<longleftrightarrow> (\<exists>dns order now ip. snd (Check dns order now (Some c) ip) = Some c')"

lemma cache_get_ok: "cache_ok m \<Longrightarrow> cache_get now key (Some m) = (d, c) \<Longrightarrow> \<exists>m'. c = Some m' \<and> cache_ok m'"
proof -
  assume ok: "cache_ok m" and g: "cache_get now key (Some m) = (d, c)"
  have "length (AList.delete key (rc_entries m)) \<le> length (rc_entries m)" by (simp add: AList.delete_eq)
  then have "cache_ok (m\<lparr>rc_entries := AList.delete key (rc_entries m)\<rparr>)"
    using ok by (auto simp: cache_ok_def distinct_delete)
  with g ok show ?thesis by (auto simp: cache_get_def split: option.splits if_splits)
qed

lemma evictLocked_room:
  assumes "cache_ok m"
  shows "rc_maxSize (evictLocked now m) = rc_maxSize m \<and> distinct (map fst (rc_entries (evictLocked now m))) \<and>
    len (rc_entries (evictLocked now m)) < rc_maxSize m"
proof -
  let ?live = "filter (\<lambda>(k, e). \<not> now > ce_expires e) (rc_entries m)"
  have "distinct (map fst ?live)" using assms by (auto simp: cache_ok_def intro: distinct_map_filter)
  then have "distinct (map fst (drop n ?live))" for n by (simp add: drop_map [symmetric])
  moreover have "len (drop (nat (len ?live - rc_maxSize m + 1)) ?live) < rc_maxSize m"
    using assms by (auto simp: cache_ok_def)
  ultimately show ?thesis by (simp add: evictLocked_def Let_def)
qed

lemma length_AList_update: "length (AList.update k v al) \<le> Suc (length al)"
  by (induction al) auto

lemma cache_put_ok:
  assumes "cache_ok m"
  shows "\<exists>m'. cache_put now key d (Some m) = Some m' \<and> cache_ok m'"
proof -
  define m1 where "m1 = (if len (rc_entries m) \<ge> rc_maxSize m then evictLocked now m else m)"
  have m1: "0 < rc_maxSize m1" "distinct (map fst (rc_entries m1))" "len (rc_entries m1) < rc_maxSize m1"
    using assms evictLocked_room [OF assms, of now] by (auto simp: m1_def cache_ok_def)
  have "len (AList.update key v (rc_entries m1)) \<le> rc_maxSize m1" for v
    using length_AList_update [of key v "rc_entries m1"] m1(3) by linarith
  with m1 show ?thesis
    by (simp add: cache_put_def m1_def [symmetric] cache_ok_def distinct_update)
qed

lemma listed_range: "ParseCIDR ''127.0.0.0/24'' = Some \<lparr>nIP = [127, 0, 0, 0], nMask = [255, 255, 255, 0]\<rparr>"
  by code_simp

lemma NewRBLChecker_cases:
  assumes "NewRBLChecker cfg = Inr c"
  shows "listedNet c = \<lparr>nIP = [127, 0, 0, 0], nMask = [255, 255, 255, 0]\<rparr> \<and>
    (\<not> rbl_enabled c \<and> checker_cache c = None \<or> (\<exists>n t. 0 < n \<and> checker_cache c = Some (newRBLCache n t)))"
proof (cases "\<exists>cf. cfg = Some cf \<and> rbl_cfg_Enabled cf")
  case False
  with assms show ?thesis unfolding NewRBLChecker_def listed_range by (cases cfg) (auto simp: Let_def)
next
  case True
  then obtain cf where cf: "cfg = Some cf" "rbl_cfg_Enabled cf" by blast
  then obtain zs nets where zs: "rbl_zones (rbl_cfg_Zones cf) = Inr zs" "zs \<noteq> []"
    "parseAccessNetworks (rbl_cfg_SkipIPs cf) = Inr nets"
    using assms unfolding NewRBLChecker_def listed_range
    by (cases "rbl_zones (rbl_cfg_Zones cf)"; cases "parseAccessNetworks (rbl_cfg_SkipIPs cf)") (simp_all add: Let_def split: if_splits)
  have "0 < (if rbl_cfg_CacheSize cf \<le> 0 then 10000 else rbl_cfg_CacheSize cf)" by simp
  with assms cf zs show ?thesis unfolding NewRBLChecker_def listed_range by (simp only: option.case Let_def sum.case if_False if_True simp_thms) force
qed

lemma rbl_start_ok: "rbl_start c \<Longrightarrow> checker_ok c"
  by (auto simp: rbl_start_def checker_ok_def cache_ok_def newRBLCache_def dest!: NewRBLChecker_cases)

lemma sample_rbl_start: "rbl_start sample_rbl"
proof -
  have "NewRBLChecker (Some \<lparr>rbl_cfg_Enabled = True, rbl_cfg_Zones = [''rbl.example.''], rbl_cfg_Reject = True,
      rbl_cfg_Timeout = 0, rbl_cfg_CacheTTL = 0, rbl_cfg_CacheSize = 1, rbl_cfg_SkipIPs = []\<rparr>) = Inr sample_rbl"
    by code_simp
  then show ?thesis by (auto simp: rbl_start_def)
qed

lemma sample_rbl_reach: "reach rbl_start rbl_step sample_rbl"
  by (rule reach_start) (rule sample_rbl_start)

lemma rbl_step_ok: "checker_ok c \<Longrightarrow> rbl_step c c' \<Longrightarrow> checker_ok c'"
proof -
  assume ok: "checker_ok c" and "rbl_step c c'"
  then obtain dns order now ip where c': "snd (Check dns order now (Some c) ip) = Some c'" by (auto simp: rbl_step_def)
  obtain d ch where g: "cache_get now (IP_String ip) (checker_cache c) = (d, ch)" by (cases "cache_get now (IP_String ip) (checker_cache c)")
  show ?thesis
  proof (cases "checker_cache c")
    case None
    with ok have "\<not> rbl_enabled c" by (simp add: checker_ok_def)
    with c' ok show ?thesis by (simp add: Check_def)
  next
    case (Some m)
    with ok g have "\<exists>m'. ch = Some m' \<and> cache_ok m'" using cache_get_ok by (auto simp: checker_ok_def)
    then obtain m' where m': "ch = Some m'" "cache_ok m'" by blast
    note put = cache_put_ok [OF m'(2)]
    have "checker_ok (c\<lparr>checker_cache := ch\<rparr>)" using m' ok by (simp add: checker_ok_def)
    moreover have "checker_ok (c\<lparr>checker_cache := cache_put t k x ch\<rparr>)" for t k x
      using put [of t k x] m'(1) ok by (auto simp: checker_ok_def)
    ultimately show ?thesis
      using c' ok g by (auto simp: Check_def Let_def split: if_splits option.splits list.splits)
  qed
qed

interpretation block_lists: invariant_system rbl_start rbl_step checker_ok
  by unfold_locales (rule rbl_start_ok, assumption, rule rbl_step_ok)

text \<open>
  C28. However many addresses are looked up, with whatever answers, the cache of verdicts never
  holds more entries than its configured size, and one entry per address.
\<close>

theorem rbl_cache_bounded:
  assumes "reach rbl_start rbl_step c" and "checker_cache c = Some m"
  shows "len (rc_entries m) \<le> rc_maxSize m \<and> distinct (map fst (rc_entries m))"
  using block_lists.inv_reach [OF assms(1)] assms(2) by (simp add: checker_ok_def cache_ok_def)

theorem rbl_cache_bounded_witness:
  "\<exists>m. checker_cache (the (snd (Check sample_dns [''rbl.example''] 7 (Some sample_rbl) [192, 0, 2, 1]))) = Some m \<and>
     len (rc_entries m) \<le> rc_maxSize m"
proof -
  let ?c = "the (snd (Check sample_dns [''rbl.example''] 7 (Some sample_rbl) [192, 0, 2, 1]))"
  have "snd (Check sample_dns [''rbl.example''] 7 (Some sample_rbl) [192, 0, 2, 1]) \<noteq> None"
    by (simp add: Check_def Let_def split: option.splits prod.splits)
  then have "rbl_step sample_rbl ?c" by (auto simp: rbl_step_def)
  then have "reach rbl_start rbl_step ?c" using sample_rbl_reach by (rule reach_step [rotated])
  moreover have "checker_cache ?c \<noteq> None" by code_simp
  ultimately show ?thesis using rbl_cache_bounded by blast
qed

section \<open>Only a listing lists\<close>

lemma listed_range_iff:
  "length v = 4 \<Longrightarrow> NetContains \<lparr>nIP = [127, 0, 0, 0], nMask = [255, 255, 255, 0]\<rparr> v \<longleftrightarrow> take 3 v = [127, 0, 0]"
proof -
  have "(255 :: byte) = - 1" by simp
  then have all: "x AND (255 :: byte) = x" for x by (simp only: and.right_neutral)
  assume "length v = 4"
  then obtain a b c d where "v = [a, b, c, d]" by (auto simp: length_Suc_conv numeral_eq_Suc)
  then show ?thesis by (auto simp: NetContains_def networkNumberAndMask_def To4_def and_bytes_def all)
qed

lemma first_listing_SomeD: "first_listing net as = Some v \<Longrightarrow> \<exists>a \<in> set as. To4 a = Some v \<and> NetContains net v"
  by (induction as) (auto split: option.splits if_splits)

lemma To4_length: "To4 a = Some v \<Longrightarrow> length v = 4"
  by (auto simp: To4_def split: if_splits)

lemma checkZone_listed:
  assumes "Listed (checkZone dns \<lparr>nIP = [127, 0, 0, 0], nMask = [255, 255, 255, 0]\<rparr> ip zone)"
  shows "\<exists>host addrs a v. rblQueryName ip zone = Some host \<and> LookupIPAddr dns host = Inr addrs \<and> a \<in> set addrs \<and>
    To4 a = Some v \<and> take 3 v = [127, 0, 0] \<and>
    Zone (checkZone dns \<lparr>nIP = [127, 0, 0, 0], nMask = [255, 255, 255, 0]\<rparr> ip zone) = zone"
proof -
  let ?n = "\<lparr>nIP = [127, 0, 0, 0], nMask = [255, 255, 255, 0]\<rparr> :: IPNet"
  from assms obtain host addrs v where z: "rblQueryName ip zone = Some host" "LookupIPAddr dns host = Inr addrs"
    "first_listing ?n addrs = Some v"
    by (auto simp: checkZone_def unlisted_def split: option.splits sum.splits)
  from first_listing_SomeD [OF z(3)] obtain a where "a \<in> set addrs" "To4 a = Some v" "NetContains ?n v" by blast
  with z show ?thesis by (auto simp: checkZone_def listed_range_iff To4_length)
qed



text \<open>
  C29. The lists are asked at the same time; whichever answers first, the verdict whether the
  address is listed is the same.
\<close>

theorem rbl_verdict_ignores_order:
  "set order = set order' \<Longrightarrow>
     Listed (fst (Check dns order now r ip)) = Listed (fst (Check dns order' now r ip))"
proof -
  assume eq: "set order = set order'"
  have "Listed (case filter Listed (map f zs) of [] \<Rightarrow> unlisted | d # _ \<Rightarrow> d) \<longleftrightarrow> (\<exists>z \<in> set zs. Listed (f z))"
    for f :: "string \<Rightarrow> RBLDecision" and zs by (induction zs) (auto simp: unlisted_def)
  with eq show ?thesis by (auto simp: Check_def Let_def split: option.splits prod.splits)
qed

theorem rbl_verdict_ignores_order_witness:
  "Listed (fst (Check sample_dns [''a.example'', ''b.example''] 7 (Some sample_rbl) [192, 0, 2, 1])) =
   Listed (fst (Check sample_dns [''b.example'', ''a.example''] 7 (Some sample_rbl) [192, 0, 2, 1]))"
  by (rule rbl_verdict_ignores_order) auto

section \<open>The reason is safe in a reply\<close>

lemma map_runes_printable: "\<forall>c \<in> set (map_runes reason_rune s). 32 \<le> byte_val c"
proof (induction "length s" arbitrary: s rule: less_induct)
  case less
  show ?case
  proof (cases "s = []")
    case False
    obtain r w where d: "DecodeRune s = (r, w)" by (cases "DecodeRune s")
    then have "length (drop w s) < length s" using DecodeRune_pos [OF d] False by auto
    then have "\<forall>c \<in> set (map_runes reason_rune (drop w s)). 32 \<le> byte_val c" using less by blast
    moreover have "\<forall>c \<in> set (take w s). 32 \<le> byte_val c" if "\<not> r < 32" "(r, w) \<noteq> (RuneError, 1)"
      using DecodeRune_wide [OF d False] that by simp
    ultimately show ?thesis
      by (subst map_runes.simps) (auto simp: d False reason_rune_def simp del: DecodeRune.simps)
  qed (simp add: map_runes.simps)
qed

text \<open>
  C30. The text a list gives as its reason, whatever it is, goes into the reply without line
  breaks or other control characters and cut to 203 bytes: a list cannot write reply lines.
\<close>

theorem rbl_reason_is_one_line:
  "len (sanitizeRBLReason txt) \<le> 203 \<and> CR \<notin> set (sanitizeRBLReason txt) \<and> LF \<notin> set (sanitizeRBLReason txt)"
proof -
  let ?t = "TrimSpace (map_runes reason_rune txt)"
  have "set ?t \<subseteq> set (map_runes reason_rune txt)" by (rule set_TrimSpace)
  then have "\<forall>c \<in> set ?t. 32 \<le> byte_val c" using map_runes_printable by blast
  then have "CR \<notin> set ?t" "LF \<notin> set ?t" by auto
  moreover have "CR \<notin> set (take n ?t)" "LF \<notin> set (take n ?t)" for n
    using calculation by (auto dest: in_set_takeD)
  ultimately show ?thesis by (simp add: sanitizeRBLReason_def Let_def)
qed

end
