(* ===== verification/Auth_Machine.thy ===== *)
theory Auth_Machine
  imports Go_Prelude
begin

text \<open>
  The session state machine of the authentication package,
  \<open>internal/auth/session_state_machine.go\<close>. Every method is a function of the machine and of
  the instant \<open>now\<close> at which it runs; the random session identifier is an argument, \<open>None\<close>
  where the random source fails.
\<close>

section \<open>Data\<close>

datatype AuthState =
    SessionStateInitial | SessionStateAuthenticating | SessionStateAuthenticated
  | SessionStateFailed | SessionStateLocked | SessionStateExpired | SessionStateInvalidated

fun AuthState_String :: "AuthState \<Rightarrow> string" where
  "AuthState_String SessionStateInitial = ''initial''"
| "AuthState_String SessionStateAuthenticating = ''authenticating''"
| "AuthState_String SessionStateAuthenticated = ''authenticated''"
| "AuthState_String SessionStateFailed = ''failed''"
| "AuthState_String SessionStateLocked = ''locked''"
| "AuthState_String SessionStateExpired = ''expired''"
| "AuthState_String SessionStateInvalidated = ''invalidated''"

fun IsValidTransition :: "AuthState \<Rightarrow> AuthState \<Rightarrow> bool" where
  "IsValidTransition SessionStateInitial n =
     (n = SessionStateAuthenticating \<or> n = SessionStateExpired \<or> n = SessionStateInvalidated)"
| "IsValidTransition SessionStateAuthenticating n =
     (n = SessionStateAuthenticated \<or> n = SessionStateFailed \<or> n = SessionStateLocked
      \<or> n = SessionStateExpired \<or> n = SessionStateInvalidated)"
| "IsValidTransition SessionStateAuthenticated n =
     (n = SessionStateExpired \<or> n = SessionStateInvalidated)"
| "IsValidTransition SessionStateFailed n =
     (n = SessionStateAuthenticating \<or> n = SessionStateLocked
      \<or> n = SessionStateExpired \<or> n = SessionStateInvalidated)"
| "IsValidTransition SessionStateLocked n =
     (n = SessionStateExpired \<or> n = SessionStateInvalidated)"
| "IsValidTransition SessionStateExpired n = False"
| "IsValidTransition SessionStateInvalidated n = False"

record SessionStateTransition =
  FromState :: AuthState
  ToState :: AuthState
  Timestamp :: int
  TransitionReason :: string
  TransitionIP :: string
  TransitionAgent :: string

datatype Permission = PermissionSMTPAuth | PermissionSMTPSend | PermissionOther string

record RBACContext =
  rbac_Username :: string
  Roles :: "string list"
  Permissions :: "Permission list"
  LastCheck :: int

record SessionStateMachine =
  currentState :: AuthState
  previousState :: AuthState
  stateHistory :: "SessionStateTransition list"
  createdAt :: int
  lastTransition :: int
  expiresAt :: int
  maxAge :: int
  failureCount :: int
  maxFailures :: int
  lockoutDuration :: int
  lockoutUntil :: "int option"
  ssm_sessionID :: string
  ssm_username :: string
  ipAddress :: string
  userAgent :: string
  rbacContext :: "RBACContext option"

record SessionStateMachineConfig =
  MaxAge :: int
  MaxFailures :: int
  LockoutDuration :: int
  MaxStateHistory :: int

text \<open>Durations are in seconds.\<close>

definition DefaultSessionStateMachineConfig :: SessionStateMachineConfig where
  "DefaultSessionStateMachineConfig =
     \<lparr>MaxAge = 1800, MaxFailures = 5, LockoutDuration = 1800, MaxStateHistory = 10\<rparr>"

section \<open>Operations\<close>

definition isExpired :: "int \<Rightarrow> SessionStateMachine \<Rightarrow> bool" where
  "isExpired now m \<longleftrightarrow> now > expiresAt m"

definition isLockedOut :: "int \<Rightarrow> SessionStateMachine \<Rightarrow> bool" where
  "isLockedOut now m = (case lockoutUntil m of None \<Rightarrow> False | Some u \<Rightarrow> now < u)"

definition recordTransition :: "int \<Rightarrow> AuthState \<Rightarrow> string \<Rightarrow> SessionStateMachine \<Rightarrow> SessionStateMachine" where
  "recordTransition now newState reason m =
     (let t = \<lparr>FromState = currentState m, ToState = newState, Timestamp = now,
               TransitionReason = reason, TransitionIP = ipAddress m, TransitionAgent = userAgent m\<rparr>;
          h = stateHistory m @ [t]
      in m\<lparr>stateHistory := (if len h > maxFailures m * 2 then tl h else h)\<rparr>)"

definition NewSessionStateMachine ::
  "int \<Rightarrow> SessionStateMachineConfig option \<Rightarrow> string option \<Rightarrow> string \<Rightarrow> string \<Rightarrow> SessionStateMachine option" where
  "NewSessionStateMachine now config gen ip agent =
     (let c = (case config of None \<Rightarrow> DefaultSessionStateMachineConfig | Some c \<Rightarrow> c)
      in case gen of None \<Rightarrow> None
         | Some sid \<Rightarrow> Some (recordTransition now SessionStateInitial ''session_created''
             \<lparr>currentState = SessionStateInitial, previousState = SessionStateInitial, stateHistory = [],
              createdAt = now, lastTransition = now, expiresAt = now + MaxAge c, maxAge = MaxAge c,
              failureCount = 0, maxFailures = MaxFailures c, lockoutDuration = LockoutDuration c,
              lockoutUntil = None, ssm_sessionID = sid, ssm_username = [], ipAddress = ip,
              userAgent = agent, rbacContext = None\<rparr>))"

definition validateStateTransition :: "AuthState \<Rightarrow> SessionStateMachine \<Rightarrow> error" where
  "validateStateTransition newState m =
     (if newState = SessionStateAuthenticated \<and> ssm_username m = []
      then Some ''username required for authenticated state''
      else if newState = SessionStateLocked \<and> failureCount m < maxFailures m
      then Some ''insufficient failures for lockout''
      else None)"

definition handleStateTransition :: "int \<Rightarrow> AuthState \<Rightarrow> SessionStateMachine \<Rightarrow> SessionStateMachine" where
  "handleStateTransition now newState m =
     (if newState = SessionStateFailed then
        (let m1 = m\<lparr>failureCount := failureCount m + 1\<rparr>
         in if failureCount m1 \<ge> maxFailures m1
            then m1\<lparr>lockoutUntil := Some (now + lockoutDuration m1)\<rparr> else m1)
      else if newState = SessionStateAuthenticated then m\<lparr>failureCount := 0, lockoutUntil := None\<rparr>
      else m)"

definition TransitionTo ::
  "int \<Rightarrow> AuthState \<Rightarrow> string \<Rightarrow> SessionStateMachine \<Rightarrow> SessionStateMachine result" where
  "TransitionTo now newState reason m =
     (if isExpired now m then Inl ''session expired''
      else if currentState m = SessionStateExpired \<or> currentState m = SessionStateInvalidated
      then Inl (''session in terminal state: '' @ AuthState_String (currentState m))
      else if \<not> IsValidTransition (currentState m) newState
      then Inl (''invalid state transition from '' @ AuthState_String (currentState m) @ '' to ''
                @ AuthState_String newState)
      else if isLockedOut now m \<and> newState \<noteq> SessionStateExpired \<and> newState \<noteq> SessionStateInvalidated
      then Inl ''session locked''
      else case validateStateTransition newState m of
        Some e \<Rightarrow> Inl (''state transition validation failed: '' @ e)
      | None \<Rightarrow>
          (let m1 = recordTransition now newState reason m
           in Inr (handleStateTransition now newState
                (m1\<lparr>previousState := currentState m1, currentState := newState, lastTransition := now\<rparr>))))"

definition IsAuthenticated :: "int \<Rightarrow> SessionStateMachine \<Rightarrow> bool" where
  "IsAuthenticated now m \<longleftrightarrow>
     currentState m = SessionStateAuthenticated \<and> \<not> isExpired now m \<and> \<not> isLockedOut now m"

definition SetUsername :: "string \<Rightarrow> SessionStateMachine \<Rightarrow> SessionStateMachine result" where
  "SetUsername user m =
     (if currentState m \<noteq> SessionStateAuthenticating \<and> currentState m \<noteq> SessionStateAuthenticated
      then Inl (''cannot set username in state: '' @ AuthState_String (currentState m))
      else Inr (m\<lparr>ssm_username := user\<rparr>))"

definition SetRBACContext :: "RBACContext \<Rightarrow> SessionStateMachine \<Rightarrow> SessionStateMachine result" where
  "SetRBACContext ctx m =
     (if currentState m \<noteq> SessionStateAuthenticated
      then Inl (''cannot set RBAC context in state: '' @ AuthState_String (currentState m))
      else Inr (m\<lparr>rbacContext := Some ctx\<rparr>))"

definition HasPermission :: "Permission \<Rightarrow> SessionStateMachine \<Rightarrow> bool" where
  "HasPermission p m = (case rbacContext m of None \<Rightarrow> False | Some c \<Rightarrow> p \<in> set (Permissions c))"

definition Invalidate :: "int \<Rightarrow> string \<Rightarrow> SessionStateMachine \<Rightarrow> SessionStateMachine result" where
  "Invalidate now reason m = TransitionTo now SessionStateInvalidated reason m"

definition RegenerateSessionID :: "string option \<Rightarrow> SessionStateMachine \<Rightarrow> SessionStateMachine result" where
  "RegenerateSessionID gen m = (case gen of
       None \<Rightarrow> Inl ''failed to generate new session ID''
     | Some sid \<Rightarrow> Inr (m\<lparr>ssm_sessionID := sid\<rparr>))"

definition ExtendExpiration :: "int \<Rightarrow> int \<Rightarrow> SessionStateMachine \<Rightarrow> SessionStateMachine result" where
  "ExtendExpiration now duration m =
     (if currentState m = SessionStateExpired \<or> currentState m = SessionStateInvalidated
      then Inl ''cannot extend expired or invalidated session''
      else Inr (m\<lparr>expiresAt := now + duration\<rparr>))"

text \<open>A call whose error is only logged leaves the machine as it was when it fails.\<close>

definition on_ok :: "'m \<Rightarrow> 'm result \<Rightarrow> 'm" where
  "on_ok m r = (case r of Inl _ \<Rightarrow> m | Inr m' \<Rightarrow> m')"

lemma on_ok_simps [simp]: "on_ok m (Inl e) = m" "on_ok m (Inr m') = m'"
  by (simp_all add: on_ok_def)

section \<open>Steps and the invariant\<close>

text \<open>
  One call that the server makes on the machine, at an instant \<open>now\<close> after its creation.
  (No caller of the server extends the life of a machine.)
\<close>

inductive machine_step :: "SessionStateMachine \<Rightarrow> SessionStateMachine \<Rightarrow> bool" where
  transition: "createdAt m < now \<Longrightarrow> TransitionTo now st reason m = Inr m' \<Longrightarrow> machine_step m m'"
| set_user: "SetUsername user m = Inr m' \<Longrightarrow> user \<noteq> [] \<Longrightarrow> machine_step m m'"
| set_rbac: "SetRBACContext ctx m = Inr m' \<Longrightarrow> machine_step m m'"
| new_id: "RegenerateSessionID gen m = Inr m' \<Longrightarrow> machine_step m m'"

definition machine_start :: "SessionStateMachine \<Rightarrow> bool" where
  "machine_start m \<longleftrightarrow> (\<exists>now gen ip agent. NewSessionStateMachine now None gen ip agent = Some m)"

text \<open>
  What every machine the server builds keeps: the history holds at most \<open>2 * maxFailures\<close>
  entries and ends in the current state; an authenticated machine has a user name, no
  counted failure and no lock-out; the failure limit is only reached together with a
  lock-out; and a lock-out outlives the machine.
\<close>

definition machine_ok :: "SessionStateMachine \<Rightarrow> bool" where
  "machine_ok m \<longleftrightarrow>
     0 < maxFailures m \<and> 0 \<le> failureCount m \<and> failureCount m \<le> maxFailures m \<and>
     stateHistory m \<noteq> [] \<and> len (stateHistory m) \<le> 2 * maxFailures m \<and>
     ToState (last (stateHistory m)) = currentState m \<and>
     (currentState m = SessionStateAuthenticated \<longrightarrow>
        ssm_username m \<noteq> [] \<and> failureCount m = 0 \<and> lockoutUntil m = None) \<and>
     (lockoutUntil m \<noteq> None \<longleftrightarrow> failureCount m = maxFailures m) \<and>
     expiresAt m = createdAt m + maxAge m \<and> maxAge m \<le> lockoutDuration m \<and>
     (\<forall>u. lockoutUntil m = Some u \<longrightarrow> expiresAt m < u) \<and>
     currentState m \<noteq> SessionStateLocked"

lemma machine_ok_start: "machine_start m \<Longrightarrow> machine_ok m"
proof -
  assume "machine_start m"
  then obtain now gen ip agent where
    m: "NewSessionStateMachine now None gen ip agent = Some m"
    by (auto simp only: machine_start_def)
  then obtain sid where "gen = Some sid"
    by (cases gen) (simp_all add: NewSessionStateMachine_def)
  with m show ?thesis
    by (simp only: NewSessionStateMachine_def DefaultSessionStateMachineConfig_def Let_def option.case
        option.inject) (auto simp: recordTransition_def machine_ok_def)
qed

lemma TransitionTo_dead:
  assumes "machine_ok m" and "lockoutUntil m \<noteq> None"
    and "st \<noteq> SessionStateExpired" and "st \<noteq> SessionStateInvalidated"
  shows "\<exists>e. TransitionTo now st reason m = Inl e"
  using assms by (auto simp: machine_ok_def TransitionTo_def isExpired_def isLockedOut_def)

lemma TransitionTo_InrD:
  assumes "TransitionTo now st reason m = Inr m'"
  shows "\<not> isExpired now m" "IsValidTransition (currentState m) st" "validateStateTransition st m = None"
    "m' = handleStateTransition now st ((recordTransition now st reason m)
            \<lparr>previousState := currentState m, currentState := st, lastTransition := now\<rparr>)"
proof -
  have c: "currentState (recordTransition now st reason m) = currentState m"
    by (simp add: recordTransition_def Let_def)
  show "\<not> isExpired now m" "IsValidTransition (currentState m) st" "validateStateTransition st m = None"
    "m' = handleStateTransition now st ((recordTransition now st reason m)
            \<lparr>previousState := currentState m, currentState := st, lastTransition := now\<rparr>)"
    using assms unfolding TransitionTo_def Let_def c by (simp_all split: if_splits option.splits)
qed

lemma recordTransition_history:
  assumes "0 < maxFailures m" and "len (stateHistory m) \<le> 2 * maxFailures m"
  shows "stateHistory (recordTransition now st reason m) \<noteq> []"
    "ToState (last (stateHistory (recordTransition now st reason m))) = st"
    "len (stateHistory (recordTransition now st reason m)) \<le> 2 * maxFailures m"
  using assms by (cases "stateHistory m"; auto simp: recordTransition_def Let_def)+

lemma recordTransition_frame [simp]:
  "maxFailures (recordTransition now st reason m) = maxFailures m"
  "failureCount (recordTransition now st reason m) = failureCount m"
  "lockoutUntil (recordTransition now st reason m) = lockoutUntil m"
  "lockoutDuration (recordTransition now st reason m) = lockoutDuration m"
  "expiresAt (recordTransition now st reason m) = expiresAt m"
  "createdAt (recordTransition now st reason m) = createdAt m"
  "maxAge (recordTransition now st reason m) = maxAge m"
  "ssm_username (recordTransition now st reason m) = ssm_username m"
  "rbacContext (recordTransition now st reason m) = rbacContext m"
  by (simp_all add: recordTransition_def Let_def)

lemma handle_other:
  "st \<noteq> SessionStateFailed \<Longrightarrow> st \<noteq> SessionStateAuthenticated \<Longrightarrow> handleStateTransition now st m = m"
  by (simp add: handleStateTransition_def)

lemma TransitionTo_ok:
  assumes ok: "machine_ok m" and tr: "TransitionTo now st reason m = Inr m'" and t: "createdAt m < now"
  shows "machine_ok m'"
proof -
  note D = TransitionTo_InrD [OF tr]
  have free: "lockoutUntil m = None \<or> st = SessionStateExpired \<or> st = SessionStateInvalidated"
    using TransitionTo_dead [OF ok, of st now reason] tr by auto
  note H = recordTransition_history [of m now st reason]
  consider (failed) "st = SessionStateFailed" | (auth) "st = SessionStateAuthenticated"
    | (locked) "st = SessionStateLocked"
    | (other) "st \<noteq> SessionStateFailed" "st \<noteq> SessionStateAuthenticated" "st \<noteq> SessionStateLocked" by blast
  then show ?thesis
  proof cases
    case failed
    with free ok t H show ?thesis
      unfolding D(4) by (auto simp: machine_ok_def handleStateTransition_def Let_def)
  next
    case auth
    with D(3) ok H show ?thesis
      unfolding D(4)
      by (auto simp: machine_ok_def handleStateTransition_def validateStateTransition_def split: if_splits)
  next
    case locked
    with D(3) ok free show ?thesis
      by (auto simp: machine_ok_def validateStateTransition_def split: if_splits)
  next
    case other
    with ok H show ?thesis unfolding D(4) by (auto simp: machine_ok_def handle_other)
  qed
qed

lemma machine_step_ok: "machine_ok m \<Longrightarrow> machine_step m m' \<Longrightarrow> machine_ok m'"
  by (erule machine_step.cases)
    (auto intro: TransitionTo_ok, auto simp: SetUsername_def SetRBACContext_def RegenerateSessionID_def
      machine_ok_def split: if_splits option.splits)

interpretation auth_machine: invariant_system machine_start machine_step machine_ok
  by unfold_locales (rule machine_ok_start machine_step_ok; assumption)+

lemma TransitionTo_createdAt: "TransitionTo now st reason m = Inr m' \<Longrightarrow> createdAt m' = createdAt m"
  by (drule TransitionTo_InrD(4)) (simp add: handleStateTransition_def Let_def)

lemma TransitionTo_state: "TransitionTo now st reason m = Inr m' \<Longrightarrow> currentState m' = st"
  by (drule TransitionTo_InrD(4)) (simp add: handleStateTransition_def Let_def)

lemma reach_transitions:
  "reach machine_start machine_step m \<Longrightarrow> createdAt m < now \<Longrightarrow>
     reach machine_start machine_step (fold (\<lambda>st m. on_ok m (TransitionTo now st reason m)) sts m)"
proof (induction sts arbitrary: m)
  case (Cons st sts)
  have "reach machine_start machine_step (on_ok m (TransitionTo now st reason m))"
    "createdAt (on_ok m (TransitionTo now st reason m)) = createdAt m"
    using Cons.prems
    by (cases "TransitionTo now st reason m";
        auto simp: on_ok_def TransitionTo_createdAt intro: reach_step transition)+
  with Cons show ?case by simp
qed simp

lemma transitions_from_start:
  assumes "NewSessionStateMachine 0 None (Some sid) ip agent = Some m" and "0 < now"
  shows "reach machine_start machine_step (fold (\<lambda>st m. on_ok m (TransitionTo now st reason m)) sts m)"
proof (rule reach_transitions)
  show "reach machine_start machine_step m"
    using assms(1) unfolding machine_start_def by (blast intro: reach_start)
  show "createdAt m < now"
    using assms by (auto simp: NewSessionStateMachine_def recordTransition_def Let_def)
qed

section \<open>Properties\<close>

text \<open>
  C17. Every machine the server can reach keeps its invariant: the transition history never
  holds more than twice the failure limit (ten entries) and ends in the current state; an
  authenticated machine has a user name, no counted failure and no lock-out; a lock-out is
  recorded exactly when the failure limit is reached, and it ends after the machine expires;
  and the state \<open>locked\<close> is never entered.
\<close>

theorem auth_machine_invariant:
  assumes "reach machine_start machine_step m"
  shows "machine_ok m"
  using assms by (rule auth_machine.inv_reach)

theorem auth_machine_invariant_witness:
  "machine_ok (fold (\<lambda>st m. on_ok m (TransitionTo 5 st ''x'' m))
     [SessionStateAuthenticating, SessionStateFailed, SessionStateAuthenticating]
     (the (NewSessionStateMachine 0 None (Some ''id'') ''192.0.2.1:25'' ''SMTP-Client'')))"
proof -
  obtain m where m: "NewSessionStateMachine 0 None (Some ''id'') ''192.0.2.1:25'' ''SMTP-Client'' = Some m"
    by (simp add: NewSessionStateMachine_def)
  show ?thesis
    unfolding m option.sel by (rule auth_machine_invariant) (rule transitions_from_start [OF m], simp)
qed

text \<open>
  C18. The failure limit holds for the whole life of a connection: once five sign-ins have
  failed on a machine, no instant remains at which it can begin or complete another one,
  because the lock-out only ends after the machine has expired.
\<close>

theorem auth_lockout_is_final:
  assumes "reach machine_start machine_step m" and "failureCount m = maxFailures m"
    and "st = SessionStateAuthenticating \<or> st = SessionStateAuthenticated"
  shows "\<exists>e. TransitionTo now st reason m = Inl e"
  using TransitionTo_dead [of m st] auth_machine.inv_reach [OF assms(1)] assms(2,3)
  by (auto simp: machine_ok_def)

theorem auth_lockout_is_final_witness:
  "\<exists>e. TransitionTo 10000 SessionStateAuthenticating ''x''
     (fold (\<lambda>st m. on_ok m (TransitionTo 5 st ''x'' m))
       (concat (replicate 5 [SessionStateAuthenticating, SessionStateFailed]))
       (the (NewSessionStateMachine 0 None (Some ''id'') ''ip'' ''agent''))) = Inl e"
proof -
  obtain m where m: "NewSessionStateMachine 0 None (Some ''id'') ''ip'' ''agent'' = Some m"
    by (simp add: NewSessionStateMachine_def)
  have "failureCount (fold (\<lambda>st m. on_ok m (TransitionTo 5 st ''x'' m))
       (concat (replicate 5 [SessionStateAuthenticating, SessionStateFailed]))
       (the (NewSessionStateMachine 0 None (Some ''id'') ''ip'' ''agent''))) =
     maxFailures (fold (\<lambda>st m. on_ok m (TransitionTo 5 st ''x'' m))
       (concat (replicate 5 [SessionStateAuthenticating, SessionStateFailed]))
       (the (NewSessionStateMachine 0 None (Some ''id'') ''ip'' ''agent'')))"
    by code_simp
  then show ?thesis
    unfolding m option.sel
    by (intro auth_lockout_is_final transitions_from_start [OF m]) simp_all
qed

text \<open>
  C19. A connection signs in at most once: whatever is called on an authenticated machine,
  it stays authenticated until it is expired or invalidated, and after that it never changes
  state again.
\<close>

theorem auth_signs_in_once:
  assumes "machine_step\<^sup>*\<^sup>* m m'"
    and "currentState m = SessionStateAuthenticated \<or> currentState m = SessionStateExpired
         \<or> currentState m = SessionStateInvalidated"
  shows "currentState m' = currentState m \<or>
    (currentState m = SessionStateAuthenticated \<and>
      (currentState m' = SessionStateExpired \<or> currentState m' = SessionStateInvalidated))"
  using assms
proof (induction rule: rtranclp_induct)
  case (step y z)
  have same: "currentState z = currentState y \<or> IsValidTransition (currentState y) (currentState z)"
    using step.hyps(2)
  proof (cases rule: machine_step.cases)
    case (transition now st reason)
    from TransitionTo_InrD(2) [OF transition(2)] TransitionTo_state [OF transition(2)] show ?thesis
      by simp
  qed (auto simp: SetUsername_def SetRBACContext_def RegenerateSessionID_def split: if_splits option.splits)
  with step.IH [OF step.prems] step.prems show ?case by (cases "currentState y") auto
qed simp

theorem auth_signs_in_once_witness:
  "\<exists>m m'. machine_step\<^sup>*\<^sup>* m m' \<and> currentState m = SessionStateAuthenticated
     \<and> currentState m' = SessionStateInvalidated"
proof -
  define m where "m = (the (NewSessionStateMachine 0 None (Some ''id'') ''ip'' ''agent''))
     \<lparr>currentState := SessionStateAuthenticated\<rparr>"
  have c: "createdAt m < 1" "currentState m = SessionStateAuthenticated"
    by (simp_all add: m_def NewSessionStateMachine_def recordTransition_def Let_def)
  have "\<not> isl (TransitionTo 1 SessionStateInvalidated ''x'' m)"
    unfolding m_def by code_simp
  then obtain m' where tr: "TransitionTo 1 SessionStateInvalidated ''x'' m = Inr m'"
    by (cases "TransitionTo 1 SessionStateInvalidated ''x'' m") auto
  then have run: "machine_step\<^sup>*\<^sup>* m m'" using c(1) by (blast intro: transition)
  have "currentState m' \<noteq> SessionStateAuthenticated" "currentState m' \<noteq> SessionStateExpired"
    using TransitionTo_state [OF tr] by simp_all
  with auth_signs_in_once [OF run] c(2) run show ?thesis by auto
qed

end
