(* ===== verification/Session_Core.thy ===== *)
theory Session_Core
  imports Session_State Line_Reader Validation Block_Lists Auth_Machine
begin

text \<open>
  The session object of \<open>internal/smtp/session.go\<close> and the world around it.

  \<open>Session\<close> holds what one connection changes: the bytes still to be read, the reply lines
  written, the session state, the authentication state machine, the BDAT buffer and flags of
  the data handler, the failure records of the authentication security manager, and the
  messages handed to the queue. Three fields stand for the outside world: \<open>tlsWire\<close> is what
  the peer will send inside TLS (\<open>None\<close> when the handshake fails), \<open>writesLeft\<close> is the number
  of writes that still succeed (\<open>None\<close> when none ever fails), and \<open>stepNo\<close> counts the rounds of the
  command loop.

  \<open>Env\<close> holds the configuration, the peer, the clock and the answers of the services the
  session asks: block lists, abuse engine, recipient look-up, sender policies,
  authenticator, scanners, sender verification, DKIM signer and the queue. Every answer depends
  on the round in which it is asked for, so that it may change in the course of a session.
  \<open>mapOrder\<close> is the order in which Go ranges over a map of strings.
\<close>

section \<open>The session\<close>

record AuthFailureInfo =
  FailureCount :: int
  LastTime :: int

record AccountLockInfo =
  LockedUntil :: int

text \<open>
  A message as the queue gets it: envelope, subject, content (the headers of this hop and the
  body) and annotations. The last three fields say what the session knew when it handed the
  message over: the bytes received, the signed-in user and whether TLS was asked for.
\<close>

record QueuedMessage =
  q_from :: string
  q_to :: "string list"
  q_subject :: string
  q_content :: string
  q_annotations :: "(string \<times> string) list"
  q_body :: string
  q_user :: string
  q_requireTLS :: bool

record Session =
  inp :: wire
  tlsWire :: "wire option"
  out :: "string list"
  writesLeft :: "nat option"
  state :: SessionState
  sessionStateMachine :: "SessionStateMachine option"
  dataSyncLost :: bool
  bdatSpool :: "string option"
  bdatBytesReceived :: int
  bdatChunkCount :: int
  ipFailures :: "(string \<times> AuthFailureInfo) list"
  accountLockouts :: "(string \<times> AccountLockInfo) list"
  rblDecision :: RBLDecision
  authResults :: "string option"
  queued :: "QueuedMessage list"
  stepNo :: nat
  ctxDone :: bool
  panicked :: bool

section \<open>The world\<close>

text \<open>
  The answers of the scanning engines (\<open>antivirus.ScanResult\<close>, \<open>antispam.ScanResult\<close>): no engine
  registered, a failed scan, a scan that panicked, or one result per engine, which may be nil.
\<close>

datatype Disposition = DispositionClean | DispositionTag | DispositionDefer | DispositionReject

primrec disposition_rank :: "Disposition \<Rightarrow> nat" where
  "disposition_rank DispositionClean = 0"
| "disposition_rank DispositionTag = 1"
| "disposition_rank DispositionDefer = 2"
| "disposition_rank DispositionReject = 3"

instantiation Disposition :: linorder
begin

definition less_eq_Disposition :: "Disposition \<Rightarrow> Disposition \<Rightarrow> bool" where
  "less_eq_Disposition a b \<longleftrightarrow> disposition_rank a \<le> disposition_rank b"

definition less_Disposition :: "Disposition \<Rightarrow> Disposition \<Rightarrow> bool" where
  "less_Disposition a b \<longleftrightarrow> disposition_rank a < disposition_rank b"

instance
proof
  fix a b :: Disposition
  assume "a \<le> b" "b \<le> a"
  then show "a = b" by (cases a; cases b) (simp_all add: less_eq_Disposition_def)
qed (auto simp: less_eq_Disposition_def less_Disposition_def)

end

record VirusVerdict =
  av_Clean :: bool
  Infections :: "string list"
  av_Engine :: string

record SpamVerdict =
  sp_Clean :: bool
  Score :: rat
  Threshold :: rat
  Disp :: Disposition

record SpamEnvelope =
  env_Helo :: string
  env_From :: string
  env_Rcpt :: "string list"
  env_ClientIP :: string
  env_User :: string
  env_QueueID :: string

datatype 'a scan = ScanOff | ScanFailed | ScanPanicked | Scanned "'a option list"

text \<open>
  Inbound verification of SPF, DKIM and DMARC (\<open>internal/authresult\<close>) answers a disposition and
  the text of the header; the DKIM signer (\<open>internal/dkim\<close>) a signature header or an error.
\<close>

record AuthVerdict =
  av_Disposition :: string
  av_Header :: string

record DkimSigner =
  HasKeyFor :: "string \<Rightarrow> bool"
  SignatureFor :: "string \<Rightarrow> string \<Rightarrow> string result"

text \<open>The sender policies client: class-of-service limits and shared senders.\<close>

record senderPolicies =
  checkMail :: "nat \<Rightarrow> string \<Rightarrow> int \<Rightarrow> error"
  checkRcpt :: "nat \<Rightarrow> string \<Rightarrow> int \<Rightarrow> error"
  checkRecipientSize :: "nat \<Rightarrow> string \<Rightarrow> int \<Rightarrow> error"
  checkContent :: "nat \<Rightarrow> string \<Rightarrow> string \<Rightarrow> error"
  ShareAccess :: "nat \<Rightarrow> string \<Rightarrow> string \<Rightarrow> (bool + bool)"

text \<open>
  \<open>ShareAccess\<close> answers \<open>Inr allowed\<close>, or \<open>Inl notFound\<close> for an error that is or is not
  \<open>mailpolicy.ErrNotFound\<close>. \<open>authenticate\<close> answers whether the password is right, whether the
  back end failed, and whether it was an app password. \<open>formatTime\<close> and \<open>formatDuration\<close> are
  Go's renderings of times, and \<open>snapshotLines\<close> the lines of the debug dump of the state, whose
  order is that of a Go map.
\<close>

record Env =
  config :: Config
  remoteAddr :: NetAddr
  bufSize :: int
  clock :: "nat \<Rightarrow> int"
  hasTLSManager :: bool
  submission :: bool
  webmailSubmission :: bool
  accessControl :: "AccessControl option"
  srsMac :: "string \<Rightarrow> string \<Rightarrow> 256 word"
  stopRequested :: "nat \<Rightarrow> bool"
  inputBuffered :: "nat \<Rightarrow> bool"
  memoryExceeded :: "nat \<Rightarrow> bool"
  denySender :: "nat \<Rightarrow> string \<Rightarrow> bool"
  inboundMessage :: "nat \<Rightarrow> bool"
  inboundDomain :: "nat \<Rightarrow> string \<Rightarrow> bool"
  denyRecipient :: "nat \<Rightarrow> string \<Rightarrow> bool"
  outboundRecipient :: "nat \<Rightarrow> string \<Rightarrow> bool"
  blockedPeer :: "nat \<Rightarrow> bool"
  shielded :: "nat \<Rightarrow> string \<Rightarrow> bool"
  rblEnabled :: bool
  rblReject :: bool
  rblCheck :: "nat \<Rightarrow> IP \<Rightarrow> RBLDecision"
  rcptRejected :: "(nat \<Rightarrow> string \<Rightarrow> bool) option"
  policies :: "senderPolicies option"
  authenticate :: "nat \<Rightarrow> string \<Rightarrow> string \<Rightarrow> bool \<times> bool \<times> bool"
  newSessionID :: "nat \<Rightarrow> string option"
  unicode :: UnicodeTables
  mapOrder :: "nat \<Rightarrow> (string \<times> string) list \<Rightarrow> (string \<times> string) list"
  newMessageID :: "nat \<Rightarrow> string"
  avScan :: "nat \<Rightarrow> string \<Rightarrow> VirusVerdict scan"
  spamScan :: "nat \<Rightarrow> SpamEnvelope \<Rightarrow> string \<Rightarrow> SpamVerdict scan"
  authVerify :: "(nat \<Rightarrow> IP option \<Rightarrow> string \<Rightarrow> string \<Rightarrow> string \<Rightarrow> AuthVerdict) option"
  dkimSigner :: "DkimSigner option"
  enqueueFails :: "nat \<Rightarrow> bool"
  annotationFails :: "nat \<Rightarrow> string \<Rightarrow> bool"
  globalMemoryHit :: "nat \<Rightarrow> bool"
  connectionMemoryHit :: "nat \<Rightarrow> int \<Rightarrow> bool"
  spoolReadFails :: "nat \<Rightarrow> bool"
  memoryLimitHit :: "nat \<Rightarrow> int \<Rightarrow> bool"
  spoolThreshold :: int
  spillFails :: "nat \<Rightarrow> bool"
  spoolWriteFails :: "nat \<Rightarrow> int \<Rightarrow> bool"
  sessionID :: string
  formatTime :: "int \<Rightarrow> string"
  formatRFC1123Z :: "int \<Rightarrow> string"
  formatDuration :: "int \<Rightarrow> string"
  snapshotLines :: "SessionState \<Rightarrow> string list"

definition now_of :: "Env \<Rightarrow> Session \<Rightarrow> int" where
  "now_of env s = clock env (stepNo s)"

definition upd_state :: "(SessionState \<Rightarrow> SessionState) \<Rightarrow> Session \<Rightarrow> Session" where
  "upd_state f s = s\<lparr>state := f (state s)\<rparr>"

section \<open>Writing replies\<close>

definition session_write :: "Env \<Rightarrow> string \<Rightarrow> Session \<Rightarrow> error \<times> Session" where
  "session_write env msg s =
     (if writesLeft s = Some 0 then (Some ''failed to write message'', s)
      else (None, upd_state (AddBytesSent (now_of env s) (len msg + 2))
                    (s\<lparr>out := out s @ [msg], writesLeft := map_option (\<lambda>n. n - 1) (writesLeft s)\<rparr>)))"

definition session_flush :: "Session \<Rightarrow> error" where
  "session_flush s = (if writesLeft s = Some 0 then Some ''write error'' else None)"

text \<open>A reply that must reach the client before the next step: written, then flushed.\<close>

fun write_all :: "Env \<Rightarrow> string list \<Rightarrow> Session \<Rightarrow> error \<times> Session" where
  "write_all env [] s = (None, s)"
| "write_all env (m # ms) s =
     (case session_write env m s of (Some e, s') \<Rightarrow> (Some e, s') | (None, s') \<Rightarrow> write_all env ms s')"

definition writeError :: "Env \<Rightarrow> string \<Rightarrow> Session \<Rightarrow> Session" where
  "writeError env errorMsg s =
     (let s1 = snd (if 3 \<le> len errorMsg \<and> (hd errorMsg = CHR ''4'' \<or> hd errorMsg = CHR ''5'')
                    then session_write env errorMsg s
                    else session_write env ''451 4.3.0 Internal server error'' s)
      in upd_state (AddError (now_of env s) errorMsg) s1)"

definition sendGreeting :: "Env \<Rightarrow> Session \<Rightarrow> error \<times> Session" where
  "sendGreeting env s =
     (case session_write env (''220 '' @ Hostname (config env) @ '' ESMTP Elemta MTA ready'') s of
        (Some e, s') \<Rightarrow> (Some (''failed to write greeting: '' @ e), s')
      | (None, s') \<Rightarrow> (map_option (\<lambda>e. ''failed to flush greeting: '' @ e) (session_flush s'), s'))"

section \<open>The TLS upgrade\<close>

text \<open>The reader is replaced, so the plaintext still unread is lost; reads now see the TLS stream.\<close>

definition upgradeToTLS :: "wire \<Rightarrow> Session \<Rightarrow> Session" where
  "upgradeToTLS w s = s\<lparr>inp := w, tlsWire := None\<rparr>"

definition client_ip :: "Env \<Rightarrow> IP option" where
  "client_ip env = GetClientIP (Some (remoteAddr env))"

section \<open>A world for concrete runs\<close>

text \<open>
  A server with the default settings in which every service says yes, and a session on it
  that reads the given input: the concrete input of the worked examples.
\<close>

definition plain_config :: Config where
  "plain_config =
     \<lparr>Hostname = ''mx.example.org'', MaxSize = 10000, LocalDomains = [''example.org''], AllowedRelays = [],
      Auth = Some \<lparr>auth_Enabled = True, auth_Required = False, AllowPlaintextAuth = False,
                   AllowAnySender = False, SenderAliases = []\<rparr>,
      DevMode = False, StrictLineEndings = None, MessageChecks = None, TrustedNetworks = None,
      trustedNets = None, SRS = None, Antispam = None\<rparr>"

definition plain_env :: Env where
  "plain_env =
     \<lparr>config = plain_config, remoteAddr = TCPAddr [192, 0, 2, 7] [] 4321, bufSize = 4096,
      clock = int, hasTLSManager = True, submission = False, webmailSubmission = False,
      accessControl = None, srsMac = (\<lambda>_ _. 0), stopRequested = (\<lambda>_. False),
      inputBuffered = (\<lambda>_. False), memoryExceeded = (\<lambda>_. False), denySender = (\<lambda>_ _. False),
      inboundMessage = (\<lambda>_. True), inboundDomain = (\<lambda>_ _. True), denyRecipient = (\<lambda>_ _. False),
      outboundRecipient = (\<lambda>_ _. True), blockedPeer = (\<lambda>_. False), shielded = (\<lambda>_ _. False),
      rblEnabled = False, rblReject = False, rblCheck = (\<lambda>_ _. unlisted), rcptRejected = None, policies = None,
      authenticate = (\<lambda>_ u p. (u = ''alice@example.org'' \<and> p = ''secret'', False, False)),
      newSessionID = (\<lambda>_. Some ''id''),
      unicode = \<lparr>u_nfc = (\<lambda>s. s), u_letter = (\<lambda>_. False), u_digit = (\<lambda>_. False), u_format = (\<lambda>_. False),
                 u_parseAddress = Some, u_parseAddressList = (\<lambda>s. Inr [s])\<rparr>,
      mapOrder = (\<lambda>_ xs. xs), newMessageID = (\<lambda>_. ''m-1''), avScan = (\<lambda>_ _. ScanOff), spamScan = (\<lambda>_ _ _. ScanOff),
      authVerify = None, dkimSigner = None, enqueueFails = (\<lambda>_. False), annotationFails = (\<lambda>_ _. False),
      globalMemoryHit = (\<lambda>_. False), connectionMemoryHit = (\<lambda>_ _. False), spoolReadFails = (\<lambda>_. False),
      memoryLimitHit = (\<lambda>_ _. False), spoolThreshold = 1000000, spillFails = (\<lambda>_. False),
      spoolWriteFails = (\<lambda>_ _. False), sessionID = ''s-1'',
      formatTime = show_int, formatRFC1123Z = show_int, formatDuration = show_int, snapshotLines = (\<lambda>_. [])\<rparr>"

definition NewSession :: "Env \<Rightarrow> wire \<Rightarrow> wire option \<Rightarrow> Session" where
  "NewSession env w tls =
     \<lparr>inp = w, tlsWire = tls, out = [], writesLeft = None, state = NewSessionState (clock env 0),
      sessionStateMachine = NewSessionStateMachine (clock env 0) None (newSessionID env 0)
        (NetAddr_String (remoteAddr env)) ''SMTP-Client'',
      dataSyncLost = False, bdatSpool = None, bdatBytesReceived = 0, bdatChunkCount = 0,
      ipFailures = [], accountLockouts = [], rblDecision = unlisted, authResults = None, queued = [], stepNo = 0, ctxDone = False, panicked = False\<rparr>"

lemma upd_state_simps [simp]:
  "state (upd_state f s) = f (state s)" "inp (upd_state f s) = inp s"
  "tlsWire (upd_state f s) = tlsWire s" "out (upd_state f s) = out s"
  "writesLeft (upd_state f s) = writesLeft s"
  "sessionStateMachine (upd_state f s) = sessionStateMachine s"
  "dataSyncLost (upd_state f s) = dataSyncLost s" "bdatSpool (upd_state f s) = bdatSpool s"
  "bdatBytesReceived (upd_state f s) = bdatBytesReceived s"
  "bdatChunkCount (upd_state f s) = bdatChunkCount s" "rblDecision (upd_state f s) = rblDecision s"
  "authResults (upd_state f s) = authResults s" "queued (upd_state f s) = queued s"
  "ipFailures (upd_state f s) = ipFailures s" "accountLockouts (upd_state f s) = accountLockouts s"
  "stepNo (upd_state f s) = stepNo s" "ctxDone (upd_state f s) = ctxDone s"
  "panicked (upd_state f s) = panicked s"
  by (simp_all add: upd_state_def)

section \<open>What a reply leaves alone\<close>

text \<open>
  \<open>core s\<close> is the session without its counters, its time stamps, its error list and what has
  been written: the part that the command rules look at, first the transaction (\<open>trans_core\<close>),
  then the authentication (\<open>auth_core\<close>). \<open>wire_size\<close> is what may still be read.
\<close>

definition trans_core :: "Session \<Rightarrow> _" where
  "trans_core s = ((phase (state s), greeted (state s), tlsActive (state s), dataTransferMode (state s)),
     (mailFrom (state s), rcptTo (state s), requireTLS (state s)),
     (queued s, stepNo s, dataSyncLost s, bdatSpool s, bdatBytesReceived s))"

definition auth_core :: "Session \<Rightarrow> _" where
  "auth_core s = ((authenticated (state s), username (state s), authAttempts (state s)),
     sessionStateMachine s, ipFailures s, accountLockouts s)"

definition core :: "Session \<Rightarrow> _" where
  "core s = (trans_core s, auth_core s)"

lemmas core_defs = core_def trans_core_def auth_core_def

definition wire_size :: "Session \<Rightarrow> nat" where
  "wire_size s = length (inp s) + (case tlsWire s of None \<Rightarrow> 0 | Some w \<Rightarrow> length w)"

lemma core_upd_state [simp]:
  "core (upd_state (AddBytesSent now n) s) = core s"
  "core (upd_state (AddError now e) s) = core s"
  "core (upd_state (UpdateActivity now) s) = core s"
  "core (s\<lparr>inp := w\<rparr>) = core s" "core (s\<lparr>inp := w, ctxDone := b\<rparr>) = core s"
  "core (s\<lparr>out := m, writesLeft := k\<rparr>) = core s"
  "core (s\<lparr>rblDecision := d\<rparr>) = core s" "core (s\<lparr>authResults := r\<rparr>) = core s"
  by (simp_all add: core_defs upd_state_def AddBytesSent_def AddError_def UpdateActivity_def)

lemma wire_size_upd_state [simp]: "wire_size (upd_state f s) = wire_size s"
  by (simp add: wire_size_def)

lemma session_write_core [simp]: "core (snd (session_write env m s)) = core s"
  by (simp add: session_write_def)

lemma session_write_inp [simp]:
  "inp (snd (session_write env m s)) = inp s" "tlsWire (snd (session_write env m s)) = tlsWire s"
  by (simp_all add: session_write_def)

lemma session_write_wire [simp]: "wire_size (snd (session_write env m s)) = wire_size s"
  by (simp add: wire_size_def)

lemma session_writeD:
  "session_write env m s = (e, s') \<Longrightarrow> core s' = core s \<and> wire_size s' = wire_size s \<and> inp s' = inp s"
  using session_write_core [of env m s] session_write_wire [of env m s] session_write_inp [of env m s] by simp

lemma write_allD:
  "write_all env ms s = (e, s') \<Longrightarrow> core s' = core s \<and> wire_size s' = wire_size s"
  by (induction ms arbitrary: s) (fastforce split: prod.splits option.splits dest: session_writeD)+

lemma writeError_core [simp]:
  "core (writeError env e s) = core s" "wire_size (writeError env e s) = wire_size s"
  by (simp_all add: writeError_def Let_def)

end
