(* ===== verification/Data_Reader.thy ===== *)
theory Data_Reader
  imports Session_Core
begin

text \<open>
  Receiving message content, \<open>internal/smtp/session_data.go\<close>: the DATA reader with its
  line-ending, end-of-data and dot-stuffing rules, the drain that follows a rejected body,
  and the chunks of BDAT. The spool is the list of bytes written to it. What the content
  checks say of a line, and what scanning and queueing say of a message, are answers of the
  environment; the counter of suspicious lines, which is only logged, is kept because
  \<open>isValidEndOfData\<close> updates it.
\<close>

section \<open>Data\<close>

record DataReaderState =
  InHeaders :: bool
  LineCount :: int
  BytesRead :: int
  HeadersComplete :: bool
  LastLineEndedWithCRLF :: bool

definition maxDrainBytes :: int where "maxDrainBytes = 33554432"

definition dataLineLimit :: int where "dataLineLimit = 65536"

text \<open>The largest slice the run-time allocates; a longer \<open>make\<close> panics.\<close>

definition maxAlloc :: int where "maxAlloc = 281474976710656"

section \<open>Rules for one line\<close>

definition ends_crlf :: "string \<Rightarrow> bool" where
  "ends_crlf line \<longleftrightarrow> 2 \<le> length line \<and> line ! (length line - 2) = CR \<and> last line = LF"

definition validateLineEndings :: "bool \<Rightarrow> string \<Rightarrow> error" where
  "validateLineEndings strict line =
     (if line = [] then None
      else let hasCR = (2 \<le> length line \<and> line ! (length line - 2) = CR);
               hasLF = (last line = LF)
           in if hasCR \<and> hasLF then None
              else if \<not> hasCR \<and> hasLF then
                (if strict then Some ''500 5.5.2 Syntax error: bare LF not allowed (RFC 5321 violation)'' else None)
              else if hasCR \<and> \<not> hasLF then
                Some ''500 5.5.2 Syntax error: bare CR not allowed (RFC 5321 violation)''
              else Some ''500 5.5.2 Syntax error: improper line termination'')"

definition isValidEndOfData :: "bool \<Rightarrow> string \<Rightarrow> DataReaderState \<Rightarrow> int \<Rightarrow> bool \<times> int" where
  "isValidEndOfData strict line st suspicious =
     (if line = ''.'' @ [CR, LF] then
        (if strict \<and> \<not> LastLineEndedWithCRLF st \<and> LineCount st > 1 then (False, suspicious + 1)
         else (True, suspicious))
      else if line = ''.'' @ [LF] then
        (if strict then (False, suspicious + 1) else (True, suspicious))
      else if HasPrefix line ''.'' \<and> \<not> HasPrefix line ''..'' then (False, suspicious + 1)
      else (False, suspicious))"

definition applyDotStuffing :: "string \<Rightarrow> string" where
  "applyDotStuffing line = (if 1 \<le> length line \<and> hd line = CHR ''.'' then tl line else line)"

section \<open>Content rules for one line\<close>

definition validateContentTypeHeader :: "string \<Rightarrow> error" where
  "validateContentTypeHeader v =
     (if TrimSpace v = [] then Some ''empty content type''
      else if CHR '';'' \<in> set v \<and> TrimSpace (hd (Split v (CHR '';''))) = [] then Some ''empty content type''
      else None)"

definition validateSpecificHeader :: "string \<Rightarrow> string \<Rightarrow> error" where
  "validateSpecificHeader name v =
     (let n = ToLower name in
      if n = ''content-type'' then validateContentTypeHeader v
      else if n \<in> set [''from'', ''to'', ''cc'', ''bcc'', ''reply-to''] then
        (if len v > 1000 then Some ''email header too long'' else None)
      else if n = ''date'' then (if len v > 100 then Some ''date header too long'' else None)
      else if n = ''message-id'' then (if len v > 1000 then Some ''message-id too long'' else None)
      else None)"

definition validateHeaderLine :: "string \<Rightarrow> error" where
  "validateHeaderLine line0 =
     (if HasPrefix line0 '' '' \<or> HasPrefix line0 [TAB] then None
      else let line = TrimSpace line0 in
        if line = [] then None
        else case Cut line (CHR '':'') of (n, v, found) \<Rightarrow>
          if \<not> found then Some ''invalid header format''
          else let name = TrimSpace n in
            if name = [] then Some ''empty header name''
            else if list_ex (\<lambda>c. byte_val c < 33 \<or> byte_val c > 126) name then None
            else validateSpecificHeader name (TrimSpace v))"

definition isInternalConnection :: "Env \<Rightarrow> bool" where
  "isInternalConnection env = PeerIsWithin (Some (remoteAddr env)) (TrustedNetworkList (config env))"

text \<open>The limits of the validator that \<open>newMessageValidator\<close> builds.\<close>

definition newMessageValidator :: "Env \<Rightarrow> SMTPParameterLimits" where
  "newMessageValidator env = applyMessageChecks (messageChecks (config env)) DefaultSMTPParameterLimits"

text \<open>The enhanced validator's part, for lines of at most 1000 octets: a verdict to return, or go on.\<close>

definition enhanced_line_check :: "Env \<Rightarrow> string \<Rightarrow> string \<Rightarrow> error option" where
  "enhanced_line_check env mode line =
     (let r = ValidateSMTPParameter (unicode env) (newMessageValidator env) ''DATA_LINE'' line in
      if Valid r then None
      else if ErrorType r = ''invalid_utf8'' \<and> \<not> RejectInvalidUTF8 (messageChecks (config env)) then Some None
      else if \<not> Contains (ErrorMessage r) ''Line exceeds'' \<and> mode \<noteq> ''warn''
      then Some (Some (''500 5.5.2 Security violation: '' @ ErrorMessage r))
      else None)"

definition validateLineContent :: "Env \<Rightarrow> string \<Rightarrow> bool \<Rightarrow> error" where
  "validateLineContent env line inHeaders =
     (if len line > 65536 then
        Some (''552 5.3.4 Line too long ('' @ show_int (len line) @ '' octets, maximum 65536)'')
      else if isInternalConnection env then None
      else
        (let mc = messageChecks (config env);
             mode = (if inHeaders then headerMode mc else bodyMode mc)
         in if mode = ''off'' then None
            else case (if len line \<le> 1000 then enhanced_line_check env mode line else None) of
              Some verdict \<Rightarrow> verdict
            | None \<Rightarrow>
                if inHeaders \<and> len line \<le> 1000 then
                  (case validateHeaderLine line of
                     Some e \<Rightarrow> if mode = ''warn'' then None else Some e
                   | None \<Rightarrow> None)
                else None))"

section \<open>Reading DATA\<close>

text \<open>
  The loop of \<open>readData\<close>. \<open>lastMem\<close> is the byte count of the last memory check and
  \<open>content\<close> what the spool holds. A read that times out does so at the deadline of the
  session context, so the context is done as well.
\<close>

function read_loop ::
  "Env \<Rightarrow> DataReaderState \<Rightarrow> int \<Rightarrow> int \<Rightarrow> string \<Rightarrow> Session \<Rightarrow> string result \<times> Session" where
  "read_loop env st suspicious lastMem content s =
     (let now = now_of env s; strict = StrictLineEndingsEnabled (config env) in
      case readBoundedSMTPLine (bufSize env) dataLineLimit (inp s) of
        (LineTooLong, w) \<Rightarrow>
          (Inl ''552 5.3.4 Line too long (maximum 65536 octets)'',
           upd_state (ClearDataTransferMode now) (s\<lparr>inp := w, dataSyncLost := True\<rparr>))
      | (LineErr _ EOF, w) \<Rightarrow> (Inl ''unexpected end of data'', s\<lparr>inp := w\<rparr>)
      | (LineErr _ _, w) \<Rightarrow> (Inl ''error reading data: i/o timeout'', s\<lparr>inp := w, ctxDone := True\<rparr>)
      | (LineOk line, w) \<Rightarrow>
          (let s1 = s\<lparr>inp := w\<rparr>;
               st1 = st\<lparr>LineCount := LineCount st + 1, BytesRead := BytesRead st + len line\<rparr>
           in case validateLineEndings strict line of
             Some e \<Rightarrow> (Inl e, upd_state (ClearDataTransferMode now) (s1\<lparr>dataSyncLost := True\<rparr>))
           | None \<Rightarrow>
               (let st2 = st1\<lparr>LastLineEndedWithCRLF := ends_crlf line\<rparr> in
                if BytesRead st2 > MaxSize (config env) then
                  (Inl ''552 5.3.4 Message size exceeds maximum allowed'', upd_state (ClearDataTransferMode now) s1)
                else
                  (let due = BytesRead st2 - lastMem \<ge> 1048576;
                       lastMem' = (if due then BytesRead st2 else lastMem)
                   in if due \<and> memoryLimitHit env (stepNo s) (BytesRead st2) then
                        (Inl ''552 5.3.4 Server memory limit exceeded'', upd_state (ClearDataTransferMode now) s1)
                      else
                        (case isValidEndOfData strict line st2 suspicious of
                           (True, _) \<Rightarrow> (Inr content, upd_state (SetDataSize now (len content)) s1)
                         | (False, suspicious') \<Rightarrow>
                             (case validateLineContent env line (InHeaders st2) of
                                Some e \<Rightarrow> (Inl (''554 5.7.1 Message rejected: '' @ e), s1)
                              | None \<Rightarrow>
                                  (let st3 = (if InHeaders st2 \<and> TrimSpace line = []
                                              then st2\<lparr>InHeaders := False, HeadersComplete := True\<rparr> else st2)
                                   in if spoolWriteFails env (stepNo s) (LineCount st2) then
                                        (Inl ''451 4.3.0 Unable to buffer message data'',
                                         upd_state (ClearDataTransferMode now) s1)
                                      else
                                        read_loop env st3 suspicious' lastMem'
                                          (content @ applyDotStuffing line) s1)))))))"
  by pat_completeness auto
termination
  by (relation "measure (\<lambda>(env, st, suspicious, lastMem, content, s). length (inp s))")
    (auto dest!: sym [of _ "readBoundedSMTPLine _ _ _"] intro: readBoundedSMTPLine_Ok_shorter)

declare read_loop.simps [simp del]

definition readData :: "Env \<Rightarrow> Session \<Rightarrow> string result \<times> Session" where
  "readData env s =
     (if declaredSize (state s) > spoolThreshold env \<and> spillFails env (stepNo s)
      then (Inl ''451 4.3.0 Unable to prepare message spool'', s)
      else read_loop env
        \<lparr>InHeaders = True, LineCount = 0, BytesRead = 0, HeadersComplete = False,
         LastLineEndedWithCRLF = False\<rparr> 0 0 [] s)"

section \<open>Draining a rejected body\<close>

definition trim_eol :: "string \<Rightarrow> string" where
  "trim_eol line = rev (dropWhile (\<lambda>c. c = CR \<or> c = LF) (rev line))"

function drain_loop :: "Env \<Rightarrow> int \<Rightarrow> bool \<Rightarrow> Session \<Rightarrow> Session" where
  "drain_loop env drained atLineStart s =
     (case readBoundedSMTPLine (bufSize env) dataLineLimit (inp s) of
        (LineTooLong, w) \<Rightarrow> s\<lparr>inp := w, dataSyncLost := True\<rparr>
      | (LineErr line _, w) \<Rightarrow>
          if atLineStart \<and> trim_eol line = ''.'' then s\<lparr>inp := w\<rparr>
          else s\<lparr>inp := w, dataSyncLost := True\<rparr>
      | (LineOk line, w) \<Rightarrow>
          if atLineStart \<and> trim_eol line = ''.'' then s\<lparr>inp := w\<rparr>
          else if drained + len line > maxDrainBytes then s\<lparr>inp := w, dataSyncLost := True\<rparr>
          else drain_loop env (drained + len line) (line \<noteq> [] \<and> last line = LF) (s\<lparr>inp := w\<rparr>))"
  by pat_completeness auto
termination
  by (relation "measure (\<lambda>(env, drained, atLineStart, s). length (inp s))")
    (auto dest!: sym [of _ "readBoundedSMTPLine _ _ _"] intro: readBoundedSMTPLine_Ok_shorter)

declare drain_loop.simps [simp del]

definition drainToEndOfData :: "Env \<Rightarrow> Session \<Rightarrow> Session" where
  "drainToEndOfData env s = drain_loop env 0 True s"

definition ReadData :: "Env \<Rightarrow> Session \<Rightarrow> string result \<times> Session" where
  "ReadData env s = (case readData env s of
       (Inl e, s1) \<Rightarrow> (Inl e, if dataSyncLost s1 then s1 else drainToEndOfData env s1)
     | (Inr content, s1) \<Rightarrow> (Inr content, s1))"

section \<open>BDAT chunks\<close>

definition DiscardBDATChunk :: "int \<Rightarrow> Session \<Rightarrow> Session" where
  "DiscardBDATChunk n s =
     (if n \<le> 0 then s
      else if n > maxDrainBytes then s\<lparr>dataSyncLost := True\<rparr>
      else case CopyN (inp s) n of
        (Some _, w) \<Rightarrow> s\<lparr>inp := w, dataSyncLost := True\<rparr>
      | (None, w) \<Rightarrow> s\<lparr>inp := w\<rparr>)"

definition MarkDataSyncLost :: "Session \<Rightarrow> Session" where
  "MarkDataSyncLost s = s\<lparr>dataSyncLost := True\<rparr>"

definition ResetBDAT :: "Session \<Rightarrow> Session" where
  "ResetBDAT s = s\<lparr>bdatSpool := None, bdatBytesReceived := 0, bdatChunkCount := 0\<rparr>"

definition ReadBDATChunk :: "Env \<Rightarrow> int \<Rightarrow> Session \<Rightarrow> error \<times> Session" where
  "ReadBDATChunk env n s =
     (if wrap64 (bdatBytesReceived s + n) > MaxSize (config env) then
        (Some (''552 5.3.4 Message size exceeds maximum allowed ('' @ show_int (MaxSize (config env)) @ '' bytes)''),
         DiscardBDATChunk n s)
      else
        (let s1 = s\<lparr>bdatSpool := (case bdatSpool s of None \<Rightarrow> Some [] | Some b \<Rightarrow> Some b)\<rparr> in
         if n > maxAlloc then (Some ''panic: makeslice: len out of range'', s1\<lparr>panicked := True\<rparr>)
         else case ReadFull (inp s1) n of
           (Inl e, w) \<Rightarrow>
             (Some (''451 4.3.0 Error reading chunk data: '' @
                (if e = Timeout then ''i/o timeout'' else if inp s = [] then ''EOF'' else ''unexpected EOF'')), s1\<lparr>inp := w\<rparr>)
         | (Inr chunk, w) \<Rightarrow>
             if spoolWriteFails env (stepNo s) (bdatChunkCount s)
             then (Some ''451 4.3.0 Unable to buffer message data'', s1\<lparr>inp := w\<rparr>)
             else (None, s1\<lparr>inp := w, bdatSpool := map_option (\<lambda>b. b @ chunk) (bdatSpool s1),
                            bdatBytesReceived := wrap64 (bdatBytesReceived s + n),
                            bdatChunkCount := bdatChunkCount s + 1\<rparr>)))"

section \<open>The sender's side\<close>

definition CRLF :: string where "CRLF = [CR, LF]"

definition stuff_line :: "string \<Rightarrow> string" where
  "stuff_line l = (if l \<noteq> [] \<and> hd l = CHR ''.'' then CHR ''.'' # l else l)"

text \<open>What a conforming client sends for a list of text lines, and the message it means.\<close>

definition smtp_encode :: "string list \<Rightarrow> string" where
  "smtp_encode ls = concat (map (\<lambda>l. stuff_line l @ CRLF) ls) @ ''.'' @ CRLF"

definition message_text :: "string list \<Rightarrow> string" where
  "message_text ls = concat (map (\<lambda>l. l @ CRLF) ls)"

section \<open>One line\<close>

lemma ends_crlf_append: "ends_crlf (l @ CRLF)"
  by (simp add: ends_crlf_def CRLF_def nth_append)

lemma validateLineEndings_crlf: "validateLineEndings strict (l @ CRLF) = None"
  by (simp add: validateLineEndings_def CRLF_def nth_append)

lemma validateLineEndings_strict:
  "validateLineEndings True line = None \<Longrightarrow> line = m @ [LF] \<Longrightarrow> \<exists>l. line = l @ CRLF"
proof -
  assume v: "validateLineEndings True line = None" and m: "line = m @ [LF]"
  have "m \<noteq> []" "m ! (length m - 1) = CR"
    using v by (auto simp: m validateLineEndings_def Let_def nth_append split: if_splits)
  then have "m \<noteq> [] \<and> last m = CR" by (simp add: last_conv_nth)
  then have "m = butlast m @ [CR]" by (metis append_butlast_last_id)
  with m have "line = butlast m @ CRLF" by (simp add: CRLF_def)
  then show ?thesis by blast
qed

lemma read_crlf_line:
  assumes "inp s = map Some (l @ CRLF) @ w" and "LF \<notin> set l" and "len l + 2 \<le> dataLineLimit"
  shows "readBoundedSMTPLine n dataLineLimit (inp s) = (LineOk (l @ CRLF), w)"
  using assms next_line_text [of "l @ [CR]" w] by (simp add: readBoundedSMTPLine_Ok CRLF_def)

lemma isValidEndOfData_dot:
  "LastLineEndedWithCRLF st \<Longrightarrow> isValidEndOfData strict (''.'' @ CRLF) st k = (True, k)"
  by (simp add: isValidEndOfData_def CRLF_def)

lemma isValidEndOfData_text:
  "l \<noteq> ''.'' \<Longrightarrow> \<exists>k'. isValidEndOfData strict (l @ CRLF) st k = (False, k')"
  by (cases l) (auto simp: isValidEndOfData_def CRLF_def append_eq_Cons_conv)

lemma read_loop_end:
  assumes w: "inp s = map Some (''.'' @ CRLF) @ w" and sz: "BytesRead st + 3 \<le> MaxSize (config env)"
    and mem: "\<And>b. \<not> memoryLimitHit env (stepNo s) b"
  shows "read_loop env st k lastMem content s =
     (Inr content, upd_state (SetDataSize (now_of env s) (len content)) (s\<lparr>inp := w\<rparr>))"
proof -
  have r: "readBoundedSMTPLine n dataLineLimit (inp s) = (LineOk (''.'' @ CRLF), w)" for n
    using read_crlf_line [of s "''.''" w] w by (simp add: dataLineLimit_def)
  show ?thesis
    apply (subst read_loop.simps)
    unfolding Let_def r prod.case line_outcome.case validateLineEndings_crlf option.case
    using sz mem by (simp add: isValidEndOfData_def CRLF_def ends_crlf_def)
qed

lemma read_loop_line:
  assumes w: "inp s = map Some (l @ CRLF) @ w" and l: "LF \<notin> set l" "len l + 2 \<le> dataLineLimit" "l \<noteq> ''.''"
    and sz: "BytesRead st + len l + 2 \<le> MaxSize (config env)"
    and mem: "\<And>b. \<not> memoryLimitHit env (stepNo s) b"
    and ok: "validateLineContent env (l @ CRLF) (InHeaders st) = None"
    and sp: "\<And>n. \<not> spoolWriteFails env (stepNo s) n"
  shows "\<exists>st' k' lastMem'. BytesRead st' = BytesRead st + len l + 2 \<and>
     InHeaders st' = (InHeaders st \<and> TrimSpace (l @ CRLF) \<noteq> []) \<and>
     read_loop env st k lastMem content s =
       read_loop env st' k' lastMem' (content @ applyDotStuffing (l @ CRLF)) (s\<lparr>inp := w\<rparr>)"
proof -
  have r: "readBoundedSMTPLine n dataLineLimit (inp s) = (LineOk (l @ CRLF), w)" for n
    using read_crlf_line [OF w l(1,2)] .
  define st2 where "st2 = st\<lparr>LineCount := LineCount st + 1, BytesRead := BytesRead st + len (l @ CRLF),
     LastLineEndedWithCRLF := ends_crlf (l @ CRLF)\<rparr>"
  have b: "BytesRead st2 = BytesRead st + len l + 2" by (simp add: st2_def CRLF_def)
  obtain k' where e: "isValidEndOfData (StrictLineEndingsEnabled (config env)) (l @ CRLF) st2 k = (False, k')"
    using isValidEndOfData_text [OF l(3)] by blast
  define st3 where "st3 = (if InHeaders st2 \<and> TrimSpace (l @ CRLF) = []
     then st2\<lparr>InHeaders := False, HeadersComplete := True\<rparr> else st2)"
  have ok2: "validateLineContent env (l @ CRLF) (InHeaders st2) = None" using ok by (simp add: st2_def)
  have "BytesRead st3 = BytesRead st + len l + 2" using b by (simp add: st3_def)
  moreover have "InHeaders st3 = (InHeaders st \<and> TrimSpace (l @ CRLF) \<noteq> [])" by (auto simp: st3_def st2_def)
  moreover have "read_loop env st k lastMem content s =
     read_loop env st3 k' (if BytesRead st2 - lastMem \<ge> 1048576 then BytesRead st2 else lastMem)
       (content @ applyDotStuffing (l @ CRLF)) (s\<lparr>inp := w\<rparr>)"
    apply (subst read_loop.simps)
    unfolding Let_def r prod.case line_outcome.case validateLineEndings_crlf option.case
    using sz b mem ok sp e by (simp add: st2_def st3_def)
  ultimately show ?thesis by blast
qed

section \<open>Whole messages\<close>

lemma applyDotStuffing_stuff: "applyDotStuffing (stuff_line l @ CRLF) = l @ CRLF"
  by (cases l) (auto simp: applyDotStuffing_def stuff_line_def CRLF_def)

lemma stuff_line_not_dot: "stuff_line l \<noteq> ''.''"
  by (auto simp: stuff_line_def)

lemma LF_stuff_line [simp]: "LF \<in> set (stuff_line l) \<longleftrightarrow> LF \<in> set l"
  by (auto simp: stuff_line_def)

text \<open>The lines pass the checks of their place: the first blank line ends the headers.\<close>

fun lines_accepted :: "Env \<Rightarrow> bool \<Rightarrow> string list \<Rightarrow> bool" where
  "lines_accepted env h [] = True"
| "lines_accepted env h (l # ls) =
     (LF \<notin> set l \<and> len (stuff_line l) + 2 \<le> dataLineLimit \<and>
      validateLineContent env (stuff_line l @ CRLF) h = None \<and>
      lines_accepted env (h \<and> TrimSpace (stuff_line l @ CRLF) \<noteq> []) ls)"

lemma read_loop_encode:
  assumes "inp s = map Some (smtp_encode ls) @ rest"
    and "lines_accepted env (InHeaders st) ls"
    and "BytesRead st + len (smtp_encode ls) \<le> MaxSize (config env)"
    and "\<And>b. \<not> memoryLimitHit env (stepNo s) b" and "\<And>n. \<not> spoolWriteFails env (stepNo s) n"
  shows "read_loop env st k lastMem content s =
     (Inr (content @ message_text ls),
      upd_state (SetDataSize (now_of env s) (len (content @ message_text ls))) (s\<lparr>inp := rest\<rparr>))"
  using assms
proof (induction ls arbitrary: st k lastMem content s)
  case Nil
  then have "inp s = map Some (''.'' @ CRLF) @ rest" by (simp add: smtp_encode_def)
  from read_loop_end [OF this] Nil.prems(3,4) show ?case
    by (simp add: smtp_encode_def message_text_def CRLF_def)
next
  case (Cons l ls)
  let ?w = "map Some (smtp_encode ls) @ rest"
  have w: "inp s = map Some (stuff_line l @ CRLF) @ ?w"
    using Cons.prems(1) by (simp add: smtp_encode_def)
  obtain st' k' lastMem' where b: "BytesRead st' = BytesRead st + len (stuff_line l) + 2"
    and h: "InHeaders st' = (InHeaders st \<and> TrimSpace (stuff_line l @ CRLF) \<noteq> [])"
    and step: "read_loop env st k lastMem content s =
      read_loop env st' k' lastMem' (content @ applyDotStuffing (stuff_line l @ CRLF)) (s\<lparr>inp := ?w\<rparr>)"
    using read_loop_line [OF w, of st env k lastMem content] Cons.prems stuff_line_not_dot
    by (auto simp: smtp_encode_def CRLF_def)
  have "read_loop env st' k' lastMem' (content @ l @ CRLF) (s\<lparr>inp := ?w\<rparr>) =
     (Inr ((content @ l @ CRLF) @ message_text ls),
      upd_state (SetDataSize (now_of env (s\<lparr>inp := ?w\<rparr>)) (len ((content @ l @ CRLF) @ message_text ls)))
        (s\<lparr>inp := ?w, inp := rest\<rparr>))"
    using Cons.prems b h by (intro Cons.IH) (auto simp: smtp_encode_def CRLF_def)
  then show ?case
    unfolding step applyDotStuffing_stuff by (simp add: message_text_def now_of_def)
qed

lemma read_loop_InrD:
  assumes "read_loop env st k lastMem content s = (Inr body, s')"
  shows "\<exists>line w st2. readBoundedSMTPLine (bufSize env) dataLineLimit (inp s) = (LineOk line, w)
     \<and> validateLineEndings (StrictLineEndingsEnabled (config env)) line = None
     \<and> BytesRead st2 = BytesRead st + len line \<and> BytesRead st2 \<le> MaxSize (config env)
     \<and> LastLineEndedWithCRLF st2 = ends_crlf line \<and>
     (fst (isValidEndOfData (StrictLineEndingsEnabled (config env)) line st2 k) \<and> body = content \<and>
        s' = upd_state (SetDataSize (now_of env s) (len content)) (s\<lparr>inp := w\<rparr>)
      \<or> \<not> fst (isValidEndOfData (StrictLineEndingsEnabled (config env)) line st2 k) \<and>
        (\<exists>st3 k' lastMem'. BytesRead st3 = BytesRead st2 \<and>
           read_loop env st3 k' lastMem' (content @ applyDotStuffing line) (s\<lparr>inp := w\<rparr>) = (Inr body, s')))"
proof -
  obtain r w where r: "readBoundedSMTPLine (bufSize env) dataLineLimit (inp s) = (r, w)"
    by (cases "readBoundedSMTPLine (bufSize env) dataLineLimit (inp s)")
  have "\<exists>line. r = LineOk line"
    using assms by (subst (asm) read_loop.simps) (auto simp: r Let_def split: line_outcome.splits read_err.splits)
  then obtain line where line: "r = LineOk line" by blast
  define strict where "strict = StrictLineEndingsEnabled (config env)"
  define st2 where "st2 = st\<lparr>LineCount := LineCount st + 1, BytesRead := BytesRead st + len line,
     LastLineEndedWithCRLF := ends_crlf line\<rparr>"
  obtain e k' where e: "isValidEndOfData strict line st2 k = (e, k')"
    by (cases "isValidEndOfData strict line st2 k")
  note unf = assms [unfolded read_loop.simps [of env st k], unfolded r line prod.case line_outcome.case Let_def
      strict_def [symmetric]]
  have v: "validateLineEndings strict line = None"
    using unf by (simp split: option.splits)
  have sz: "BytesRead st2 \<le> MaxSize (config env)"
    using unf by (simp add: v st2_def split: if_splits)
  have rest: "e \<and> body = content \<and> s' = upd_state (SetDataSize (now_of env s) (len content)) (s\<lparr>inp := w\<rparr>)
      \<or> \<not> e \<and> (\<exists>st3 k' lastMem'. BytesRead st3 = BytesRead st2 \<and>
           read_loop env st3 k' lastMem' (content @ applyDotStuffing line) (s\<lparr>inp := w\<rparr>) = (Inr body, s'))"
  proof (cases e)
    case True
    with unf sz e show ?thesis
      by (auto simp: v st2_def split: if_splits)
  next
    case False
    have "BytesRead (if InHeaders st2 \<and> TrimSpace line = [] then st2\<lparr>InHeaders := False, HeadersComplete := True\<rparr> else st2)
       = BytesRead st2" by simp
    moreover have "\<exists>lastMem'. read_loop env (if InHeaders st2 \<and> TrimSpace line = []
         then st2\<lparr>InHeaders := False, HeadersComplete := True\<rparr> else st2) k' lastMem'
       (content @ applyDotStuffing line) (s\<lparr>inp := w\<rparr>) = (Inr body, s')"
      using unf sz e False by (auto simp: v st2_def split: if_splits option.splits)
    ultimately show ?thesis using False by blast
  qed
  show ?thesis
    using r line v sz e rest unfolding strict_def
    by (intro exI [of _ line] exI [of _ w] exI [of _ st2]) (auto simp: st2_def)
qed

lemma isValidEndOfData_strict:
  "fst (isValidEndOfData True line st k) \<Longrightarrow> line = ''.'' @ CRLF"
  by (auto simp: isValidEndOfData_def CRLF_def split: if_splits)

lemma read_loop_strict:
  "read_loop env st k lastMem content s = (Inr body, s') \<Longrightarrow> StrictLineEndingsEnabled (config env) \<Longrightarrow>
     \<exists>raw. (\<forall>l \<in> set raw. LF \<notin> set l \<and> l \<noteq> ''.'') \<and>
       inp s = map Some (concat (map (\<lambda>l. l @ CRLF) raw) @ ''.'' @ CRLF) @ inp s' \<and>
       body = content @ concat (map (\<lambda>l. applyDotStuffing (l @ CRLF)) raw) \<and>
       BytesRead st + len (concat (map (\<lambda>l. l @ CRLF) raw)) + 3 \<le> MaxSize (config env)"
proof (induction "length (inp s)" arbitrary: st k lastMem content s rule: less_induct)
  case less
  note strict = less.prems(2)
  obtain line w st2 where r: "readBoundedSMTPLine (bufSize env) dataLineLimit (inp s) = (LineOk line, w)"
    and v: "validateLineEndings True line = None"
    and b: "BytesRead st2 = BytesRead st + len line" "BytesRead st2 \<le> MaxSize (config env)"
    and cr: "LastLineEndedWithCRLF st2 = ends_crlf line"
    and alt: "fst (isValidEndOfData True line st2 k) \<and> body = content \<and>
        s' = upd_state (SetDataSize (now_of env s) (len content)) (s\<lparr>inp := w\<rparr>)
      \<or> \<not> fst (isValidEndOfData True line st2 k) \<and>
        (\<exists>st3 k' lastMem'. BytesRead st3 = BytesRead st2 \<and>
           read_loop env st3 k' lastMem' (content @ applyDotStuffing line) (s\<lparr>inp := w\<rparr>) = (Inr body, s'))"
    using read_loop_InrD [OF less.prems(1), unfolded eqTrueI [OF strict]] by blast
  from r obtain m where m: "line = m @ [LF]" "LF \<notin> set m" "inp s = map Some line @ w"
    by (auto simp: readBoundedSMTPLine_Ok dest: next_line_OkD)
  obtain l where l: "line = l @ CRLF" using validateLineEndings_strict [OF v m(1)] by blast
  with m have lf: "LF \<notin> set l" by (auto simp: CRLF_def)
  from alt show ?case
  proof
    assume a: "fst (isValidEndOfData True line st2 k) \<and> body = content \<and>
        s' = upd_state (SetDataSize (now_of env s) (len content)) (s\<lparr>inp := w\<rparr>)"
    then have "line = ''.'' @ CRLF" using isValidEndOfData_strict by blast
    with a m b show ?thesis by (intro exI [of _ "[]"]) (simp add: CRLF_def)
  next
    assume a: "\<not> fst (isValidEndOfData True line st2 k) \<and>
        (\<exists>st3 k' lastMem'. BytesRead st3 = BytesRead st2 \<and>
           read_loop env st3 k' lastMem' (content @ applyDotStuffing line) (s\<lparr>inp := w\<rparr>) = (Inr body, s'))"
    then obtain st3 k' lastMem' where st3: "BytesRead st3 = BytesRead st2"
      and rl: "read_loop env st3 k' lastMem' (content @ applyDotStuffing line) (s\<lparr>inp := w\<rparr>) = (Inr body, s')"
      by blast
    have "l \<noteq> ''.''" using a cr l isValidEndOfData_dot [of st2 True k] ends_crlf_append by auto
    moreover have "length (inp (s\<lparr>inp := w\<rparr>)) < length (inp s)" using m by simp
    from less.hyps [OF this rl strict] obtain raw where
      "\<forall>l \<in> set raw. LF \<notin> set l \<and> l \<noteq> ''.''"
      "w = map Some (concat (map (\<lambda>l. l @ CRLF) raw) @ ''.'' @ CRLF) @ inp s'"
      "body = (content @ applyDotStuffing line) @ concat (map (\<lambda>l. applyDotStuffing (l @ CRLF)) raw)"
      "BytesRead st3 + len (concat (map (\<lambda>l. l @ CRLF) raw)) + 3 \<le> MaxSize (config env)" by auto
    ultimately show ?thesis
      using lf m(3) l st3 b by (intro exI [of _ "l # raw"]) auto
  qed
qed

section \<open>What reading and draining leave alone\<close>

text \<open>
  The data handler writes the input, its flags and, of the session state, only the data size,
  the transfer mode and the activity time.
\<close>

definition data_frame :: "Session \<Rightarrow> Session \<Rightarrow> bool" where
  "data_frame s s' \<longleftrightarrow>
     s' = s\<lparr>inp := inp s', state := state s', dataSyncLost := dataSyncLost s', ctxDone := ctxDone s'\<rparr> \<and>
     state s' = (state s)\<lparr>dataSize := dataSize (state s'), dataTransferMode := dataTransferMode (state s'),
                         lastActivityTime := lastActivityTime (state s')\<rparr> \<and>
     length (inp s') \<le> length (inp s)"

lemma data_frame_refl: "data_frame s s"
  by (simp add: data_frame_def)

lemma data_frame_trans: "data_frame s t \<Longrightarrow> data_frame t u \<Longrightarrow> data_frame s u"
  unfolding data_frame_def by (cases s; cases t; cases u; cases "state s"; cases "state t"; cases "state u") auto

lemma data_frame_base:
  "length w \<le> length (inp s) \<Longrightarrow> data_frame s (s\<lparr>inp := w\<rparr>)"
  "length w \<le> length (inp s) \<Longrightarrow> data_frame s (s\<lparr>inp := w, dataSyncLost := b\<rparr>)"
  "length w \<le> length (inp s) \<Longrightarrow> data_frame s (s\<lparr>inp := w, ctxDone := b\<rparr>)"
  "length w \<le> length (inp s) \<Longrightarrow> data_frame s (upd_state (ClearDataTransferMode now) (s\<lparr>inp := w\<rparr>))"
  "length w \<le> length (inp s) \<Longrightarrow> data_frame s (upd_state (ClearDataTransferMode now) (s\<lparr>inp := w, dataSyncLost := b\<rparr>))"
  "length w \<le> length (inp s) \<Longrightarrow> data_frame s (upd_state (SetDataSize now n) (s\<lparr>inp := w\<rparr>))"
  by (simp_all add: data_frame_def upd_state_def ClearDataTransferMode_def SetDataSize_def)

lemma read_loop_ok:
  assumes r: "readBoundedSMTPLine (bufSize env) dataLineLimit (inp s) = (LineOk line, w)"
    and st2: "st2 = st\<lparr>LineCount := LineCount st + 1, BytesRead := BytesRead st + len line,
                LastLineEndedWithCRLF := ends_crlf line\<rparr>"
    and e: "isValidEndOfData (StrictLineEndingsEnabled (config env)) line st2 k = (e, k')"
  shows "read_loop env st k lastMem content s =
    (case validateLineEndings (StrictLineEndingsEnabled (config env)) line of
       Some x \<Rightarrow> (Inl x, upd_state (ClearDataTransferMode (now_of env s)) (s\<lparr>inp := w, dataSyncLost := True\<rparr>))
     | None \<Rightarrow>
         if BytesRead st2 > MaxSize (config env) then
           (Inl ''552 5.3.4 Message size exceeds maximum allowed'',
            upd_state (ClearDataTransferMode (now_of env s)) (s\<lparr>inp := w\<rparr>))
         else if BytesRead st2 - lastMem \<ge> 1048576 \<and> memoryLimitHit env (stepNo s) (BytesRead st2) then
           (Inl ''552 5.3.4 Server memory limit exceeded'',
            upd_state (ClearDataTransferMode (now_of env s)) (s\<lparr>inp := w\<rparr>))
         else if e then (Inr content, upd_state (SetDataSize (now_of env s) (len content)) (s\<lparr>inp := w\<rparr>))
         else (case validateLineContent env line (InHeaders st2) of
             Some x \<Rightarrow> (Inl (''554 5.7.1 Message rejected: '' @ x), s\<lparr>inp := w\<rparr>)
           | None \<Rightarrow>
               if spoolWriteFails env (stepNo s) (LineCount st2) then
                 (Inl ''451 4.3.0 Unable to buffer message data'',
                  upd_state (ClearDataTransferMode (now_of env s)) (s\<lparr>inp := w\<rparr>))
               else read_loop env (if InHeaders st2 \<and> TrimSpace line = []
                        then st2\<lparr>InHeaders := False, HeadersComplete := True\<rparr> else st2) k'
                      (if BytesRead st2 - lastMem \<ge> 1048576 then BytesRead st2 else lastMem)
                      (content @ applyDotStuffing line) (s\<lparr>inp := w\<rparr>)))"
  using e unfolding st2
  by (subst read_loop.simps) (cases e; auto simp: r Let_def split: option.split)

lemma read_loop_ok_cases:
  assumes r: "readBoundedSMTPLine (bufSize env) dataLineLimit (inp s) = (LineOk line, w)"
  shows "snd (read_loop env st k lastMem content s) \<in>
      {s\<lparr>inp := w\<rparr>, upd_state (ClearDataTransferMode (now_of env s)) (s\<lparr>inp := w\<rparr>),
       upd_state (SetDataSize (now_of env s) (len content)) (s\<lparr>inp := w\<rparr>),
       upd_state (ClearDataTransferMode (now_of env s)) (s\<lparr>inp := w, dataSyncLost := True\<rparr>)} \<or>
    (\<exists>st' k' lastMem'. read_loop env st k lastMem content s =
       read_loop env st' k' lastMem' (content @ applyDotStuffing line) (s\<lparr>inp := w\<rparr>))"
proof -
  define st2 where "st2 = st\<lparr>LineCount := LineCount st + 1, BytesRead := BytesRead st + len line,
     LastLineEndedWithCRLF := ends_crlf line\<rparr>"
  obtain e k' where e: "isValidEndOfData (StrictLineEndingsEnabled (config env)) line st2 k = (e, k')"
    by (cases "isValidEndOfData (StrictLineEndingsEnabled (config env)) line st2 k")
  define P where "P = (\<lambda>t. snd t \<in>
      {s\<lparr>inp := w\<rparr>, upd_state (ClearDataTransferMode (now_of env s)) (s\<lparr>inp := w\<rparr>),
       upd_state (SetDataSize (now_of env s) (len content)) (s\<lparr>inp := w\<rparr>),
       upd_state (ClearDataTransferMode (now_of env s)) (s\<lparr>inp := w, dataSyncLost := True\<rparr>)} \<or>
    (\<exists>st' k' lastMem'. t = read_loop env st' k' lastMem' (content @ applyDotStuffing line) (s\<lparr>inp := w\<rparr>)))"
  have stop: "P (x, s\<lparr>inp := w\<rparr>)" "P (x, upd_state (ClearDataTransferMode (now_of env s)) (s\<lparr>inp := w\<rparr>))"
    "P (x, upd_state (SetDataSize (now_of env s) (len content)) (s\<lparr>inp := w\<rparr>))"
    "P (x, upd_state (ClearDataTransferMode (now_of env s)) (s\<lparr>inp := w, dataSyncLost := True\<rparr>))" for x
    by (simp_all only: P_def snd_conv insert_iff simp_thms)
  have go: "P (read_loop env a b c (content @ applyDotStuffing line) (s\<lparr>inp := w\<rparr>))" for a b c
    unfolding P_def by blast
  have "P (read_loop env st k lastMem content s)"
    unfolding read_loop_ok [OF r st2_def e, of lastMem content]
    by (simp add: stop go split: option.split)
  then show ?thesis by (simp only: P_def)
qed

lemma read_loop_stop_cases:
  assumes "readBoundedSMTPLine (bufSize env) dataLineLimit (inp s) = (r, w)" and "\<nexists>line. r = LineOk line"
  shows "snd (read_loop env st k lastMem content s) \<in>
      {s\<lparr>inp := w\<rparr>, s\<lparr>inp := w, ctxDone := True\<rparr>,
       upd_state (ClearDataTransferMode (now_of env s)) (s\<lparr>inp := w, dataSyncLost := True\<rparr>)}"
  using assms by (subst read_loop.simps) (auto simp: Let_def split: line_outcome.splits read_err.splits)

lemma read_loop_frame: "data_frame s (snd (read_loop env st k lastMem content s))"
proof (induction "length (inp s)" arbitrary: st k lastMem content s rule: less_induct)
  case less
  obtain r w where r: "readBoundedSMTPLine (bufSize env) dataLineLimit (inp s) = (r, w)"
    by (cases "readBoundedSMTPLine (bufSize env) dataLineLimit (inp s)")
  note base = data_frame_base [OF readBoundedSMTPLine_shorter [OF r]]
  show ?case
  proof (cases "\<exists>line. r = LineOk line")
    case True
    then obtain line where ok: "readBoundedSMTPLine (bufSize env) dataLineLimit (inp s) = (LineOk line, w)"
      using r by blast
    have "length (inp (s\<lparr>inp := w\<rparr>)) < length (inp s)"
      using readBoundedSMTPLine_Ok_shorter [OF ok] by simp
    note IH = data_frame_trans [OF base(1) less.hyps [OF this]]
    from read_loop_ok_cases [OF ok, of st k lastMem content] show ?thesis
    proof
      assume "\<exists>st' k' lastMem'. read_loop env st k lastMem content s =
         read_loop env st' k' lastMem' (content @ applyDotStuffing line) (s\<lparr>inp := w\<rparr>)"
      then obtain st' k' lastMem' where eq: "read_loop env st k lastMem content s =
         read_loop env st' k' lastMem' (content @ applyDotStuffing line) (s\<lparr>inp := w\<rparr>)" by blast
      show ?thesis unfolding eq by (rule IH)
    qed (use base in auto)
  next
    case False
    with read_loop_stop_cases [OF r, of st k lastMem content] base show ?thesis by auto
  qed
qed

lemma drain_loop_frame: "data_frame s (drain_loop env d b s)"
proof (induction "length (inp s)" arbitrary: d b s rule: less_induct)
  case less
  obtain r w where r: "readBoundedSMTPLine (bufSize env) dataLineLimit (inp s) = (r, w)"
    by (cases "readBoundedSMTPLine (bufSize env) dataLineLimit (inp s)")
  note base = data_frame_base [OF readBoundedSMTPLine_shorter [OF r]]
  show ?case
  proof (cases r)
    case (LineOk line)
    with r have "length (inp (s\<lparr>inp := w\<rparr>)) < length (inp s)"
      using readBoundedSMTPLine_Ok_shorter by simp
    note IH = data_frame_trans [OF base(1) less.hyps [OF this]]
    show ?thesis by (subst drain_loop.simps) (simp add: r LineOk base IH)
  qed (subst drain_loop.simps; simp add: r base)+
qed

lemma readData_frame: "data_frame s (snd (readData env s))"
  by (simp add: readData_def read_loop_frame data_frame_refl)

lemma ReadData_frame: "data_frame s (snd (ReadData env s))"
  using readData_frame [of s env] drain_loop_frame data_frame_trans
  by (fastforce simp: ReadData_def drainToEndOfData_def split: prod.splits sum.splits)

section \<open>Where a refused message leaves the connection\<close>

lemma next_line_ErrD:
  "next_line w = (l, Some e, w') \<Longrightarrow> \<exists>gap. w = map Some l @ gap @ w' \<and> (gap = [] \<and> w' = [] \<or> gap = [None])"
proof (induction w arbitrary: l rule: next_line.induct)
  case (3 c w)
  obtain l2 e2 w2 where nl: "next_line w = (l2, e2, w2)" by (cases "next_line w")
  with "3.prems" have "c \<noteq> LF" "l = c # l2" "next_line w = (l2, Some e, w')" by (auto split: if_splits)
  with "3.IH" show ?case by auto
qed auto

lemma drain_loop_sync:
  "\<not> dataSyncLost (drain_loop env d b s) \<Longrightarrow>
     \<exists>pre t gap. inp s = pre @ map Some t @ gap @ inp (drain_loop env d b s) \<and> trim_eol t = ''.'' \<and>
       (gap = [] \<or> gap = [None]) \<and> (pre = [] \<or> last pre = Some LF)"
proof (induction "length (inp s)" arbitrary: d b s rule: less_induct)
  case less
  obtain r w where r: "readBoundedSMTPLine (bufSize env) dataLineLimit (inp s) = (r, w)"
    by (cases "readBoundedSMTPLine (bufSize env) dataLineLimit (inp s)")
  show ?case
  proof (cases r)
    case (LineOk line)
    with r obtain m where m: "inp s = map Some line @ w" "line = m @ [LF]"
      by (auto simp: readBoundedSMTPLine_Ok dest: next_line_OkD)
    show ?thesis
    proof (cases "b \<and> trim_eol line = ''.''")
      case True
      then have "drain_loop env d b s = s\<lparr>inp := w\<rparr>" by (subst drain_loop.simps) (simp add: r LineOk)
      with True m(1) show ?thesis by (intro exI [of _ "[]"] exI [of _ line]) simp
    next
      case False
      with less.prems have eq: "drain_loop env d b s = drain_loop env (d + len line) (line \<noteq> [] \<and> last line = LF) (s\<lparr>inp := w\<rparr>)"
        by (subst (asm) drain_loop.simps, subst drain_loop.simps) (auto simp: r LineOk split: if_splits)
      have "length (inp (s\<lparr>inp := w\<rparr>)) < length (inp s)" using m by simp
      from less.hyps [OF this less.prems [unfolded eq]] obtain pre t gap where
        "w = pre @ map Some t @ gap @ inp (drain_loop env d b s)" "trim_eol t = ''.''"
        "gap = [] \<or> gap = [None]" "pre = [] \<or> last pre = Some LF" by (auto simp: eq)
      with m show ?thesis
        by (intro exI [of _ "map Some line @ pre"] exI [of _ t] exI [of _ gap]) auto
    qed
  next
    case (LineErr line e)
    then have "drain_loop env d b s =
        (if b \<and> trim_eol line = ''.'' then s\<lparr>inp := w\<rparr> else s\<lparr>inp := w, dataSyncLost := True\<rparr>)"
      by (subst drain_loop.simps) (simp add: r)
    with less.prems have dot: "trim_eol line = ''.''" and eq: "drain_loop env d b s = s\<lparr>inp := w\<rparr>"
      by (simp_all split: if_splits)
    from r LineErr obtain gap where "inp s = map Some line @ gap @ w" "gap = [] \<or> gap = [None]"
      by (auto simp: readBoundedSMTPLine_Err dest: next_line_ErrD)
    with dot show ?thesis unfolding eq by (intro exI [of _ "[]"] exI [of _ line] exI [of _ gap]) auto
  next
    case LineTooLong
    with less.prems show ?thesis by (subst (asm) drain_loop.simps) (simp add: r)
  qed
qed

lemma read_loop_sync:
  "\<not> dataSyncLost (snd (read_loop env st k lastMem content s)) \<Longrightarrow>
     \<exists>pre. inp s = pre @ inp (snd (read_loop env st k lastMem content s)) \<and>
       (pre = [] \<or> last pre = Some LF \<or> last pre = None \<or> inp (snd (read_loop env st k lastMem content s)) = [])"
proof (induction "length (inp s)" arbitrary: st k lastMem content s rule: less_induct)
  case less
  obtain r w where r: "readBoundedSMTPLine (bufSize env) dataLineLimit (inp s) = (r, w)"
    by (cases "readBoundedSMTPLine (bufSize env) dataLineLimit (inp s)")
  show ?case
  proof (cases r)
    case (LineOk line)
    with r obtain m where m: "inp s = map Some line @ w" "line = m @ [LF]"
      by (auto simp: readBoundedSMTPLine_Ok dest: next_line_OkD)
    from read_loop_ok_cases [OF r [unfolded LineOk], of st k lastMem content] show ?thesis
    proof
      assume "\<exists>st' k' lastMem'. read_loop env st k lastMem content s =
         read_loop env st' k' lastMem' (content @ applyDotStuffing line) (s\<lparr>inp := w\<rparr>)"
      then obtain st' k' lastMem' where eq: "read_loop env st k lastMem content s =
         read_loop env st' k' lastMem' (content @ applyDotStuffing line) (s\<lparr>inp := w\<rparr>)" by blast
      have "length (inp (s\<lparr>inp := w\<rparr>)) < length (inp s)" using m by simp
      from less.hyps [OF this less.prems [unfolded eq]] obtain pre where
        "w = pre @ inp (snd (read_loop env st k lastMem content s))"
        "pre = [] \<or> last pre = Some LF \<or> last pre = None \<or> inp (snd (read_loop env st k lastMem content s)) = []"
        by (auto simp: eq)
      with m show ?thesis by (intro exI [of _ "map Some line @ pre"]) auto
    qed (use m in \<open>auto intro: exI [of _ "map Some line"]\<close>)
  next
    case (LineErr line e)
    with r obtain gap where "inp s = map Some line @ gap @ w" "gap = [] \<and> w = [] \<or> gap = [None]"
      by (auto simp: readBoundedSMTPLine_Err dest: next_line_ErrD)
    with read_loop_stop_cases [OF r, of st k lastMem content] LineErr less.prems show ?thesis
      by (intro exI [of _ "map Some line @ gap"]) auto
  next
    case LineTooLong
    with less.prems show ?thesis by (subst (asm) read_loop.simps) (simp add: r Let_def)
  qed
qed

lemma readData_sync:
  assumes "\<not> dataSyncLost (snd (readData env s))"
  shows "\<exists>pre. inp s = pre @ inp (snd (readData env s)) \<and>
     (pre = [] \<or> last pre = Some LF \<or> last pre = None \<or> inp (snd (readData env s)) = [])"
proof (cases "declaredSize (state s) > spoolThreshold env \<and> spillFails env (stepNo s)")
  case True
  then have "readData env s = (Inl ''451 4.3.0 Unable to prepare message spool'', s)" by (simp add: readData_def)
  then show ?thesis by simp
next
  case False
  then show ?thesis using assms read_loop_sync unfolding readData_def by (simp only: if_False) blast
qed

lemma ReadData_InlD:
  assumes "ReadData env s = (Inl e, s')" and "\<not> dataSyncLost s'"
  shows "\<exists>s1. readData env s = (Inl e, s1) \<and> \<not> dataSyncLost s1 \<and> s' = drain_loop env 0 True s1"
proof -
  obtain r s1 where r: "readData env s = (r, s1)" by (cases "readData env s")
  show ?thesis
  proof (cases r)
    case (Inl e')
    with assms r show ?thesis by (cases "dataSyncLost s1") (simp_all add: ReadData_def drainToEndOfData_def)
  next
    case (Inr b)
    with assms r show ?thesis by (simp add: ReadData_def)
  qed
qed

lemma read_loop_too_big:
  assumes "inp s = map Some (l @ CRLF) @ w" "LF \<notin> set l" "len l + 2 \<le> dataLineLimit"
    and "MaxSize (config env) < BytesRead st + len l + 2"
  shows "read_loop env st k lastMem content s =
    (Inl ''552 5.3.4 Message size exceeds maximum allowed'',
     upd_state (ClearDataTransferMode (now_of env s)) (s\<lparr>inp := w\<rparr>))"
proof -
  have r: "readBoundedSMTPLine n dataLineLimit (inp s) = (LineOk (l @ CRLF), w)" for n
    using read_crlf_line [OF assms(1-3)] .
  show ?thesis
    apply (subst read_loop.simps)
    unfolding Let_def r prod.case line_outcome.case validateLineEndings_crlf option.case
    using assms(4) by (simp add: CRLF_def)
qed

section \<open>Properties of DATA\<close>

text \<open>
  C12. What a conforming client sends is what the server stores: for any text lines without
  a newline inside, the dot-stuffed, CRLF-terminated transmission is read back as exactly
  those lines, the end-of-data line is consumed and nothing after it is, and no part of the
  session changes except the recorded data size. The transmission must fit the size limit
  and the line limit, the content checks must accept the lines, and the spool must not fail.
\<close>

theorem data_round_trip:
  assumes "inp s = map Some (smtp_encode ls) @ rest"
    and "lines_accepted env True ls"
    and "len (smtp_encode ls) \<le> MaxSize (config env)"
    and "\<And>b. \<not> memoryLimitHit env (stepNo s) b" and "\<And>n. \<not> spoolWriteFails env (stepNo s) n"
    and "\<not> spillFails env (stepNo s)"
  shows "ReadData env s = (Inr (message_text ls),
           upd_state (SetDataSize (now_of env s) (len (message_text ls))) (s\<lparr>inp := rest\<rparr>))"
  using read_loop_encode [OF assms(1), of env "\<lparr>InHeaders = True, LineCount = 0, BytesRead = 0,
      HeadersComplete = False, LastLineEndedWithCRLF = False\<rparr>" 0 0 "[]"] assms(2-6)
  by (simp add: ReadData_def readData_def)

theorem data_round_trip_witness:
  "fst (ReadData plain_env (NewSession plain_env
     (map Some (smtp_encode [''Subject: x'', [], ''.hidden'', ''.'', ''end'']) @ map Some ''QUIT'') None))
   = Inr (message_text [''Subject: x'', [], ''.hidden'', ''.'', ''end''])"
proof -
  let ?ls = "[''Subject: x'', [], ''.hidden'', ''.'', ''end'']"
  let ?s = "NewSession plain_env (map Some (smtp_encode ?ls) @ map Some ''QUIT'') None"
  have w: "inp ?s = map Some (smtp_encode ?ls) @ map Some ''QUIT''" by (simp add: NewSession_def)
  have sz: "len (smtp_encode ?ls) \<le> MaxSize (config plain_env)" by code_simp
  have lines: "lines_accepted plain_env True ?ls" by code_simp
  have "\<not> memoryLimitHit plain_env n b" "\<not> spoolWriteFails plain_env n b" "\<not> spillFails plain_env n" for n b
    by (simp_all add: plain_env_def)
  with data_round_trip [OF w lines sz] show ?thesis by simp
qed

text \<open>
  C13. In strict mode the end of a message is where RFC 5321 puts it. When \<open>readData\<close> accepts
  a message, the bytes it took are CRLF-terminated lines, none of them with a newline inside
  and none of them a lone dot, followed by the first lone-dot line; the stored text is those
  lines with one leading dot removed; and the whole transmission is within the size limit.
  So no bare LF, and no dot line other than CRLF.CRLF, can end a message or enter it.
\<close>

theorem strict_data_framing:
  assumes "readData env s = (Inr body, s')" and "StrictLineEndingsEnabled (config env)"
  shows "\<exists>raw. (\<forall>l \<in> set raw. LF \<notin> set l \<and> l \<noteq> ''.'') \<and>
     inp s = map Some (concat (map (\<lambda>l. l @ CRLF) raw) @ ''.'' @ CRLF) @ inp s' \<and>
     body = concat (map (\<lambda>l. applyDotStuffing (l @ CRLF)) raw) \<and>
     len (concat (map (\<lambda>l. l @ CRLF) raw)) + 3 \<le> MaxSize (config env)"
proof -
  from assms(1) have "read_loop env \<lparr>InHeaders = True, LineCount = 0, BytesRead = 0,
      HeadersComplete = False, LastLineEndedWithCRLF = False\<rparr> 0 0 [] s = (Inr body, s')"
    by (simp add: readData_def split: if_splits)
  from read_loop_strict [OF this assms(2)] show ?thesis by simp
qed

theorem strict_data_framing_witness:
  "\<exists>raw. (\<forall>l \<in> set raw. LF \<notin> set l \<and> l \<noteq> ''.'') \<and>
     map Some (''To: a'' @ CRLF @ ''..: b'' @ CRLF @ ''.'' @ CRLF @ ''QUIT'') =
       map Some (concat (map (\<lambda>l. l @ CRLF) raw) @ ''.'' @ CRLF) @ map Some ''QUIT'' \<and>
     ''To: a'' @ CRLF @ ''.: b'' @ CRLF = concat (map (\<lambda>l. applyDotStuffing (l @ CRLF)) raw)"
proof -
  let ?w = "map Some (''To: a'' @ CRLF @ ''..: b'' @ CRLF @ ''.'' @ CRLF @ ''QUIT'')"
  let ?s = "NewSession plain_env ?w None"
  have f: "fst (readData plain_env ?s) = Inr (''To: a'' @ CRLF @ ''.: b'' @ CRLF)"
    and i: "inp (snd (readData plain_env ?s)) = map Some ''QUIT''"
    and strict: "StrictLineEndingsEnabled (config plain_env)" by code_simp+
  have w: "inp ?s = ?w" by (simp add: NewSession_def)
  from f have "readData plain_env ?s = (Inr (''To: a'' @ CRLF @ ''.: b'' @ CRLF), snd (readData plain_env ?s))"
    by (metis prod.collapse)
  from strict_data_framing [OF this strict] show ?thesis unfolding w i by blast
qed



text \<open>
  C25. The drain is laxer than the reader. Also in strict mode, a message that is refused for
  its size ends, for the drain, at a dot line with a bare LF: the session is then neither
  closed nor out of sync, and the bytes after that line, which are still message content for
  every conforming peer, are the next commands.
\<close>

theorem drain_accepts_bare_lf_dot:
  assumes "inp s = map Some (l @ CRLF) @ map Some (''.'' @ [LF]) @ rest" and "LF \<notin> set l"
    and "len l + 2 \<le> dataLineLimit" and "MaxSize (config env) < len l + 2"
    and "\<not> spillFails env (stepNo s)" and "\<not> dataSyncLost s"
  shows "fst (ReadData env s) = Inl ''552 5.3.4 Message size exceeds maximum allowed'' \<and>
    inp (snd (ReadData env s)) = rest \<and> \<not> dataSyncLost (snd (ReadData env s))"
proof -
  have "readBoundedSMTPLine (bufSize env) dataLineLimit (map Some (''.'' @ [LF]) @ rest) = (LineOk (''.'' @ [LF]), rest)"
    by (simp add: readBoundedSMTPLine_Ok next_line_text dataLineLimit_def)
  then have "drain_loop env 0 True t = t\<lparr>inp := rest\<rparr>" if "inp t = map Some (''.'' @ [LF]) @ rest" for t
    using that by (subst drain_loop.simps) (simp add: trim_eol_def)
  with read_loop_too_big [OF assms(1-3), of env "\<lparr>InHeaders = True, LineCount = 0, BytesRead = 0,
      HeadersComplete = False, LastLineEndedWithCRLF = False\<rparr>"] assms(4-6)
  show ?thesis by (simp add: ReadData_def readData_def drainToEndOfData_def)
qed

theorem drain_accepts_bare_lf_dot_witness:
  "inp (snd (ReadData (plain_env\<lparr>config := plain_config\<lparr>MaxSize := 4\<rparr>\<rparr>) (NewSession plain_env
     (map Some (''X: y'' @ CRLF) @ map Some (''.'' @ [LF]) @ map Some ''RSET'') None))) = map Some ''RSET''"
  using drain_accepts_bare_lf_dot [of "NewSession plain_env
     (map Some (''X: y'' @ CRLF) @ map Some (''.'' @ [LF]) @ map Some ''RSET'') None" "''X: y''"
     "map Some ''RSET''" "plain_env\<lparr>config := plain_config\<lparr>MaxSize := 4\<rparr>\<rparr>"]
  by (simp add: NewSession_def dataLineLimit_def plain_env_def plain_config_def)



end
