(* ===== verification/Relay_Policy.thy ===== *)
theory Relay_Policy
  imports Session_Core
begin

text \<open>
  Who may send as whom and to whom: \<open>internal/smtp/sender_binding.go\<close> and the relay rules of
  \<open>internal/smtp/session_commands.go\<close> (\<open>checkRelayPermissions\<close>, \<open>reverseSRS\<close>, \<open>inLocalDomains\<close>,
  \<open>isRelayAllowed\<close>, \<open>checkSubmissionSender\<close>), with \<open>checkRBL\<close> of \<open>internal/smtp/session.go\<close>.
\<close>

section \<open>Local domains and relays\<close>

definition inLocalDomains :: "string list \<Rightarrow> string \<Rightarrow> bool" where
  "inLocalDomains domains recipient = (case Split recipient (CHR ''@'') of
       [_, d] \<Rightarrow> list_ex (\<lambda>l. ToLower l = ToLower d) domains
     | _ \<Rightarrow> False)"

definition isLocalDomain :: "Env \<Rightarrow> string \<Rightarrow> bool" where
  "isLocalDomain env recipient = inLocalDomains (LocalDomains (config env)) recipient"

definition isRelayAllowed :: "Env \<Rightarrow> bool" where
  "isRelayAllowed env = (case client_ip env of
       None \<Rightarrow> False
     | Some ip \<Rightarrow> IsAllowedRelay (Some ip) (AllowedRelays (config env)))"

definition checkRelayPermissions :: "Env \<Rightarrow> string \<Rightarrow> Session \<Rightarrow> error" where
  "checkRelayPermissions env recipient s =
     (if authenticated (state s) then None
      else if isLocalDomain env recipient then None
      else if isRelayAllowed env then None
      else Some ''554 5.7.1 Relay access denied'')"

definition user_unknown :: "string \<Rightarrow> string" where
  "user_unknown recipient =
     ''550 5.1.1 <'' @ sanitizeEmailForHeader recipient @ ''>: Recipient address rejected: User unknown''"

definition reverseSRS :: "Env \<Rightarrow> string \<Rightarrow> Session \<Rightarrow> string result" where
  "reverseSRS env recipient s = (case SRS (config env) of
       None \<Rightarrow> Inr []
     | Some r \<Rightarrow>
         if \<not> srs_Is recipient \<or> \<not> isLocalDomain env recipient then Inr []
         else if mailFrom (state s) \<noteq> []
         then Inl ''550 5.7.1 This address accepts delivery notifications only''
         else (case Reverse (sign (srsMac env)) (now_of env s) r recipient of
            Inl _ \<Rightarrow> Inl (user_unknown recipient)
          | Inr sender \<Rightarrow> Inr sender))"

section \<open>Submission\<close>

definition checkSubmissionSender :: "Env \<Rightarrow> Session \<Rightarrow> error" where
  "checkSubmissionSender env s =
     (if \<not> submission env \<or> authenticated (state s) then None
      else if isRelayAllowed env then None
      else Some ''530 5.7.0 Authentication required'')"

definition sender_policies :: "Env \<Rightarrow> Session \<Rightarrow> senderPolicies option" where
  "sender_policies env s =
     (if \<not> authenticated (state s) \<or> username (state s) = [] then None else policies env)"

text \<open>
  The block lists are asked only for clients that have not signed in and have an IP address. A
  listing stays on the session; it is an error when the checker is set to reject.
\<close>

definition checkRBL :: "Env \<Rightarrow> Session \<Rightarrow> error \<times> Session" where
  "checkRBL env s =
     (if \<not> rblEnabled env \<or> authenticated (state s) then (None, s)
      else let addr = NetAddr_String (remoteAddr env);
               host = (case SplitHostPort addr of Some (h, _) \<Rightarrow> h | None \<Rightarrow> addr)
           in case ParseIP host of
                None \<Rightarrow> (None, s)
              | Some ip \<Rightarrow>
                  (let d = rblCheck env (stepNo s) ip in
                   if \<not> Listed d then (None, s)
                   else (if rblReject env then Some (''554 5.7.1 '' @ RBL_Message d) else None, s\<lparr>rblDecision := d\<rparr>)))"

section \<open>Sender binding\<close>

definition alias_grants :: "string \<Rightarrow> string \<Rightarrow> string \<Rightarrow> bool" where
  "alias_grants addr domain a =
     (let l = ToLower (TrimSpace a)
      in l = addr \<or> (HasPrefix l ''@'' \<and> drop 1 l = domain))"

definition senderOwnedBy :: "string \<Rightarrow> string \<Rightarrow> string list \<Rightarrow> AuthConfig option \<Rightarrow> bool" where
  "senderOwnedBy login address localDomains auth =
     (let addr = ToLower (TrimSpace address) in
      case LastIndexByte addr (CHR ''@'') of
        None \<Rightarrow> False
      | Some i \<Rightarrow>
          if i = 0 \<or> i = length addr - 1 then False
          else
            (let l = take i addr; d = drop (i + 1) addr; lowerLogin = ToLower (TrimSpace login) in
             (if Contains lowerLogin ''@'' then lowerLogin = addr
              else lowerLogin \<noteq> [] \<and> lowerLogin = l \<and> list_ex (\<lambda>x. EqualFold x d) localDomains)
             \<or> (case auth of
                  None \<Rightarrow> False
                | Some a \<Rightarrow>
                    list_ex (\<lambda>(key, as). EqualFold (TrimSpace key) lowerLogin \<and> list_ex (alias_grants addr d) as)
                      (SenderAliases a))))"

definition checkSenderBinding :: "Env \<Rightarrow> string \<Rightarrow> Session \<Rightarrow> error" where
  "checkSenderBinding env from s =
     (let login = username (state s);
          refused = Some (''553 5.7.1 Sender address rejected: not owned by authenticated user '' @ login)
      in if \<not> authenticated (state s) \<or> from = [] then None
         else if (case Auth (config env) of None \<Rightarrow> False | Some a \<Rightarrow> AllowAnySender a) then None
         else if senderOwnedBy login from (LocalDomains (config env)) (Auth (config env)) then None
         else (case sender_policies env s of
            None \<Rightarrow> refused
          | Some sp \<Rightarrow>
              (case ShareAccess sp (stepNo s) from login of
                 Inr allowed \<Rightarrow> if allowed then None else refused
               | Inl notFound \<Rightarrow>
                   if notFound then refused else Some ''451 4.3.0 Shared sender authorization unavailable'')))"

end
