(* ===== verification/Message_Pipeline.thy ===== *)
theory Message_Pipeline
  imports Data_Reader Relay_Policy
begin

text \<open>
  What happens to a message once it has been read: \<open>processMessage\<close> of
  \<open>internal/smtp/session_data.go\<close> with everything it calls. In order: memory limits, metadata and
  headers of the first 256 KiB, the sender's limits, header validation, the virus and spam scans and
  the analysis of the content, verification of the sending domain, the headers of this hop,
  forged \<open>Authentication-Results\<close> headers (\<open>forged_authres.go\<close>), the DKIM signature
  (\<open>submission_dkim.go\<close>) and the hand-over to the queue with its annotations. Log lines, metrics,
  DMARC reports and the counters of the sender policies are left out; the From header is compared
  with the envelope only to log a difference, so that comparison is left out too.
\<close>

section \<open>Headers\<close>

definition DefaultHeadSize :: int where "DefaultHeadSize = 256 * 1024"

text \<open>\<open>MessageSpool.Head\<close>: the first bytes of the message, all of a short one.\<close>

definition spool_Head :: "string \<Rightarrow> string" where
  "spool_Head content = (if len content \<le> DefaultHeadSize then content else take (nat DefaultHeadSize) content)"

record MessageMetadata =
  md_MessageID :: string
  md_From :: string
  md_To :: "string list"
  md_Subject :: string
  md_Size :: int
  md_Headers :: "(string \<times> string) list"

text \<open>
  The header being read is \<open>name\<close> with the value \<open>val\<close>; it is stored when the next one starts or at the
  blank line, so a header block that runs into the end of the data loses its last header.
\<close>

fun header_lines :: "string \<Rightarrow> string \<Rightarrow> (string \<times> string) list \<Rightarrow> string list \<Rightarrow> (string \<times> string) list" where
  "header_lines name val acc [] = acc"
| "header_lines name val acc (l # ls) =
     (let line = TrimRightSet l [CR];
          acc' = (if name \<noteq> [] then AList.update name val acc else acc)
      in if line = [] then acc'
         else if HasPrefix line '' '' \<or> HasPrefix line [TAB] then
           header_lines name (if name \<noteq> [] then val @ '' '' @ TrimSpace line else val) acc ls
         else case IndexByte line (CHR '':'') of
           Some i \<Rightarrow>
             if i > 0 then header_lines (TrimSpace (take i line)) (TrimSpace (drop (i + 1) line)) acc' ls
             else header_lines [] [] acc' ls
         | None \<Rightarrow> header_lines [] [] acc' ls)"

definition extractHeaders :: "string \<Rightarrow> (string \<times> string) list" where
  "extractHeaders data = header_lines [] [] [] (Split data LF)"

definition extractMessageMetadata :: "Env \<Rightarrow> Session \<Rightarrow> string \<Rightarrow> int \<Rightarrow> MessageMetadata" where
  "extractMessageMetadata env s head sz =
     (let hs = fold (\<lambda>(name, v) m. AList.update (ToLower name) v m) (mapOrder env (stepNo s) (extractHeaders head)) []
      in \<lparr>md_MessageID = (case map_of hs ''message-id'' of Some v \<Rightarrow> v | None \<Rightarrow> newMessageID env (stepNo s)),
          md_From = mailFrom (state s), md_To = rcptTo (state s),
          md_Subject = (case map_of hs ''subject'' of Some v \<Rightarrow> v | None \<Rightarrow> []),
          md_Size = sz, md_Headers = hs\<rparr>)"

definition buildHeadersString :: "Env \<Rightarrow> Session \<Rightarrow> (string \<times> string) list \<Rightarrow> string" where
  "buildHeadersString env s headers =
     Join (map (\<lambda>(name, v). name @ '': '' @ v) (mapOrder env (stepNo s) headers)) [LF]"

definition check_address_header :: "Env \<Rightarrow> (string \<times> string) list \<Rightarrow> string \<Rightarrow> error" where
  "check_address_header env headers name = (case map_of headers name of
       None \<Rightarrow> None
     | Some v \<Rightarrow>
         if name = ''bcc'' \<and> TrimSpace v = [] then None
         else (case u_parseAddressList (unicode env) v of
            Inl e \<Rightarrow> Some (''invalid email address in '' @ name @ '' header: '' @ e)
          | Inr addresses \<Rightarrow>
              first_error (\<lambda>a. let r = ValidateSMTPParameter (unicode env) (newMessageValidator env) ''MAIL_FROM'' a in
                 if Valid r then None else Some (''invalid email address in '' @ name @ '' header: '' @ ErrorMessage r)) addresses))"

definition validateEmailAddressesInHeaders :: "Env \<Rightarrow> (string \<times> string) list \<Rightarrow> error" where
  "validateEmailAddressesInHeaders env headers =
     first_error (check_address_header env headers) [''from'', ''to'', ''cc'', ''bcc'', ''reply-to'']"

definition dangerousContentTypes :: "string list" where
  "dangerousContentTypes = [''application/x-msdownload'', ''application/x-executable'', ''application/x-sh'',
     ''application/x-bat'', ''application/x-cmd'', ''application/x-msdos-program'', ''application/x-winexe'']"

definition validateContentTypeRestrictions :: "(string \<times> string) list \<Rightarrow> error" where
  "validateContentTypeRestrictions headers = (case map_of headers ''content-type'' of
       None \<Rightarrow> None
     | Some ct \<Rightarrow>
         if list_ex (Contains (ToLower ct)) dangerousContentTypes
         then Some (''dangerous content type not allowed: '' @ ct)
         else (let r = validateHeaderSecurityPatterns ''content-type'' ct in
           if Valid r then None else Some (''invalid content-type header: '' @ ErrorMessage r)))"

definition missing_header :: "(string \<times> string) list \<Rightarrow> string \<Rightarrow> error" where
  "missing_header headers name = (if map_of headers name = None then Some (''missing required header: '' @ name) else None)"

definition validateMessageHeaders :: "Env \<Rightarrow> Session \<Rightarrow> MessageMetadata \<Rightarrow> error" where
  "validateMessageHeaders env s md =
     (let mc = messageChecks (config env); mode = headerMode mc; internal = isInternalConnection env;
          authNotRequired = (case Auth (config env) of None \<Rightarrow> False | Some a \<Rightarrow> auth_Enabled a \<and> \<not> auth_Required a);
          hs = md_Headers md; fatal = (mode \<noteq> ''warn'');
          r = ValidateEmailHeaders (newMessageValidator env) (buildHeadersString env s hs)
      in if mode = ''off'' then None
         else case (if \<not> internal \<and> \<not> authNotRequired \<and> fatal
                    then first_error (missing_header hs) [''from'', ''date''] else None) of
           Some e \<Rightarrow> Some e
         | None \<Rightarrow>
             if internal \<or> \<not> fatal then None
             else if \<not> Valid r then Some (''header validation failed: '' @ ErrorMessage r)
             else (case (if StrictAddressHeaders mc then validateEmailAddressesInHeaders env hs else None) of
                Some e \<Rightarrow> Some e
              | None \<Rightarrow> validateContentTypeRestrictions hs))"

section \<open>Scanning\<close>

record SecurityScanResult =
  Passed :: bool
  VirusFound :: bool
  SpamDetected :: bool
  SpamDefer :: bool
  SpamHeld :: bool
  SpamScore :: rat
  SpamThreshold :: rat
  Threats :: "string list"

definition clean_scan :: SecurityScanResult where
  "clean_scan = \<lparr>Passed = True, VirusFound = False, SpamDetected = False, SpamDefer = False, SpamHeld = False,
     SpamScore = 0, SpamThreshold = 0, Threats = []\<rparr>"

text \<open>\<open>fmt\<close>'s \<open>%.1f\<close>: one decimal, ties to even.\<close>

definition fmt_1f :: "rat \<Rightarrow> string" where
  "fmt_1f r =
     (let t = 10 * \<bar>r\<bar>; n = \<lfloor>t\<rfloor>; f = t - of_int n;
          m = (if f > 1 / 2 \<or> f = 1 / 2 \<and> odd n then n + 1 else n)
      in (if r < 0 then ''-'' else []) @ show_int (m div 10) @ ''.'' @ show_int (m mod 10))"

text \<open>The highest score and the threshold of the engine that gave it; \<open>best\<close> is the best so far.\<close>

fun winning :: "(rat \<times> rat) option \<Rightarrow> SpamVerdict option list \<Rightarrow> rat \<times> rat" where
  "winning best [] = (case best of None \<Rightarrow> (0, 0) | Some b \<Rightarrow> b)"
| "winning best (None # rs) = winning best rs"
| "winning best (Some r # rs) =
     (case best of
        None \<Rightarrow> winning (Some (Score r, Threshold r)) rs
      | Some (sc, th) \<Rightarrow> winning (Some (if Score r > sc then (Score r, Threshold r) else (sc, th))) rs)"

definition winningScore :: "SpamVerdict option list \<Rightarrow> rat \<times> rat" where
  "winningScore results = winning None results"

definition mergeScanResult :: "SecurityScanResult \<Rightarrow> SecurityScanResult \<Rightarrow> SecurityScanResult" where
  "mergeScanResult dst src = dst
     \<lparr>Passed := Passed dst \<and> Passed src, VirusFound := VirusFound dst \<or> VirusFound src,
      SpamDetected := SpamDetected dst \<or> SpamDetected src, SpamDefer := SpamDefer dst \<or> SpamDefer src,
      SpamHeld := SpamHeld dst \<or> SpamHeld src,
      SpamScore := (if SpamScore src > SpamScore dst then SpamScore src else SpamScore dst),
      SpamThreshold := (if SpamThreshold src > 0 \<and> SpamThreshold dst = 0 then SpamThreshold src else SpamThreshold dst),
      Threats := Threats dst @ Threats src\<rparr>"

fun virus_findings :: "VirusVerdict option list \<Rightarrow> SecurityScanResult \<Rightarrow> SecurityScanResult" where
  "virus_findings [] r = r"
| "virus_findings (None # vs) r = virus_findings vs r"
| "virus_findings (Some v # vs) r =
     (if av_Clean v then virus_findings vs r
      else virus_findings vs (r\<lparr>Passed := False, VirusFound := True,
        Threats := Threats r @ (if Infections v = [] then [''Virus detected by '' @ av_Engine v]
                                else map (\<lambda>i. ''Virus detected: '' @ i) (Infections v))\<rparr>))"

definition performAntivirusScan :: "Env \<Rightarrow> Session \<Rightarrow> string \<Rightarrow> SecurityScanResult \<Rightarrow> SecurityScanResult result" where
  "performAntivirusScan env s content r = (case avScan env (stepNo s) content of
       ScanOff \<Rightarrow> Inr r
     | ScanFailed \<Rightarrow> Inr r
     | ScanPanicked \<Rightarrow> Inl ''antivirus scan panicked''
     | Scanned vs \<Rightarrow> Inr (virus_findings vs r))"

definition canQuarantine :: "Env \<Rightarrow> Session \<Rightarrow> bool" where
  "canQuarantine env s =
     (case Antispam (config env) of
        None \<Rightarrow> False
      | Some a \<Rightarrow>
          Quarantine a \<and> \<not> authenticated (state s)
          \<and> list_all (inLocalDomains (LocalDomains (config env))) (rcptTo (state s)) \<and> rcptTo (state s) \<noteq> [])"

definition spam_envelope :: "Env \<Rightarrow> Session \<Rightarrow> MessageMetadata \<Rightarrow> SpamEnvelope" where
  "spam_envelope env s md =
     \<lparr>env_Helo = heloName (state s), env_From = mailFrom (state s), env_Rcpt = rcptTo (state s),
      env_ClientIP = (case SplitHostPort (NetAddr_String (remoteAddr env)) of Some (h, _) \<Rightarrow> h | None \<Rightarrow> []),
      env_User = (if authenticated (state s) then username (state s) else []), env_QueueID = md_MessageID md\<rparr>"

definition strongest_disposition :: "SpamVerdict option list \<Rightarrow> Disposition" where
  "strongest_disposition rs = fold (\<lambda>r d. case r of None \<Rightarrow> d | Some v \<Rightarrow> if Disp v > d then Disp v else d) rs DispositionClean"

definition called_spam :: "SpamVerdict option list \<Rightarrow> bool" where
  "called_spam rs = list_ex (\<lambda>r. case r of None \<Rightarrow> False | Some v \<Rightarrow> \<not> sp_Clean v) rs"

definition spam_findings :: "Env \<Rightarrow> Session \<Rightarrow> SpamVerdict option list \<Rightarrow> SecurityScanResult \<Rightarrow> SecurityScanResult" where
  "spam_findings env s rs r =
     (let (highest, threshold) = winningScore rs;
          r1 = r\<lparr>SpamScore := highest, SpamThreshold := threshold\<rparr>;
          r2 = r1\<lparr>SpamDetected := True,
                  Threats := Threats r @ [''Message identified as spam (score '' @ fmt_1f highest @ '')'']\<rparr>
      in if \<not> called_spam rs then r1
         else (case strongest_disposition rs of
            DispositionDefer \<Rightarrow> r2\<lparr>SpamDefer := True, Passed := False\<rparr>
          | DispositionReject \<Rightarrow>
              if (case Antispam (config env) of None \<Rightarrow> False | Some a \<Rightarrow> RejectOnSpam a) then
                (if canQuarantine env s then r2\<lparr>SpamHeld := True\<rparr> else r2\<lparr>Passed := False\<rparr>)
              else r2
          | _ \<Rightarrow> r2))"

definition performSpamScan :: "Env \<Rightarrow> Session \<Rightarrow> string \<Rightarrow> MessageMetadata \<Rightarrow> SecurityScanResult \<Rightarrow> SecurityScanResult result" where
  "performSpamScan env s content md r = (case spamScan env (stepNo s) (spam_envelope env s md) content of
       ScanOff \<Rightarrow> Inr r
     | ScanFailed \<Rightarrow> Inr r
     | ScanPanicked \<Rightarrow> Inl ''spam scan panicked''
     | Scanned rs \<Rightarrow> Inr (spam_findings env s rs r))"

definition separateHeadersAndBody :: "string \<Rightarrow> string \<times> string" where
  "separateHeadersAndBody content = (case Index content [CR, LF, CR, LF] of
       Some i \<Rightarrow> (take i content, drop (i + 4) content)
     | None \<Rightarrow>
         (case Index content [LF, LF] of
            Some i \<Rightarrow> (take i content, drop (i + 2) content)
          | None \<Rightarrow> (content, [])))"

definition add_threats :: "string \<Rightarrow> string list \<Rightarrow> SecurityScanResult \<Rightarrow> SecurityScanResult" where
  "add_threats what xs r = r\<lparr>Threats := Threats r @ map (\<lambda>x. what @ x) xs\<rparr>"

definition header_analysis :: "Env \<Rightarrow> string \<Rightarrow> SecurityScanResult \<Rightarrow> SecurityScanResult" where
  "header_analysis env head r =
     (let headers = fst (separateHeadersAndBody head); mode = headerMode (messageChecks (config env));
          v = ValidateSMTPParameter (unicode env) (newMessageValidator env) ''HEADER'' headers
      in if headers = [] \<or> mode = ''off'' \<or> Valid v then r
         else add_threats ''Header validation failed: '' [ErrorMessage v]
                (if mode = ''reject'' then r\<lparr>Passed := False\<rparr> else r))"

definition attachment_analysis :: "string \<Rightarrow> string \<Rightarrow> SecurityScanResult \<Rightarrow> SecurityScanResult" where
  "attachment_analysis mode head r =
     (let found = (if Contains head ''Content-Type: application/''
                   then filter (Contains (ToLower head)) (dangerousContentTypes @ [''application/octet-stream'']) else [])
      in add_threats ''Dangerous attachment type: '' found
           (if found \<noteq> [] \<and> mode = ''reject'' then r\<lparr>Passed := False\<rparr> else r))"

definition maliciousPatterns :: "string list" where
  "maliciousPatterns = [''<script'', ''javascript:'', ''vbscript:'', ''data:text/html'', ''eval('', ''expression('']"

definition suspiciousExtensions :: "string list" where
  "suspiciousExtensions = [''.exe'', ''.bat'', ''.cmd'', ''.pif'', ''.scr'', ''.vbs'', ''.js'',
     ''.jar'', ''.app'', ''.deb'', ''.rpm'', ''.dmg'', ''.pkg'', ''.msi'']"

text \<open>The special case for \<open>.com\<close> is never reached: the extension is not on the list.\<close>

definition performContentAnalysis :: "Env \<Rightarrow> string \<Rightarrow> SecurityScanResult \<Rightarrow> SecurityScanResult" where
  "performContentAnalysis env head r =
     (if isInternalConnection env then r
      else
        (let r1 = header_analysis env head r; mode = bodyMode (messageChecks (config env)); lower = ToLower head
         in if mode = ''off'' then r1
            else add_threats ''Suspicious file extension: '' (filter (Contains lower) suspiciousExtensions)
                   (add_threats ''Malicious content pattern: '' (filter (Contains lower) maliciousPatterns)
                      (attachment_analysis mode head r1))))"

definition performSecurityScan :: "Env \<Rightarrow> Session \<Rightarrow> string \<Rightarrow> string \<Rightarrow> MessageMetadata \<Rightarrow> SecurityScanResult result" where
  "performSecurityScan env s content head md =
     (case performAntivirusScan env s content clean_scan of
        Inl e \<Rightarrow> Inl e
      | Inr virusScan \<Rightarrow>
          (case performSpamScan env s content md clean_scan of
             Inl e \<Rightarrow> Inl e
           | Inr spam \<Rightarrow>
               Inr (performContentAnalysis env head (mergeScanResult (mergeScanResult clean_scan virusScan) spam))))"

definition handleSecurityThreat :: "SecurityScanResult \<Rightarrow> error" where
  "handleSecurityThreat r =
     (if VirusFound r then Some ''554 5.7.1 Message rejected: virus detected''
      else if SpamDetected r then
        Some (if SpamDefer r then ''451 4.7.1 Message deferred: try again later''
              else ''554 5.7.1 Message rejected: identified as spam'')
      else None)"

section \<open>The sending domain\<close>

definition verifyAuthenticationContent :: "Env \<Rightarrow> string \<Rightarrow> string \<Rightarrow> Session \<Rightarrow> error \<times> Session" where
  "verifyAuthenticationContent env from content s =
     (let s1 = s\<lparr>authResults := None\<rparr> in
      if authenticated (state s) then (None, s1)
      else case authVerify env of
        None \<Rightarrow> (None, s1)
      | Some verify \<Rightarrow>
          (let addr = NetAddr_String (remoteAddr env);
               host = (case SplitHostPort addr of Some (h, _) \<Rightarrow> h | None \<Rightarrow> addr);
               v = verify (stepNo s) (ParseIP host) (heloName (state s)) from content
           in (if av_Disposition v = ''reject''
               then Some (''550 5.7.1 Message rejected by the sending domain'' @ [CHR 0x27] @ ''s DMARC policy (p=reject)'')
               else None,
               s\<lparr>authResults := Some (av_Header v)\<rparr>)))"

section \<open>The headers of this hop\<close>

definition received_header :: "Env \<Rightarrow> Session \<Rightarrow> MessageMetadata \<Rightarrow> string" where
  "received_header env s md =
     (let st = state s; h = sanitizeHeloForHeader (heloName st); addr = NetAddr_String (remoteAddr env)
      in ''Received: from '' @ (if h \<noteq> [] then h else ''unknown'')
         @ '' (['' @ (case SplitHostPort addr of Some (a, _) \<Rightarrow> a | None \<Rightarrow> addr) @ ''])'' @ [CR, LF, TAB]
         @ ''by '' @ Hostname (config env) @ '' with ESMTP'' @ (if tlsActive st then ''S'' else [])
         @ (if authenticated st then ''A'' else []) @ '' id '' @ md_MessageID md @ [CR, LF, TAB]
         @ ''(envelope-from <'' @ sanitizeEmailForHeader (md_From md) @ ''>)'' @ [CR, LF, TAB]
         @ ''for <'' @ Join (map sanitizeEmailForHeader (md_To md)) '', '' @ ''>; '' @ formatRFC1123Z env (now_of env s))"

definition spam_headers :: "Env \<Rightarrow> SecurityScanResult \<Rightarrow> string list" where
  "spam_headers env r =
     (let status = (if SpamHeld r then ''Yes, quarantine'' else if SpamDetected r then ''Yes'' else ''No'');
          threshold = (if SpamThreshold r \<le> 0 then
             (case Antispam (config env) of
                Some a \<Rightarrow> (case rspamd_Threshold a of Some t \<Rightarrow> t | None \<Rightarrow> SpamThreshold r)
              | None \<Rightarrow> SpamThreshold r) else SpamThreshold r)
      in (if VirusFound r then [''X-Virus-Scanned: Yes'', ''X-Virus-Status: INFECTED'']
          else [''X-Virus-Scanned: Clean (Elemta)''])
         @ [''X-Spam-Scanned: Yes'',
            ''X-Spam-Status: '' @ status @ '', score='' @ fmt_1f (SpamScore r) @ ''/'' @ fmt_1f threshold,
            ''X-Spam-Score: '' @ fmt_1f (SpamScore r)])"

definition rbl_headers :: "Session \<Rightarrow> string list" where
  "rbl_headers s =
     (let d = rblDecision s in
      if \<not> Listed d then []
      else [''X-RBL-Listed: '' @ Zone d @ '' ('' @ Code d @ '')'' @ (if rbl_Reason d \<noteq> [] then ''; '' @ rbl_Reason d else [])])"

definition identity_char :: "char \<Rightarrow> bool" where
  "identity_char c \<longleftrightarrow> is_alnum c \<or> c \<in> set ''@._+-''"

definition auth_headers :: "Env \<Rightarrow> Session \<Rightarrow> string list" where
  "auth_headers env s =
     (let user = username (state s) in
      if authenticated (state s) then
        [''Authentication-Results: '' @ sanitizeEmailForHeader (Hostname (config env)) @ ''; auth=pass''
           @ (if user \<noteq> [] \<and> list_all identity_char user then '' smtp.auth='' @ user else [])]
      else case authResults s of Some h \<Rightarrow> [''Authentication-Results: '' @ h] | None \<Rightarrow> [])"

definition server_headers :: "Env \<Rightarrow> Session \<Rightarrow> MessageMetadata \<Rightarrow> SecurityScanResult \<Rightarrow> string list" where
  "server_headers env s md r =
     received_header env s md # spam_headers env r @ rbl_headers s @ auth_headers env s
     @ [''X-Elemta-Version: 1.0'', ''X-Processed-By: Elemta MTA'', ''X-Message-ID: '' @ md_MessageID md]"

definition buildServerHeaders :: "Env \<Rightarrow> Session \<Rightarrow> string \<Rightarrow> MessageMetadata \<Rightarrow> SecurityScanResult \<Rightarrow> string" where
  "buildServerHeaders env s head md r =
     Join (server_headers env s md r) [CR, LF] @ [CR, LF]
     @ (if \<not> Contains head [CR, LF, CR, LF] \<and> \<not> Contains head [LF, LF] then [CR, LF] else [])"

section \<open>Forged results\<close>

definition authResultsName :: string where "authResultsName = ''Authentication-Results''"

definition renamedAuthNames :: string where "renamedAuthNames = ''X-Untrusted-AuthResult''"

definition isForgedAuthResults :: "string \<Rightarrow> string \<Rightarrow> bool" where
  "isForgedAuthResults line hostname = (case Cut line (CHR '':'') of (name, val, ok) \<Rightarrow>
     if \<not> ok \<or> \<not> EqualFold (TrimRightSet name ('' '' @ [TAB])) authResultsName then False
     else let ident = (case IndexByte val (CHR '';'') of Some i \<Rightarrow> take i val | None \<Rightarrow> val) in
       case Fields ident of [] \<Rightarrow> False | f # _ \<Rightarrow> EqualFold (TrimSuffix f ''.'') hostname)"

definition rename_line :: "string \<Rightarrow> string \<Rightarrow> string" where
  "rename_line hostname line =
     (if isForgedAuthResults line hostname then renamedAuthNames @ drop (length renamedAuthNames) line else line)"

text \<open>The lines of the header block, split at CRLF.\<close>

function rename_lines :: "string \<Rightarrow> string \<Rightarrow> string" where
  "rename_lines hostname t =
     (if t = [] then []
      else case Index t [CR, LF] of
        None \<Rightarrow> rename_line hostname t
      | Some i \<Rightarrow> rename_line hostname (take i t) @ [CR, LF] @ rename_lines hostname (drop (i + 2) t))"
  by pat_completeness auto
termination by (relation "measure (length \<circ> snd)") auto

declare rename_lines.simps [simp del]

definition neutralizeForgedAuthResults :: "string \<Rightarrow> string \<Rightarrow> string" where
  "neutralizeForgedAuthResults head host0 =
     (let hostname = ToLower (TrimSuffix (TrimSpace host0) ''.'');
          n = (case Index head [CR, LF, CR, LF] of Some i \<Rightarrow> i | None \<Rightarrow> length head)
      in if hostname = [] then head else rename_lines hostname (take n head) @ drop n head)"

section \<open>Signing and storing\<close>

definition DomainFromAddress :: "string \<Rightarrow> string" where
  "DomainFromAddress a =
     (let addr = TrimSet (TrimSpace a) ''<>'' in
      case LastIndexByte addr (CHR ''@'') of
        None \<Rightarrow> []
      | Some i \<Rightarrow> if i = length addr - 1 then [] else ToLower (TrimSpace (drop (i + 1) addr)))"

text \<open>The header block to store and the domain signed for. An empty signature leaves no header block.\<close>

definition signSubmission :: "Env \<Rightarrow> Session \<Rightarrow> string \<Rightarrow> string \<Rightarrow> string \<Rightarrow> (string \<times> string) result" where
  "signSubmission env s headerPrefix body from = (case dkimSigner env of
       None \<Rightarrow> Inr (headerPrefix, [])
     | Some sg \<Rightarrow>
         (let domain = DomainFromAddress from in
          if \<not> authenticated (state s) \<or> domain = [] \<or> \<not> HasKeyFor sg domain then Inr (headerPrefix, [])
          else (case SignatureFor sg (headerPrefix @ body) domain of
             Inl e \<Rightarrow> Inl e
           | Inr sig \<Rightarrow> if sig = [] then Inr ([], []) else Inr (sig @ headerPrefix, domain))))"

fun return_String :: "DSNReturnType \<Rightarrow> string" where
  "return_String DSNReturnUnset = []"
| "return_String DSNReturnFull = ''FULL''"
| "return_String DSNReturnHeaders = ''HDRS''"

fun notify_String :: "DSNNotifyType \<Rightarrow> string" where
  "notify_String DSNNotifyNever = ''NEVER''"
| "notify_String DSNNotifySuccess = ''SUCCESS''"
| "notify_String DSNNotifyFailure = ''FAILURE''"
| "notify_String DSNNotifyDelay = ''DELAY''"

definition recipient_annotations :: "string \<Rightarrow> DSNRecipientParams \<Rightarrow> (string \<times> string) list" where
  "recipient_annotations addr p =
     (if Notify p \<noteq> [] then [(''dsn_notify:'' @ addr, Join (map notify_String (Notify p)) '','')] else [])
     @ (if ORCPT p \<noteq> [] then [(''dsn_orcpt:'' @ addr, ORCPT p)] else [])"

text \<open>The annotations of a queued message: those that can be written, the others are only logged.\<close>

definition saveDSNAnnotations :: "Session \<Rightarrow> (string \<times> string) list" where
  "saveDSNAnnotations s =
     (let st = state s in
      (case dsnParams st of
         None \<Rightarrow> []
       | Some p \<Rightarrow>
           (if Return p \<noteq> DSNReturnUnset then [(''dsn_return'', return_String (Return p))] else [])
           @ (if EnvID p \<noteq> [] then [(''dsn_envid'', EnvID p)] else []))
      @ (case dsnRecipientParams st of
           None \<Rightarrow> []
         | Some m \<Rightarrow> concat (map (\<lambda>a. case m a of None \<Rightarrow> [] | Some p \<Rightarrow> recipient_annotations a p) (remdups (rcptTo st))))
      @ (if requireTLS st then [(''require_tls'', ''true'')] else []))"

definition saveMessage :: "Env \<Rightarrow> Session \<Rightarrow> string \<Rightarrow> string \<Rightarrow> string \<Rightarrow> MessageMetadata \<Rightarrow> QueuedMessage result" where
  "saveMessage env s headerPrefix body received md = (case signSubmission env s headerPrefix body (md_From md) of
       Inl e \<Rightarrow> Inl ''451 4.3.0 Message could not be signed; try again''
     | Inr (prefix, signedFor) \<Rightarrow>
         if enqueueFails env (stepNo s) then Inl ''failed to save message''
         else Inr
           \<lparr>q_from = md_From md, q_to = md_To md, q_subject = md_Subject md, q_content = prefix @ body,
            q_annotations = filter (\<lambda>(k, _). \<not> annotationFails env (stepNo s) k)
              (saveDSNAnnotations s @ (if signedFor \<noteq> [] then [(''dkim_signed'', signedFor)] else [])),
            q_body = received, q_user = (if authenticated (state s) then username (state s) else []),
            q_requireTLS = requireTLS (state s)\<rparr>)"

section \<open>Processing a message\<close>

definition check_content :: "Env \<Rightarrow> string \<Rightarrow> Session \<Rightarrow> error" where
  "check_content env content s = (case policies env of
       Some sp \<Rightarrow>
         if authenticated (state s) \<and> username (state s) \<noteq> []
         then checkContent sp (stepNo s) (username (state s)) content else None
     | None \<Rightarrow> None)"

text \<open>From the verified sender to the queue.\<close>

definition store_message :: "Env \<Rightarrow> string \<Rightarrow> string \<Rightarrow> MessageMetadata \<Rightarrow> SecurityScanResult \<Rightarrow> Session \<Rightarrow> error \<times> Session" where
  "store_message env content head md r s =
     (case verifyAuthenticationContent env (md_From md) content s of
        (Some e, s1) \<Rightarrow> (Some e, s1)
      | (None, s1) \<Rightarrow>
          (let prefix = buildServerHeaders env s1 head md r;
               body = neutralizeForgedAuthResults head (Hostname (config env)) @ drop (length head) content
           in case saveMessage env s1 prefix body content md of
                Inl _ \<Rightarrow> (Some ''451 4.3.0 Message processing failed'', s1)
              | Inr m \<Rightarrow>
                  (None, upd_state (IncrementMessageCount (now_of env s))
                     (upd_state (Reset (now_of env s)) (s1\<lparr>queued := queued s1 @ [m]\<rparr>)))))"

definition processMessage :: "Env \<Rightarrow> string \<Rightarrow> Session \<Rightarrow> error \<times> Session" where
  "processMessage env content s =
     (let head = spool_Head content;
          md = extractMessageMetadata env s head (len content)
      in if globalMemoryHit env (stepNo s) then (Some ''552 5.3.4 Server memory limit exceeded'', s)
         else if connectionMemoryHit env (stepNo s) (len head) then (Some ''552 5.3.4 Session memory limit exceeded'', s)
         else case check_content env content s of Some e \<Rightarrow> (Some e, s) | None \<Rightarrow>
         case validateMessageHeaders env s md of Some e \<Rightarrow> (Some (''554 5.7.1 Message rejected: '' @ e), s) | None \<Rightarrow>
         case performSecurityScan env s content head md of
           Inl _ \<Rightarrow> (Some ''451 4.3.0 Security scan failed'', s)
         | Inr r \<Rightarrow>
             if \<not> Passed r then (handleSecurityThreat r, s)
             else store_message env content head md r s)"

definition ProcessMessage :: "Env \<Rightarrow> string \<Rightarrow> Session \<Rightarrow> error \<times> Session" where
  "ProcessMessage env content s =
     (if spoolReadFails env (stepNo s) then (Some ''451 4.3.0 Unable to read message data'', s)
      else processMessage env content s)"

definition ProcessBDATMessage :: "Env \<Rightarrow> Session \<Rightarrow> error \<times> Session" where
  "ProcessBDATMessage env s = (case bdatSpool s of
       None \<Rightarrow> (Some ''503 5.5.1 No message data received'', ResetBDAT s)
     | Some b \<Rightarrow>
         (let s1 = upd_state (SetDataSize (now_of env s) (len b)) s in
          if spoolReadFails env (stepNo s) then (Some ''451 4.3.0 Unable to read message data'', ResetBDAT s1)
          else case processMessage env b s1 of (e, s') \<Rightarrow> (e, ResetBDAT s')))"

section \<open>What processing can do\<close>

text \<open>
  \<open>carries s m\<close>: the message has the envelope and the user of the session; \<open>enqueue env m s\<close>: the
  message is handed over and the transaction closed.
\<close>

definition carries :: "Session \<Rightarrow> QueuedMessage \<Rightarrow> bool" where
  "carries s m \<longleftrightarrow> q_from m = mailFrom (state s) \<and> q_to m = rcptTo (state s) \<and> q_requireTLS m = requireTLS (state s)
     \<and> q_user m = (if authenticated (state s) then username (state s) else [])"

definition enqueue :: "Env \<Rightarrow> QueuedMessage \<Rightarrow> Session \<Rightarrow> Session" where
  "enqueue env m s = upd_state (Reset (now_of env s)) (s\<lparr>queued := queued s @ [m]\<rparr>)"

lemma carries_cong: "core s = core t \<Longrightarrow> carries s m = carries t m"
  by (simp add: carries_def core_defs)

lemma verifyAuthenticationContent_frame:
  "verifyAuthenticationContent env from content s = (e, s') \<Longrightarrow>
     core s' = core s \<and> wire_size s' = wire_size s \<and> state s' = state s \<and> queued s' = queued s \<and> stepNo s' = stepNo s"
  by (auto simp: verifyAuthenticationContent_def Let_def wire_size_def split: if_splits option.splits)

lemma saveMessage_carries:
  "saveMessage env s prefix body received md = Inr m \<Longrightarrow> md_From md = mailFrom (state s) \<Longrightarrow> md_To md = rcptTo (state s) \<Longrightarrow>
     carries s m \<and> q_body m = received"
  by (auto simp: saveMessage_def carries_def split: sum.splits prod.splits if_splits)

lemma store_message_cases:
  assumes "store_message env content head md r s = (e, s')" and "md_From md = mailFrom (state s)" "md_To md = rcptTo (state s)"
  obtains (rejected) x where "e = Some x" "core s' = core s" "wire_size s' = wire_size s"
  | (accepted) m where "e = None" "carries s m" "q_body m = content" "core s' = core (enqueue env m s)" "wire_size s' = wire_size s"
proof -
  obtain v s1 where v: "verifyAuthenticationContent env (md_From md) content s = (v, s1)"
    by (cases "verifyAuthenticationContent env (md_From md) content s")
  note f = verifyAuthenticationContent_frame [OF v]
  let ?body = "neutralizeForgedAuthResults head (Hostname (config env)) @ drop (length head) content"
  define q where "q = saveMessage env s1 (buildServerHeaders env s1 head md r) ?body content md"
  have st: "(e, s') = (case v of Some x \<Rightarrow> (Some x, s1) | None \<Rightarrow> (case q of
      Inl _ \<Rightarrow> (Some ''451 4.3.0 Message processing failed'', s1)
    | Inr m \<Rightarrow> (None, upd_state (IncrementMessageCount (now_of env s)) (upd_state (Reset (now_of env s)) (s1\<lparr>queued := queued s1 @ [m]\<rparr>)))))"
    using assms(1) unfolding store_message_def v q_def Let_def by simp
  show thesis
  proof (cases "v = None \<and> \<not> isl q")
    case False
    with st f rejected show thesis by (cases v; cases q) auto
  next
    case True
    then obtain m where m: "q = Inr m" by (cases q) auto
    then have c: "carries s m" "q_body m = content"
      using saveMessage_carries [of env s1 _ ?body content md m] assms(2,3) f carries_cong [of s1 s] q_def by auto
    have s': "e = None" "s' = upd_state (IncrementMessageCount (now_of env s)) (upd_state (Reset (now_of env s)) (s1\<lparr>queued := queued s1 @ [m]\<rparr>))"
      using st m True by simp_all
    have "core s' = core (enqueue env m s)"
      using f unfolding s'(2) by (simp add: core_defs enqueue_def IncrementMessageCount_def Reset_def)
    moreover have "wire_size s' = wire_size s" using f s'(2) by (simp add: wire_size_def)
    ultimately show thesis using accepted c s'(1) by blast
  qed
qed

lemma processMessage_cases:
  assumes "processMessage env content s = (e, s')"
  obtains (rejected) x where "e = Some x" "core s' = core s" "wire_size s' = wire_size s"
  | (dropped) "e = None" "s' = s"
  | (accepted) m where "e = None" "carries s m" "q_body m = content" "core s' = core (enqueue env m s)" "wire_size s' = wire_size s"
proof -
  let ?head = "spool_Head content"
  let ?md = "extractMessageMetadata env s ?head (len content)"
  have md: "md_From ?md = mailFrom (state s)" "md_To ?md = rcptTo (state s)" by (simp_all add: extractMessageMetadata_def Let_def)
  from assms consider "s' = s" | r where "store_message env content ?head ?md r s = (e, s')"
    by (auto simp: processMessage_def Let_def split: if_splits option.splits sum.splits)
  then show thesis
  proof cases
    case 1
    then show thesis using rejected dropped by (cases e) auto
  next
    case (2 r)
    from 2 md show thesis by (cases rule: store_message_cases) (use rejected accepted in blast)+
  qed
qed

lemma ProcessMessage_cases:
  assumes "ProcessMessage env content s = (e, s')"
  obtains (rejected) x where "e = Some x" "core s' = core s" "wire_size s' = wire_size s"
  | (dropped) "e = None" "s' = s"
  | (accepted) m where "e = None" "carries s m" "q_body m = content" "core s' = core (enqueue env m s)" "wire_size s' = wire_size s"
  using assms processMessage_cases [of env content s e s']
  by (cases "spoolReadFails env (stepNo s)") (auto simp: ProcessMessage_def)

end
