(* ===== verification/Auth_Handler.thy ===== *)
theory Auth_Handler
  imports Session_Core
begin

text \<open>
  The AUTH command: \<open>internal/smtp/session_auth.go\<close>, with \<open>encoding/base64\<close> as far as it is used.

  The failure records and account lockouts of the authentication security manager are the
  association lists \<open>ipFailures\<close> and \<open>accountLockouts\<close> of the session. The password check
  is the parameter \<open>authenticate\<close> of the environment, the abuse engine's answers are
  \<open>blockedPeer\<close> and \<open>shielded\<close>. Log lines are left out.
\<close>

section \<open>Base 64\<close>

definition b64_char :: "int \<Rightarrow> char" where
  "b64_char n =
     (char_of (if n < 26 then n + 65 else if n < 52 then n + 71 else if n < 62 then n - 4
               else if n = 62 then 43 else 47 :: int))"

definition b64_val :: "char \<Rightarrow> int option" where
  "b64_val c =
     (let b = byte_val c in
      if 65 \<le> b \<and> b \<le> 90 then Some (b - 65)
      else if 97 \<le> b \<and> b \<le> 122 then Some (b - 71)
      else if 48 \<le> b \<and> b \<le> 57 then Some (b + 4)
      else if b = 43 then Some 62
      else if b = 47 then Some 63
      else None)"

fun EncodeToString :: "string \<Rightarrow> string" where
  "EncodeToString [] = []"
| "EncodeToString [a] =
     [b64_char (byte_val a div 4), b64_char (byte_val a mod 4 * 16), CHR ''='', CHR ''='']"
| "EncodeToString [a, b] =
     [b64_char (byte_val a div 4), b64_char (byte_val a mod 4 * 16 + byte_val b div 16),
      b64_char (byte_val b mod 16 * 4), CHR ''='']"
| "EncodeToString (a # b # c # s) =
     [b64_char (byte_val a div 4), b64_char (byte_val a mod 4 * 16 + byte_val b div 16),
      b64_char (byte_val b mod 16 * 4 + byte_val c div 64), b64_char (byte_val c mod 64)] @ EncodeToString s"

text \<open>
  \<open>StdEncoding.DecodeString\<close>: padding is required, line ends are skipped, nothing may follow
  the padding, and the unused bits of the last character are not looked at.
\<close>

definition b64_byte :: "int \<Rightarrow> char" where
  "b64_byte n = char_of (n mod 256)"

fun decode_quanta :: "string \<Rightarrow> string option" where
  "decode_quanta [] = Some []"
| "decode_quanta (a # b # c # d # s) =
     (case (b64_val a, b64_val b) of
        (Some x, Some y) \<Rightarrow>
          if c = CHR ''='' then
            (if d = CHR ''='' \<and> s = [] then Some [b64_byte (x * 4 + y div 16)] else None)
          else (case b64_val c of
            None \<Rightarrow> None
          | Some z \<Rightarrow>
              if d = CHR ''='' then
                (if s = [] then Some [b64_byte (x * 4 + y div 16), b64_byte (y * 16 + z div 4)] else None)
              else (case b64_val d of
                None \<Rightarrow> None
              | Some w \<Rightarrow>
                  map_option ((@) [b64_byte (x * 4 + y div 16), b64_byte (y * 16 + z div 4), b64_byte (z * 64 + w)])
                    (decode_quanta s)))
      | _ \<Rightarrow> None)"
| "decode_quanta _ = None"

definition DecodeString :: "string \<Rightarrow> string option" where
  "DecodeString s = decode_quanta (filter (\<lambda>c. c \<noteq> CR \<and> c \<noteq> LF) s)"

section \<open>The security manager\<close>

type_synonym AuthMethod = string

record AuthSecurityConfig =
  MaxAuthAttempts :: int
  MaxAuthAttemptsPerIP :: int
  AuthRateInterval :: int
  AccountLockoutDuration :: int
  RequireTLSForPlain :: bool
  EnabledMethods :: "AuthMethod list"

text \<open>The configuration of the server's shared manager; durations are in seconds.\<close>

definition authSecurityConfig :: "Config \<Rightarrow> AuthSecurityConfig" where
  "authSecurityConfig c =
     \<lparr>MaxAuthAttempts = 5, MaxAuthAttemptsPerIP = 10, AuthRateInterval = 900,
      AccountLockoutDuration = 1800,
      RequireTLSForPlain = (case Auth c of None \<Rightarrow> True | Some a \<Rightarrow> \<not> AllowPlaintextAuth a),
      EnabledMethods = [''PLAIN'', ''LOGIN'']\<rparr>"

abbreviation auth_config :: "Env \<Rightarrow> AuthSecurityConfig" where
  "auth_config env \<equiv> authSecurityConfig (config env)"

definition remote_host :: "Env \<Rightarrow> string option" where
  "remote_host env = map_option fst (SplitHostPort (NetAddr_String (remoteAddr env)))"

definition lockKey :: "Env \<Rightarrow> string \<Rightarrow> string" where
  "lockKey env user = user @ [CHR 0x00] @ (case remote_host env of Some h \<Rightarrow> h | None \<Rightarrow> [])"

definition pruneLocked :: "Env \<Rightarrow> Session \<Rightarrow> Session" where
  "pruneLocked env s =
     (let now = now_of env s in
      s\<lparr>ipFailures := filter (\<lambda>(_, f). \<not> (now - LastTime f > AuthRateInterval (auth_config env))) (ipFailures s),
        accountLockouts := filter (\<lambda>(_, l). \<not> now > LockedUntil l) (accountLockouts s)\<rparr>)"

definition isMethodEnabled :: "Env \<Rightarrow> AuthMethod \<Rightarrow> bool" where
  "isMethodEnabled env m \<longleftrightarrow> m \<in> set (EnabledMethods (auth_config env))"

definition isIPRateLimited :: "Env \<Rightarrow> string \<Rightarrow> Session \<Rightarrow> bool" where
  "isIPRateLimited env ip s = (case map_of (ipFailures s) ip of
       None \<Rightarrow> False
     | Some f \<Rightarrow>
         if now_of env s - LastTime f > AuthRateInterval (auth_config env) then False
         else FailureCount f \<ge> MaxAuthAttemptsPerIP (auth_config env))"

definition isAccountLocked :: "Env \<Rightarrow> string \<Rightarrow> Session \<Rightarrow> bool" where
  "isAccountLocked env user s = (case map_of (accountLockouts s) (lockKey env user) of
       None \<Rightarrow> False
     | Some l \<Rightarrow> now_of env s < LockedUntil l)"

definition record_ip_failure :: "Env \<Rightarrow> Session \<Rightarrow> Session" where
  "record_ip_failure env s = (case remote_host env of
       None \<Rightarrow> s
     | Some h \<Rightarrow>
         s\<lparr>ipFailures := AList.update h
             (case map_of (ipFailures s) h of
                Some f \<Rightarrow> f\<lparr>FailureCount := FailureCount f + 1, LastTime := now_of env s\<rparr>
              | None \<Rightarrow> \<lparr>FailureCount = 1, LastTime = now_of env s\<rparr>) (ipFailures s)\<rparr>)"

definition recordAuthFailure :: "Env \<Rightarrow> string \<Rightarrow> Session \<Rightarrow> Session" where
  "recordAuthFailure env user s =
     (let s1 = (if len (ipFailures s) > 10000 then pruneLocked env s else s);
          s2 = record_ip_failure env s1
      in if authAttempts (state s2) \<ge> MaxAuthAttempts (auth_config env)
         then s2\<lparr>accountLockouts := AList.update (lockKey env user)
                   \<lparr>LockedUntil = now_of env s + AccountLockoutDuration (auth_config env)\<rparr> (accountLockouts s2)\<rparr>
         else s2)"

definition recordAuthSuccess :: "Env \<Rightarrow> string \<Rightarrow> Session \<Rightarrow> Session" where
  "recordAuthSuccess env user s =
     s\<lparr>ipFailures := (case remote_host env of None \<Rightarrow> ipFailures s | Some h \<Rightarrow> AList.delete h (ipFailures s)),
       accountLockouts := AList.delete user (accountLockouts s)\<rparr>"

definition Cleanup :: "Env \<Rightarrow> Session \<Rightarrow> Session" where
  "Cleanup env s = pruneLocked env s"

section \<open>Checks\<close>

definition b64_input_char :: "char \<Rightarrow> bool" where
  "b64_input_char c \<longleftrightarrow> is_alnum c \<or> c = CHR ''+'' \<or> c = CHR ''/'' \<or> c = CHR ''=''"

definition validateBase64Input :: "string \<Rightarrow> error" where
  "validateBase64Input input =
     (if input = [] then Some ''empty input''
      else if len input > 1000 then Some ''input too long''
      else if \<not> list_all b64_input_char input then Some ''invalid base64 character''
      else None)"

definition suspiciousPatterns :: "string list" where
  "suspiciousPatterns =
     [[CHR 0x27], [DQUOTE], '';'', ''--'', ''/*'', ''*/'', ''xp_'', ''sp_'', ''UNION'', ''SELECT'', ''INSERT'',
      ''DELETE'', ''UPDATE'', ''DROP'', [CHR 0x00], [CR], [LF]]"

definition validateAuthenticationData :: "string \<Rightarrow> string \<Rightarrow> error" where
  "validateAuthenticationData user password =
     (if user = [] then Some ''empty username''
      else if len user > 255 then Some ''username too long''
      else if list_ex (\<lambda>p. Contains (ToUpper user) (ToUpper p)) suspiciousPatterns
      then Some ''invalid username format''
      else if password = [] then Some ''empty password''
      else if len password > 1000 then Some ''password too long''
      else None)"

definition plaintextAuthAllowed :: "Env \<Rightarrow> Session \<Rightarrow> bool" where
  "plaintextAuthAllowed env s \<longleftrightarrow>
     (if \<not> RequireTLSForPlain (auth_config env) \<or> tlsActive (state s) then True
      else case client_ip env of Some ip \<Rightarrow> IsLoopback ip | None \<Rightarrow> False)"

definition checkSecurityConstraints :: "Env \<Rightarrow> AuthMethod \<Rightarrow> Session \<Rightarrow> error" where
  "checkSecurityConstraints env m s =
     (if \<not> isMethodEnabled env m then Some ''504 5.7.4 Authentication mechanism not supported''
      else if (m = ''PLAIN'' \<or> m = ''LOGIN'') \<and> \<not> plaintextAuthAllowed env s
      then Some ''538 5.7.11 Encryption required for requested authentication mechanism''
      else if \<not> webmailSubmission env \<and> blockedPeer env (stepNo s)
      then Some ''421 4.7.1 Too many failed sign-ins from this address; try again later''
      else if (case remote_host env of Some h \<Rightarrow> isIPRateLimited env h s | None \<Rightarrow> False)
      then Some ''421 4.7.0 Too many authentication attempts from this IP''
      else None)"

definition GetAuthMethodsString :: "Env \<Rightarrow> string" where
  "GetAuthMethodsString env = Join (EnabledMethods (auth_config env)) '' ''"

definition heldBack :: "Env \<Rightarrow> string \<Rightarrow> bool \<Rightarrow> Session \<Rightarrow> bool" where
  "heldBack env user appPassword s \<longleftrightarrow>
     (if appPassword \<or> webmailSubmission env then False else shielded env (stepNo s) user)"

definition CheckPermission :: "Permission \<Rightarrow> Session \<Rightarrow> bool" where
  "CheckPermission p s = (case sessionStateMachine s of None \<Rightarrow> False | Some m \<Rightarrow> HasPermission p m)"

section \<open>Signing in\<close>

text \<open>A transition whose error the caller only logs.\<close>

definition try_machine :: "(SessionStateMachine \<Rightarrow> SessionStateMachine result) \<Rightarrow> Session \<Rightarrow> Session" where
  "try_machine f s = s\<lparr>sessionStateMachine := map_option (\<lambda>m. on_ok m (f m)) (sessionStateMachine s)\<rparr>"

definition setupRBACContext :: "Env \<Rightarrow> string \<Rightarrow> Session \<Rightarrow> Session" where
  "setupRBACContext env user s =
     try_machine (SetRBACContext \<lparr>rbac_Username = user, Roles = [''user''],
       Permissions = [PermissionSMTPAuth, PermissionSMTPSend], LastCheck = now_of env s\<rparr>) s"

definition sign_in :: "Env \<Rightarrow> string \<Rightarrow> Session \<Rightarrow> Session" where
  "sign_in env user s =
     (let now = now_of env s;
          s1 = recordAuthSuccess env user (upd_state (SetAuthenticated now True user) s);
          s2 = try_machine (SetUsername user) s1;
          s3 = try_machine (TransitionTo now SessionStateAuthenticated ''authentication_successful'') s2;
          s4 = try_machine (RegenerateSessionID (newSessionID env (stepNo s))) s3
      in setupRBACContext env user s4)"

definition performAuthentication :: "Env \<Rightarrow> string \<Rightarrow> string \<Rightarrow> Session \<Rightarrow> error \<times> Session" where
  "performAuthentication env user password s =
     (if validateAuthenticationData user password \<noteq> None
      then (Some ''535 5.7.8 Authentication credentials invalid'', recordAuthFailure env user s)
      else if isAccountLocked env user s
      then (Some ''535 5.7.8 Account temporarily locked'', recordAuthFailure env user s)
      else
        (case authenticate env (stepNo s) user password of (ok, failed, appPassword) \<Rightarrow>
           if failed \<or> \<not> ok \<or> heldBack env user appPassword s then
             (Some ''535 5.7.8 Authentication credentials invalid'',
              try_machine (TransitionTo (now_of env s) SessionStateFailed ''authentication_failed'')
                (recordAuthFailure env user s))
           else
             (case session_write env ''235 2.7.0 Authentication successful'' (sign_in env user s) of
                (Some _, s1) \<Rightarrow> (Some ''451 4.3.0 Internal server error'', s1)
              | (None, s1) \<Rightarrow>
                  (if session_flush s1 \<noteq> None then Some ''451 4.3.0 Internal server error'' else None, s1))))"

section \<open>The mechanisms\<close>

fun read_err_String :: "read_err \<Rightarrow> string" where
  "read_err_String BufferFull = ''bufio: buffer full''"
| "read_err_String EOF = ''EOF''"
| "read_err_String Timeout = ''i/o timeout''"

text \<open>A 334 prompt and the line the client answers with. \<open>what\<close> and \<open>ask\<close> name it in errors.\<close>

definition prompt :: "Env \<Rightarrow> string \<Rightarrow> string \<Rightarrow> string \<Rightarrow> Session \<Rightarrow> string result \<times> Session" where
  "prompt env msg ask what s =
     (case session_write env msg s of
        (Some e, s1) \<Rightarrow> (Inl (''failed to write '' @ ask @ '' prompt: '' @ e), s1)
      | (None, s1) \<Rightarrow>
          (case session_flush s1 of
             Some e \<Rightarrow> (Inl (''failed to flush '' @ ask @ '' prompt: '' @ e), s1)
           | None \<Rightarrow>
               (case ReadLine (bufSize env) (inp s1) of
                  (Inl e, w) \<Rightarrow> (Inl (''failed to read '' @ what @ '': '' @ read_err_String e), s1\<lparr>inp := w\<rparr>)
                | (Inr line, w) \<Rightarrow> (Inr line, s1\<lparr>inp := w\<rparr>))))"

definition decode_credential :: "string \<Rightarrow> string option" where
  "decode_credential line = (if validateBase64Input line \<noteq> None then None else DecodeString line)"

text \<open>The initial response on the command line, or the answer to a prompt.\<close>

definition plain_response :: "Env \<Rightarrow> string \<Rightarrow> Session \<Rightarrow> string result \<times> Session" where
  "plain_response env cmd s =
     (let parts = Fields cmd in
      if len parts = 3 then (Inr (parts ! 2), s)
      else if len parts = 2 then prompt env ''334 '' ''auth'' ''authentication data'' s
      else (Inl ''501 5.5.4 Syntax: AUTH PLAIN [<base64-data>]'', s))"

definition handleAuthPlain :: "Env \<Rightarrow> string \<Rightarrow> Session \<Rightarrow> error \<times> Session" where
  "handleAuthPlain env cmd s =
     (if \<not> plaintextAuthAllowed env s
      then (Some ''538 5.7.11 Encryption required for requested authentication mechanism'', s)
      else
        (case plain_response env cmd s of
           (Inl e, s1) \<Rightarrow> (Some e, s1)
         | (Inr authData, s1) \<Rightarrow>
             (case decode_credential authData of
                None \<Rightarrow> (Some ''535 5.7.8 Authentication credentials invalid'', s1)
              | Some decoded \<Rightarrow>
                  (case Split decoded (CHR 0x00) of
                     [_, user, password] \<Rightarrow> performAuthentication env user password s1
                   | _ \<Rightarrow> (Some ''535 5.7.8 Authentication credentials invalid'', s1)))))"

definition login_response :: "Env \<Rightarrow> string \<Rightarrow> Session \<Rightarrow> string result \<times> Session" where
  "login_response env cmd s =
     (let parts = Fields cmd in
      if len parts \<ge> 3 \<and> parts ! 2 \<noteq> ''='' then (Inr (parts ! 2), s)
      else prompt env (''334 '' @ EncodeToString ''Username:'') ''username'' ''username'' s)"

definition handleAuthLogin :: "Env \<Rightarrow> string \<Rightarrow> Session \<Rightarrow> error \<times> Session" where
  "handleAuthLogin env cmd s =
     (case login_response env cmd s of
        (Inl e, s1) \<Rightarrow> (Some e, s1)
      | (Inr userLine, s1) \<Rightarrow>
          (case decode_credential userLine of
             None \<Rightarrow> (Some ''535 5.7.8 Authentication credentials invalid'', s1)
           | Some user \<Rightarrow>
               (case prompt env (''334 '' @ EncodeToString ''Password:'') ''password'' ''password'' s1 of
                  (Inl e, s2) \<Rightarrow> (Some e, s2)
                | (Inr passLine, s2) \<Rightarrow>
                    (case decode_credential passLine of
                       None \<Rightarrow> (Some ''535 5.7.8 Authentication credentials invalid'', s2)
                     | Some password \<Rightarrow> performAuthentication env user password s2))))"

definition handleAuthCramMD5 :: "Session \<Rightarrow> error \<times> Session" where
  "handleAuthCramMD5 s = (Some ''504 5.7.4 CRAM-MD5 authentication disabled for security reasons'', s)"

section \<open>The command\<close>

text \<open>The first step of \<open>HandleAuth\<close>: the machine, when there is one, goes to authenticating.\<close>

definition begin_auth :: "Env \<Rightarrow> Session \<Rightarrow> string + Session" where
  "begin_auth env s = (case sessionStateMachine s of
       Some m \<Rightarrow>
         if IsAuthenticated (now_of env s) m then Inl ''503 5.5.1 Already authenticated''
         else (case TransitionTo (now_of env s) SessionStateAuthenticating ''auth_command_received'' m of
            Inl _ \<Rightarrow> Inl ''421 4.7.0 Authentication system error''
          | Inr m' \<Rightarrow> Inr (s\<lparr>sessionStateMachine := Some m'\<rparr>))
     | None \<Rightarrow>
         if authenticated (state s) then Inl ''503 5.5.1 Already authenticated'' else Inr s)"

definition HandleAuth :: "Env \<Rightarrow> string \<Rightarrow> Session \<Rightarrow> error \<times> Session" where
  "HandleAuth env cmd s =
     (case begin_auth env s of
        Inl e \<Rightarrow> (Some e, s)
      | Inr s1 \<Rightarrow>
          (case Fields cmd of
             _ # mech # _ \<Rightarrow>
               (let m = ToUpper mech in
                if \<not> isMethodEnabled env m then (Some ''504 5.7.4 Authentication mechanism not supported'', s1)
                else case checkSecurityConstraints env m s1 of
                  Some e \<Rightarrow>
                    (Some e, try_machine (TransitionTo (now_of env s) SessionStateFailed ''auth_refused'') s1)
                | None \<Rightarrow>
                    (case IncrementAuthAttempts (now_of env s) (state s1) of (attempts, st) \<Rightarrow>
                       (let s2 = s1\<lparr>state := st\<rparr> in
                        if attempts > MaxAuthAttempts (auth_config env)
                        then (Some ''421 4.7.0 Too many authentication attempts'', s2)
                        else if m = ''PLAIN'' then handleAuthPlain env cmd s2
                        else if m = ''LOGIN'' then handleAuthLogin env cmd s2
                        else if m = ''CRAM-MD5'' then handleAuthCramMD5 s2
                        else (Some ''504 5.7.4 Authentication mechanism not supported'', s2))))
           | _ \<Rightarrow> (Some ''501 5.5.4 Syntax: AUTH mechanism'', s1)))"

section \<open>Base 64 round trip\<close>

lemma b64_table:
  "\<forall>n \<in> set [0..63]. b64_val (b64_char n) = Some n \<and> b64_input_char (b64_char n) \<and> graphic (b64_char n) \<and>
     b64_char n \<noteq> CHR ''=''"
  by code_simp

lemma b64_char_simps:
  assumes "0 \<le> n \<and> n < 64"
  shows "b64_val (b64_char n) = Some n" "b64_input_char (b64_char n)" "graphic (b64_char n)"
    "b64_char n \<noteq> CHR ''=''"
  using b64_table assms by auto

lemma b64_byte_val [simp]:
  "b64_byte (byte_val c) = c" "b64_byte (byte_val c + 256 * k) = c" "b64_byte (byte_val c + (256 * k + 0)) = c"
  using byte_val_bounds [of c] by (auto simp: b64_byte_def)

lemma byte_div_bounds:
  "0 \<le> byte_val c div 4" "0 \<le> byte_val c div 16" "0 \<le> byte_val c div 64"
  "byte_val c div 4 < 64" "byte_val c div 16 < 16" "byte_val c div 64 < 4"
  using byte_val_bounds [of c] by arith+

lemma byte_div_zero: "byte_val c div 16 div 16 = 0" "byte_val c div 64 div 4 = 0"
  using byte_div_bounds [of c] by (simp_all add: div_pos_pos_trivial)

lemma six_bits_join:
  "(0::int) \<le> p \<Longrightarrow> p < 4 \<Longrightarrow> 0 \<le> q \<Longrightarrow> q < 16 \<Longrightarrow> 0 \<le> p * 16 + q \<and> p * 16 + q < 64"
  "(0::int) \<le> p \<Longrightarrow> p < 16 \<Longrightarrow> 0 \<le> q \<Longrightarrow> q < 4 \<Longrightarrow> 0 \<le> p * 4 + q \<and> p * 4 + q < 64"
  by simp_all

lemma b64_six_bits:
  "0 \<le> byte_val a div 4 \<and> byte_val a div 4 < 64"
  "0 \<le> byte_val a mod 4 * 16 + byte_val b div 16 \<and> byte_val a mod 4 * 16 + byte_val b div 16 < 64"
  "0 \<le> byte_val b mod 16 * 4 + byte_val c div 64 \<and> byte_val b mod 16 * 4 + byte_val c div 64 < 64"
  "0 \<le> byte_val c mod 64 \<and> byte_val c mod 64 < 64"
  "0 \<le> byte_val a mod 4 * 16 \<and> byte_val a mod 4 * 16 < 64" "0 \<le> byte_val b mod 16 * 4 \<and> byte_val b mod 16 * 4 < 64"
  subgoal using byte_div_bounds by blast
  subgoal by (rule six_bits_join) (rule byte_div_bounds | simp)+
  subgoal by (rule six_bits_join) (rule byte_div_bounds | simp)+
  subgoal by simp
  subgoal using six_bits_join(1) [of "byte_val a mod 4" 0] by simp
  subgoal using six_bits_join(2) [of "byte_val b mod 16" 0] by simp
  done

lemmas b64_digits = b64_six_bits [THEN b64_char_simps(1)] b64_six_bits [THEN b64_char_simps(2)]
  b64_six_bits [THEN b64_char_simps(3)] b64_six_bits [THEN b64_char_simps(4)]

lemma decode_quanta_encode: "decode_quanta (EncodeToString s) = Some s"
  by (induction s rule: EncodeToString.induct)
    (simp_all add: b64_digits byte_div_zero)

lemma EncodeToString_input: "list_all b64_input_char (EncodeToString s) \<and> list_all graphic (EncodeToString s)"
proof -
  have "b64_input_char (CHR ''='') \<and> graphic (CHR ''='')" by code_simp
  then show ?thesis by (induction s rule: EncodeToString.induct) (simp_all add: b64_digits)
qed

lemma EncodeToString_Nil [simp]: "EncodeToString s = [] \<longleftrightarrow> s = []"
  by (cases s rule: EncodeToString.cases) auto

section \<open>What signing in changes\<close>

lemma try_machine_simps [simp]:
  "state (try_machine f s) = state s" "inp (try_machine f s) = inp s" "tlsWire (try_machine f s) = tlsWire s"
  "queued (try_machine f s) = queued s" "stepNo (try_machine f s) = stepNo s"
  "dataSyncLost (try_machine f s) = dataSyncLost s" "bdatSpool (try_machine f s) = bdatSpool s"
  "bdatBytesReceived (try_machine f s) = bdatBytesReceived s" "wire_size (try_machine f s) = wire_size s"
  "accountLockouts (try_machine f s) = accountLockouts s"
  by (simp_all add: try_machine_def wire_size_def)

lemma recordAuth_simps [simp]:
  "state (recordAuthFailure env u s) = state s" "state (recordAuthSuccess env u s) = state s"
  "inp (recordAuthFailure env u s) = inp s" "inp (recordAuthSuccess env u s) = inp s"
  "tlsWire (recordAuthFailure env u s) = tlsWire s" "tlsWire (recordAuthSuccess env u s) = tlsWire s"
  "queued (recordAuthFailure env u s) = queued s" "queued (recordAuthSuccess env u s) = queued s"
  "stepNo (recordAuthFailure env u s) = stepNo s" "stepNo (recordAuthSuccess env u s) = stepNo s"
  "dataSyncLost (recordAuthFailure env u s) = dataSyncLost s" "dataSyncLost (recordAuthSuccess env u s) = dataSyncLost s"
  "sessionStateMachine (recordAuthFailure env u s) = sessionStateMachine s"
  "sessionStateMachine (recordAuthSuccess env u s) = sessionStateMachine s"
  "bdatSpool (recordAuthFailure env u s) = bdatSpool s" "bdatSpool (recordAuthSuccess env u s) = bdatSpool s"
  "bdatBytesReceived (recordAuthFailure env u s) = bdatBytesReceived s"
  "bdatBytesReceived (recordAuthSuccess env u s) = bdatBytesReceived s"
  by (simp_all add: recordAuthFailure_def recordAuthSuccess_def pruneLocked_def record_ip_failure_def
      Let_def split: option.splits)

lemma performAuthentication_frame:
  assumes "performAuthentication env u p s = (e, s')"
  shows "trans_core s' = trans_core s \<and> wire_size s' = wire_size s"
proof -
  have si: "trans_core (sign_in env u s) = trans_core s" "wire_size (sign_in env u s) = wire_size s"
    by (simp_all add: sign_in_def setupRBACContext_def trans_core_def wire_size_def SetAuthenticated_def Let_def)
  have "trans_core (recordAuthFailure env u s) = trans_core s" "wire_size (recordAuthFailure env u s) = wire_size s"
    by (simp_all add: trans_core_def wire_size_def)
  moreover have "trans_core (try_machine f t) = trans_core t" for f t by (simp add: trans_core_def)
  ultimately show ?thesis
    using assms si
    by (auto simp: performAuthentication_def core_def split: prod.splits option.splits if_splits dest!: session_writeD)
qed

lemma promptD:
  assumes "prompt env msg ask what s = (r, s')"
  shows "core s' = core s \<and> wire_size s' \<le> wire_size s"
proof -
  obtain e s1 where w: "session_write env msg s = (e, s1)" by (cases "session_write env msg s")
  obtain l w' where r: "ReadLine (bufSize env) (inp s1) = (l, w')" by (cases "ReadLine (bufSize env) (inp s1)")
  have "s' = s1 \<or> s' = s1\<lparr>inp := w'\<rparr>"
    using assms w r by (auto simp: prompt_def split: option.splits sum.splits)
  with session_writeD [OF w] ReadLine_shorter [OF r] show ?thesis by (auto simp: wire_size_def)
qed

text \<open>Who may be signed in: the conditions under which \<open>performAuthentication\<close> accepts a password.\<close>

definition may_sign_in :: "Env \<Rightarrow> string \<Rightarrow> Session \<Rightarrow> bool" where
  "may_sign_in env u s \<longleftrightarrow> u \<noteq> [] \<and> \<not> isAccountLocked env u s \<and>
     (\<exists>p app. authenticate env (stepNo s) u p = (True, False, app) \<and> \<not> heldBack env u app s)"

lemma sign_in_state [simp]: "state (sign_in env u s) = SetAuthenticated (now_of env s) True u (state s)"
  by (simp add: sign_in_def setupRBACContext_def Let_def)

lemma performAuthentication_cases:
  assumes "performAuthentication env u p s = (e, s')"
  obtains (refused) "e \<noteq> None" "core s' = core (recordAuthFailure env u s) \<or>
      s' = try_machine (TransitionTo (now_of env s) SessionStateFailed ''authentication_failed'') (recordAuthFailure env u s)"
  | (accepted) "may_sign_in env u s" "core s' = core (sign_in env u s)"
proof -
  obtain ok failed app where a: "authenticate env (stepNo s) u p = (ok, failed, app)"
    by (cases "authenticate env (stepNo s) u p")
  show ?thesis
  proof (cases "validateAuthenticationData u p \<noteq> None \<or> isAccountLocked env u s \<or> failed \<or> \<not> ok \<or> heldBack env u app s")
    case True
    with assms a show ?thesis
      by (intro refused) (auto simp: performAuthentication_def split: if_splits)
  next
    case False
    obtain e' s1 where w: "session_write env ''235 2.7.0 Authentication successful'' (sign_in env u s) = (e', s1)"
      by (cases "session_write env ''235 2.7.0 Authentication successful'' (sign_in env u s)")
    have "u \<noteq> []" using False by (auto simp: validateAuthenticationData_def)
    with False a have "may_sign_in env u s" by (auto simp: may_sign_in_def)
    moreover have "s' = s1" using assms a False w by (auto simp: performAuthentication_def split: option.splits)
    ultimately show ?thesis using session_writeD [OF w] by (intro accepted) auto
  qed
qed

lemma responseD:
  "plain_response env cmd s = (r, s1) \<Longrightarrow> core s1 = core s \<and> wire_size s1 \<le> wire_size s"
  "login_response env cmd s = (r, s1) \<Longrightarrow> core s1 = core s \<and> wire_size s1 \<le> wire_size s"
  using promptD by (auto simp: plain_response_def login_response_def Let_def split: if_splits)

lemma handleAuthPlain_cases:
  assumes "handleAuthPlain env cmd s = (e, s')"
  obtains (stop) "core s' = core s" "wire_size s' \<le> wire_size s"
  | (check) u p s1 where "plaintextAuthAllowed env s" "core s1 = core s" "wire_size s1 \<le> wire_size s"
      "performAuthentication env u p s1 = (e, s')"
proof -
  obtain r s1 where g: "plain_response env cmd s = (r, s1)" by (cases "plain_response env cmd s")
  have "s' = s \<or> s' = s1 \<or> plaintextAuthAllowed env s \<and> (\<exists>u p. performAuthentication env u p s1 = (e, s'))"
    using assms
    by (auto simp: handleAuthPlain_def g split: if_splits sum.splits option.splits list.splits)
  with responseD(1) [OF g] stop check show thesis by blast
qed

lemma handleAuthLogin_cases:
  assumes "handleAuthLogin env cmd s = (e, s')"
  obtains (stop) "core s' = core s" "wire_size s' \<le> wire_size s"
  | (check) u p s1 where "core s1 = core s" "wire_size s1 \<le> wire_size s" "performAuthentication env u p s1 = (e, s')"
proof -
  obtain r s1 where g: "login_response env cmd s = (r, s1)" by (cases "login_response env cmd s")
  obtain q s2 where p: "prompt env (''334 '' @ EncodeToString ''Password:'') ''password'' ''password'' s1 = (q, s2)"
    by (cases "prompt env (''334 '' @ EncodeToString ''Password:'') ''password'' ''password'' s1")
  have "s' = s1 \<or> s' = s2 \<or> (\<exists>u p. performAuthentication env u p s2 = (e, s'))"
    using assms
    by (auto simp: handleAuthLogin_def g p simp del: append.simps EncodeToString.simps split: sum.splits option.splits)
  moreover have "core s2 = core s" "wire_size s2 \<le> wire_size s"
    using responseD(2) [OF g] promptD [OF p] by auto
  ultimately show thesis using responseD(2) [OF g] stop check by blast
qed

lemma begin_authD:
  assumes "begin_auth env s = Inr s1"
  shows "trans_core s1 = trans_core s" "wire_size s1 = wire_size s" "state s1 = state s"
    "accountLockouts s1 = accountLockouts s" "stepNo s1 = stepNo s"
  using assms by (auto simp: begin_auth_def trans_core_def wire_size_def split: option.splits sum.splits if_splits)

definition count_attempt :: "Env \<Rightarrow> Session \<Rightarrow> Session" where
  "count_attempt env s = s\<lparr>state := snd (IncrementAuthAttempts (now_of env s) (state s))\<rparr>"

lemma count_attempt_simps [simp]:
  "trans_core (count_attempt env s) = trans_core s" "wire_size (count_attempt env s) = wire_size s"
  "authenticated (state (count_attempt env s)) = authenticated (state s)"
  "username (state (count_attempt env s)) = username (state s)" "tlsActive (state (count_attempt env s)) = tlsActive (state s)"
  "accountLockouts (count_attempt env s) = accountLockouts s" "stepNo (count_attempt env s) = stepNo s"
  "sessionStateMachine (count_attempt env s) = sessionStateMachine s"
  by (simp_all add: count_attempt_def IncrementAuthAttempts_def trans_core_def wire_size_def Let_def)

lemma HandleAuth_outcomes:
  assumes "HandleAuth env cmd s = (e, s')" and start: "begin_auth env s = Inr s1"
  shows "s' = s1
    \<or> s' = try_machine (TransitionTo (now_of env s) SessionStateFailed ''auth_refused'') s1
    \<or> s' = count_attempt env s1
    \<or> authAttempts (state s) < 5 \<and> handleAuthPlain env cmd (count_attempt env s1) = (e, s')
    \<or> authAttempts (state s) < 5 \<and> plaintextAuthAllowed env s \<and> handleAuthLogin env cmd (count_attempt env s1) = (e, s')"
proof (cases "\<exists>x mech y. Fields cmd = x # mech # y")
  case False
  with assms have "s' = s1" by (auto simp: HandleAuth_def split: list.splits)
  then show ?thesis by blast
next
  case True
  note D = begin_authD [OF start]
  have allowed: "plaintextAuthAllowed env s1 = plaintextAuthAllowed env s" using D(3) by (simp add: plaintextAuthAllowed_def)
  from True obtain x mech y where f: "Fields cmd = x # mech # y" by blast
  have inc: "IncrementAuthAttempts (now_of env s) (state s1) = (authAttempts (state s) + 1, state (count_attempt env s1))"
    "s1\<lparr>state := state (count_attempt env s1)\<rparr> = count_attempt env s1"
    using D(3,5) by (simp_all add: count_attempt_def IncrementAuthAttempts_def Let_def now_of_def)
  show ?thesis
  proof (cases "checkSecurityConstraints env (ToUpper mech) s1")
    case None
    then have "plaintextAuthAllowed env s" if "ToUpper mech = ''LOGIN''"
      using that allowed by (simp add: checkSecurityConstraints_def split: if_splits)
    with None assms(1) inc show ?thesis
      by (auto simp: HandleAuth_def start f Let_def handleAuthCramMD5_def authSecurityConfig_def split: if_splits)
  next
    case (Some r)
    with assms(1) show ?thesis by (auto simp: HandleAuth_def start f Let_def split: if_splits)
  qed
qed

lemma HandleAuth_cases:
  assumes "HandleAuth env cmd s = (e, s')"
  obtains (refused) "s' = s" "e \<noteq> None"
  | (unread) s1 where "begin_auth env s = Inr s1" "s' = s1"
  | (policy) s1 where "begin_auth env s = Inr s1"
      "s' = try_machine (TransitionTo (now_of env s) SessionStateFailed ''auth_refused'') s1"
  | (stopped) s1 where "begin_auth env s = Inr s1" "core s' = core (count_attempt env s1)" "wire_size s' \<le> wire_size s"
  | (checked) s1 u p s2 where "begin_auth env s = Inr s1" "authAttempts (state s) < 5" "plaintextAuthAllowed env s"
      "core s2 = core (count_attempt env s1)" "wire_size s2 \<le> wire_size s"
      "performAuthentication env u p s2 = (e, s')"
proof (cases "begin_auth env s")
  case (Inl x)
  with assms refused show thesis by (auto simp: HandleAuth_def)
next
  case (Inr s1)
  note D = begin_authD [OF Inr]
  from HandleAuth_outcomes [OF assms Inr]
  consider "s' = s1" | "s' = try_machine (TransitionTo (now_of env s) SessionStateFailed ''auth_refused'') s1"
    | "s' = count_attempt env s1" | "authAttempts (state s) < 5" "handleAuthPlain env cmd (count_attempt env s1) = (e, s')"
    | "authAttempts (state s) < 5" "plaintextAuthAllowed env s" "handleAuthLogin env cmd (count_attempt env s1) = (e, s')"
    by blast
  then show thesis
  proof cases
    case 4
    have "plaintextAuthAllowed env s" if "plaintextAuthAllowed env (count_attempt env s1)"
      using that D(3) by (simp add: plaintextAuthAllowed_def)
    with 4(2) show thesis
      using D(2) stopped [OF Inr] checked [OF Inr 4(1)] by (cases rule: handleAuthPlain_cases) auto
  next
    case 5
    from this(3) show thesis
      using D(2) stopped [OF Inr] checked [OF Inr 5(1,2)] by (cases rule: handleAuthLogin_cases) auto
  qed (use Inr unread policy stopped D(2) in auto)
qed

lemma HandleAuth_frame:
  assumes "HandleAuth env cmd s = (e, s')"
  shows "trans_core s' = trans_core s \<and> wire_size s' \<le> wire_size s"
  using assms
proof (cases rule: HandleAuth_cases)
  case (checked s1 u p s2)
  with performAuthentication_frame [OF checked(6)] begin_authD [OF checked(1)] show ?thesis by (simp add: core_def)
next
  case (policy s1)
  have "trans_core (try_machine f s1) = trans_core s1" for f by (simp add: trans_core_def)
  with policy begin_authD [OF policy(1)] show ?thesis by simp
qed (auto simp: core_def begin_authD)

lemma may_sign_in_cong:
  assumes "stepNo t = stepNo s" and "accountLockouts t = accountLockouts s"
  shows "may_sign_in env u t = may_sign_in env u s"
proof -
  have "isAccountLocked env u t = isAccountLocked env u s"
    unfolding isAccountLocked_def now_of_def assms by simp
  moreover have "heldBack env u app t = heldBack env u app s" for app by (simp add: heldBack_def assms)
  ultimately show ?thesis by (simp add: may_sign_in_def assms)
qed

text \<open>The two ways AUTH can end, as far as the identity of the client is concerned.\<close>

lemma HandleAuth_identity:
  assumes "HandleAuth env cmd s = (e, s')"
  shows "authenticated (state s') = authenticated (state s) \<and> username (state s') = username (state s)
    \<or> authenticated (state s') \<and> may_sign_in env (username (state s')) s \<and> plaintextAuthAllowed env s
        \<and> authAttempts (state s) < 5"
  using assms
proof (cases rule: HandleAuth_cases)
  case (checked s1 u p s2)
  have s2: "authenticated (state s2) = authenticated (state s)" "username (state s2) = username (state s)"
    "stepNo s2 = stepNo s" "accountLockouts s2 = accountLockouts s"
    using checked(4) begin_authD [OF checked(1)] by (simp_all add: core_defs)
  note may = may_sign_in_cong [OF s2(3,4)]
  from checked(6) show ?thesis
  proof (cases rule: performAuthentication_cases)
    case accepted
    then show ?thesis using may checked(2,3) by (auto simp: core_defs SetAuthenticated_def)
  qed (use s2 in \<open>auto simp: core_defs\<close>)
next
  case (stopped s1)
  then show ?thesis using begin_authD [OF stopped(1)] by (simp add: core_defs)
qed (auto simp: begin_authD)

section \<open>The machine and the session state agree\<close>

definition machine_agrees :: "Session \<Rightarrow> bool" where
  "machine_agrees s \<longleftrightarrow> (\<forall>m. sessionStateMachine s = Some m \<longrightarrow> authenticated (state s) \<longrightarrow>
     currentState m \<in> {SessionStateAuthenticated, SessionStateExpired, SessionStateInvalidated})"

lemma begin_auth_machine:
  assumes "begin_auth env s = Inr s1" and "sessionStateMachine s = Some m"
  shows "\<exists>m1. sessionStateMachine s1 = Some m1 \<and> currentState m1 = SessionStateAuthenticating \<and>
    \<not> isExpired (now_of env s) m1 \<and> \<not> isLockedOut (now_of env s) m1 \<and>
    IsValidTransition (currentState m) SessionStateAuthenticating"
proof -
  from assms obtain m1 where m1: "TransitionTo (now_of env s) SessionStateAuthenticating ''auth_command_received'' m = Inr m1"
    "s1 = s\<lparr>sessionStateMachine := Some m1\<rparr>"
    by (auto simp: begin_auth_def split: if_splits sum.splits)
  moreover from m1(1) have "\<not> isLockedOut (now_of env s) m"
    by (auto simp: TransitionTo_def split: if_splits)
  ultimately show ?thesis
    using TransitionTo_InrD [OF m1(1)] by (simp add: handle_other isExpired_def isLockedOut_def)
qed

lemma begin_auth_unauthenticated:
  assumes "begin_auth env s = Inr s1" and "machine_agrees s"
  shows "\<not> authenticated (state s)"
proof (cases "sessionStateMachine s")
  case None
  with assms(1) show ?thesis by (auto simp: begin_auth_def split: if_splits)
next
  case (Some m)
  with begin_auth_machine [OF assms(1)] have "IsValidTransition (currentState m) SessionStateAuthenticating" by blast
  then have "currentState m \<notin> {SessionStateAuthenticated, SessionStateExpired, SessionStateInvalidated}" by auto
  with Some assms(2) show ?thesis by (auto simp: machine_agrees_def)
qed

lemma sign_in_machine:
  assumes "sessionStateMachine s = Some m" "currentState m = SessionStateAuthenticating"
    and "\<not> isExpired (now_of env s) m" "\<not> isLockedOut (now_of env s) m" "u \<noteq> []"
  shows "\<exists>m'. sessionStateMachine (sign_in env u s) = Some m' \<and> currentState m' = SessionStateAuthenticated"
proof -
  let ?m1 = "m\<lparr>ssm_username := u\<rparr>"
  have u: "SetUsername u m = Inr ?m1" using assms(2) by (simp add: SetUsername_def)
  obtain m2 where t: "TransitionTo (now_of env s) SessionStateAuthenticated ''authentication_successful'' ?m1 = Inr m2"
    using assms(2-5) by (simp add: TransitionTo_def isExpired_def isLockedOut_def validateStateTransition_def Let_def)
  note m2 = TransitionTo_state [OF t]
  then have r: "currentState (on_ok m2 (RegenerateSessionID g m2)) = SessionStateAuthenticated" for g
    by (simp add: RegenerateSessionID_def on_ok_def split: option.splits)
  have c: "currentState (on_ok m3 (SetRBACContext c m3)) = currentState m3" for c m3
    by (simp add: SetRBACContext_def on_ok_def)
  show ?thesis
    using assms(1) u t r c
    by (simp add: sign_in_def setupRBACContext_def try_machine_def recordAuthSuccess_def Let_def now_of_def)
qed

lemma HandleAuth_agrees:
  assumes "HandleAuth env cmd s = (e, s')" and "machine_agrees s"
  shows "machine_agrees s'"
proof -
  have un: "machine_agrees t" if "begin_auth env s = Inr s1" "authenticated (state t) = authenticated (state s1)" for s1 t
    using begin_auth_unauthenticated [OF that(1) assms(2)] begin_authD(3) [OF that(1)] that(2)
    by (simp add: machine_agrees_def)
  from assms(1) show ?thesis
  proof (cases rule: HandleAuth_cases)
    case (checked s1 u p s2)
    have s2: "authenticated (state s2) = authenticated (state s1)" "sessionStateMachine s2 = sessionStateMachine s1"
      "now_of env s2 = now_of env s"
      using checked(4) begin_authD [OF checked(1)] by (simp_all add: core_defs now_of_def)
    from checked(6) show ?thesis
    proof (cases rule: performAuthentication_cases)
      case accepted
      then have "u \<noteq> []" and m: "sessionStateMachine s' = sessionStateMachine (sign_in env u s2)"
        by (simp_all add: may_sign_in_def core_defs)
      show ?thesis
      proof (cases "sessionStateMachine s")
        case None
        then have "sessionStateMachine s1 = None" using checked(1) by (auto simp: begin_auth_def split: if_splits)
        with m s2 show ?thesis
          by (simp add: machine_agrees_def sign_in_def setupRBACContext_def try_machine_def recordAuthSuccess_def Let_def)
      next
        case (Some m0)
        from begin_auth_machine [OF checked(1) this] sign_in_machine [of s2 _ env u] \<open>u \<noteq> []\<close> s2 m
        show ?thesis by (auto simp: machine_agrees_def)
      qed
    qed (use un checked(1) s2 in \<open>auto simp: core_defs\<close>)
  next
    case (stopped s1)
    then show ?thesis using un by (simp add: core_defs)
  next
    case (policy s1)
    then show ?thesis using un by simp
  qed (use assms(2) un in auto)
qed

section \<open>Credentials on the wire\<close>

lemma graphic_not_eol: "graphic c \<Longrightarrow> c \<noteq> CR \<and> c \<noteq> LF"
  by (auto simp: graphic_def byte_in_def)

lemma decode_credential_encode:
  assumes "raw \<noteq> []" and "len (EncodeToString raw) \<le> 1000"
  shows "decode_credential (EncodeToString raw) = Some raw"
proof -
  have "\<forall>c \<in> set (EncodeToString raw). c \<noteq> CR \<and> c \<noteq> LF"
    using EncodeToString_input [of raw] graphic_not_eol by (auto simp: list_all_iff)
  then have "filter (\<lambda>c. c \<noteq> CR \<and> c \<noteq> LF) (EncodeToString raw) = EncodeToString raw" by simp
  with assms EncodeToString_input [of raw] show ?thesis
    by (simp add: decode_credential_def validateBase64Input_def DecodeString_def decode_quanta_encode)
qed

lemma Fields_auth:
  assumes "list_all graphic m" "list_all graphic d" "m \<noteq> []" "d \<noteq> []"
  shows "Fields (''AUTH '' @ m @ CHR '' '' # d @ [CR, LF]) = [''AUTH'', m, d]"
proof -
  have sp: "ascii_space (CHR '' '')" "ascii_space CR" "ascii_space LF" and g: "list_all graphic ''AUTH''" by code_simp+
  have "''AUTH '' @ t = ''AUTH'' @ CHR '' '' # t" for t by simp
  then show ?thesis
    using assms sp g by (simp only: Fields_def fields_go_word fields_go_space fields_go_Nil) simp
qed

lemma ReadLine_text:
  assumes "LF \<notin> set m" and "len m + 2 \<le> n"
  shows "ReadLine n (map Some m @ Some CR # Some LF # w) = (Inr m, w)"
proof -
  have "read_slice (map Some k @ Some LF # w) room = (k @ [LF], None, w)" if "LF \<notin> set k" "len k + 1 \<le> room" for k room
    using that by (induction k arbitrary: room) auto
  from this [of "m @ [CR]" "max 16 n"] assms show ?thesis
    by (simp add: ReadLine_def ReadSlice_def strip_eol_def Let_def butlast_append)
qed

lemma prompt_text:
  assumes "inp s = map Some m @ Some CR # Some LF # w" "LF \<notin> set m" "len m + 2 \<le> bufSize env" "writesLeft s = None"
  shows "\<exists>s'. prompt env msg ask what s = (Inr m, s') \<and> core s' = core s \<and> inp s' = w \<and> writesLeft s' = None \<and>
    out s' = out s @ [msg]"
  using ReadLine_text [OF assms(2,3), of w] assms(1,4)
  by (simp add: prompt_def session_write_def session_flush_def)

section \<open>Properties\<close>

text \<open>
  C20. Nobody gets in without the password check. When AUTH changes who the client is, the
  user name is not empty, the authentication back end accepted that name with a password in this very
  round and did not fail, the account was neither locked for this address nor held back by
  the abuse engine, a password was allowed on this connection (TLS, loopback, or the
  operator's opt-out), and it was at most the fifth attempt of the session.
\<close>

theorem auth_needs_password:
  assumes "HandleAuth env cmd s = (e, s')"
    and "authenticated (state s') \<noteq> authenticated (state s) \<or> username (state s') \<noteq> username (state s)"
  shows "authenticated (state s') \<and> username (state s') \<noteq> [] \<and> \<not> isAccountLocked env (username (state s')) s \<and>
    (\<exists>p app. authenticate env (stepNo s) (username (state s')) p = (True, False, app) \<and>
       \<not> heldBack env (username (state s')) app s) \<and>
    plaintextAuthAllowed env s \<and> authAttempts (state s) < MaxAuthAttempts (auth_config env)"
  using HandleAuth_identity [OF assms(1)] assms(2) by (auto simp: may_sign_in_def authSecurityConfig_def)

text \<open>
  C21. What a client encodes is what the server checks: an AUTH PLAIN line with the base 64 of
  any authorization identity, user name and password (none with a NUL byte, at most 1000
  characters encoded) leads to the password check for exactly that user name and password.
\<close>

theorem auth_plain_credentials:
  assumes "CHR 0x00 \<notin> set authz" "CHR 0x00 \<notin> set user" "CHR 0x00 \<notin> set password"
    and "len (EncodeToString (authz @ CHR 0x00 # user @ CHR 0x00 # password)) \<le> 1000"
    and "plaintextAuthAllowed env s"
  shows "handleAuthPlain env (''AUTH PLAIN '' @ EncodeToString (authz @ CHR 0x00 # user @ CHR 0x00 # password) @ [CR, LF]) s
    = performAuthentication env user password s"
proof -
  let ?raw = "authz @ CHR 0x00 # user @ CHR 0x00 # password"
  have "list_all graphic ''PLAIN''" by code_simp
  then have "Fields (''AUTH PLAIN '' @ EncodeToString ?raw @ [CR, LF]) = [''AUTH'', ''PLAIN'', EncodeToString ?raw]"
    using Fields_auth [of "''PLAIN''" "EncodeToString ?raw"] EncodeToString_input by simp
  moreover have "decode_credential (EncodeToString ?raw) = Some ?raw"
    using assms(4) by (intro decode_credential_encode) simp_all
  ultimately show ?thesis
    using assms by (simp add: handleAuthPlain_def plain_response_def Split_append Split_last)
qed

theorem auth_plain_credentials_witness:
  "handleAuthPlain (plain_env\<lparr>remoteAddr := TCPAddr [127, 0, 0, 1] [] 4321\<rparr>)
     (''AUTH PLAIN '' @ EncodeToString ([] @ CHR 0x00 # ''bob'' @ CHR 0x00 # ''pw'') @ [CR, LF])
     (NewSession plain_env [] None) =
   performAuthentication (plain_env\<lparr>remoteAddr := TCPAddr [127, 0, 0, 1] [] 4321\<rparr>) ''bob'' ''pw''
     (NewSession plain_env [] None)"
  by (rule auth_plain_credentials; code_simp)

text \<open>
  C22. LOGIN asks for the same: after the two prompts, and reading exactly the two lines of the
  client, it makes the password check for the user name and password that the client encoded.
\<close>

theorem auth_login_credentials:
  assumes "inp s = map Some (EncodeToString user) @ Some CR # Some LF #
      map Some (EncodeToString password) @ Some CR # Some LF # rest"
    and "user \<noteq> []" "password \<noteq> []" "len (EncodeToString user) \<le> 1000" "len (EncodeToString password) \<le> 1000"
    and "1002 \<le> bufSize env" "writesLeft s = None"
  shows "\<exists>s'. handleAuthLogin env (''AUTH LOGIN'' @ [CR, LF]) s = performAuthentication env user password s' \<and>
    core s' = core s \<and> inp s' = rest \<and> out s' = out s @ [''334 VXNlcm5hbWU6'', ''334 UGFzc3dvcmQ6'']"
proof -
  have lf: "LF \<notin> set (EncodeToString x)" for x
    using EncodeToString_input [of x] graphic_not_eol by (auto simp: list_all_iff)
  have p1: "''334 '' @ EncodeToString ''Username:'' = ''334 VXNlcm5hbWU6''"
    and p2: "''334 '' @ EncodeToString ''Password:'' = ''334 UGFzc3dvcmQ6''" by code_simp+
  obtain s1 where s1: "prompt env ''334 VXNlcm5hbWU6'' ''username'' ''username'' s = (Inr (EncodeToString user), s1)"
    "core s1 = core s" "inp s1 = map Some (EncodeToString password) @ Some CR # Some LF # rest" "writesLeft s1 = None"
    "out s1 = out s @ [''334 VXNlcm5hbWU6'']"
    using prompt_text [OF assms(1) lf, of env "''334 VXNlcm5hbWU6''" "''username''" "''username''"] assms(4,6,7) by auto
  obtain s2 where s2: "prompt env ''334 UGFzc3dvcmQ6'' ''password'' ''password'' s1 = (Inr (EncodeToString password), s2)"
    "core s2 = core s1" "inp s2 = rest" "out s2 = out s1 @ [''334 UGFzc3dvcmQ6'']"
    using prompt_text [OF s1(3) lf, of env "''334 UGFzc3dvcmQ6''" "''password''" "''password''"] assms(5,6) s1(4) by auto
  have f: "Fields (''AUTH LOGIN'' @ [CR, LF]) = [''AUTH'', ''LOGIN'']" by code_simp
  have "login_response env (''AUTH LOGIN'' @ [CR, LF]) s = (Inr (EncodeToString user), s1)"
    unfolding login_response_def Let_def f p1 s1(1) by simp
  then have "handleAuthLogin env (''AUTH LOGIN'' @ [CR, LF]) s = performAuthentication env user password s2"
    by (simp only: handleAuthLogin_def prod.case sum.case option.case p2 s2(1)
        decode_credential_encode [OF assms(2,4)] decode_credential_encode [OF assms(3,5)])
  with s1(2,5) s2(2-4) show ?thesis by (intro exI [of _ s2]) simp
qed

theorem auth_login_credentials_witness:
  "\<exists>s'. handleAuthLogin plain_env (''AUTH LOGIN'' @ [CR, LF]) (NewSession plain_env
     (map Some (EncodeToString ''bob'') @ Some CR # Some LF # map Some (EncodeToString ''pw'') @ Some CR # Some LF # []) None)
     = performAuthentication plain_env ''bob'' ''pw'' s' \<and> inp s' = []"
proof -
  let ?s = "NewSession plain_env (map Some (EncodeToString ''bob'') @ Some CR # Some LF #
      map Some (EncodeToString ''pw'') @ Some CR # Some LF # []) None"
  have i: "inp ?s = map Some (EncodeToString ''bob'') @ Some CR # Some LF #
      map Some (EncodeToString ''pw'') @ Some CR # Some LF # []" and w: "writesLeft ?s = None" by (simp_all only: NewSession_def Session.simps)
  have l: "len (EncodeToString ''bob'') \<le> 1000" "len (EncodeToString ''pw'') \<le> 1000" "1002 \<le> bufSize plain_env" by code_simp+
  from auth_login_credentials [OF i _ _ l(1,2,3) w] show ?thesis by blast
qed

text \<open>
  C32. An AUTH command that cannot be read spoils the connection for signing in: a bare AUTH is
  answered 501 and leaves the machine in the state authenticating, which has no transition to
  itself, so every later AUTH on the connection, however correct, is answered 421.
\<close>

theorem auth_stuck_after_bad_syntax:
  assumes "begin_auth env s = Inr s1" and "sessionStateMachine s = Some m"
  shows "HandleAuth env (''AUTH'' @ [CR, LF]) s = (Some ''501 5.5.4 Syntax: AUTH mechanism'', s1) \<and>
    (\<forall>env' cmd (t :: Session). sessionStateMachine t = sessionStateMachine s1 \<longrightarrow>
       HandleAuth env' cmd t = (Some ''421 4.7.0 Authentication system error'', t))"
proof (intro conjI allI impI)
  have "Fields (''AUTH'' @ [CR, LF]) = [''AUTH'']" by code_simp
  then show "HandleAuth env (''AUTH'' @ [CR, LF]) s = (Some ''501 5.5.4 Syntax: AUTH mechanism'', s1)"
    using assms(1) by (simp add: HandleAuth_def)
next
  fix env' cmd and t :: Session
  assume t: "sessionStateMachine t = sessionStateMachine s1"
  obtain m1 where "sessionStateMachine t = Some m1" "currentState m1 = SessionStateAuthenticating"
    using begin_auth_machine [OF assms] t by auto
  then have "begin_auth env' t = Inl ''421 4.7.0 Authentication system error''"
    by (simp add: begin_auth_def IsAuthenticated_def TransitionTo_def)
  then show "HandleAuth env' cmd t = (Some ''421 4.7.0 Authentication system error'', t)" by (simp add: HandleAuth_def)
qed

theorem auth_stuck_after_bad_syntax_witness:
  "HandleAuth plain_env (''AUTH PLAIN'' @ [CR, LF])
     (snd (HandleAuth plain_env (''AUTH'' @ [CR, LF]) (NewSession plain_env [] None))) =
   (Some ''421 4.7.0 Authentication system error'',
    snd (HandleAuth plain_env (''AUTH'' @ [CR, LF]) (NewSession plain_env [] None)))"
proof -
  let ?s = "NewSession plain_env [] None"
  obtain m where m: "sessionStateMachine ?s = Some m" by (simp add: NewSession_def plain_env_def NewSessionStateMachine_def)
  have "\<not> isl (begin_auth plain_env ?s)" by code_simp
  then obtain s1 where s1: "begin_auth plain_env ?s = Inr s1" by (metis sum.collapse(2))
  from auth_stuck_after_bad_syntax [OF s1 m] show ?thesis by simp
qed

theorem auth_needs_password_witness:
  "\<exists>p app. authenticate plain_env 0 ''alice@example.org'' p = (True, False, app)"
proof -
  let ?env = "plain_env\<lparr>remoteAddr := TCPAddr [127, 0, 0, 1] [] 4321\<rparr>"
  let ?s = "NewSession ?env [] None"
  let ?c = "''AUTH PLAIN '' @ EncodeToString ([] @ CHR 0x00 # ''alice@example.org'' @ CHR 0x00 # ''secret'') @ [CR, LF]"
  obtain e s' where h: "HandleAuth ?env ?c ?s = (e, s')" by (cases "HandleAuth ?env ?c ?s")
  have "authenticated (state (snd (HandleAuth ?env ?c ?s)))" "username (state (snd (HandleAuth ?env ?c ?s))) = ''alice@example.org''"
    "\<not> authenticated (state ?s)" by code_simp+
  then have u: "authenticated (state s') \<noteq> authenticated (state ?s)" "username (state s') = ''alice@example.org''"
    unfolding h snd_conv by blast+
  have e: "authenticate ?env = authenticate plain_env" "stepNo ?s = 0" by (simp_all add: NewSession_def)
  from auth_needs_password [OF h disjI1, OF u(1)] show ?thesis unfolding u(2) e by blast
qed

end
