(* ===== verification/Envelope.thy ===== *)
theory Envelope
  imports Session_State Net_Addr
begin

text \<open>
  The envelope parsers of \<open>internal/smtp/session_commands.go\<close>: the path syntax of MAIL and
  RCPT, mailboxes, the ESMTP parameters of both commands, and the host names of HELO and
  EHLO. Loops over an index become recursion over the rest of the string; the regular
  expression of a domain label is written out as a predicate.
\<close>

section \<open>Character classes\<close>

definition isASCIIDecimal :: "string \<Rightarrow> bool" where
  "isASCIIDecimal s \<longleftrightarrow> s \<noteq> [] \<and> list_all is_digit s"

definition containsNonASCII :: "string \<Rightarrow> bool" where
  "containsNonASCII s \<longleftrightarrow> list_ex (\<lambda>c. byte_val c \<ge> 0x80) s"

definition isHex :: "char \<Rightarrow> bool" where
  "isHex b \<longleftrightarrow> byte_in 48 57 b \<or> byte_in 65 70 b \<or> byte_in 97 102 b"

fun xtext_ok :: "string \<Rightarrow> bool" where
  "xtext_ok [] = True"
| "xtext_ok (b # s) =
     (if b = CHR ''+'' then
        (case s of x # y # r \<Rightarrow> isHex x \<and> isHex y \<and> xtext_ok r | _ \<Rightarrow> False)
      else byte_val b \<ge> 33 \<and> byte_val b \<le> 126 \<and> b \<noteq> CHR ''='' \<and> xtext_ok s)"

definition validXText :: "string \<Rightarrow> bool" where
  "validXText s \<longleftrightarrow> s \<noteq> [] \<and> xtext_ok s"

definition validORCPT :: "string \<Rightarrow> bool" where
  "validORCPT s = (case Cut s (CHR '';'') of (typ, txt, ok) \<Rightarrow>
     ok \<and> typ \<noteq> [] \<and> validXText txt \<and> list_all (\<lambda>b. is_alnum b \<or> b = CHR ''-'') typ)"

section \<open>Mailboxes\<close>

text \<open>
  The scan of \<open>validSMTPMailbox\<close>: \<open>i\<close> is the index, \<open>at\<close> the place of the separating \<open>@\<close>.
  \<open>None\<close> is an early \<open>return false\<close>, otherwise the flags and \<open>at\<close> at the end of the string.
\<close>

fun scan_mailbox :: "bool \<Rightarrow> bool \<Rightarrow> nat option \<Rightarrow> nat \<Rightarrow> string \<Rightarrow> (bool \<times> bool \<times> nat option) option" where
  "scan_mailbox quoted escaped at i [] = Some (quoted, escaped, at)"
| "scan_mailbox quoted escaped at i (b # s) =
     (if escaped then
        (if byte_val b < 32 \<or> byte_val b > 126 then None else scan_mailbox quoted False at (Suc i) s)
      else if quoted \<and> b = BSLASH then scan_mailbox quoted True at (Suc i) s
      else if b = DQUOTE then
        (if i \<noteq> 0 \<and> \<not> quoted then None else scan_mailbox (\<not> quoted) escaped at (Suc i) s)
      else if \<not> quoted \<and> b = CHR ''@'' then
        (if at \<noteq> None then None else scan_mailbox quoted escaped (Some i) (Suc i) s)
      else if \<not> quoted \<and> (byte_val b \<le> 32 \<or> b = CHR ''<'' \<or> b = CHR ''>'') then None
      else scan_mailbox quoted escaped at (Suc i) s)"

definition local_special :: "char \<Rightarrow> bool" where
  "local_special c \<longleftrightarrow> c = DQUOTE \<or> c = BSLASH \<or> c \<in> set ''(),:;<>@[] ''"

definition valid_local :: "string \<Rightarrow> bool" where
  "valid_local l =
     (if hd l = DQUOTE then 2 \<le> len l \<and> last l = DQUOTE
      else \<not> list_ex local_special l \<and> \<not> HasPrefix l ''.'' \<and> \<not> HasSuffix l ''.'' \<and> \<not> Contains l ''..'')"

definition domain_byte :: "char \<Rightarrow> bool" where
  "domain_byte b \<longleftrightarrow> is_alnum b \<or> b = CHR ''-'' \<or> byte_val b \<ge> 0x80"

definition valid_domain :: "string \<Rightarrow> bool" where
  "valid_domain d =
     (if hd d = CHR ''['' then
        last d = CHR '']'' \<and> ParseIP (TrimPrefix (butlast (tl d)) ''IPv6:'') \<noteq> None
      else \<not> HasPrefix d ''.'' \<and> \<not> HasSuffix d ''.'' \<and>
        list_all (\<lambda>l. l \<noteq> [] \<and> hd l \<noteq> CHR ''-'' \<and> last l \<noteq> CHR ''-'' \<and> list_all domain_byte l)
          (Split d (CHR ''.'')))"

definition validSMTPMailbox :: "string \<Rightarrow> bool" where
  "validSMTPMailbox s = (case scan_mailbox False False None 0 s of
       Some (False, False, Some at) \<Rightarrow>
         at \<noteq> 0 \<and> Suc at \<noteq> length s \<and> valid_local (take at s) \<and> valid_domain (drop (Suc at) s)
     | _ \<Rightarrow> False)"

section \<open>Paths\<close>

text \<open>The bytes before the closing \<open>>\<close> outside quotes, and what follows it.\<close>

fun find_close :: "bool \<Rightarrow> bool \<Rightarrow> string \<Rightarrow> (string \<times> string) option" where
  "find_close quoted escaped [] = None"
| "find_close quoted escaped (b # s) =
     (if escaped then map_option (apfst ((#) b)) (find_close quoted False s)
      else if quoted \<and> b = BSLASH then map_option (apfst ((#) b)) (find_close quoted True s)
      else if b = DQUOTE then map_option (apfst ((#) b)) (find_close (\<not> quoted) escaped s)
      else if b = CHR ''>'' \<and> \<not> quoted then Some ([], s)
      else map_option (apfst ((#) b)) (find_close quoted escaped s))"

definition path_ws :: "char \<Rightarrow> bool" where
  "path_ws c \<longleftrightarrow> c = CHR '' '' \<or> c = TAB"

fun path_fields :: "string \<Rightarrow> string \<Rightarrow> string list" where
  "path_fields cur [] = (if cur = [] then [] else [rev cur])"
| "path_fields cur (c # s) =
     (if path_ws c then (if cur = [] then [] else [rev cur]) @ path_fields [] s
      else path_fields (c # cur) s)"

definition parseSMTPPath :: "string \<Rightarrow> string \<Rightarrow> bool \<Rightarrow> (string \<times> string list) result" where
  "parseSMTPPath args prefix allowNull =
     (if len args < len prefix + 2 \<or> \<not> EqualFold (take (length prefix) args) prefix
         \<or> args ! length prefix \<noteq> CHR ''<''
      then Inl ''invalid path''
      else case find_close False False (drop (Suc (length prefix)) args) of
        None \<Rightarrow> Inl ''unterminated path''
      | Some (addr, tail) \<Rightarrow>
          if addr = [] \<and> \<not> allowNull then Inl ''null forward path''
          else if addr \<noteq> [] \<and> \<not> validSMTPMailbox addr then Inl ''invalid mailbox''
          else if tail = [] then Inr (addr, [])
          else if \<not> path_ws (hd tail) then Inl ''path trailing junk''
          else Inr (addr, path_fields [] tail))"

section \<open>MAIL parameters\<close>

record mailFromParams =
  mp_addr :: string
  mp_size :: int
  mp_dsn :: DSNParams
  mp_hasDSN :: bool
  mp_smtpUTF8 :: bool
  mp_requireTLS :: bool

text \<open>One parameter of MAIL: its effect on the parameters read so far.\<close>

definition mail_param :: "int \<Rightarrow> string \<Rightarrow> string \<Rightarrow> bool \<Rightarrow> mailFromParams \<Rightarrow> mailFromParams result" where
  "mail_param maxSize key val hasValue p =
     (if key = ''SIZE'' then
        (if \<not> hasValue \<or> \<not> isASCIIDecimal val then Inl ''501 5.5.4 Invalid SIZE parameter syntax''
         else case ParseInt64 val of
           None \<Rightarrow> Inl ''501 5.5.4 Invalid SIZE parameter syntax''
         | Some n \<Rightarrow>
             if maxSize \<ge> 0 \<and> n > maxSize
             then Inl ''552 5.3.4 Message size exceeds fixed maximum message size''
             else Inr (p\<lparr>mp_size := n\<rparr>))
      else if key = ''SMTPUTF8'' then
        (if hasValue then Inl ''501 5.5.4 Invalid SMTPUTF8 parameter'' else Inr (p\<lparr>mp_smtpUTF8 := True\<rparr>))
      else if key = ''BODY'' then
        (if \<not> hasValue \<or> (ToUpper val \<noteq> ''7BIT'' \<and> ToUpper val \<noteq> ''8BITMIME'')
         then Inl ''501 5.5.4 Invalid BODY parameter'' else Inr p)
      else if key = ''RET'' then
        (if \<not> hasValue then Inl ''501 5.5.4 Invalid RET parameter''
         else if ToUpper val = ''FULL'' then Inr (p\<lparr>mp_dsn := (mp_dsn p)\<lparr>Return := DSNReturnFull\<rparr>, mp_hasDSN := True\<rparr>)
         else if ToUpper val = ''HDRS'' then Inr (p\<lparr>mp_dsn := (mp_dsn p)\<lparr>Return := DSNReturnHeaders\<rparr>, mp_hasDSN := True\<rparr>)
         else Inl ''501 5.5.4 Invalid RET parameter: must be FULL or HDRS'')
      else if key = ''ENVID'' then
        (if \<not> hasValue \<or> len val > 100 \<or> \<not> validXText val then Inl ''501 5.5.4 Invalid ENVID parameter''
         else Inr (p\<lparr>mp_dsn := (mp_dsn p)\<lparr>EnvID := val\<rparr>, mp_hasDSN := True\<rparr>))
      else if key = ''REQUIRETLS'' then
        (if hasValue then Inl ''501 5.5.4 Invalid REQUIRETLS parameter'' else Inr (p\<lparr>mp_requireTLS := True\<rparr>))
      else Inl (''555 5.5.4 Unsupported MAIL FROM parameter: '' @ key))"

fun mail_params :: "int \<Rightarrow> string list \<Rightarrow> string list \<Rightarrow> mailFromParams \<Rightarrow> mailFromParams result" where
  "mail_params maxSize seen [] p = Inr p"
| "mail_params maxSize seen (fld # fs) p =
     (case Cut fld (CHR ''='') of (k, val, hasValue) \<Rightarrow>
        let key = ToUpper k in
        if key \<in> set seen then Inl (''501 5.5.4 Duplicate '' @ key @ '' parameter'')
        else case mail_param maxSize key val hasValue p of
          Inl e \<Rightarrow> Inl e
        | Inr p' \<Rightarrow> mail_params maxSize (key # seen) fs p')"

definition parseMailFromParams :: "int \<Rightarrow> bool \<Rightarrow> string \<Rightarrow> mailFromParams result" where
  "parseMailFromParams maxSize tls args =
     (case parseSMTPPath args ''FROM:'' True of
        Inl _ \<Rightarrow> Inl ''501 5.5.4 Syntax: MAIL FROM:<address>''
      | Inr (addr, fs) \<Rightarrow>
          (case mail_params maxSize [] fs
             \<lparr>mp_addr = addr, mp_size = 0, mp_dsn = \<lparr>Return = DSNReturnUnset, EnvID = []\<rparr>,
              mp_hasDSN = False, mp_smtpUTF8 = False, mp_requireTLS = False\<rparr> of
             Inl e \<Rightarrow> Inl e
           | Inr p \<Rightarrow>
               if mp_requireTLS p \<and> \<not> tls
               then Inl ''530 5.7.4 REQUIRETLS requires an active TLS connection''
               else Inr p))"

section \<open>RCPT parameters\<close>

record rcptToParams =
  rp_addr :: string
  rp_dsn :: DSNRecipientParams
  rp_hasDSN :: bool

definition notify_value :: "string \<Rightarrow> DSNNotifyType option" where
  "notify_value v =
     (if v = ''NEVER'' then Some DSNNotifyNever
      else if v = ''SUCCESS'' then Some DSNNotifySuccess
      else if v = ''FAILURE'' then Some DSNNotifyFailure
      else if v = ''DELAY'' then Some DSNNotifyDelay
      else None)"

fun notify_list :: "string list \<Rightarrow> string list \<Rightarrow> DSNNotifyType list result" where
  "notify_list conditions [] = Inr []"
| "notify_list conditions (v # vs) =
     (if v \<in> set conditions then Inl (''501 5.5.4 Duplicate NOTIFY condition: '' @ v)
      else case notify_value v of
        None \<Rightarrow> Inl (''501 5.5.4 Invalid NOTIFY value: '' @ v)
      | Some n \<Rightarrow> map_sum id ((#) n) (notify_list (v # conditions) vs))"

definition rcpt_param :: "string \<Rightarrow> string \<Rightarrow> bool \<Rightarrow> rcptToParams \<Rightarrow> rcptToParams result" where
  "rcpt_param key val ok p =
     (if key = ''NOTIFY'' then
        (if \<not> ok \<or> val = [] then Inl ''501 5.5.4 Invalid NOTIFY value''
         else let vs = Split (ToUpper val) (CHR '','') in
           case notify_list [] vs of
             Inl e \<Rightarrow> Inl e
           | Inr ns \<Rightarrow>
               if ''NEVER'' \<in> set vs \<and> 1 < length vs
               then Inl ''501 5.5.4 NOTIFY=NEVER must not be combined with other values''
               else Inr (p\<lparr>rp_dsn := (rp_dsn p)\<lparr>Notify := Notify (rp_dsn p) @ ns\<rparr>\<rparr>))
      else if key = ''ORCPT'' then
        (if \<not> ok \<or> \<not> validORCPT val then Inl ''501 5.5.4 Invalid ORCPT parameter''
         else Inr (p\<lparr>rp_dsn := (rp_dsn p)\<lparr>ORCPT := val\<rparr>\<rparr>))
      else Inl (''555 5.5.4 Unsupported RCPT TO parameter: '' @ key))"

fun rcpt_params :: "string list \<Rightarrow> string list \<Rightarrow> rcptToParams \<Rightarrow> rcptToParams result" where
  "rcpt_params seen [] p = Inr p"
| "rcpt_params seen (fld # fs) p =
     (case Cut fld (CHR ''='') of (k, val, ok) \<Rightarrow>
        let key = ToUpper k in
        if key \<in> set seen then Inl (''501 5.5.4 Duplicate '' @ key @ '' parameter'')
        else case rcpt_param key val ok p of
          Inl e \<Rightarrow> Inl e
        | Inr p' \<Rightarrow> rcpt_params (key # seen) fs p')"

definition parseRCPTEnvelope :: "string \<Rightarrow> rcptToParams result" where
  "parseRCPTEnvelope args =
     (case parseSMTPPath args ''TO:'' False of
        Inl _ \<Rightarrow> Inl ''501 5.5.4 Syntax: RCPT TO:<address>''
      | Inr (addr, fs) \<Rightarrow>
          map_sum id (\<lambda>p. p\<lparr>rp_hasDSN := (fs \<noteq> [])\<rparr>)
            (rcpt_params [] fs
               \<lparr>rp_addr = addr, rp_dsn = \<lparr>Notify = [], ORCPT = []\<rparr>, rp_hasDSN = False\<rparr>))"

definition parseRcptToParams :: "string \<Rightarrow> rcptToParams result" where
  "parseRcptToParams args = parseRCPTEnvelope args"

definition validateEmailAddress :: "string \<Rightarrow> error" where
  "validateEmailAddress addr =
     (if addr = [] then None
      else if len addr > 320 then Some ''address too long''
      else case IndexByte addr (CHR ''@'') of
        None \<Rightarrow> Some ''invalid email address format''
      | Some i \<Rightarrow> if i = 0 \<or> Suc i = length addr then Some ''invalid email address format'' else None)"

section \<open>Host names\<close>

text \<open>The label expression: an alphanumeric byte, or two with up to 61 alphanumerics or hyphens between.\<close>

definition host_label :: "string \<Rightarrow> bool" where
  "host_label l \<longleftrightarrow>
     l \<noteq> [] \<and> len l \<le> 63 \<and> is_alnum (hd l) \<and> is_alnum (last l)
     \<and> list_all (\<lambda>c. is_alnum c \<or> c = CHR ''-'') l"

definition validateDomainName :: "string \<Rightarrow> error" where
  "validateDomainName domain =
     (if len domain > 255 then Some ''invalid domain name: exceeds maximum length''
      else fold (\<lambda>l e. case e of Some _ \<Rightarrow> e
        | None \<Rightarrow> if l = [] then Some ''invalid domain name: empty label''
                 else if len l > 63 then Some ''invalid domain name: label exceeds 63 characters''
                 else if \<not> host_label l then Some ''invalid domain name: malformed label''
                 else None) (Split domain (CHR ''.'')) None)"

definition validateAddressLiteral :: "string \<Rightarrow> error" where
  "validateAddressLiteral literal =
     (let content = butlast (tl literal) in
      if content = [] then Some ''malformed address literal: empty brackets''
      else if 5 \<le> len content \<and> ToUpper (take 5 content) = ''IPV6:'' then
        (let a = drop 5 content in
         if a = [] then Some ''malformed IPv6 address literal: missing address after IPv6: prefix''
         else case ParseIP a of
           None \<Rightarrow> Some ''malformed IPv6 address literal: invalid IPv6 address''
         | Some ip \<Rightarrow> if To4 ip \<noteq> None
                     then Some ''malformed IPv6 address literal: address is IPv4, not IPv6'' else None)
      else if CHR '':'' \<in> set content then None
      else case ParseIP content of
        None \<Rightarrow> Some ''malformed IPv4 address literal: invalid IP address''
      | Some ip \<Rightarrow> if To4 ip = None
                  then Some ''malformed IPv4 address literal: address is not IPv4 format'' else None)"

definition validateHostname :: "string \<Rightarrow> error" where
  "validateHostname hostname =
     (if hostname = [] then Some ''empty hostname''
      else if len hostname > 255 then Some ''hostname too long''
      else if 2 \<le> len hostname \<and> hd hostname = CHR ''['' \<and> last hostname = CHR '']''
      then validateAddressLiteral hostname
      else validateDomainName hostname)"

section \<open>Lemmas on paths\<close>

lemma find_close_scan:
  "scan_mailbox q e at i a = Some (False, False, at') \<Longrightarrow> find_close q e (a @ CHR ''>'' # t) = Some (a, t)"
  by (induction q e at i a rule: scan_mailbox.induct) (auto split: if_splits)

lemma find_close_SomeD: "find_close q e s = Some (a, t) \<Longrightarrow> s = a @ CHR ''>'' # t"
  by (induction q e s arbitrary: a rule: find_close.induct) (auto split: if_splits)

lemma validSMTPMailbox_scan:
  "validSMTPMailbox a \<Longrightarrow> \<exists>at. scan_mailbox False False None 0 a = Some (False, False, at)"
  by (auto simp: validSMTPMailbox_def split: option.splits bool.splits prod.splits)

lemma not_validSMTPMailbox_Nil: "\<not> validSMTPMailbox []"
  by (simp add: validSMTPMailbox_def)

lemma validSMTPMailbox_find_close:
  "validSMTPMailbox a \<Longrightarrow> find_close False False (a @ CHR ''>'' # t) = Some (a, t)"
  using validSMTPMailbox_scan find_close_scan by blast

definition path_word :: "string \<Rightarrow> bool" where
  "path_word f \<longleftrightarrow> f \<noteq> [] \<and> list_all (\<lambda>c. \<not> path_ws c) f"

lemma path_fields_word:
  "list_all (\<lambda>c. \<not> path_ws c) f \<Longrightarrow> path_fields cur (f @ s) = path_fields (rev f @ cur) s"
  by (induction f arbitrary: cur) auto

lemma path_ws_space [simp]: "path_ws (CHR '' '')"
  by (simp add: path_ws_def)

lemma path_fields_spaced:
  "list_all path_word fs \<Longrightarrow> cur \<noteq> [] \<Longrightarrow>
     path_fields cur (concat (map ((#) (CHR '' '')) fs)) = rev cur # fs"
  by (induction fs arbitrary: cur) (auto simp: path_word_def path_fields_word)

lemma path_fields_spaced_start:
  "list_all path_word fs \<Longrightarrow> path_fields [] (concat (map ((#) (CHR '' '')) fs)) = fs"
  by (cases fs) (auto simp: path_word_def path_fields_word path_fields_spaced)

lemma path_fields_words:
  "list_all (\<lambda>c. \<not> path_ws c) cur \<Longrightarrow> list_all path_word (path_fields cur s)"
proof (induction cur s rule: path_fields.induct)
  case (2 cur c s)
  then show ?case by (cases "path_ws c"; cases "cur = []") (simp_all add: path_word_def)
qed (simp add: path_word_def)

section \<open>Properties\<close>

text \<open>
  C23. Writing a path and reading it back: for every mailbox the server considers valid (or
  the null path where it is allowed) and every list of parameters without blanks, parsing
  \<open>PREFIX:<mailbox> p1 p2 ...\<close> gives exactly that mailbox and those parameters. Quoted
  local parts that contain \<open>>\<close> or escaped quotes are included.
\<close>

theorem path_round_trip:
  assumes "addr = [] \<and> allowNull \<or> validSMTPMailbox addr" and "list_all path_word fs"
  shows "parseSMTPPath (prefix @ ''<'' @ addr @ ''>'' @ concat (map ((#) (CHR '' '')) fs)) prefix allowNull
         = Inr (addr, fs)"
proof -
  let ?t = "concat (map ((#) (CHR '' '')) fs)"
  have "find_close False False (addr @ CHR ''>'' # ?t) = Some (addr, ?t)"
    using assms(1) validSMTPMailbox_find_close by auto
  moreover have "path_ws (hd ?t)" if "fs \<noteq> []" using that by (cases fs) auto
  ultimately show ?thesis
    using assms path_fields_spaced_start [OF assms(2)] not_validSMTPMailbox_Nil
    by (auto simp: parseSMTPPath_def EqualFold_def nth_append)
qed

theorem path_round_trip_witness:
  "parseSMTPPath (''FROM:'' @ ''<'' @ ([DQUOTE] @ ''a>b'' @ [BSLASH, DQUOTE, DQUOTE] @ ''@example.org'') @ ''>''
     @ concat (map ((#) (CHR '' '')) [''SIZE=10'', ''SMTPUTF8''])) ''FROM:'' True
   = Inr ([DQUOTE] @ ''a>b'' @ [BSLASH, DQUOTE, DQUOTE] @ ''@example.org'', [''SIZE=10'', ''SMTPUTF8''])"
  by (rule path_round_trip) code_simp+

text \<open>
  C24. What a parsed path is: the text up to the parameters is the prefix in any case, then
  the mailbox between angle brackets; the mailbox is valid or the permitted null path; and
  the parameters are non-empty words without blanks.
\<close>

theorem parsed_path_sound:
  assumes "parseSMTPPath args prefix allowNull = Inr (addr, fs)"
  shows "(addr = [] \<and> allowNull \<or> validSMTPMailbox addr) \<and> list_all path_word fs \<and>
    (\<exists>p tail. args = p @ ''<'' @ addr @ ''>'' @ tail \<and> EqualFold p prefix)"
proof -
  let ?p = "take (length prefix) args" and ?r = "drop (Suc (length prefix)) args"
  from assms have l: "length prefix < length args" and fold: "EqualFold ?p prefix"
    and lt: "args ! length prefix = CHR ''<''"
    by (auto simp: parseSMTPPath_def split: if_splits)
  from assms l fold lt obtain tail where c: "find_close False False ?r = Some (addr, tail)"
    and ok: "addr = [] \<and> allowNull \<or> validSMTPMailbox addr"
    and fs: "fs = [] \<or> fs = path_fields [] tail"
    by (auto simp: parseSMTPPath_def split: if_splits option.splits prod.splits)
  have "args = ?p @ args ! length prefix # ?r" using l by (simp add: id_take_nth_drop)
  then have "args = ?p @ ''<'' @ addr @ ''>'' @ tail" using lt find_close_SomeD [OF c] by simp
  with ok fold fs path_fields_words [of "[]" tail] show ?thesis by auto
qed

theorem parsed_path_sound_witness:
  "parseSMTPPath ''from:<bob@example.org>  SIZE=10'' ''FROM:'' True = Inr (''bob@example.org'', [''SIZE=10''])
   \<and> validSMTPMailbox ''bob@example.org''"
proof -
  have p: "parseSMTPPath ''from:<bob@example.org>  SIZE=10'' ''FROM:'' True
    = Inr (''bob@example.org'', [''SIZE=10''])" by code_simp
  from parsed_path_sound [OF p] p show ?thesis by simp
qed

end
