(* ===== verification/Command_Security.thy ===== *)
theory Command_Security
  imports Envelope
begin

text \<open>
  The filter every command line passes before it is dispatched,
  \<open>internal/smtp/command_security.go\<close>, with the default configuration that the server always
  uses. Each regular expression of the source is a predicate on the whole string; \<open>\s\<close> is
  Go's ASCII class and \<open>(?i)\<close> is simple case folding. Whether a command exceeded its memory
  allowance is an argument, since it reads the run-time's statistics.
\<close>

section \<open>The configuration\<close>

definition MaxCommandLength :: int where "MaxCommandLength = 512"
definition MaxParameterLength :: int where "MaxParameterLength = 320"

definition regex_space :: "char \<Rightarrow> bool" where
  "regex_space c \<longleftrightarrow> c \<in> set [TAB, LF, CHR 0x0C, CR, CHR '' '']"

definition AllowedCommandChars :: "string \<Rightarrow> bool" where
  "AllowedCommandChars s \<longleftrightarrow> s \<noteq> [] \<and> list_all (\<lambda>c. is_alnum c \<or> c = CHR ''-'' \<or> c = CHR ''_'') s"

definition parameter_char :: "char \<Rightarrow> bool" where
  "parameter_char c \<longleftrightarrow>
     is_alnum c \<or> regex_space c \<or> c = CHR 0x27 \<or> c = CHR 0x60 \<or> c \<in> set ''-_@.:<>=[]!#$%&*+/?^{|}~''"

definition AllowedParameterChars :: "string \<Rightarrow> bool" where
  "AllowedParameterChars s \<longleftrightarrow> s \<noteq> [] \<and> list_all parameter_char s"

definition fold_contains :: "string \<Rightarrow> string list \<Rightarrow> bool" where
  "fold_contains s ws \<longleftrightarrow> list_ex (\<lambda>w. Contains (FoldCase s) w) ws"

definition control_byte :: "char \<Rightarrow> bool" where
  "control_byte c \<longleftrightarrow> byte_in 0 8 c \<or> byte_val c = 11 \<or> byte_val c = 12 \<or> byte_in 14 31 c \<or> byte_val c = 127"

definition BlockedCommandPatterns :: "(string \<Rightarrow> bool) list" where
  "BlockedCommandPatterns =
     [\<lambda>s. fold_contains s [''UNION'', ''SELECT'', ''INSERT'', ''UPDATE'', ''DELETE'', ''DROP'', ''CREATE'',
                          ''ALTER'', ''EXEC'', ''EXECUTE''],
      \<lambda>s. list_ex (\<lambda>c. c \<in> set '';&|$'' \<or> c = CHR 0x60) s,
      \<lambda>s. fold_contains s [''SCRIPT'', ''JAVASCRIPT'', ''VBSCRIPT'', ''ONLOAD'', ''ONERROR''],
      \<lambda>s. Contains s ''../'' \<or> Contains s (''..'' @ [BSLASH]),
      \<lambda>s. list_ex control_byte s]"

definition BlockedParameterPatterns :: "(string \<Rightarrow> bool) list" where
  "BlockedParameterPatterns = BlockedCommandPatterns @ [\<lambda>s. list_ex (\<lambda>c. c = CR \<or> c = LF) s]"

section \<open>UTF-8\<close>

definition cont_byte :: "char \<Rightarrow> bool" where
  "cont_byte c \<longleftrightarrow> byte_in 0x80 0xBF c"

text \<open>\<open>utf8.ValidString\<close>: no overlong form, no surrogate, nothing above U+10FFFF.\<close>

fun ValidString :: "string \<Rightarrow> bool" where
  "ValidString [] = True"
| "ValidString (a # s) =
     (if is_ascii a then ValidString s
      else if byte_in 0xC2 0xDF a then
        (case s of b # r \<Rightarrow> cont_byte b \<and> ValidString r | _ \<Rightarrow> False)
      else if byte_in 0xE0 0xEF a then
        (case s of b # c # r \<Rightarrow>
           (if byte_val a = 0xE0 then byte_in 0xA0 0xBF b
            else if byte_val a = 0xED then byte_in 0x80 0x9F b else cont_byte b)
           \<and> cont_byte c \<and> ValidString r
         | _ \<Rightarrow> False)
      else if byte_in 0xF0 0xF4 a then
        (case s of b # c # d # r \<Rightarrow>
           (if byte_val a = 0xF0 then byte_in 0x90 0xBF b
            else if byte_val a = 0xF4 then byte_in 0x80 0x8F b else cont_byte b)
           \<and> cont_byte c \<and> cont_byte d \<and> ValidString r
         | _ \<Rightarrow> False)
      else False)"

section \<open>The steps of the filter\<close>

definition validateLength :: "string \<Rightarrow> error" where
  "validateLength line = (if len line > MaxCommandLength then Some ''500 5.5.2 Line too long'' else None)"

definition validateUTF8 :: "string \<Rightarrow> error" where
  "validateUTF8 line = (if \<not> ValidString line then Some ''500 5.5.2 Invalid character encoding'' else None)"

definition filterControlCharacters :: "string \<Rightarrow> error" where
  "filterControlCharacters line =
     (if list_ex (\<lambda>r. (byte_val r < 32 \<and> byte_val r \<noteq> 9 \<and> byte_val r \<noteq> 10 \<and> byte_val r \<noteq> 13)
                      \<or> byte_val r = 127) line
      then Some ''500 5.5.2 Invalid control character'' else None)"

text \<open>Every maximal run of white space becomes one space; \<open>ws\<close> tells that the last byte was white space.\<close>

fun squeeze :: "bool \<Rightarrow> string \<Rightarrow> string" where
  "squeeze ws [] = []"
| "squeeze ws (c # s) =
     (if regex_space c then (if ws then squeeze True s else CHR '' '' # squeeze True s)
      else c # squeeze False s)"

definition canonicalizeCommand :: "string \<Rightarrow> string result" where
  "canonicalizeCommand line =
     (let canonical = TrimSpace (squeeze False (TrimSpace line))
      in if canonical = [] then Inl ''500 5.5.2 Empty command'' else Inr canonical)"

definition csm_parseCommand :: "string \<Rightarrow> string \<times> string" where
  "csm_parseCommand line =
     (if line = [] then ([], [])
      else case Cut line (CHR '' '') of (a, b, found) \<Rightarrow>
        if \<not> found then (ToUpper line, []) else (ToUpper a, TrimSpace b))"

definition validateCommandStructure :: "string \<Rightarrow> string \<Rightarrow> error" where
  "validateCommandStructure cmd args =
     (if cmd = [] then Some ''500 5.5.2 Invalid command structure''
      else if \<not> AllowedCommandChars cmd then Some ''500 5.5.2 Invalid command name''
      else if args \<noteq> [] \<and> len args > MaxParameterLength then Some ''500 5.5.2 Parameters too long''
      else None)"

definition validCommands :: "string list" where
  "validCommands =
     [''HELO'', ''EHLO'', ''MAIL'', ''RCPT'', ''DATA'', ''BDAT'', ''RSET'', ''NOOP'', ''QUIT'', ''AUTH'',
      ''STARTTLS'', ''HELP'', ''VRFY'', ''EXPN'', ''XDEBUG'']"

definition validateCommandName :: "string \<Rightarrow> error" where
  "validateCommandName cmd =
     (if cmd \<notin> set validCommands then Some ''502 5.5.1 Command not recognized'' else None)"

definition validateBounds :: "string \<Rightarrow> error" where
  "validateBounds str = (if len str > 1048576 then Some ''500 5.5.2 String too large'' else None)"

definition email_local_char :: "char \<Rightarrow> bool" where
  "email_local_char c \<longleftrightarrow> is_alnum c \<or> c = CHR 0x27 \<or> c \<in> set ''._%+=/!#*?^{}~-''"

definition email_domain :: "string \<Rightarrow> bool" where
  "email_domain d \<longleftrightarrow> d = ''localhost'' \<or>
     (let ls = Split d (CHR ''.'') in
      2 \<le> length ls \<and> list_all host_label (butlast ls)
      \<and> 2 \<le> len (last ls) \<and> list_all is_alpha (last ls))"

definition email_regex :: "string \<Rightarrow> bool" where
  "email_regex addr = (case Cut addr (CHR ''@'') of (l, d, found) \<Rightarrow>
     found \<and> l \<noteq> [] \<and> list_all email_local_char l \<and> email_domain d)"

definition csm_validateEmailAddress :: "string \<Rightarrow> error" where
  "csm_validateEmailAddress addr =
     (if addr = [] then None
      else if len addr > 320 then Some ''501 5.1.3 Address too long''
      else if CHR ''@'' \<notin> set addr \<or> len addr < 3 then Some ''501 5.1.3 Invalid email address format''
      else if Contains addr ''../'' then Some ''501 5.1.3 Invalid email address format''
      else if \<not> email_regex addr then Some ''501 5.1.3 Invalid email address format''
      else None)"

definition validateHostnameParameter :: "string \<Rightarrow> error" where
  "validateHostnameParameter hostname =
     (if hostname = [] then Some ''501 5.0.0 Hostname required''
      else if len hostname > 255 then Some ''501 5.0.0 Hostname too long''
      else if 2 < len hostname \<and> hd hostname = CHR ''['' \<and> last hostname = CHR '']'' then None
      else if \<not> list_all host_label (Split hostname (CHR ''.'')) then Some ''501 5.0.0 Invalid hostname format''
      else None)"

definition validateMailFromParameter :: "string \<Rightarrow> error" where
  "validateMailFromParameter args = (case validateBounds args of Some e \<Rightarrow> Some e
     | None \<Rightarrow>
         if \<not> HasPrefix (ToUpper args) ''FROM:'' then Some ''501 5.5.4 Syntax: MAIL FROM:<address>''
         else let addr = TrimSpace (drop 5 args) in
           if addr = [] then Some ''501 5.5.4 Syntax: MAIL FROM:<address>''
           else let addrPart = (case IndexByte addr (CHR ''>'') of
                      Some i \<Rightarrow> if 0 < i then take (Suc i) addr else addr
                    | None \<Rightarrow> addr)
                in csm_validateEmailAddress (TrimSpace (TrimSet addrPart ''<>'')))"

definition validateRcptToParameter :: "string \<Rightarrow> error" where
  "validateRcptToParameter args = (case validateBounds args of Some e \<Rightarrow> Some e
     | None \<Rightarrow>
         if \<not> HasPrefix (ToUpper args) ''TO:'' then Some ''501 5.5.4 Syntax: RCPT TO:<address>''
         else let addr = TrimSpace (drop 3 args) in
           if addr = [] then Some ''501 5.5.4 Syntax: RCPT TO:<address>''
           else csm_validateEmailAddress
             (if 2 \<le> len addr \<and> HasPrefix addr ''<'' \<and> HasSuffix addr ''>'' then butlast (tl addr) else addr))"

definition validateAuthParameter :: "string \<Rightarrow> error" where
  "validateAuthParameter args =
     (if args = [] then Some ''501 5.5.4 Syntax: AUTH <mechanism>''
      else case Fields args of
        [] \<Rightarrow> Some ''501 5.5.4 Syntax: AUTH <mechanism>''
      | f # _ \<Rightarrow> if ToUpper f \<in> set [''PLAIN'', ''LOGIN''] then None
                 else Some ''504 5.7.4 Unrecognized authentication type'')"

definition validateCommandParameters :: "string \<Rightarrow> string \<Rightarrow> error" where
  "validateCommandParameters cmd args =
     (if args = [] then None
      else if \<not> AllowedParameterChars args then Some ''500 5.5.2 Invalid parameter characters''
      else if cmd = ''HELO'' \<or> cmd = ''EHLO'' then validateHostnameParameter args
      else if cmd = ''MAIL'' then validateMailFromParameter args
      else if cmd = ''RCPT'' then validateRcptToParameter args
      else if cmd = ''AUTH'' then validateAuthParameter args
      else if cmd = ''VRFY'' \<or> cmd = ''EXPN'' then csm_validateEmailAddress args
      else None)"

definition checkBlockedPatterns :: "string \<Rightarrow> string \<Rightarrow> error" where
  "checkBlockedPatterns cmd args =
     (if list_ex (\<lambda>p. p cmd) BlockedCommandPatterns
      then Some ''554 5.7.1 Command rejected: security violation''
      else if args \<noteq> [] \<and> list_ex (\<lambda>p. p args) BlockedParameterPatterns
      then Some ''554 5.7.1 Parameters rejected: security violation''
      else None)"

section \<open>The filter\<close>

text \<open>The later steps, on the command and arguments of the canonical line.\<close>

definition validate_parsed :: "bool \<Rightarrow> string \<Rightarrow> string \<Rightarrow> error" where
  "validate_parsed memoryExceeded cmd args0 =
     (case validateCommandStructure cmd args0 of Some e \<Rightarrow> Some e | None \<Rightarrow>
      case validateCommandName cmd of Some e \<Rightarrow> Some e | None \<Rightarrow>
      case (if cmd = ''RCPT''
            then map_sum id (\<lambda>p. ''TO:<'' @ rp_addr p @ ''>'') (parseRCPTEnvelope args0)
            else Inr args0) of
        Inl e \<Rightarrow> Some e
      | Inr args \<Rightarrow>
          (case validateCommandParameters cmd args of Some e \<Rightarrow> Some e | None \<Rightarrow>
           case (if cmd \<noteq> ''MAIL'' \<and> cmd \<noteq> ''RCPT'' then checkBlockedPatterns cmd args else None) of
             Some e \<Rightarrow> Some e
           | None \<Rightarrow> if memoryExceeded
                    then Some ''452 4.3.1 Insufficient system storage, try again later'' else None))"

definition ValidateCommand :: "bool \<Rightarrow> string \<Rightarrow> error" where
  "ValidateCommand memoryExceeded line =
     (case validateLength line of Some e \<Rightarrow> Some e | None \<Rightarrow>
      case validateUTF8 line of Some e \<Rightarrow> Some e | None \<Rightarrow>
      case filterControlCharacters line of Some e \<Rightarrow> Some e | None \<Rightarrow>
      case canonicalizeCommand line of Inl e \<Rightarrow> Some e
      | Inr canonical \<Rightarrow>
          (case csm_parseCommand canonical of (cmd, args) \<Rightarrow> validate_parsed memoryExceeded cmd args))"

section \<open>Safe logging\<close>

definition redactCommand :: "string \<Rightarrow> string" where
  "redactCommand line = (case Fields line of
       a # m # _ # _ \<Rightarrow> if EqualFold a ''AUTH'' then a @ '' '' @ m @ '' [redacted]'' else line
     | _ \<Rightarrow> line)"

end
