(* ===== verification/Commands.thy ===== *)
theory Commands
  imports Message_Pipeline Auth_Handler Envelope Command_Security
begin

text \<open>
  The command handlers of \<open>internal/smtp/session_commands.go\<close> and \<open>ProcessCommand\<close>, which
  validates a line, checks it against the phase and dispatches it. Every handler takes the
  environment, its arguments and the session, and returns the error the client is told (or
  \<open>None\<close> when it has written its own reply) with the new session. Log lines are left out.
\<close>

section \<open>Greeting\<close>

definition greet :: "Env \<Rightarrow> string \<Rightarrow> Session \<Rightarrow> Session" where
  "greet env name s =
     upd_state (Reset (now_of env s)) (upd_state (SetGreeted True) (upd_state (SetHeloName name) s))"

definition HandleHELO :: "Env \<Rightarrow> string \<Rightarrow> Session \<Rightarrow> error \<times> Session" where
  "HandleHELO env args s =
     (if args = [] then (Some ''501 5.0.0 HELO requires domain address'', s)
      else if validateHostname args \<noteq> None then (Some (''501 5.0.0 Invalid hostname: '' @ args), s)
      else session_write env (''250 '' @ Hostname (config env) @ '' Hello '' @ args) (greet env args s))"

definition ehlo_responses :: "Env \<Rightarrow> string \<Rightarrow> Session \<Rightarrow> string list" where
  "ehlo_responses env args s =
     [''250-'' @ Hostname (config env) @ '' Hello '' @ args,
      ''250-SIZE '' @ show_int (MaxSize (config env)),
      ''250-8BITMIME'', ''250-SMTPUTF8'', ''250-ENHANCEDSTATUSCODES'', ''250-CHUNKING'', ''250-DSN'', ''250-PIPELINING'']
     @ (if hasTLSManager env \<and> \<not> tlsActive (state s) then [''250-STARTTLS''] else [])
     @ (if tlsActive (state s) then [''250-REQUIRETLS''] else [])
     @ (if (case Auth (config env) of None \<Rightarrow> False | Some a \<Rightarrow> auth_Enabled a) \<and> plaintextAuthAllowed env s
           \<and> GetAuthMethodsString env \<noteq> []
        then [''250-AUTH '' @ GetAuthMethodsString env] else [])
     @ (if DevMode (config env) then [''250-XDEBUG''] else [])
     @ [''250 HELP'']"

definition wrap_error :: "string \<Rightarrow> error \<times> Session \<Rightarrow> error \<times> Session" where
  "wrap_error what r = (map_option (\<lambda>e. what @ e) (fst r), snd r)"

definition HandleEHLO :: "Env \<Rightarrow> string \<Rightarrow> Session \<Rightarrow> error \<times> Session" where
  "HandleEHLO env args s =
     (if args = [] then (Some ''501 5.0.0 EHLO requires domain address'', s)
      else if validateHostname args \<noteq> None then (Some (''501 5.0.0 Invalid hostname: '' @ args), s)
      else let s1 = greet env args s
           in wrap_error ''failed to write EHLO response: '' (write_all env (ehlo_responses env args s1) s1))"

section \<open>MAIL\<close>

definition auth_required :: "Env \<Rightarrow> bool" where
  "auth_required env = (case Auth (config env) of None \<Rightarrow> False | Some a \<Rightarrow> auth_Enabled a \<and> auth_Required a)"

text \<open>The rules about a sender: allow and deny lists, the abuse engine, the block lists.\<close>

definition check_sender_rules :: "Env \<Rightarrow> string \<Rightarrow> Session \<Rightarrow> error \<times> Session" where
  "check_sender_rules env from s =
     (let decision = CheckSender (accessControl env) from; n = stepNo s in
      if Denied decision then (Some (''550 5.7.1 '' @ Reason decision), s)
      else if \<not> authenticated (state s) \<and> denySender env n from then (Some ''550 5.7.1 Sender refused by policy'', s)
      else if \<not> authenticated (state s) \<and> \<not> isRelayAllowed env \<and> \<not> inboundMessage env n
      then (Some ''451 4.7.1 Too much mail from this address; try again later'', s)
      else if \<not> authenticated (state s) \<and> \<not> isRelayAllowed env \<and> \<not> inboundDomain env n from
      then (Some (''451 4.7.1 Too much mail from this sender'' @ [CHR 0x27] @ ''s domain; try again later''), s)
      else checkRBL env s)"

definition accept_sender :: "Env \<Rightarrow> mailFromParams \<Rightarrow> Session \<Rightarrow> error \<times> Session" where
  "accept_sender env p s =
     (let cfg = config env; st = state s; from = mp_addr p in
       if validateEmailAddress from \<noteq> None then (Some (''553 5.1.3 Invalid sender address: '' @ from), s)
       else if containsNonASCII from \<and> \<not> mp_smtpUTF8 p
       then (Some ''553 5.6.7 SMTPUTF8 is required for non-ASCII sender address'', s)
       else if mp_size p > 0 \<and> mp_size p > MaxSize cfg then
         (Some (''552 5.3.4 Message size exceeds fixed maximum message size ('' @ show_int (mp_size p)
                @ '' bytes declared, '' @ show_int (MaxSize cfg) @ '' bytes maximum)''), s)
       else case (case sender_policies env s of None \<Rightarrow> None | Some sp \<Rightarrow> checkMail sp (stepNo s) (username st) (mp_size p)) of
         Some e \<Rightarrow> (Some e, s)
       | None \<Rightarrow>
         (case AcceptMail (now_of env s) from (mp_size p) (mp_smtpUTF8 p)
                 (if mp_hasDSN p then Some (mp_dsn p) else None) (mp_requireTLS p) st of
            Inl _ \<Rightarrow> (Some ''503 5.5.1 Bad sequence of commands'', s)
          | Inr st' \<Rightarrow> session_write env ''250 2.1.0 Sender OK'' (s\<lparr>state := st'\<rparr>)))"

definition HandleMAIL :: "Env \<Rightarrow> string \<Rightarrow> Session \<Rightarrow> error \<times> Session" where
  "HandleMAIL env args s =
     (let st = state s in
      if auth_required env \<and> \<not> authenticated st then (Some ''530 5.7.0 Authentication required'', s)
      else case checkSubmissionSender env s of Some e \<Rightarrow> (Some e, s) | None \<Rightarrow>
      case parseMailFromParams (MaxSize (config env)) (tlsActive st) args of Inl e \<Rightarrow> (Some e, s) | Inr p \<Rightarrow>
      case checkSenderBinding env (mp_addr p) s of Some e \<Rightarrow> (Some e, s) | None \<Rightarrow>
      (case check_sender_rules env (mp_addr p) s of
         (Some e, s1) \<Rightarrow> (Some e, s1)
       | (None, s1) \<Rightarrow> accept_sender env p s1))"

section \<open>RCPT\<close>

text \<open>The rules about mail that leaves the server, and the look-up of a local mailbox.\<close>

definition check_outbound :: "Env \<Rightarrow> string \<Rightarrow> Session \<Rightarrow> error" where
  "check_outbound env rcpt s =
     (let user = username (state s) in
      if denyRecipient env (stepNo s) rcpt
      then Some (''550 5.7.1 <'' @ sanitizeEmailForHeader rcpt @ ''>: Recipient refused by policy'')
      else if authenticated (state s) \<and> user \<noteq> [] \<and> \<not> outboundRecipient env (stepNo s) user
      then Some ''451 4.7.1 Sending outside the server from this account is on hold; contact your administrator''
      else None)"

definition check_mailbox :: "Env \<Rightarrow> string \<Rightarrow> Session \<Rightarrow> error" where
  "check_mailbox env rcpt s = (case rcptRejected env of
       None \<Rightarrow> None
     | Some rejected \<Rightarrow> if isLocalDomain env rcpt \<and> rejected (stepNo s) rcpt then Some (user_unknown rcpt) else None)"

definition check_recipient_policies :: "Env \<Rightarrow> string \<Rightarrow> Session \<Rightarrow> error" where
  "check_recipient_policies env rcpt s =
     (case (case sender_policies env s of None \<Rightarrow> None
              | Some sp \<Rightarrow> checkRcpt sp (stepNo s) (username (state s)) (GetRecipientCount (state s))) of
        Some e \<Rightarrow> Some e
      | None \<Rightarrow>
          (case policies env of
             None \<Rightarrow> None
           | Some sp \<Rightarrow>
               if isLocalDomain env rcpt then checkRecipientSize sp (stepNo s) rcpt (declaredSize (state s)) else None))"

text \<open>The address mail for a recipient really goes to: an SRS address of ours leads home.\<close>

definition resolve_recipient :: "Env \<Rightarrow> string \<Rightarrow> Session \<Rightarrow> (string \<times> bool) result" where
  "resolve_recipient env rcpt s = (case reverseSRS env rcpt s of
       Inl e \<Rightarrow> Inl e
     | Inr bounceFor \<Rightarrow>
         if bounceFor \<noteq> [] then Inr (bounceFor, True)
         else (case checkRelayPermissions env rcpt s of Some e \<Rightarrow> Inl e | None \<Rightarrow> Inr (rcpt, False)))"

definition HandleRCPT :: "Env \<Rightarrow> string \<Rightarrow> Session \<Rightarrow> error \<times> Session" where
  "HandleRCPT env args s =
     (case parseRcptToParams args of Inl e \<Rightarrow> (Some e, s) | Inr p \<Rightarrow>
      if validateEmailAddress (rp_addr p) \<noteq> None
      then (Some (''553 5.1.3 Invalid recipient address: '' @ rp_addr p), s)
      else if containsNonASCII (rp_addr p) \<and> \<not> smtputf8 (state s)
      then (Some ''553 5.6.7 SMTPUTF8 is required for non-ASCII recipient address'', s)
      else case resolve_recipient env (rp_addr p) s of Inl e \<Rightarrow> (Some e, s) | Inr (rcpt, bounce) \<Rightarrow>
      case (if \<not> bounce \<and> \<not> isLocalDomain env rcpt then check_outbound env rcpt s else None) of
        Some e \<Rightarrow> (Some e, s) | None \<Rightarrow>
      case check_mailbox env rcpt s of Some e \<Rightarrow> (Some e, s) | None \<Rightarrow>
      case check_recipient_policies env rcpt s of Some e \<Rightarrow> (Some e, s) | None \<Rightarrow>
      case AddRecipient (now_of env s) rcpt (state s) of
        Inl _ \<Rightarrow> (Some ''503 5.5.1 Bad sequence of commands'', s)
      | Inr st1 \<Rightarrow>
          (let st2 = (if rp_hasDSN p then SetDSNRecipientParams (now_of env s) rcpt (rp_dsn p) st1 else st1)
           in session_write env ''250 2.1.5 Recipient OK'' (s\<lparr>state := st2\<rparr>)))"

section \<open>DATA and BDAT\<close>

definition HandleDATA :: "Env \<Rightarrow> Session \<Rightarrow> error \<times> Session" where
  "HandleDATA env s =
     (if GetRecipientCount (state s) = 0 then (Some ''503 5.5.1 RCPT first'', s)
      else if \<not> CanAcceptDataCommand ''DATA'' (state s) then (Some ''503 5.5.1 Bad sequence of commands'', s)
      else case SetDataTransferMode (now_of env s) DataModeDATA (state s) of
        Inl _ \<Rightarrow> (Some ''503 5.5.1 Bad sequence of commands'', s)
      | Inr st1 \<Rightarrow>
          (case SetPhase (now_of env s) PhaseData st1 of
             Inl _ \<Rightarrow> (Some ''503 5.5.1 Bad sequence of commands'', s\<lparr>state := st1\<rparr>)
           | Inr st2 \<Rightarrow>
               (case session_write env ''354 Start mail input; end with <CRLF>.<CRLF>'' (s\<lparr>state := st2\<rparr>) of
                  (Some e, s1) \<Rightarrow> (Some (''failed to write data prompt: '' @ e), s1)
                | (None, s1) \<Rightarrow> (map_option (\<lambda>e. ''failed to flush data prompt: '' @ e) (session_flush s1), s1))))"

definition discardRefusedBDAT :: "string \<Rightarrow> Session \<Rightarrow> Session" where
  "discardRefusedBDAT args s =
     (let parts = Fields args in
      if parts = [] \<or> 2 < length parts then s
      else case ParseInt64 (hd parts) of
        Some n \<Rightarrow> if n > 0 then DiscardBDATChunk n s else s
      | None \<Rightarrow> s)"

text \<open>\<open>BDAT\<close> after its arguments have been read: the chunk of \<open>n\<close> octets follows on the wire.\<close>

definition receive_chunk :: "Env \<Rightarrow> int \<Rightarrow> bool \<Rightarrow> Session \<Rightarrow> error \<times> Session" where
  "receive_chunk env n isLast s =
     (case ReadBDATChunk env n s of
        (Some e, s1) \<Rightarrow>
          if panicked s1 then (Some e, s1)
          else (Some e, upd_state (ClearDataTransferMode (now_of env s)) (ResetBDAT s1))
      | (None, s1) \<Rightarrow>
          if isLast then
            (case ProcessBDATMessage env s1 of
               (Some e, s2) \<Rightarrow> (Some e, upd_state (ClearDataTransferMode (now_of env s)) s2)
             | (None, s2) \<Rightarrow>
                 (case session_write env ''250 2.0.0 Message accepted for delivery'' s2 of
                    (Some e, s3) \<Rightarrow> (Some (''failed to write BDAT response: '' @ e), s3)
                  | (None, s3) \<Rightarrow> (None, upd_state (Reset (now_of env s)) s3)))
          else wrap_error ''failed to write BDAT response: ''
            (session_write env (''250 2.0.0 '' @ show_int n @ '' bytes received'') s1))"

definition HandleBDAT :: "Env \<Rightarrow> string \<Rightarrow> Session \<Rightarrow> error \<times> Session" where
  "HandleBDAT env args s =
     (let parts = Fields args in
      if parts = [] \<or> 2 < length parts then (Some ''501 5.5.4 Syntax: BDAT <chunk-size> [LAST]'', s)
      else case ParseInt64 (hd parts) of
        None \<Rightarrow> (Some ''501 5.5.4 Invalid chunk size'', s)
      | Some n \<Rightarrow>
          if n < 0 then (Some ''501 5.5.4 Invalid chunk size'', s)
          else
            (let isLast = (length parts = 2 \<and> EqualFold (parts ! 1) ''LAST'') in
             if length parts = 2 \<and> \<not> isLast then (Some ''501 5.5.4 Syntax: BDAT <chunk-size> [LAST]'', s)
             else if GetRecipientCount (state s) = 0 then (Some ''503 5.5.1 RCPT first'', DiscardBDATChunk n s)
             else if \<not> CanAcceptDataCommand ''BDAT'' (state s)
             then (Some ''503 5.5.1 Bad sequence of commands'', DiscardBDATChunk n s)
             else case (if dataTransferMode (state s) = DataModeNone
                        then SetDataTransferMode (now_of env s) DataModeBDAT (state s) else Inr (state s)) of
               Inl _ \<Rightarrow> (Some ''503 5.5.1 Bad sequence of commands'', DiscardBDATChunk n s)
             | Inr st \<Rightarrow> receive_chunk env n isLast (s\<lparr>state := st\<rparr>)))"

section \<open>The other commands\<close>

definition HandleRSET :: "Env \<Rightarrow> Session \<Rightarrow> error \<times> Session" where
  "HandleRSET env s = session_write env ''250 2.0.0 Reset OK'' (ResetBDAT (upd_state (Reset (now_of env s)) s))"

definition HandleNOOP :: "Env \<Rightarrow> Session \<Rightarrow> error \<times> Session" where
  "HandleNOOP env s = session_write env ''250 2.0.0 OK'' s"

definition HandleQUIT :: "Env \<Rightarrow> Session \<Rightarrow> error \<times> Session" where
  "HandleQUIT env s =
     (let s1 = upd_state (\<lambda>st. on_ok st (SetPhase (now_of env s) PhaseQuit st)) s in
      case session_write env (''221 2.0.0 '' @ Hostname (config env) @ '' closing connection'') s1 of
        (Some e, s2) \<Rightarrow> (Some e, s2)
      | (None, s2) \<Rightarrow> (session_flush s2, s2))"

definition HandleAUTH :: "Env \<Rightarrow> string \<Rightarrow> Session \<Rightarrow> error \<times> Session" where
  "HandleAUTH env cmd s = HandleAuth env cmd s"

definition HandleSTARTTLS :: "Env \<Rightarrow> Session \<Rightarrow> error \<times> Session" where
  "HandleSTARTTLS env s =
     (if tlsActive (state s) then (Some ''454 4.7.0 TLS already active'', s)
      else if \<not> hasTLSManager env then (Some ''454 4.7.0 TLS not available'', s)
      else case session_write env ''220 2.0.0 Ready to start TLS'' s of
        (Some e, s1) \<Rightarrow> (Some (''failed to write TLS ready response: '' @ e), s1)
      | (None, s1) \<Rightarrow>
          (case session_flush s1 of
             Some e \<Rightarrow> (Some (''failed to flush TLS ready response: '' @ e), s1)
           | None \<Rightarrow>
               (case tlsWire s1 of
                  None \<Rightarrow> (Some ''454 4.7.0 TLS handshake failed'', MarkDataSyncLost s1)
                | Some w \<Rightarrow>
                    (None, upd_state (Reset (now_of env s)) (upd_state (SetGreeted False)
                       (upd_state (SetTLSActive (now_of env s) True) (upgradeToTLS w s1)))))))"

definition HandleHELP :: "Env \<Rightarrow> Session \<Rightarrow> error \<times> Session" where
  "HandleHELP env s =
     wrap_error ''failed to write help text: '' (write_all env
       [''214-Commands supported:'', ''214-HELO EHLO MAIL RCPT DATA RSET NOOP QUIT'',
        ''214-AUTH STARTTLS HELP VRFY EXPN'', ''214 For more info use '' @ [DQUOTE] @ ''HELP <topic>'' @ [DQUOTE]] s)"

definition HandleVRFY :: "Env \<Rightarrow> Session \<Rightarrow> error \<times> Session" where
  "HandleVRFY env s = session_write env ''252 2.5.2 Cannot VRFY user, but will accept message'' s"

definition HandleEXPN :: "Env \<Rightarrow> Session \<Rightarrow> error \<times> Session" where
  "HandleEXPN env s = session_write env ''502 5.5.1 EXPN not supported'' s"

definition show_bool :: "bool \<Rightarrow> string" where
  "show_bool b = (if b then ''true'' else ''false'')"

definition handleXDEBUGContext :: "Env \<Rightarrow> Session \<Rightarrow> error \<times> Session" where
  "handleXDEBUGContext env s =
     (let st = state s; now = now_of env s in
      write_all env
       [''214-=== XDEBUG CONTEXT DUMP ==='', ''214-Connection Information:'',
        ''214-  Remote Address: '' @ NetAddr_String (remoteAddr env), ''214-  Session ID: '' @ sessionID env,
        ''214-  Connected At: '' @ formatTime env now,
        ''214-  Session Duration: '' @ formatDuration env (GetSessionDuration now st),
        ''214-  Idle Time: '' @ formatDuration env (GetIdleTime now st), ''214-Session State:'',
        ''214-  Current Phase: '' @ phase_String (phase st), ''214-  Mail From: '' @ mailFrom st,
        ''214-  Recipients: '' @ show_int (GetRecipientCount st), ''214-  Data Size: '' @ show_int (dataSize st) @ '' bytes'',
        ''214-  Message Count: '' @ show_int (messageCount st), ''214-Authentication:'',
        ''214-  Authenticated: '' @ show_bool (authenticated st), ''214-  Username: '' @ username st,
        ''214-  Auth Attempts: '' @ show_int (authAttempts st),
        ''214-  Last Auth Attempt: '' @ formatTime env (lastAuthAttempt st), ''214-TLS Status:'',
        ''214-  TLS Active: '' @ show_bool (tlsActive st), ''214-Traffic Statistics:'',
        ''214-  Bytes Sent: '' @ show_int (bytesSent st), ''214-  Bytes Received: '' @ show_int (bytesReceived st),
        ''214-  Error Count: '' @ show_int (len (errors st)), ''214-=== END CONTEXT DUMP ==='', ''214 OK''] s)"

definition handleXDEBUGState :: "Env \<Rightarrow> Session \<Rightarrow> error \<times> Session" where
  "handleXDEBUGState env s =
     write_all env ([''214-=== XDEBUG STATE ===''] @ map (\<lambda>l. ''214-  '' @ l) (snapshotLines env (state s))
       @ [''214-=== END STATE ==='', ''214 OK'']) s"

definition handleXDEBUGConnection :: "Env \<Rightarrow> Session \<Rightarrow> error \<times> Session" where
  "handleXDEBUGConnection env s =
     (let st = state s; now = now_of env s in
      write_all env
       [''214-=== XDEBUG CONNECTION ==='', ''214-  Remote Address: '' @ NetAddr_String (remoteAddr env),
        ''214-  Session ID: '' @ sessionID env,
        ''214-  Session Duration: '' @ formatDuration env (GetSessionDuration now st),
        ''214-  Idle Time: '' @ formatDuration env (GetIdleTime now st),
        ''214-  Connected At: '' @ formatTime env now, ''214-=== END CONNECTION ==='', ''214 OK''] s)"

definition HandleXDEBUG :: "Env \<Rightarrow> string \<Rightarrow> Session \<Rightarrow> error \<times> Session" where
  "HandleXDEBUG env cmd s =
     (if \<not> DevMode (config env) then (Some ''502 5.5.1 Command not recognized'', s)
      else case Fields cmd of
        _ # sub # _ \<Rightarrow>
          (if ToUpper sub = ''CONTEXT'' then handleXDEBUGContext env s
           else if ToUpper sub = ''STATE'' then handleXDEBUGState env s
           else if ToUpper sub = ''CONNECTION'' then handleXDEBUGConnection env s
           else session_write env ''214 Unknown XDEBUG command'' s)
      | _ \<Rightarrow> write_all env
          [''214-XDEBUG commands:'', ''214-  CONTEXT    - Show complete connection context'',
           ''214-  STATE      - Show session state information'', ''214-  CONNECTION - Show connection details'',
           ''214 For more info use '' @ [DQUOTE] @ ''XDEBUG <command>'' @ [DQUOTE]] s)"

definition HandleUnknown :: "Session \<Rightarrow> error \<times> Session" where
  "HandleUnknown s = (Some ''502 5.5.1 Command not recognized'', s)"

section \<open>Dispatch\<close>

definition parseCommand :: "string \<Rightarrow> string \<times> string" where
  "parseCommand line = (case SplitN 2 (TrimSpace line) (CHR '' '') of
       c # a # _ \<Rightarrow> (ToUpper c, TrimSpace a)
     | c # _ \<Rightarrow> (ToUpper c, [])
     | [] \<Rightarrow> ([], []))"

definition dispatch :: "Env \<Rightarrow> string \<Rightarrow> string \<Rightarrow> string \<Rightarrow> Session \<Rightarrow> error \<times> Session" where
  "dispatch env c args line s =
     (if c = ''HELO'' then HandleHELO env args s
      else if c = ''EHLO'' then HandleEHLO env args s
      else if c = ''MAIL'' then HandleMAIL env args s
      else if c = ''RCPT'' then HandleRCPT env args s
      else if c = ''DATA'' then HandleDATA env s
      else if c = ''BDAT'' then HandleBDAT env args s
      else if c = ''RSET'' then HandleRSET env s
      else if c = ''NOOP'' then HandleNOOP env s
      else if c = ''QUIT'' then HandleQUIT env s
      else if c = ''AUTH'' then HandleAUTH env line s
      else if c = ''STARTTLS'' then HandleSTARTTLS env s
      else if c = ''HELP'' then HandleHELP env s
      else if c = ''VRFY'' then HandleVRFY env s
      else if c = ''EXPN'' then HandleEXPN env s
      else if c = ''XDEBUG'' then HandleXDEBUG env line s
      else HandleUnknown s)"

definition ProcessCommand :: "Env \<Rightarrow> string \<Rightarrow> Session \<Rightarrow> error \<times> Session" where
  "ProcessCommand env line s =
     (let s1 = upd_state (UpdateActivity (now_of env s)) s in
      case ValidateCommand (memoryExceeded env (stepNo s)) line of
        Some e \<Rightarrow> (Some e, s1)
      | None \<Rightarrow>
          (case parseCommand line of (c, args) \<Rightarrow>
             if \<not> CanAcceptCommand c (state s1) then
               (Some ''503 5.5.1 Bad sequence of commands'',
                if EqualFold c ''BDAT'' then discardRefusedBDAT args s1 else s1)
             else dispatch env (ToUpper c) args line s1))"

section \<open>What each handler can do\<close>

text \<open>
  For every handler the possible effects on the \<open>core\<close> of the session: nothing, or the one
  change it is there for, with what it has checked before.
\<close>

lemma wire_size_update [simp]:
  "wire_size (s\<lparr>state := st\<rparr>) = wire_size s" "wire_size (s\<lparr>dataSyncLost := b\<rparr>) = wire_size s"
  "wire_size (s\<lparr>stepNo := n\<rparr>) = wire_size s" "wire_size (ResetBDAT s) = wire_size s"
  "wire_size (MarkDataSyncLost s) = wire_size s"
  by (simp_all add: wire_size_def ResetBDAT_def MarkDataSyncLost_def)

lemma wrap_errorD: "wrap_error w r = (e, s') \<Longrightarrow> s' = snd r"
  by (auto simp: wrap_error_def)

lemma HELO_cases:
  "HandleHELO env args s = (e, s') \<Longrightarrow>
     (core s' = core s \<or> core s' = core (greet env args s)) \<and> wire_size s' = wire_size s"
  by (auto simp: HandleHELO_def greet_def split: if_splits dest!: session_writeD)

lemma EHLO_cases:
  "HandleEHLO env args s = (e, s') \<Longrightarrow>
     (core s' = core s \<or> core s' = core (greet env args s)) \<and> wire_size s' = wire_size s"
proof -
  assume h: "HandleEHLO env args s = (e, s')"
  obtain r t where w: "write_all env (ehlo_responses env args (greet env args s)) (greet env args s) = (r, t)"
    by (cases "write_all env (ehlo_responses env args (greet env args s)) (greet env args s)")
  with h have "s' = s \<or> s' = t" by (auto simp: HandleEHLO_def Let_def wrap_error_def split: if_splits)
  with write_allD [OF w] show ?thesis by (auto simp: greet_def)
qed

definition accept_mail :: "Env \<Rightarrow> mailFromParams \<Rightarrow> Session \<Rightarrow> Session" where
  "accept_mail env p s = upd_state (\<lambda>st. on_ok st (AcceptMail (now_of env s) (mp_addr p) (mp_size p) (mp_smtpUTF8 p)
     (if mp_hasDSN p then Some (mp_dsn p) else None) (mp_requireTLS p) st)) s"

lemma parseMailFromParams_tls: "parseMailFromParams m tls args = Inr p \<Longrightarrow> mp_requireTLS p \<Longrightarrow> tls"
  by (auto simp: parseMailFromParams_def split: sum.splits prod.splits if_splits)

lemma check_sender_rules_frame:
  "check_sender_rules env from s = (e, s') \<Longrightarrow> core s' = core s \<and> state s' = state s \<and> wire_size s' = wire_size s \<and> stepNo s' = stepNo s"
  by (auto simp: check_sender_rules_def checkRBL_def Let_def wire_size_def split: if_splits option.splits)

lemma accept_sender_cases:
  assumes "accept_sender env p s = (e, s')"
  obtains (refused) "s' = s"
  | (accepted) "core s' = core (accept_mail env p s)" "wire_size s' = wire_size s" "phase (state s) \<in> {PhaseInit, PhaseMail, PhaseRcpt}"
proof (cases "s' = s")
  case False
  obtain x where a: "AcceptMail (now_of env s) (mp_addr p) (mp_size p) (mp_smtpUTF8 p)
      (if mp_hasDSN p then Some (mp_dsn p) else None) (mp_requireTLS p) (state s) = x" by blast
  with assms False obtain st where st: "x = Inr st"
    and w: "session_write env ''250 2.1.0 Sender OK'' (s\<lparr>state := st\<rparr>) = (e, s')"
    by (auto simp: accept_sender_def Let_def split: if_splits option.splits sum.splits)
  from a st have "accept_mail env p s = s\<lparr>state := st\<rparr>" by (simp add: accept_mail_def upd_state_def)
  moreover from a st have "phase (state s) \<in> {PhaseInit, PhaseMail, PhaseRcpt}" by (auto simp: AcceptMail_def split: if_splits)
  ultimately show thesis using accepted session_writeD [OF w] by simp
qed (rule refused)

lemma MAIL_cases:
  assumes "HandleMAIL env args s = (e, s')"
  obtains (refused) "core s' = core s" "wire_size s' = wire_size s"
  | (accepted) p where "core s' = core (accept_mail env p s)" "wire_size s' = wire_size s"
    "phase (state s) \<in> {PhaseInit, PhaseMail, PhaseRcpt}" "auth_required env \<longrightarrow> authenticated (state s)"
    "checkSubmissionSender env s = None" "checkSenderBinding env (mp_addr p) s = None"
    "mp_requireTLS p \<longrightarrow> tlsActive (state s)"
proof -
  from assms consider "s' = s"
    | p x s1 where "parseMailFromParams (MaxSize (config env)) (tlsActive (state s)) args = Inr p"
      "auth_required env \<longrightarrow> authenticated (state s)" "checkSubmissionSender env s = None"
      "checkSenderBinding env (mp_addr p) s = None" "check_sender_rules env (mp_addr p) s = (x, s1)"
      "s' = s1 \<or> accept_sender env p s1 = (e, s')"
    by (auto simp: HandleMAIL_def Let_def split: if_splits option.splits sum.splits prod.splits)
  then show thesis
  proof cases
    case (2 p x s1)
    note f = check_sender_rules_frame [OF 2(5)]
    have acc: "core (accept_mail env p s1) = core (accept_mail env p s)"
      using f by (simp add: accept_mail_def core_defs now_of_def)
    from 2(6) show thesis
    proof
      assume "accept_sender env p s1 = (e, s')"
      then show thesis
      proof (cases rule: accept_sender_cases)
        case accepted
        with 2 f acc parseMailFromParams_tls [OF 2(1)] show thesis by (intro that(2) [of p]) simp_all
      qed (use f refused in simp)
    qed (use f refused in simp)
  qed (use refused in simp)
qed

definition add_recipient :: "Env \<Rightarrow> rcptToParams \<Rightarrow> string \<Rightarrow> Session \<Rightarrow> Session" where
  "add_recipient env p rcpt s = upd_state (\<lambda>st. let st1 = on_ok st (AddRecipient (now_of env s) rcpt st)
     in if rp_hasDSN p then SetDSNRecipientParams (now_of env s) rcpt (rp_dsn p) st1 else st1) s"

lemma RCPT_accepted:
  assumes "HandleRCPT env args s = (e, s')" and "s' \<noteq> s"
  shows "\<exists>(p :: rcptToParams) rcpt bounce st. resolve_recipient env (rp_addr p) s = Inr (rcpt, bounce) \<and>
    AddRecipient (now_of env s) rcpt (state s) = Inr st \<and>
    session_write env ''250 2.1.5 Recipient OK''
      (s\<lparr>state := (if rp_hasDSN p then SetDSNRecipientParams (now_of env s) rcpt (rp_dsn p) st else st)\<rparr>) = (e, s')"
proof -
  from assms obtain p where p: "parseRcptToParams args = Inr p" by (auto simp: HandleRCPT_def split: sum.splits)
  with assms obtain rcpt bounce where r: "resolve_recipient env (rp_addr p) s = Inr (rcpt, bounce)"
    by (auto simp: HandleRCPT_def split: sum.splits if_splits)
  obtain st where a: "AddRecipient (now_of env s) rcpt (state s) = Inr st"
    using assms p r by (simp add: HandleRCPT_def split: sum.splits option.splits if_splits)
  show ?thesis
    using assms by (intro exI [of _ p] exI [of _ rcpt] exI [of _ bounce] exI [of _ st])
      (simp add: HandleRCPT_def Let_def p r a split: option.splits if_splits)
qed

lemma RCPT_cases:
  assumes "HandleRCPT env args s = (e, s')"
  obtains (refused) "s' = s"
  | (accepted) p rcpt bounce where "core s' = core (add_recipient env p rcpt s)" "wire_size s' = wire_size s"
    "resolve_recipient env (rp_addr p) s = Inr (rcpt, bounce)" "phase (state s) \<in> {PhaseMail, PhaseRcpt}"
proof (cases "s' = s")
  case False
  from RCPT_accepted [OF assms this] obtain p :: rcptToParams and rcpt bounce st where
    r: "resolve_recipient env (rp_addr p) s = Inr (rcpt, bounce)"
    and a: "AddRecipient (now_of env s) rcpt (state s) = Inr st"
    and w: "session_write env ''250 2.1.5 Recipient OK''
      (s\<lparr>state := (if rp_hasDSN p then SetDSNRecipientParams (now_of env s) rcpt (rp_dsn p) st else st)\<rparr>) = (e, s')" by blast
  from a have "add_recipient env p rcpt s = s\<lparr>state := (if rp_hasDSN p then SetDSNRecipientParams (now_of env s) rcpt (rp_dsn p) st else st)\<rparr>"
    by (simp add: add_recipient_def upd_state_def)
  moreover from a have "phase (state s) \<in> {PhaseMail, PhaseRcpt}" by (auto simp: AddRecipient_def split: if_splits)
  ultimately show thesis using accepted [of p rcpt bounce] session_writeD [OF w] r by simp
qed (rule refused)

definition start_data :: "Env \<Rightarrow> Session \<Rightarrow> Session" where
  "start_data env s = upd_state (\<lambda>st. st\<lparr>dataTransferMode := DataModeDATA, phase := PhaseData, lastActivityTime := now_of env s\<rparr>) s"

lemma DATA_cases:
  assumes "HandleDATA env s = (e, s')"
  shows "s' = s \<or> core s' = core (start_data env s) \<and> wire_size s' = wire_size s \<and>
    phase (state s) = PhaseRcpt \<and> rcptTo (state s) \<noteq> []"
proof (cases "s' = s")
  case False
  let ?st = "(state s)\<lparr>dataTransferMode := DataModeDATA, lastActivityTime := now_of env s\<rparr>"
  from assms False have c: "rcptTo (state s) \<noteq> []" "CanAcceptDataCommand ''DATA'' (state s)"
    by (auto simp: HandleDATA_def GetRecipientCount_def split: if_splits)
  have up: "ToUpper (TrimSpace ''DATA'') = ''DATA''" by code_simp
  from c have ph: "phase (state s) = PhaseRcpt" and "dataTransferMode (state s) \<in> {DataModeNone, DataModeDATA}"
    by (auto simp: CanAcceptDataCommand_def Let_def up split: DataTransferMode.splits)
  then have "SetDataTransferMode (now_of env s) DataModeDATA (state s) = Inr ?st"
    "SetPhase (now_of env s) PhaseData ?st = Inr (?st\<lparr>phase := PhaseData\<rparr>)"
    by (auto simp: SetDataTransferMode_def SetPhase_def isValidPhaseTransition_def)
  moreover have "s\<lparr>state := ?st\<lparr>phase := PhaseData\<rparr>\<rparr> = start_data env s" by (simp add: start_data_def upd_state_def)
  moreover obtain r t where w: "session_write env ''354 Start mail input; end with <CRLF>.<CRLF>'' (start_data env s) = (r, t)"
    by (cases "session_write env ''354 Start mail input; end with <CRLF>.<CRLF>'' (start_data env s)")
  ultimately have "s' = t"
    using assms c by (auto simp: HandleDATA_def GetRecipientCount_def split: option.splits)
  with session_writeD [OF w] c(1) ph show ?thesis by (simp add: start_data_def)
qed simp

lemma AUTH_cases:
  "HandleAUTH env cmd s = (e, s') \<Longrightarrow> trans_core s' = trans_core s \<and> wire_size s' \<le> wire_size s"
  unfolding HandleAUTH_def by (rule HandleAuth_frame)

lemma QUIT_cases:
  "HandleQUIT env s = (e, s') \<Longrightarrow>
     core s' = core (upd_state (\<lambda>st. on_ok st (SetPhase (now_of env s) PhaseQuit st)) s) \<and> wire_size s' = wire_size s"
  by (auto simp: HandleQUIT_def Let_def split: prod.splits option.splits dest!: session_writeD)

definition start_tls :: "Env \<Rightarrow> Session \<Rightarrow> Session" where
  "start_tls env s = upd_state (Reset (now_of env s)) (upd_state (SetGreeted False) (upd_state (SetTLSActive (now_of env s) True) s))"

lemma STARTTLS_cases:
  assumes "HandleSTARTTLS env s = (e, s')"
  obtains (refused) "core s' = core s" "wire_size s' = wire_size s"
  | (failed) "core s' = core (s\<lparr>dataSyncLost := True\<rparr>)" "wire_size s' = wire_size s"
  | (upgraded) "core s' = core (start_tls env s)" "wire_size s' \<le> wire_size s" "\<not> tlsActive (state s)"
proof -
  obtain r t where w: "session_write env ''220 2.0.0 Ready to start TLS'' s = (r, t)"
    by (cases "session_write env ''220 2.0.0 Ready to start TLS'' s")
  note wD = session_writeD [OF w]
  let ?up = "\<lambda>v. upd_state (Reset (now_of env s)) (upd_state (SetGreeted False)
                       (upd_state (SetTLSActive (now_of env s) True) (upgradeToTLS v t)))"
  from assms w have "s' = s \<or> s' = t \<or> s' = MarkDataSyncLost t \<or>
      (\<exists>v. s' = ?up v \<and> tlsWire t = Some v \<and> \<not> tlsActive (state s))"
    by (auto simp: HandleSTARTTLS_def split: if_splits option.splits)
  then consider "s' = s" | "s' = t" | "s' = MarkDataSyncLost t"
    | v where "s' = ?up v" "tlsWire t = Some v" "\<not> tlsActive (state s)" by blast
  then show thesis
  proof cases
    case (4 v)
    have "core s' = core (start_tls env s)"
      using wD 4(1) by (simp add: start_tls_def core_defs session_state_defs upgradeToTLS_def)
    moreover have "wire_size s' \<le> wire_size s" using wD 4(1,2) by (simp add: wire_size_def upgradeToTLS_def)
    ultimately show thesis using upgraded 4(3) by blast
  qed (use wD refused failed in \<open>auto simp: core_defs MarkDataSyncLost_def\<close>)
qed

lemma read_full_shorter: "read_full w n = (r, w') \<Longrightarrow> length w' \<le> length w"
proof (induction w arbitrary: n r)
  case (Cons x w)
  then show ?case by (cases x) (fastforce split: if_splits prod.splits sum.splits)+
qed (auto split: if_splits)

lemma CopyN_shorter: "CopyN w n = (r, w') \<Longrightarrow> length w' \<le> length w"
  by (auto simp: CopyN_def dest: read_full_shorter split: prod.splits sum.splits)

lemma ReadFull_shorter: "ReadFull w n = (r, w') \<Longrightarrow> length w' \<le> length w"
  by (auto simp: ReadFull_def dest: read_full_shorter)

lemma DiscardBDATChunk_cases:
  obtains (ok) "core (DiscardBDATChunk n s) = core s" "wire_size (DiscardBDATChunk n s) \<le> wire_size s"
  | (lost) "core (DiscardBDATChunk n s) = core (s\<lparr>dataSyncLost := True\<rparr>)" "wire_size (DiscardBDATChunk n s) \<le> wire_size s"
proof -
  obtain r w where c: "CopyN (inp s) n = (r, w)" by (cases "CopyN (inp s) n")
  have "DiscardBDATChunk n s \<in> {s, s\<lparr>dataSyncLost := True\<rparr>, s\<lparr>inp := w\<rparr>, s\<lparr>inp := w, dataSyncLost := True\<rparr>}"
    by (simp add: DiscardBDATChunk_def c split: option.split)
  with CopyN_shorter [OF c] ok lost show thesis
    by (auto simp: wire_size_def core_defs)
qed

definition transfer :: "DataTransferMode \<Rightarrow> string option \<Rightarrow> int \<Rightarrow> bool \<Rightarrow> Session \<Rightarrow> Session" where
  "transfer m sp k l s = s\<lparr>state := (state s)\<lparr>dataTransferMode := m\<rparr>, bdatSpool := sp, bdatBytesReceived := k, dataSyncLost := l\<rparr>"

lemma core_eqI:
  "trans_core s = trans_core t \<Longrightarrow> auth_core s = auth_core t \<Longrightarrow> core s = core t"
  by (simp add: core_def)

lemma DiscardBDATChunk_frame:
  "\<exists>l. core (DiscardBDATChunk n s) = core (s\<lparr>dataSyncLost := l\<rparr>) \<and> wire_size (DiscardBDATChunk n s) \<le> wire_size s"
  by (rule DiscardBDATChunk_cases [of n s]) (auto simp: core_defs)

lemma ReadBDATChunk_cases:
  assumes "ReadBDATChunk env n s = (e, s')"
  obtains (failed) x sp l where "e = Some x" "core s' = core (s\<lparr>bdatSpool := sp, dataSyncLost := l\<rparr>)" "wire_size s' \<le> wire_size s"
  | (stored) sp k where "e = None" "core s' = core (s\<lparr>bdatSpool := Some sp, bdatBytesReceived := k\<rparr>)" "wire_size s' \<le> wire_size s"
proof -
  obtain l where l: "core (DiscardBDATChunk n s) = core (s\<lparr>dataSyncLost := l\<rparr>)" "wire_size (DiscardBDATChunk n s) \<le> wire_size s"
    using DiscardBDATChunk_frame by blast
  obtain r w where c: "ReadFull (inp s) n = (r, w)" by (cases "ReadFull (inp s) n")
  note w = ReadFull_shorter [OF c]
  show thesis
  proof (cases "wrap64 (bdatBytesReceived s + n) > MaxSize (config env)")
    case True
    with assms l failed [where sp = "bdatSpool s" and l = l] show thesis by (auto simp: ReadBDATChunk_def core_defs)
  next
    case False
    let ?sp = "case bdatSpool s of None \<Rightarrow> Some [] | Some b \<Rightarrow> Some b"
    from False assms c have "e \<noteq> None \<and> s' \<in> {s\<lparr>bdatSpool := ?sp, panicked := True\<rparr>, s\<lparr>bdatSpool := ?sp, inp := w\<rparr>} \<or>
      e = None \<and> (\<exists>chunk. s' = s\<lparr>inp := w, bdatSpool := map_option (\<lambda>b. b @ chunk) ?sp,
         bdatBytesReceived := wrap64 (bdatBytesReceived s + n), bdatChunkCount := bdatChunkCount s + 1\<rparr>)"
      by (auto simp: ReadBDATChunk_def Let_def split: if_splits sum.splits)
    then show thesis
    proof
      assume "e \<noteq> None \<and> s' \<in> {s\<lparr>bdatSpool := ?sp, panicked := True\<rparr>, s\<lparr>bdatSpool := ?sp, inp := w\<rparr>}"
      with w failed [where sp = ?sp and l = "dataSyncLost s"] show thesis by (auto simp: core_defs wire_size_def)
    next
      assume "e = None \<and> (\<exists>chunk. s' = s\<lparr>inp := w, bdatSpool := map_option (\<lambda>b. b @ chunk) ?sp,
         bdatBytesReceived := wrap64 (bdatBytesReceived s + n), bdatChunkCount := bdatChunkCount s + 1\<rparr>)"
      with w stored show thesis
        by (auto simp: core_defs wire_size_def split: option.splits)
    qed
  qed
qed

lemma ResetBDAT_core: "core (ResetBDAT s) = core (s\<lparr>bdatSpool := None, bdatBytesReceived := 0\<rparr>)"
  by (simp add: core_defs ResetBDAT_def)

lemma ProcessBDATMessage_cases:
  assumes "ProcessBDATMessage env s = (e, s')"
  obtains (refused) "core s' = core (ResetBDAT s)" "wire_size s' = wire_size s"
  | (accepted) m where "e = None" "carries s m" "core s' = core (ResetBDAT (enqueue env m s))" "wire_size s' = wire_size s"
proof (cases "bdatSpool s")
  case None
  with assms refused show thesis by (auto simp: ProcessBDATMessage_def)
next
  case (Some b)
  let ?s = "upd_state (SetDataSize (now_of env s) (len b)) s"
  have c: "core (ResetBDAT ?s) = core (ResetBDAT s)" "core (ResetBDAT (enqueue env m ?s)) = core (ResetBDAT (enqueue env m s))"
    "wire_size ?s = wire_size s" "carries ?s m = carries s m" for m
    by (simp_all add: core_defs ResetBDAT_def SetDataSize_def enqueue_def Reset_def wire_size_def carries_def)
  have r: "core (ResetBDAT t) = core (ResetBDAT t')" if "core t = core t'" for t t'
    using that by (simp add: core_defs ResetBDAT_def)
  have w: "wire_size (ResetBDAT t) = wire_size t" for t by (simp add: ResetBDAT_def wire_size_def)
  show thesis
  proof (cases "spoolReadFails env (stepNo s)")
    case True
    with assms Some have "s' = ResetBDAT ?s" by (simp add: ProcessBDATMessage_def Let_def)
    with refused c show thesis by (simp add: w)
  next
    case False
    obtain x t where p: "processMessage env b ?s = (x, t)" by (cases "processMessage env b ?s")
    with assms Some False have s': "e = x" "s' = ResetBDAT t" by (simp_all add: ProcessBDATMessage_def Let_def)
    from p show thesis
    proof (cases rule: processMessage_cases)
      case (rejected y)
      with refused s' c r [OF rejected(2)] show thesis by (simp add: w)
    next
      case dropped
      with refused s' c show thesis by (simp add: w)
    next
      case (accepted m)
      with that(2) [of m] s' c r [OF accepted(4)] show thesis by (simp add: w)
    qed
  qed
qed

lemma receive_chunk_cases:
  assumes "receive_chunk env n isLast s = (e, s')"
  obtains (abandoned) l where "core s' = core (transfer DataModeNone None 0 l s)" "wire_size s' \<le> wire_size s"
  | (panics) sp l where "core s' = core (s\<lparr>bdatSpool := sp, dataSyncLost := l\<rparr>)" "wire_size s' \<le> wire_size s"
  | (kept) sp k where "core s' = core (s\<lparr>bdatSpool := Some sp, bdatBytesReceived := k\<rparr>)" "wire_size s' \<le> wire_size s"
  | (dropped) "core s' = core (ResetBDAT s)" "wire_size s' \<le> wire_size s"
  | (closed) "core s' = core (ResetBDAT (upd_state (Reset (now_of env s)) s))" "wire_size s' \<le> wire_size s"
  | (delivered) m where "carries s m" "core s' = core (ResetBDAT (enqueue env m s))" "wire_size s' \<le> wire_size s"
proof -
  obtain x t where rc: "ReadBDATChunk env n s = (x, t)" by (cases "ReadBDATChunk env n s")
  from rc show thesis
  proof (cases rule: ReadBDATChunk_cases)
    case (failed y sp l)
    show thesis
    proof (cases "panicked t")
      case True
      with assms rc failed panics show thesis by (simp add: receive_chunk_def)
    next
      case False
      with assms rc failed have s': "s' = upd_state (ClearDataTransferMode (now_of env s)) (ResetBDAT t)"
        by (simp add: receive_chunk_def)
      with failed(2) have "core s' = core (transfer DataModeNone None 0 l s)"
        by (simp add: core_defs transfer_def ResetBDAT_def ClearDataTransferMode_def)
      with s' failed(3) abandoned show thesis by simp
    qed
  next
    case (stored sp k)
    show thesis
    proof (cases isLast)
      case False
      obtain y t' where w: "session_write env (''250 2.0.0 '' @ show_int n @ '' bytes received'') t = (y, t')"
        by (cases "session_write env (''250 2.0.0 '' @ show_int n @ '' bytes received'') t")
      with assms rc stored False have "s' = t'" by (auto simp: receive_chunk_def dest: wrap_errorD)
      with session_writeD [OF w] stored kept show thesis by simp
    next
      case True
      obtain y t2 where pb: "ProcessBDATMessage env t = (y, t2)" by (cases "ProcessBDATMessage env t")
      obtain z t3 where w: "session_write env ''250 2.0.0 Message accepted for delivery'' t2 = (z, t3)"
        by (cases "session_write env ''250 2.0.0 Message accepted for delivery'' t2")
      from assms rc stored True pb w have s': "y \<noteq> None \<and> s' = upd_state (ClearDataTransferMode (now_of env s)) t2 \<or>
          y = None \<and> (s' = t3 \<or> s' = upd_state (Reset (now_of env s)) t3)"
        by (auto simp: receive_chunk_def split: option.splits)
      note wD = session_writeD [OF w]
      from pb show thesis
      proof (cases rule: ProcessBDATMessage_cases)
        case refused
        with stored(2) have t2: "core t2 = core (ResetBDAT s)" "wire_size t2 \<le> wire_size s"
          using stored(3) by (auto simp: core_defs ResetBDAT_def)
        have "core (upd_state (ClearDataTransferMode (now_of env s)) t2) = core (transfer DataModeNone None 0 (dataSyncLost s) s)"
          "core (upd_state (Reset (now_of env s)) t3) = core (ResetBDAT (upd_state (Reset (now_of env s)) s))"
          using t2(1) wD by (auto simp: core_defs transfer_def ResetBDAT_def ClearDataTransferMode_def Reset_def)
        with s' t2 wD abandoned closed dropped show thesis by auto
      next
        case (accepted m)
        have c: "carries s m" "core t3 = core (ResetBDAT (enqueue env m s))" "wire_size t3 \<le> wire_size s"
          using accepted stored(2,3) wD by (auto simp: core_defs carries_def ResetBDAT_def enqueue_def Reset_def)
        moreover have "core (upd_state (Reset (now_of env s)) t3) = core t3"
          using c(2) by (simp add: core_defs enqueue_def Reset_def ResetBDAT_def)
        ultimately show thesis using delivered s' accepted(1) by auto
      qed
    qed
  qed
qed

lemma BDAT_cases:
  assumes "HandleBDAT env args s = (e, s')"
  obtains (refused) "core s' = core s" "wire_size s' \<le> wire_size s"
  | (lost) "core s' = core (s\<lparr>dataSyncLost := True\<rparr>)" "wire_size s' \<le> wire_size s"
  | (transferred) m sp k l where "core s' = core (transfer m sp k l s)" "wire_size s' \<le> wire_size s"
    "phase (state s) = PhaseRcpt" "m = DataModeBDAT \<or> m = DataModeNone \<and> sp = None"
  | (ended) "core s' = core (ResetBDAT (upd_state (Reset (now_of env s)) s))" "wire_size s' \<le> wire_size s"
  | (received) msg where "carries s msg" "core s' = core (ResetBDAT (enqueue env msg s))" "wire_size s' \<le> wire_size s"
    "phase (state s) = PhaseRcpt" "rcptTo (state s) \<noteq> []"
proof -
  have discard: thesis if "s' = DiscardBDATChunk n s" for n
    using DiscardBDATChunk_cases [of n s] that refused lost by metis
  have take: thesis if cr: "CanAcceptDataCommand ''BDAT'' (state s)" "rcptTo (state s) \<noteq> []"
    and st: "(if dataTransferMode (state s) = DataModeNone
              then SetDataTransferMode (now_of env s) DataModeBDAT (state s) else Inr (state s)) = Inr st"
    and r: "receive_chunk env n isLast (s\<lparr>state := st\<rparr>) = (e, s')" for st n isLast
  proof -
    have up: "ToUpper (TrimSpace ''BDAT'') = ''BDAT''" by code_simp
    from cr have ph: "phase (state s) = PhaseRcpt" "dataTransferMode (state s) \<in> {DataModeNone, DataModeBDAT}"
      by (auto simp: CanAcceptDataCommand_def Let_def up split: DataTransferMode.splits)
    with st have t: "core (s\<lparr>state := st\<rparr>) = core (s\<lparr>state := (state s)\<lparr>dataTransferMode := DataModeBDAT\<rparr>\<rparr>)"
      by (auto simp: SetDataTransferMode_def core_defs split: if_splits)
    from r show thesis
    proof (cases rule: receive_chunk_cases)
      case (abandoned l)
      with t ph show thesis by (intro transferred [of DataModeNone None 0 l]) (auto simp: core_defs transfer_def)
    next
      case (panics sp l)
      with t ph show thesis
        by (intro transferred [of DataModeBDAT sp "bdatBytesReceived s" l]) (auto simp: core_defs transfer_def)
    next
      case (kept sp k)
      with t ph show thesis
        by (intro transferred [of DataModeBDAT "Some sp" k "dataSyncLost s"]) (auto simp: core_defs transfer_def)
    next
      case dropped
      with t ph show thesis
        by (intro transferred [of DataModeBDAT None 0 "dataSyncLost s"]) (auto simp: core_defs transfer_def ResetBDAT_def)
    next
      case closed
      with t show thesis by (intro ended) (auto simp: core_defs ResetBDAT_def Reset_def)
    next
      case (delivered msg)
      with t ph cr(2) show thesis
        by (intro received [of msg]) (auto simp: core_defs carries_def ResetBDAT_def enqueue_def Reset_def)
    qed
  qed
  from assms show thesis
    unfolding HandleBDAT_def Let_def GetRecipientCount_def
    by (simp split: if_split_asm option.split_asm sum.split_asm; use refused discard take in force)
qed

lemma RSET_cases:
  "HandleRSET env s = (e, s') \<Longrightarrow>
     core s' = core (ResetBDAT (upd_state (Reset (now_of env s)) s)) \<and> wire_size s' = wire_size s"
  unfolding HandleRSET_def by (drule session_writeD) simp


lemma write_all_frame:
  "core (snd (write_all env ls s)) = core s \<and> wire_size (snd (write_all env ls s)) = wire_size s"
  by (cases "write_all env ls s") (auto dest: write_allD)

lemma session_write_frame:
  "core (snd (session_write env m s)) = core s \<and> wire_size (snd (session_write env m s)) = wire_size s"
  by simp

lemma information_cases:
  assumes "(e, s') \<in> {HandleNOOP env s, HandleHELP env s, HandleVRFY env s, HandleEXPN env s, HandleUnknown s, HandleXDEBUG env line s}"
  shows "core s' = core s \<and> wire_size s' = wire_size s"
proof -
  have "core (snd r) = core s \<and> wire_size (snd r) = wire_size s"
    if "r \<in> {HandleNOOP env s, HandleHELP env s, HandleVRFY env s, HandleEXPN env s, HandleUnknown s, HandleXDEBUG env line s}" for r
    using that unfolding HandleNOOP_def HandleHELP_def HandleVRFY_def HandleEXPN_def HandleUnknown_def HandleXDEBUG_def
      handleXDEBUGContext_def handleXDEBUGState_def handleXDEBUGConnection_def Let_def wrap_error_def
    by (elim insertE emptyE; simp only: snd_conv write_all_frame session_write_frame simp_thms split: if_split list.split)
  from this [OF assms] show ?thesis by simp
qed

lemma discardRefusedBDAT_cases:
  "(core (discardRefusedBDAT args s) = core s \<or> core (discardRefusedBDAT args s) = core (s\<lparr>dataSyncLost := True\<rparr>)) \<and>
   wire_size (discardRefusedBDAT args s) \<le> wire_size s"
proof -
  have "(core (DiscardBDATChunk n s) = core s \<or> core (DiscardBDATChunk n s) = core (s\<lparr>dataSyncLost := True\<rparr>)) \<and>
    wire_size (DiscardBDATChunk n s) \<le> wire_size s" for n
    by (rule DiscardBDATChunk_cases [of n s]) simp_all
  then show ?thesis by (simp add: discardRefusedBDAT_def Let_def split: option.split)
qed

end
