(* ===== verification/Transaction.thy ===== *)
theory Transaction
  imports Commands
begin

text \<open>
  What a session promises, and that the command handlers keep the promise: the effects a command
  can have on a session (\<open>effect\<close>), the contract as a small automaton over the signed-in user, the
  open transaction and the messages handed over (\<open>Txn\<close>, \<open>txn_step\<close>), the invariant of the session
  (\<open>session_inv\<close>), and the simulation of every effect by at most one step of the automaton
  (\<open>effect_sim\<close>).
\<close>

section \<open>The effect of a command\<close>

text \<open>
  One rule for each thing a command can do to the \<open>core\<close> of the session, with the phase and the
  checks that \<open>ProcessCommand\<close> and the handler have made before.
\<close>

inductive effect :: "Env \<Rightarrow> Session \<Rightarrow> Session \<Rightarrow> bool" for env :: Env and s :: Session and s' :: Session where
  nothing: "core s' = core s \<Longrightarrow> effect env s s'"
| lost: "core s' = core (s\<lparr>dataSyncLost := True\<rparr>) \<Longrightarrow> effect env s s'"
| greeting: "core s' = core (greet env name s) \<Longrightarrow> phase (state s) \<in> {PhaseInit, PhaseMail, PhaseRcpt, PhaseTLS} \<Longrightarrow>
    dataTransferMode (state s) \<noteq> DataModeBDAT \<Longrightarrow> effect env s s'"
| sender: "core s' = core (accept_mail env p s) \<Longrightarrow> phase (state s) = PhaseMail \<Longrightarrow>
    auth_required env \<longrightarrow> authenticated (state s) \<Longrightarrow> checkSubmissionSender env s = None \<Longrightarrow>
    checkSenderBinding env (mp_addr p) s = None \<Longrightarrow> mp_requireTLS p \<longrightarrow> tlsActive (state s) \<Longrightarrow> effect env s s'"
| recipient: "core s' = core (add_recipient env p rcpt s) \<Longrightarrow> phase (state s) = PhaseRcpt \<Longrightarrow>
    dataTransferMode (state s) \<noteq> DataModeBDAT \<Longrightarrow>
    resolve_recipient env (rp_addr p) s = Inr (rcpt, bounce) \<Longrightarrow> effect env s s'"
| data: "core s' = core (start_data env s) \<Longrightarrow> phase (state s) = PhaseRcpt \<Longrightarrow> rcptTo (state s) \<noteq> [] \<Longrightarrow>
    dataTransferMode (state s) \<noteq> DataModeBDAT \<Longrightarrow> effect env s s'"
| signin: "HandleAuth env cmd s = (e, s') \<Longrightarrow> phase (state s) \<in> {PhaseInit, PhaseMail, PhaseAuth, PhaseTLS} \<Longrightarrow> effect env s s'"
| quit: "core s' = core (upd_state (\<lambda>st. on_ok st (SetPhase (now_of env s) PhaseQuit st)) s) \<Longrightarrow> effect env s s'"
| tls: "core s' = core (start_tls env s) \<Longrightarrow> phase (state s) \<in> {PhaseInit, PhaseMail} \<Longrightarrow>
    dataTransferMode (state s) \<noteq> DataModeBDAT \<Longrightarrow> \<not> tlsActive (state s) \<Longrightarrow> effect env s s'"
| chunk: "core s' = core (transfer m sp k l s) \<Longrightarrow> phase (state s) = PhaseRcpt \<Longrightarrow>
    m = DataModeBDAT \<or> m = DataModeNone \<and> sp = None \<Longrightarrow> effect env s s'"
| received: "core s' = core (transfer DataModeNone None k l (enqueue env m s)) \<Longrightarrow> carries s m \<Longrightarrow> phase (state s) \<in> {PhaseRcpt, PhaseData} \<Longrightarrow>
    rcptTo (state s) \<noteq> [] \<Longrightarrow> effect env s s'"
| reset: "core s' = core (transfer DataModeNone None k l (upd_state (Reset (now_of env s)) s)) \<Longrightarrow> effect env s s'"

lemma parseCommand_upper: "parseCommand line = (c, args) \<Longrightarrow> ToUpper c = c"
  by (auto simp: parseCommand_def split: list.splits)

definition command_names :: "string list" where
  "command_names = [''HELO'', ''EHLO'', ''MAIL'', ''RCPT'', ''DATA'', ''BDAT'', ''RSET'', ''NOOP'', ''QUIT'', ''AUTH'',
     ''STARTTLS'', ''HELP'', ''VRFY'', ''EXPN'', ''XDEBUG'']"

lemma command_names_trim: "list_all (\<lambda>n. ToUpper (TrimSpace n) = n) command_names"
  by code_simp

lemma CanAcceptCommand_name:
  "n \<in> set command_names \<Longrightarrow> CanAcceptCommand n st = (if dataTransferMode st = DataModeBDAT
     then n \<in> {''BDAT'', ''RSET'', ''QUIT'', ''NOOP''} else n \<in> set (allowedCommands (phase st)))"
  using command_names_trim by (auto simp: CanAcceptCommand_def Let_def list_all_iff)

lemma accept_phases:
  assumes "CanAcceptCommand n st"
  shows "n \<in> {''HELO'', ''EHLO''} \<Longrightarrow> phase st \<in> {PhaseInit, PhaseMail, PhaseRcpt, PhaseTLS} \<and> dataTransferMode st \<noteq> DataModeBDAT"
    and "n = ''MAIL'' \<Longrightarrow> phase st \<in> {PhaseMail, PhaseTLS} \<and> dataTransferMode st \<noteq> DataModeBDAT"
    and "n = ''RCPT'' \<or> n = ''DATA'' \<Longrightarrow> phase st = PhaseRcpt \<and> dataTransferMode st \<noteq> DataModeBDAT"
    and "n = ''AUTH'' \<Longrightarrow> phase st \<in> {PhaseInit, PhaseMail, PhaseAuth, PhaseTLS} \<and> dataTransferMode st \<noteq> DataModeBDAT"
    and "n = ''STARTTLS'' \<Longrightarrow> phase st \<in> {PhaseInit, PhaseMail} \<and> dataTransferMode st \<noteq> DataModeBDAT"
  using assms by (cases "phase st"; auto simp: CanAcceptCommand_name command_names_def split: if_splits)+

lemma ResetBDAT_transfer:
  "core (ResetBDAT (upd_state (Reset now) s)) = core (transfer DataModeNone None 0 (dataSyncLost s) (upd_state (Reset now) s))"
  by (simp add: core_defs transfer_def ResetBDAT_def Reset_def)

lemma dispatch_cases:
  assumes "dispatch env n args line s = (e, s')"
  obtains (helo) "n = ''HELO'' \<or> n = ''EHLO''" "HandleHELO env args s = (e, s') \<or> HandleEHLO env args s = (e, s')"
  | (mail) "n = ''MAIL''" "HandleMAIL env args s = (e, s')"
  | (rcpt) "n = ''RCPT''" "HandleRCPT env args s = (e, s')"
  | (data) "n = ''DATA''" "HandleDATA env s = (e, s')"
  | (bdat) "n = ''BDAT''" "HandleBDAT env args s = (e, s')"
  | (rset) "HandleRSET env s = (e, s')"
  | (quit) "HandleQUIT env s = (e, s')"
  | (auth) "n = ''AUTH''" "HandleAUTH env line s = (e, s')"
  | (starttls) "n = ''STARTTLS''" "HandleSTARTTLS env s = (e, s')"
  | (info) "(e, s') \<in> {HandleNOOP env s, HandleHELP env s, HandleVRFY env s, HandleEXPN env s, HandleUnknown s, HandleXDEBUG env line s}"
  using assms unfolding dispatch_def by (simp only: split: if_split_asm; metis insertCI)

lemma dispatch_effect:
  assumes d: "dispatch env n args line s = (e, s')" and ok: "CanAcceptCommand n (state s)"
  shows "effect env s s' \<and> wire_size s' \<le> wire_size s"
proof -
  note ph = accept_phases [OF ok]
  have info: ?thesis if "core s' = core s \<and> wire_size s' = wire_size s" using that by (simp add: effect.nothing)
  from d show ?thesis
  proof (cases rule: dispatch_cases)
    case helo
    with HELO_cases [of env args s e s'] EHLO_cases [of env args s e s'] ph(1) show ?thesis
      by (auto intro: effect.nothing effect.greeting)
  next
    case mail
    from mail(2) show ?thesis by (cases rule: MAIL_cases) (use mail(1) ph(2) in \<open>auto intro: effect.nothing effect.sender\<close>)
  next
    case rcpt
    from rcpt(2) show ?thesis by (cases rule: RCPT_cases) (use rcpt(1) ph(3) in \<open>auto intro: effect.nothing effect.recipient\<close>)
  next
    case data
    with DATA_cases [OF data(2)] ph(3) show ?thesis by (auto intro: effect.nothing effect.data)
  next
    case bdat
    from bdat(2) show ?thesis
    proof (cases rule: BDAT_cases)
      case (received m)
      with effect.received [of s' 0 "dataSyncLost s" env m s] show ?thesis by (auto simp: enqueue_def ResetBDAT_transfer)
    qed (auto simp: ResetBDAT_transfer intro: effect.nothing effect.lost effect.chunk effect.reset)
  next
    case rset
    with RSET_cases show ?thesis by (auto simp: ResetBDAT_transfer intro: effect.reset)
  next
    case quit
    with QUIT_cases show ?thesis by (auto intro: effect.quit)
  next
    case auth
    with AUTH_cases [OF auth(2)] ph(4) show ?thesis by (auto simp: HandleAUTH_def intro: effect.signin)
  next
    case starttls
    from starttls(2) show ?thesis by (cases rule: STARTTLS_cases) (use starttls(1) ph(5) in \<open>auto intro: effect.nothing effect.lost effect.tls\<close>)
  qed (use info information_cases in blast)
qed

lemma ProcessCommand_effect:
  assumes "ProcessCommand env line s = (e, s')"
  defines "s1 \<equiv> upd_state (UpdateActivity (now_of env s)) s"
  shows "effect env s1 s' \<and> wire_size s' \<le> wire_size s"
proof -
  obtain c args where c: "parseCommand line = (c, args)" by (cases "parseCommand line")
  note up = parseCommand_upper [OF c]
  have s1: "wire_size s1 = wire_size s" by (simp add: s1_def)
  from assms(1) c up consider "s' = s1" | "s' = discardRefusedBDAT args s1"
    | "CanAcceptCommand c (state s1)" "dispatch env c args line s1 = (e, s')"
    unfolding ProcessCommand_def Let_def s1_def [symmetric] by (simp split: option.split_asm if_split_asm)
  then show ?thesis
  proof cases
    case 3
    with dispatch_effect [OF 3(2,1)] s1 show ?thesis by simp
  qed (use discardRefusedBDAT_cases [of args s1] s1 in \<open>auto intro: effect.nothing effect.lost\<close>)
qed

section \<open>The contract of a session\<close>

text \<open>
  What the rest of the system may rely on: who has signed in, whether TLS is on, the open mail
  transaction (sender, recipients, whether TLS is required) and the messages handed over.
\<close>

record Txn =
  t_user :: "string option"
  t_tls :: bool
  t_trans :: "(string \<times> string list \<times> bool) option"
  t_queue :: "QueuedMessage list"

definition may_send_as :: "Env \<Rightarrow> string \<Rightarrow> string \<Rightarrow> bool" where
  "may_send_as env u from \<longleftrightarrow> from = [] \<or> (\<exists>a. Auth (config env) = Some a \<and> AllowAnySender a)
     \<or> senderOwnedBy u from (LocalDomains (config env)) (Auth (config env))
     \<or> (\<exists>sp n. policies env = Some sp \<and> ShareAccess sp n from u = Inr True)"

definition sender_ok :: "Env \<Rightarrow> string option \<Rightarrow> string \<Rightarrow> bool" where
  "sender_ok env user from \<longleftrightarrow> (auth_required env \<longrightarrow> user \<noteq> None)
     \<and> (submission env \<longrightarrow> user \<noteq> None \<or> isRelayAllowed env)
     \<and> (\<forall>u. user = Some u \<longrightarrow> may_send_as env u from)"

definition bounce_target :: "Env \<Rightarrow> string \<Rightarrow> bool" where
  "bounce_target env r \<longleftrightarrow> (\<exists>cfg now a. SRS (config env) = Some cfg \<and> isLocalDomain env a \<and>
     Reverse (sign (srsMac env)) now cfg a = Inr r)"

definition rcpt_ok :: "Env \<Rightarrow> string option \<Rightarrow> string \<Rightarrow> string \<Rightarrow> bool" where
  "rcpt_ok env user from r \<longleftrightarrow> user \<noteq> None \<or> isLocalDomain env r \<or> isRelayAllowed env \<or> from = [] \<and> bounce_target env r"

definition password_ok :: "Env \<Rightarrow> string \<Rightarrow> bool" where
  "password_ok env u \<longleftrightarrow> u \<noteq> [] \<and> (\<exists>n p app. authenticate env n u p = (True, False, app))"

inductive txn_step :: "Env \<Rightarrow> Txn \<Rightarrow> Txn \<Rightarrow> bool" for env :: Env where
  abandon: "txn_step env t (t\<lparr>t_trans := None\<rparr>)"
| login: "t_trans t = None \<Longrightarrow> t_user t = None \<Longrightarrow> password_ok env u \<Longrightarrow> txn_step env t (t\<lparr>t_user := Some u\<rparr>)"
| secure: "t_trans t = None \<Longrightarrow> \<not> t_tls t \<Longrightarrow> txn_step env t (t\<lparr>t_tls := True\<rparr>)"
| mail: "t_trans t = None \<Longrightarrow> sender_ok env (t_user t) from \<Longrightarrow> q \<longrightarrow> t_tls t \<Longrightarrow>
    txn_step env t (t\<lparr>t_trans := Some (from, [], q)\<rparr>)"
| rcpt: "t_trans t = Some (from, rs, q) \<Longrightarrow> rcpt_ok env (t_user t) from r \<Longrightarrow>
    txn_step env t (t\<lparr>t_trans := Some (from, rs @ [r], q)\<rparr>)"
| handover: "t_trans t = Some (from, rs, q) \<Longrightarrow> rs \<noteq> [] \<Longrightarrow> q_from m = from \<Longrightarrow> q_to m = rs \<Longrightarrow> q_requireTLS m = q \<Longrightarrow>
    q_user m = (case t_user t of None \<Rightarrow> [] | Some u \<Rightarrow> u) \<Longrightarrow>
    txn_step env t (t\<lparr>t_trans := None, t_queue := t_queue t @ [m]\<rparr>)"

definition message_ok :: "Env \<Rightarrow> QueuedMessage \<Rightarrow> bool" where
  "message_ok env m \<longleftrightarrow> (let user = (if q_user m = [] then None else Some (q_user m)) in
     q_to m \<noteq> [] \<and> sender_ok env user (q_from m) \<and> (\<forall>r \<in> set (q_to m). rcpt_ok env user (q_from m) r) \<and>
     (\<forall>u. user = Some u \<longrightarrow> password_ok env u))"

definition txn_inv :: "Env \<Rightarrow> Txn \<Rightarrow> bool" where
  "txn_inv env t \<longleftrightarrow> (\<forall>u. t_user t = Some u \<longrightarrow> password_ok env u)
     \<and> (\<forall>from rs q. t_trans t = Some (from, rs, q) \<longrightarrow>
          sender_ok env (t_user t) from \<and> (\<forall>r \<in> set rs. rcpt_ok env (t_user t) from r) \<and> (q \<longrightarrow> t_tls t))
     \<and> (\<forall>m \<in> set (t_queue t). message_ok env m \<and> (q_requireTLS m \<longrightarrow> t_tls t))"

definition txn_start :: "Txn \<Rightarrow> bool" where
  "txn_start t \<longleftrightarrow> t = \<lparr>t_user = None, t_tls = False, t_trans = None, t_queue = []\<rparr>"

lemma txn_inv_step: "txn_step env t t' \<Longrightarrow> txn_inv env t \<Longrightarrow> txn_inv env t'"
proof (induction rule: txn_step.induct)
  case (handover t "from" rs q m)
  then have "message_ok env m \<and> (q_requireTLS m \<longrightarrow> t_tls t)"
    by (cases "t_user t") (auto simp: txn_inv_def message_ok_def password_ok_def)
  with handover show ?case by (simp add: txn_inv_def)
qed (auto simp: txn_inv_def)

interpretation transactions: invariant_system txn_start "txn_step env" "txn_inv env" for env
  by unfold_locales (simp add: txn_start_def txn_inv_def, erule (1) txn_inv_step)

section \<open>The invariant of a session\<close>

fun phase_inv :: "SMTPPhase \<Rightarrow> SessionState \<Rightarrow> bool" where
  "phase_inv PhaseInit st \<longleftrightarrow> \<not> greeted st \<and> mailFrom st = [] \<and> rcptTo st = [] \<and> \<not> requireTLS st \<and> dataTransferMode st = DataModeNone"
| "phase_inv PhaseMail st \<longleftrightarrow> greeted st \<and> mailFrom st = [] \<and> rcptTo st = [] \<and> \<not> requireTLS st \<and> dataTransferMode st = DataModeNone"
| "phase_inv PhaseRcpt st \<longleftrightarrow> greeted st \<and> (dataTransferMode st = DataModeNone \<or> dataTransferMode st = DataModeBDAT)"
| "phase_inv PhaseData st \<longleftrightarrow> greeted st \<and> rcptTo st \<noteq> [] \<and> dataTransferMode st = DataModeDATA"
| "phase_inv PhaseQuit st \<longleftrightarrow> True"
| "phase_inv _ st \<longleftrightarrow> False"

definition session_inv :: "Session \<Rightarrow> bool" where
  "session_inv s \<longleftrightarrow> phase_inv (phase (state s)) (state s)
     \<and> (bdatSpool s \<noteq> None \<longrightarrow> dataTransferMode (state s) = DataModeBDAT)
     \<and> (requireTLS (state s) \<longrightarrow> tlsActive (state s))
     \<and> (authenticated (state s) \<longrightarrow> username (state s) \<noteq> [])
     \<and> machine_agrees s"

definition abs_session :: "Session \<Rightarrow> Txn" where
  "abs_session s = \<lparr>t_user = (if authenticated (state s) then Some (username (state s)) else None),
     t_tls = tlsActive (state s),
     t_trans = (if phase (state s) \<in> {PhaseRcpt, PhaseData}
                then Some (mailFrom (state s), rcptTo (state s), requireTLS (state s)) else None),
     t_queue = queued s\<rparr>"

lemma phase_inv_cong:
  "greeted st = greeted st' \<Longrightarrow> mailFrom st = mailFrom st' \<Longrightarrow> rcptTo st = rcptTo st' \<Longrightarrow> requireTLS st = requireTLS st' \<Longrightarrow>
   dataTransferMode st = dataTransferMode st' \<Longrightarrow> phase_inv ph st = phase_inv ph st'"
  by (cases ph) simp_all

lemma session_inv_cong: "core s = core t \<Longrightarrow> session_inv s = session_inv t"
  using phase_inv_cong [of "state s" "state t" "phase (state s)"]
  by (simp add: core_defs session_inv_def machine_agrees_def)

lemma abs_session_cong: "core s = core t \<Longrightarrow> abs_session s = abs_session t"
  by (simp add: core_defs abs_session_def)

lemma HandleAuth_once:
  assumes "HandleAuth env cmd s = (e, s')" and "machine_agrees s"
  shows "s' = s \<or> \<not> authenticated (state s)"
  using assms(1) by (cases rule: HandleAuth_cases) (use begin_auth_unauthenticated [OF _ assms(2)] in auto)

lemmas change_defs = greet_def accept_mail_def add_recipient_def start_data_def start_tls_def transfer_def enqueue_def
  ResetBDAT_def session_state_defs

lemma sender_checks:
  assumes "checkSubmissionSender env s = None" and "checkSenderBinding env from s = None"
    and "auth_required env \<longrightarrow> authenticated (state s)"
  shows "sender_ok env (t_user (abs_session s)) from"
  using assms by (auto simp: sender_ok_def abs_session_def may_send_as_def checkSubmissionSender_def checkSenderBinding_def
      Let_def sender_policies_def split: if_splits option.splits sum.splits)

lemma recipient_checks:
  assumes "resolve_recipient env a s = Inr (r, bounce)"
  shows "rcpt_ok env (t_user (abs_session s)) (mailFrom (state s)) r"
proof (cases bounce)
  case True
  with assms have "reverseSRS env a s = Inr r" "r \<noteq> []"
    by (auto simp: resolve_recipient_def split: sum.splits if_splits option.splits)
  then have "bounce_target env r" "mailFrom (state s) = []"
    by (auto simp: reverseSRS_def bounce_target_def split: option.splits if_splits sum.splits)
  then show ?thesis by (simp add: rcpt_ok_def)
next
  case False
  with assms have "checkRelayPermissions env r s = None"
    by (auto simp: resolve_recipient_def split: sum.splits if_splits option.splits)
  then show ?thesis by (auto simp: rcpt_ok_def checkRelayPermissions_def abs_session_def split: if_splits)
qed

lemma reset_inv:
  assumes "session_inv s" and "bdatSpool t = None" "sessionStateMachine t = sessionStateMachine s"
    and "state t = Reset now ((state s)\<lparr>heloName := h, tlsActive := b, greeted := g\<rparr>)"
  shows "session_inv t"
  using assms by (simp add: session_inv_def machine_agrees_def Reset_def)

lemma effect_inv:
  assumes "effect env s s'" and inv: "session_inv s"
  shows "session_inv s'"
  using assms(1)
proof cases
  case (signin cmd e)
  note ident = HandleAuth_identity [OF signin(1)] HandleAuth_frame [OF signin(1)] HandleAuth_agrees [OF signin(1)]
  with inv phase_inv_cong [of "state s'" "state s" "phase (state s')"] show ?thesis
    by (auto simp: session_inv_def trans_core_def may_sign_in_def)
next
  case lost
  show ?thesis unfolding session_inv_cong [OF lost] using inv by (auto simp: session_inv_def machine_agrees_def)
next
  case (greeting name)
  have "bdatSpool s = None" using inv greeting(3) by (auto simp: session_inv_def)
  with inv show ?thesis unfolding session_inv_cong [OF greeting(1)]
    by (intro reset_inv [OF inv, where now = "now_of env s" and g = True and h = name and b = "tlsActive (state s)"])
      (simp_all add: greet_def SetGreeted_def SetHeloName_def)
next
  case (sender p)
  show ?thesis unfolding session_inv_cong [OF sender(1)]
    using inv sender(2,6) by (auto simp: session_inv_def machine_agrees_def accept_mail_def AcceptMail_def)
next
  case (recipient p rcpt bounce)
  show ?thesis unfolding session_inv_cong [OF recipient(1)]
    using inv recipient(2) by (auto simp: session_inv_def machine_agrees_def add_recipient_def AddRecipient_def SetDSNRecipientParams_def Let_def)
next
  case data
  show ?thesis unfolding session_inv_cong [OF data(1)]
    using inv data(2-) by (auto simp: session_inv_def machine_agrees_def start_data_def)
next
  case quit
  show ?thesis unfolding session_inv_cong [OF quit]
    using inv by (cases "isValidPhaseTransition (phase (state s)) PhaseQuit") (simp_all add: session_inv_def machine_agrees_def SetPhase_def)
next
  case tls
  have "bdatSpool s = None" using inv tls(3) by (auto simp: session_inv_def)
  with inv show ?thesis unfolding session_inv_cong [OF tls(1)]
    by (intro reset_inv [OF inv, where now = "now_of env s" and g = False and h = "heloName (state s)" and b = True])
      (simp_all add: start_tls_def SetGreeted_def SetTLSActive_def Reset_def)
next
  case (chunk m sp k l)
  show ?thesis unfolding session_inv_cong [OF chunk(1)]
    using inv chunk(2,3) by (auto simp: session_inv_def machine_agrees_def transfer_def)
next
  case (received k l m)
  show ?thesis unfolding session_inv_cong [OF received(1)]
    by (rule reset_inv [OF inv, where now = "now_of env s" and g = "greeted (state s)" and h = "heloName (state s)" and b = "tlsActive (state s)"])
      (simp_all add: enqueue_def transfer_def Reset_def)
next
  case (reset k l)
  show ?thesis unfolding session_inv_cong [OF reset]
    by (rule reset_inv [OF inv, where now = "now_of env s" and g = "greeted (state s)" and h = "heloName (state s)" and b = "tlsActive (state s)"])
      (simp_all add: transfer_def Reset_def)
qed (use inv session_inv_cong in blast)

lemma reset_sim:
  assumes "state t = Reset now ((state s)\<lparr>heloName := h, greeted := g\<rparr>)" and "queued t = queued s"
  shows "txn_step env (abs_session s) (abs_session t)"
proof -
  have "abs_session t = (abs_session s)\<lparr>t_trans := None\<rparr>" using assms by (simp add: abs_session_def Reset_def)
  then show ?thesis by (simp add: txn_step.abandon)
qed

lemma effect_sim:
  assumes "effect env s s'" and inv: "session_inv s"
  shows "abs_session s' = abs_session s \<or> txn_step env (abs_session s) (abs_session s')"
  using assms(1)
proof cases
  case (signin cmd e)
  have ag: "machine_agrees s" using inv by (simp add: session_inv_def)
  have tr: "trans_core s' = trans_core s" using HandleAuth_frame [OF signin(1)] by simp
  show ?thesis
  proof (cases "s' = s \<or> authenticated (state s') = authenticated (state s) \<and> username (state s') = username (state s)")
    case True
    with tr show ?thesis by (auto simp: abs_session_def trans_core_def)
  next
    case False
    with HandleAuth_identity [OF signin(1)] HandleAuth_once [OF signin(1) ag]
    have u: "authenticated (state s')" "may_sign_in env (username (state s')) s" "\<not> authenticated (state s)" by auto
    have "abs_session s' = (abs_session s)\<lparr>t_user := Some (username (state s'))\<rparr>" using u tr by (simp add: abs_session_def trans_core_def)
    moreover have "password_ok env (username (state s'))" using u(2) by (auto simp: may_sign_in_def password_ok_def)
    moreover have "t_trans (abs_session s) = None" "t_user (abs_session s) = None"
      using signin(2) u(3) by (auto simp: abs_session_def)
    ultimately show ?thesis using txn_step.login by metis
  qed
next
  case lost
  then show ?thesis by (auto dest!: abs_session_cong simp: abs_session_def)
next
  case (greeting name)
  have "txn_step env (abs_session s) (abs_session (greet env name s))"
    by (rule reset_sim [where now = "now_of env s" and g = True and h = name]) (simp_all add: greet_def SetGreeted_def SetHeloName_def)
  with abs_session_cong [OF greeting(1)] show ?thesis by simp
next
  case (sender p)
  have "abs_session s' = (abs_session s)\<lparr>t_trans := Some (mp_addr p, [], mp_requireTLS p)\<rparr>"
    unfolding abs_session_cong [OF sender(1)] using sender(2) by (simp add: abs_session_def accept_mail_def AcceptMail_def)
  with txn_step.mail [of "abs_session s"] sender_checks [OF sender(4,5,3)] sender(2,6) show ?thesis
    by (simp add: abs_session_def)
next
  case (recipient p rcpt bounce)
  have "abs_session s' = (abs_session s)\<lparr>t_trans := Some (mailFrom (state s), rcptTo (state s) @ [rcpt], requireTLS (state s))\<rparr>"
    unfolding abs_session_cong [OF recipient(1)] using recipient(2)
    by (simp add: abs_session_def add_recipient_def AddRecipient_def SetDSNRecipientParams_def Let_def)
  moreover have "t_trans (abs_session s) = Some (mailFrom (state s), rcptTo (state s), requireTLS (state s))"
    using recipient(2) by (simp add: abs_session_def)
  ultimately show ?thesis using txn_step.rcpt recipient_checks [OF recipient(4)] by metis
next
  case data
  then show ?thesis by (auto dest!: abs_session_cong simp: abs_session_def start_data_def)
next
  case quit
  have "abs_session s' = abs_session s \<or> abs_session s' = (abs_session s)\<lparr>t_trans := None\<rparr>"
    unfolding abs_session_cong [OF quit]
    by (cases "isValidPhaseTransition (phase (state s)) PhaseQuit") (simp_all add: abs_session_def SetPhase_def)
  then show ?thesis using txn_step.abandon by metis
next
  case tls
  have "abs_session s' = (abs_session s)\<lparr>t_tls := True\<rparr>"
    unfolding abs_session_cong [OF tls(1)] using tls(2)
    by (auto simp: abs_session_def start_tls_def SetTLSActive_def SetGreeted_def Reset_def)
  with txn_step.secure [of "abs_session s"] tls(2,4) show ?thesis by (auto simp: abs_session_def)
next
  case (chunk m sp k l)
  then show ?thesis by (auto dest!: abs_session_cong simp: abs_session_def transfer_def)
next
  case (received k l m)
  have "abs_session s' = (abs_session s)\<lparr>t_trans := None, t_queue := t_queue (abs_session s) @ [m]\<rparr>"
    unfolding abs_session_cong [OF received(1)] by (simp add: abs_session_def enqueue_def transfer_def Reset_def)
  moreover have "t_trans (abs_session s) = Some (mailFrom (state s), rcptTo (state s), requireTLS (state s))"
    using received(3) by (simp add: abs_session_def)
  moreover have "q_user m = (case t_user (abs_session s) of None \<Rightarrow> [] | Some u \<Rightarrow> u)"
    using received(2) by (simp add: abs_session_def carries_def)
  ultimately show ?thesis using txn_step.handover received(2,4) by (simp add: carries_def)
next
  case (reset k l)
  have "txn_step env (abs_session s) (abs_session (transfer DataModeNone None k l (upd_state (Reset (now_of env s)) s)))"
    by (rule reset_sim [where now = "now_of env s" and g = "greeted (state s)" and h = "heloName (state s)"]) (simp_all add: transfer_def Reset_def)
  with abs_session_cong [OF reset] show ?thesis by simp
qed (use abs_session_cong in blast)

end
