(* ===== verification/Session_Loop.thy ===== *)
theory Session_Loop
  imports Transaction
begin

text \<open>
  The life of a connection: \<open>Handle\<close>, \<open>processCommands\<close> and \<open>handleDataPhase\<close> of
  \<open>internal/smtp/session.go\<close>. One round of the loop is \<open>session_round\<close>: \<open>Inr\<close> with the session to
  go on with, or \<open>Inl\<close> with what the loop returns. Every round that goes on has read something, so
  \<open>processCommands\<close> is a total function: its measure is what is left on the wire. The theorems
  about whole sessions are here: a session refines the contract of \<open>Transaction\<close>, whatever the
  client sends.
\<close>

section \<open>One round\<close>

definition handleDataPhase :: "Env \<Rightarrow> Session \<Rightarrow> error \<times> Session" where
  "handleDataPhase env s = (case ReadData env s of
       (Inl e, s1) \<Rightarrow> (Some e, s1)
     | (Inr content, s1) \<Rightarrow> ProcessMessage env content s1)"

definition data_round :: "Env \<Rightarrow> Session \<Rightarrow> (error \<times> Session) + Session" where
  "data_round env s = (case session_flush s of
       Some e \<Rightarrow> Inl (Some (''failed to flush before DATA phase: '' @ e), s)
     | None \<Rightarrow>
         (case handleDataPhase env s of
            (Some e, s1) \<Rightarrow>
              (let s2 = writeError env e s1
               in if dataSyncLost s2 then Inl (None, s2) else Inr (upd_state (Reset (now_of env s)) s2))
          | (None, s1) \<Rightarrow>
              Inr (upd_state (Reset (now_of env s)) (snd (session_write env ''250 2.0.0 Message accepted for delivery'' s1)))))"

definition command_round :: "Env \<Rightarrow> Session \<Rightarrow> (error \<times> Session) + Session" where
  "command_round env s = (case readBoundedSMTPLine (bufSize env) 512 (inp s) of
       (LineTooLong, w) \<Rightarrow> Inl (None, snd (session_write env ''500 5.5.2 Command line too long'' (s\<lparr>inp := w\<rparr>)))
     | (LineErr _ Timeout, w) \<Rightarrow>
         Inl (Some ''session timeout'', snd (session_write env ''421 4.4.2 Timeout'' (s\<lparr>inp := w\<rparr>)))
     | (LineErr _ _, w) \<Rightarrow> Inl (None, s\<lparr>inp := w\<rparr>)
     | (LineOk line, w) \<Rightarrow>
         (case ProcessCommand env line (upd_state (UpdateActivity (now_of env s)) (s\<lparr>inp := w\<rparr>)) of
            (e, s1) \<Rightarrow>
              if panicked s1 then Inl (None, s1)
              else
                (let s2 = (case e of None \<Rightarrow> s1 | Some m \<Rightarrow> writeError env m s1) in
                 if e \<noteq> None \<and> dataSyncLost s2 then Inl (None, s2)
                 else if phase (state s2) = PhaseQuit then Inl (None, s2)
                 else if inputBuffered env (stepNo s) then Inr s2
                 else case session_flush s2 of
                   Some m \<Rightarrow> Inl (Some (''failed to flush: '' @ m), s2)
                 | None \<Rightarrow> Inr s2)))"

definition session_round :: "Env \<Rightarrow> Session \<Rightarrow> (error \<times> Session) + Session" where
  "session_round env s =
     (if ctxDone s then Inl (Some ''context canceled'', s)
      else if stopRequested env (stepNo s) then Inl (None, s)
      else case (if phase (state s) = PhaseData then data_round env s else command_round env s) of
        Inl r \<Rightarrow> Inl r
      | Inr s' \<Rightarrow> Inr (s'\<lparr>stepNo := stepNo s' + 1\<rparr>))"

section \<open>Every round reads\<close>

lemma wire_size_inp: "length w \<le> length (inp s) \<Longrightarrow> wire_size (s\<lparr>inp := w\<rparr>) \<le> wire_size s"
  by (simp add: wire_size_def)

lemma writeError_wire [simp]: "wire_size (writeError env m s) = wire_size s"
  by (simp add: writeError_def Let_def)

lemma data_frame_wire: "data_frame s s' \<Longrightarrow> tlsWire s' = tlsWire s \<and> length (inp s') \<le> length (inp s)"
  unfolding data_frame_def by (elim conjE) (erule ssubst [of s'], simp)

lemma readData_ok_shorter:
  assumes "readData env s = (Inr body, s')"
  shows "length (inp s') < length (inp s) \<and> tlsWire s' = tlsWire s"
proof -
  from assms obtain st where "read_loop env st 0 0 [] s = (Inr body, s')" by (auto simp: readData_def split: if_splits)
  from read_loop_InrD [OF this] have "\<exists>line w. readBoundedSMTPLine (bufSize env) dataLineLimit (inp s) = (LineOk line, w) \<and>
     (s' = upd_state (SetDataSize (now_of env s) (len ([] :: string))) (s\<lparr>inp := w\<rparr>) \<or>
      (\<exists>(st3 :: DataReaderState) k' mem' c. read_loop env st3 k' mem' c (s\<lparr>inp := w\<rparr>) = (Inr body, s')))"
    by blast
  then obtain line w where r: "readBoundedSMTPLine (bufSize env) dataLineLimit (inp s) = (LineOk line, w)"
    and s': "s' = upd_state (SetDataSize (now_of env s) (len ([] :: string))) (s\<lparr>inp := w\<rparr>) \<or>
      (\<exists>(st3 :: DataReaderState) k' mem' c. read_loop env st3 k' mem' c (s\<lparr>inp := w\<rparr>) = (Inr body, s'))" by blast
  from s' show ?thesis
  proof
    assume "\<exists>(st3 :: DataReaderState) k' mem' c. read_loop env st3 k' mem' c (s\<lparr>inp := w\<rparr>) = (Inr body, s')"
    then obtain st3 k' mem' c where "read_loop env st3 k' mem' c (s\<lparr>inp := w\<rparr>) = (Inr body, s')" by blast
    with read_loop_frame [of "s\<lparr>inp := w\<rparr>" env st3 k' mem' c] have "data_frame (s\<lparr>inp := w\<rparr>) s'" by simp
    from data_frame_wire [OF this] readBoundedSMTPLine_Ok_shorter [OF r] show ?thesis by simp
  qed (use readBoundedSMTPLine_Ok_shorter [OF r] in simp)
qed

lemma ReadData_shorter:
  assumes "ReadData env s = (r, s')" and "isl r \<longrightarrow> \<not> dataSyncLost s'"
  shows "wire_size s' < wire_size s"
proof (cases r)
  case (Inr b)
  with assms(1) have "readData env s = (Inr b, s')"
    by (auto simp: ReadData_def split: prod.splits sum.splits)
  from readData_ok_shorter [OF this] show ?thesis by (simp add: wire_size_def)
next
  case (Inl e)
  with assms obtain s1 where s1: "readData env s = (Inl e, s1)" "s' = drain_loop env 0 True s1"
    using ReadData_InlD [of env s e s'] by auto
  have "data_frame s s1" using readData_frame [of s env] s1(1) by simp
  moreover have "data_frame s1 s'" using drain_loop_frame s1(2) by simp
  moreover from drain_loop_sync [of env 0 True s1] assms(2) Inl s1(2)
  obtain pre t gap where "inp s1 = pre @ map Some t @ gap @ inp s'" "trim_eol t = ''.''" by auto
  then have "length (inp s') < length (inp s1)" by (cases t) (auto simp: trim_eol_def)
  ultimately show ?thesis using data_frame_wire [of s s1] data_frame_wire [of s1 s'] by (simp add: wire_size_def)
qed

lemma data_round_shorter:
  assumes "data_round env s = Inr s'"
  shows "wire_size s' < wire_size s"
proof -
  obtain r s1 where r: "ReadData env s = (r, s1)" by (cases "ReadData env s")
  show ?thesis
  proof (cases r)
    case (Inl e)
    with assms r have "\<not> dataSyncLost (writeError env e s1)" "wire_size s' = wire_size s1"
      by (auto simp: data_round_def handleDataPhase_def Let_def split: option.splits if_splits)
    moreover have "dataSyncLost (writeError env e s1) = dataSyncLost s1" using writeError_core [of env e s1] by (simp add: core_defs)
    ultimately show ?thesis using ReadData_shorter [OF r] by simp
  next
    case (Inr body)
    obtain e s2 where p: "ProcessMessage env body s1 = (e, s2)" by (cases "ProcessMessage env body s1")
    then have "wire_size s2 = wire_size s1" by (cases rule: ProcessMessage_cases) simp_all
    moreover have "wire_size s' = wire_size s2"
      using assms r Inr p by (auto simp: data_round_def handleDataPhase_def Let_def split: option.splits if_splits)
    ultimately show ?thesis using ReadData_shorter [OF r] Inr by simp
  qed
qed

lemma command_round_shorter:
  assumes "command_round env s = Inr s'"
  shows "wire_size s' < wire_size s"
proof -
  from assms obtain line w e s1 where r: "readBoundedSMTPLine (bufSize env) 512 (inp s) = (LineOk line, w)"
    and p: "ProcessCommand env line (upd_state (UpdateActivity (now_of env s)) (s\<lparr>inp := w\<rparr>)) = (e, s1)"
    and s': "s' = (case e of None \<Rightarrow> s1 | Some m \<Rightarrow> writeError env m s1)"
    by (auto simp: command_round_def Let_def split: line_outcome.splits read_err.splits prod.splits if_splits option.splits)
  have "wire_size s' = wire_size s1" using s' by (simp split: option.split)
  also have "\<dots> \<le> wire_size (s\<lparr>inp := w\<rparr>)" using ProcessCommand_effect [OF p] by simp
  also have "\<dots> < wire_size s" using readBoundedSMTPLine_Ok_shorter [OF r] by (simp add: wire_size_def)
  finally show ?thesis .
qed

lemma session_round_shorter: "session_round env s = Inr s' \<Longrightarrow> wire_size s' < wire_size s"
  by (auto simp: session_round_def dest: data_round_shorter command_round_shorter split: if_splits sum.splits)

section \<open>The loop\<close>

function processCommands :: "Env \<Rightarrow> Session \<Rightarrow> error \<times> Session" where
  "processCommands env s = (case session_round env s of Inl r \<Rightarrow> r | Inr s' \<Rightarrow> processCommands env s')"
  by pat_completeness auto
termination
  by (relation "measure (\<lambda>(env, s). wire_size s)") (auto dest: session_round_shorter)

declare processCommands.simps [simp del]

text \<open>
  The session of a new connection: \<open>NewSession\<close>, with the failure records that earlier connections
  have left and the number of writes the connection will survive.
\<close>

definition open_session ::
  "Env \<Rightarrow> wire \<Rightarrow> wire option \<Rightarrow> nat option \<Rightarrow> (string \<times> AuthFailureInfo) list \<Rightarrow> (string \<times> AccountLockInfo) list \<Rightarrow> Session" where
  "open_session env w tls writes fails locks =
     (NewSession env w tls)\<lparr>writesLeft := writes, ipFailures := fails, accountLockouts := locks\<rparr>"

definition Handle :: "Env \<Rightarrow> Session \<Rightarrow> error \<times> Session" where
  "Handle env s = (case sendGreeting env s of
       (Some e, s1) \<Rightarrow> (Some (''failed to send greeting: '' @ e), s1)
     | (None, s1) \<Rightarrow> processCommands env s1)"

section \<open>A session keeps its contract\<close>

lemma data_frame_core:
  assumes "data_frame s s'"
  shows "core s' = core (transfer (dataTransferMode (state s')) (bdatSpool s) (bdatBytesReceived s) (dataSyncLost s') s)"
proof -
  from assms obtain w d m l t c where "s' = s\<lparr>inp := w, state := (state s)\<lparr>dataSize := d, dataTransferMode := m,
     lastActivityTime := l\<rparr>, dataSyncLost := t, ctxDone := c\<rparr>"
    unfolding data_frame_def by metis
  then show ?thesis by (simp add: core_defs transfer_def)
qed

lemma transfer_reset_core:
  assumes "core t = core (transfer m sp k l s)"
  shows "core (upd_state (Reset now) t) = core (transfer DataModeNone sp k l (upd_state (Reset now) s))"
  using assms by (simp add: core_defs transfer_def Reset_def)

lemma enqueue_transfer_core:
  "core (enqueue env msg (transfer m sp k l s)) = core (transfer DataModeNone sp k l (enqueue env msg s))"
  by (simp add: core_defs transfer_def enqueue_def Reset_def now_of_def)

lemma enqueue_cong: "core s = core t \<Longrightarrow> core (enqueue env msg s) = core (enqueue env msg t)"
  by (simp add: core_defs enqueue_def Reset_def)

lemma data_round_effect:
  assumes "data_round env s = r" and inv: "session_inv s" and ph: "phase (state s) = PhaseData"
  shows "(case r of Inr s' \<Rightarrow> effect env s s' | Inl (e, s') \<Rightarrow> abs_session s' = abs_session s)"
proof -
  have sp: "bdatSpool s = None" "rcptTo (state s) \<noteq> []" using inv ph by (auto simp: session_inv_def)
  obtain x s1 where x: "ReadData env s = (x, s1)" by (cases "ReadData env s")
  then have "data_frame s s1" using ReadData_frame [of s env] by simp
  then obtain m k l where s1: "core s1 = core (transfer m None k l s)" using data_frame_core sp(1) by metis
  have refused: "effect env s (upd_state (Reset (now_of env s)) (writeError env e t))" if "core t = core s1" for e t
    using transfer_reset_core [of "writeError env e t" m None k l s] that s1 by (auto intro: effect.reset)
  have same: "abs_session (writeError env e t) = abs_session s" if "core t = core s1" for e t
    using abs_session_cong [of "writeError env e t" "transfer m None k l s"] that s1 by (simp add: abs_session_def transfer_def)
  show ?thesis
  proof (cases x)
    case (Inl e)
    then show ?thesis using assms(1) x refused [of s1 e] same [of s1 e]
      by (auto simp: data_round_def handleDataPhase_def Let_def split: option.splits)
  next
    case (Inr body)
    obtain e s2 where p: "ProcessMessage env body s1 = (e, s2)" by (cases "ProcessMessage env body s1")
    have closing: "effect env s (upd_state (Reset (now_of env s)) (snd (session_write env reply t)))"
      if "core t = core s1 \<or> (\<exists>msg. carries s1 msg \<and> core t = core (enqueue env msg s1))" for reply t
      using that
    proof
      assume "core t = core s1"
      with transfer_reset_core [of "snd (session_write env reply t)" m None k l s] s1 show ?thesis by (auto intro: effect.reset)
    next
      assume "\<exists>msg. carries s1 msg \<and> core t = core (enqueue env msg s1)"
      then obtain msg where c: "carries s1 msg" "core t = core (enqueue env msg s1)" by blast
      have "core t = core (transfer DataModeNone None k l (enqueue env msg s))"
        using c(2) enqueue_cong [OF s1] by (simp add: enqueue_transfer_core)
      then have "core (upd_state (Reset (now_of env s)) (snd (session_write env reply t))) =
          core (transfer DataModeNone None k l (enqueue env msg s))"
        using session_write_core [of env reply t] by (simp add: core_defs transfer_def enqueue_def Reset_def)
      moreover have "carries s msg" using c(1) s1 by (simp add: carries_def core_defs transfer_def)
      ultimately show ?thesis using ph sp(2) by (intro effect.received) auto
    qed
    from p show ?thesis
    proof (cases rule: ProcessMessage_cases)
      case (rejected y)
      then show ?thesis using assms(1) x Inr p refused [of s2 y] same [of s2 y]
        by (auto simp: data_round_def handleDataPhase_def Let_def split: option.splits)
    next
      case dropped
      then show ?thesis using assms(1) x Inr p closing [of s2 "''250 2.0.0 Message accepted for delivery''"]
        by (auto simp: data_round_def handleDataPhase_def Let_def split: option.splits)
    next
      case (accepted msg)
      then have "effect env s (upd_state (Reset (now_of env s)) (snd (session_write env ''250 2.0.0 Message accepted for delivery'' s2)))"
        by (intro closing) blast
      then show ?thesis using assms(1) x Inr p accepted(1)
        by (auto simp: data_round_def handleDataPhase_def Let_def split: option.splits)
    qed
  qed
qed

lemma command_round_effect:
  assumes "command_round env s = r"
  shows "\<exists>s0 s1. core s0 = core s \<and> effect env s0 s1 \<and>
    (case r of Inr s' \<Rightarrow> core s' = core s1 | Inl (e, s') \<Rightarrow> core s' = core s1)"
proof -
  obtain x w where x: "readBoundedSMTPLine (bufSize env) 512 (inp s) = (x, w)" by (cases "readBoundedSMTPLine (bufSize env) 512 (inp s)")
  have inp: "core (s\<lparr>inp := w\<rparr>) = core s" by (simp add: core_defs)
  show ?thesis
  proof (cases "\<exists>line. x = LineOk line")
    case True
    then obtain line where line: "x = LineOk line" by blast
    define s0 where "s0 = upd_state (UpdateActivity (now_of env s)) (s\<lparr>inp := w\<rparr>)"
    define s0' where "s0' = upd_state (UpdateActivity (now_of env s0)) s0"
    obtain e s1 where p: "ProcessCommand env line s0 = (e, s1)" by (cases "ProcessCommand env line s0")
    have "core s0' = core s" using inp by (simp add: s0_def s0'_def)
    moreover have "effect env s0' s1" using ProcessCommand_effect [OF p] by (simp add: s0'_def)
    moreover have "case r of Inr s' \<Rightarrow> core s' = core s1 | Inl (e, s') \<Rightarrow> core s' = core s1"
      unfolding assms [symmetric] command_round_def x line prod.case line_outcome.case s0_def [symmetric] p Let_def
      by (simp split: option.split)
    ultimately show ?thesis by blast
  next
    case False
    then have "case r of Inr s' \<Rightarrow> core s' = core s | Inl (e, s') \<Rightarrow> core s' = core s"
      unfolding assms [symmetric] command_round_def x prod.case
      by (simp only: line_outcome.split) (simp add: inp del: append.simps split: read_err.split)
    then show ?thesis using effect.nothing by blast
  qed
qed

lemma effect_sim_inv:
  assumes "core s0 = core s" and "effect env s0 s1" and "core s' = core s1" and "session_inv s"
  shows "session_inv s' \<and> (txn_step env)\<^sup>*\<^sup>* (abs_session s) (abs_session s')"
  using effect_sim [OF assms(2)] effect_inv [OF assms(2)] session_inv_cong [OF assms(1)] session_inv_cong [OF assms(3)]
    abs_session_cong [OF assms(1)] abs_session_cong [OF assms(3)] assms(4) by auto

lemma next_round: "session_inv (s\<lparr>stepNo := n\<rparr>) = session_inv s" "abs_session (s\<lparr>stepNo := n\<rparr>) = abs_session s"
  by (simp_all add: session_inv_def abs_session_def machine_agrees_def)

lemma session_round_sim:
  assumes "session_round env s = r" and "session_inv s"
  shows "(case r of Inr s' \<Rightarrow> session_inv s' \<and> (txn_step env)\<^sup>*\<^sup>* (abs_session s) (abs_session s')
    | Inl (e, s') \<Rightarrow> (txn_step env)\<^sup>*\<^sup>* (abs_session s) (abs_session s'))"
proof -
  define q where "q = (if phase (state s) = PhaseData then data_round env s else command_round env s)"
  have "case q of Inr s' \<Rightarrow> session_inv s' \<and> (txn_step env)\<^sup>*\<^sup>* (abs_session s) (abs_session s')
    | Inl (e, s') \<Rightarrow> (txn_step env)\<^sup>*\<^sup>* (abs_session s) (abs_session s')"
  proof (cases "phase (state s) = PhaseData")
    case True
    then show ?thesis using data_round_effect [of env s, OF refl assms(2) True] effect_sim_inv [OF refl _ refl assms(2)]
      by (auto simp: q_def split: sum.splits)
  next
    case False
    from command_round_effect [of env s, OF refl] obtain s0 s1 where e: "core s0 = core s" "effect env s0 s1"
      "case command_round env s of Inr s' \<Rightarrow> core s' = core s1 | Inl (e, s') \<Rightarrow> core s' = core s1" by blast
    then show ?thesis using False effect_sim_inv [OF e(1,2) _ assms(2)] by (auto simp: q_def split: sum.splits)
  qed
  then show ?thesis unfolding assms(1) [symmetric] session_round_def q_def [symmetric] by (cases q) (simp_all add: next_round split: prod.splits)
qed

lemma processCommands_sim:
  assumes "processCommands env s = (e, s')" and "session_inv s"
  shows "(txn_step env)\<^sup>*\<^sup>* (abs_session s) (abs_session s')"
  using assms
proof (induction env s rule: processCommands.induct)
  case (1 env s)
  show ?case
  proof (cases "session_round env s")
    case (Inl r)
    with 1(2) have "r = (e, s')" by (simp add: processCommands.simps)
    with session_round_sim [OF Inl 1(3)] show ?thesis by simp
  next
    case (Inr t)
    with 1(2) have "processCommands env t = (e, s')" by (simp add: processCommands.simps)
    with session_round_sim [OF Inr 1(3)] 1(1) [OF Inr] show ?thesis by auto
  qed
qed

lemma open_session_inv: "session_inv (open_session env w tls n f a)" "txn_start (abs_session (open_session env w tls n f a))"
  by (simp_all add: session_inv_def machine_agrees_def abs_session_def txn_start_def open_session_def NewSession_def NewSessionState_def)

lemma Handle_sim:
  assumes "session_inv s"
  shows "(txn_step env)\<^sup>*\<^sup>* (abs_session s) (abs_session (snd (Handle env s)))"
proof -
  obtain x s1 where g: "sendGreeting env s = (x, s1)" by (cases "sendGreeting env s")
  have c: "core s1 = core s"
    using g session_write_core [of env "''220 '' @ Hostname (config env) @ '' ESMTP Elemta MTA ready''" s]
    unfolding sendGreeting_def by (auto simp del: session_write_core append.simps split: prod.splits option.splits)
  obtain e s' where h: "Handle env s = (e, s')" by (cases "Handle env s")
  have "(txn_step env)\<^sup>*\<^sup>* (abs_session s) (abs_session s')"
  proof (cases x)
    case None
    with h g have "processCommands env s1 = (e, s')" by (simp add: Handle_def)
    from processCommands_sim [OF this] session_inv_cong [OF c] abs_session_cong [OF c] assms show ?thesis by simp
  next
    case (Some m)
    with h g have "s' = s1" by (simp add: Handle_def)
    with abs_session_cong [OF c] show ?thesis by simp
  qed
  with h show ?thesis by simp
qed

lemma Handle_inv: "txn_inv env (abs_session (snd (Handle env (open_session env w tls n f a))))"
  using transactions.inv_run [OF transactions.inv_start [OF open_session_inv(2)] Handle_sim [OF open_session_inv(1)]] .

lemma Handle_messages:
  assumes "m \<in> set (queued (snd (Handle env (open_session env w tls n f a))))"
  shows "message_ok env m \<and> (q_requireTLS m \<longrightarrow> tlsActive (state (snd (Handle env (open_session env w tls n f a)))))"
  using Handle_inv [of env w tls n f a] assms by (simp add: txn_inv_def abs_session_def)

section \<open>Staying in step with the client\<close>

text \<open>
  A handler that reports no error has not lost its place in the input, and a round that lost it
  is the last one.
\<close>

lemma core_sync: "core s = core t \<Longrightarrow> dataSyncLost s = dataSyncLost t"
  by (simp add: core_defs)

lemma receive_chunk_sync:
  assumes "receive_chunk env n isLast s = (None, s')"
  shows "dataSyncLost s' = dataSyncLost s"
proof -
  obtain x t where rc: "ReadBDATChunk env n s = (x, t)" by (cases "ReadBDATChunk env n s")
  have x: "x = None" using assms by (cases x) (auto simp: receive_chunk_def rc split: if_splits)
  from rc have t: "dataSyncLost t = dataSyncLost s"
    by (cases rule: ReadBDATChunk_cases) (use x in \<open>auto dest: core_sync\<close>)
  obtain y t2 where pb: "ProcessBDATMessage env t = (y, t2)" by (cases "ProcessBDATMessage env t")
  then have t2: "dataSyncLost t2 = dataSyncLost t"
    by (cases rule: ProcessBDATMessage_cases) (auto simp: core_defs ResetBDAT_def enqueue_def)
  have w: "dataSyncLost (snd (session_write env m u)) = dataSyncLost u" for m u
    by (rule core_sync) (rule session_write_core)
  show ?thesis
  proof (cases isLast)
    case True
    with assms rc x t pb show ?thesis
      using w [of "''250 2.0.0 Message accepted for delivery''" t2] t2
      by (auto simp: receive_chunk_def split: option.splits prod.splits)
  next
    case False
    with assms rc x t show ?thesis
      using w [of "''250 2.0.0 '' @ show_int n @ '' bytes received''" t]
      by (auto simp: receive_chunk_def wrap_error_def split: prod.splits)
  qed
qed

lemma BDAT_sync:
  assumes "HandleBDAT env args s = (None, s')"
  shows "dataSyncLost s' = dataSyncLost s"
proof -
  have "\<exists>n isLast t. receive_chunk env n isLast t = (None, s') \<and> dataSyncLost t = dataSyncLost s"
    using assms unfolding HandleBDAT_def Let_def by (simp split: if_split_asm option.split_asm sum.split_asm; fastforce)
  then show ?thesis using receive_chunk_sync by metis
qed

lemma STARTTLS_sync:
  assumes "HandleSTARTTLS env s = (None, s')"
  shows "dataSyncLost s' = dataSyncLost s"
proof -
  obtain x t where w: "session_write env ''220 2.0.0 Ready to start TLS'' s = (x, t)"
    by (cases "session_write env ''220 2.0.0 Ready to start TLS'' s")
  then have "dataSyncLost t = dataSyncLost s" using session_writeD [OF w] core_sync by blast
  with assms w show ?thesis
    by (auto simp: HandleSTARTTLS_def upgradeToTLS_def split: if_splits option.splits)
qed

lemma change_sync:
  "dataSyncLost (greet env name s) = dataSyncLost s" "dataSyncLost (accept_mail env p s) = dataSyncLost s"
  "dataSyncLost (add_recipient env q rcpt s) = dataSyncLost s" "dataSyncLost (start_data env s) = dataSyncLost s"
  "dataSyncLost (ResetBDAT s) = dataSyncLost s"
  by (simp_all add: greet_def accept_mail_def add_recipient_def start_data_def ResetBDAT_def)

lemma dispatch_sync:
  assumes "dispatch env n args line s = (None, s')"
  shows "dataSyncLost s' = dataSyncLost s"
  using assms
proof (cases rule: dispatch_cases)
  case helo
  with HELO_cases [of env args s None s'] EHLO_cases [of env args s None s'] show ?thesis
    by (metis core_sync change_sync(1))
next
  case mail
  from mail(2) show ?thesis by (cases rule: MAIL_cases) (metis core_sync change_sync(2))+
next
  case rcpt
  from rcpt(2) show ?thesis by (cases rule: RCPT_cases) (simp, metis core_sync change_sync(3))
next
  case data
  with DATA_cases [OF data(2)] show ?thesis by (metis core_sync change_sync(4))
next
  case rset
  from RSET_cases [OF rset] show ?thesis by (metis core_sync change_sync(5) upd_state_simps(7))
next
  case quit
  from QUIT_cases [OF quit] show ?thesis by (metis core_sync upd_state_simps(7))
next
  case auth
  from AUTH_cases [OF auth(2)] show ?thesis by (simp add: trans_core_def)
next
  case info
  from information_cases [OF info] show ?thesis by (metis core_sync)
qed (blast dest: BDAT_sync STARTTLS_sync)+

lemma ProcessCommand_sync:
  assumes "ProcessCommand env line s = (None, s')"
  shows "dataSyncLost s' = dataSyncLost s"
proof -
  obtain c args where c: "parseCommand line = (c, args)" by (cases "parseCommand line")
  from assms c have "dispatch env (ToUpper c) args line (upd_state (UpdateActivity (now_of env s)) s) = (None, s')"
    unfolding ProcessCommand_def Let_def by (simp split: option.split_asm if_split_asm)
  from dispatch_sync [OF this] show ?thesis by simp
qed

lemma read_loop_keeps_sync:
  "read_loop env st k lastMem content s = (Inr body, s') \<Longrightarrow> dataSyncLost s' = dataSyncLost s"
proof (induction "length (inp s)" arbitrary: st k lastMem content s rule: less_induct)
  case less
  from read_loop_InrD [OF less.prems] obtain line w where r: "readBoundedSMTPLine (bufSize env) dataLineLimit (inp s) = (LineOk line, w)"
    and c: "s' = upd_state (SetDataSize (now_of env s) (len content)) (s\<lparr>inp := w\<rparr>) \<or>
      (\<exists>(st3 :: DataReaderState) k' lastMem'. read_loop env st3 k' lastMem' (content @ applyDotStuffing line) (s\<lparr>inp := w\<rparr>) = (Inr body, s'))"
    by blast
  have "length (inp (s\<lparr>inp := w\<rparr>)) < length (inp s)" using readBoundedSMTPLine_Ok_shorter [OF r] by simp
  from c less.hyps [OF this] show ?case by fastforce
qed

lemma data_round_sync:
  assumes "data_round env s = Inr s'" and "\<not> dataSyncLost s"
  shows "\<not> dataSyncLost s'"
proof -
  obtain x s1 where x: "ReadData env s = (x, s1)" by (cases "ReadData env s")
  have w: "dataSyncLost (snd (session_write env m u)) = dataSyncLost u" for m u
    by (rule core_sync) (rule session_write_core)
  show ?thesis
  proof (cases "\<exists>e s2. handleDataPhase env s = (Some e, s2)")
    case True
    then obtain e s2 where "handleDataPhase env s = (Some e, s2)" by blast
    with assms(1) show ?thesis by (auto simp: data_round_def Let_def split: option.splits if_splits)
  next
    case False
    then obtain body s2 where b: "x = Inr body" "ProcessMessage env body s1 = (None, s2)"
      using x by (cases x; cases "ProcessMessage env (projr x) s1"; cases "fst (ProcessMessage env (projr x) s1)") (auto simp: handleDataPhase_def)
    from b(1) x have "readData env s = (Inr body, s1)" by (auto simp: ReadData_def split: prod.splits sum.splits)
    then have s1: "dataSyncLost s1 = dataSyncLost s" by (auto simp: readData_def split: if_splits dest: read_loop_keeps_sync)
    from b(2) have s2: "dataSyncLost s2 = dataSyncLost s1"
      by (cases rule: ProcessMessage_cases) (auto simp: enqueue_def dest: core_sync)
    from assms(1) x b have "s' = upd_state (Reset (now_of env s)) (snd (session_write env ''250 2.0.0 Message accepted for delivery'' s2))"
      by (auto simp: data_round_def handleDataPhase_def split: option.splits)
    with s1 s2 w [of _ s2] assms(2) show ?thesis by simp
  qed
qed

lemma command_round_sync:
  assumes "command_round env s = Inr s'" and "\<not> dataSyncLost s"
  shows "\<not> dataSyncLost s'"
proof -
  from assms(1) obtain line w e s1 where p: "ProcessCommand env line (upd_state (UpdateActivity (now_of env s)) (s\<lparr>inp := w\<rparr>)) = (e, s1)"
    and s': "s' = (case e of None \<Rightarrow> s1 | Some m \<Rightarrow> writeError env m s1)" "e \<noteq> None \<longrightarrow> \<not> dataSyncLost s'"
    by (auto simp: command_round_def Let_def split: line_outcome.splits read_err.splits prod.splits if_splits option.splits)
  show ?thesis
  proof (cases e)
    case None
    with p s' assms(2) ProcessCommand_sync show ?thesis by fastforce
  qed (use s'(2) in simp)
qed

section \<open>A session as a transition system\<close>

text \<open>
  Its states are those between two rounds: \<open>session_start\<close> after the greeting, \<open>session_step\<close> one
  round. The invariant is \<open>session_inv\<close>, and that the position in the input is known.
\<close>

definition session_start :: "Env \<Rightarrow> Session \<Rightarrow> bool" where
  "session_start env s \<longleftrightarrow> (\<exists>w tls n f a. sendGreeting env (open_session env w tls n f a) = (None, s))"

definition session_step :: "Env \<Rightarrow> Session \<Rightarrow> Session \<Rightarrow> bool" where
  "session_step env s s' \<longleftrightarrow> session_round env s = Inr s'"

definition in_step :: "Session \<Rightarrow> bool" where
  "in_step s \<longleftrightarrow> session_inv s \<and> \<not> dataSyncLost s"

lemma sendGreeting_core: "sendGreeting env s = (e, s') \<Longrightarrow> core s' = core s"
  using session_write_core [of env "''220 '' @ Hostname (config env) @ '' ESMTP Elemta MTA ready''" s]
  unfolding sendGreeting_def by (auto simp del: session_write_core append.simps split: prod.splits option.splits)

lemma session_start_inv: "session_start env s \<Longrightarrow> in_step s"
proof -
  assume "session_start env s"
  then obtain w tls n f a where "sendGreeting env (open_session env w tls n f a) = (None, s)" by (auto simp: session_start_def)
  then have "core s = core (open_session env w tls n f a)" by (rule sendGreeting_core)
  from session_inv_cong [OF this] core_sync [OF this] open_session_inv(1) show ?thesis
    by (simp add: in_step_def open_session_def NewSession_def)
qed

lemma session_step_inv: "in_step s \<Longrightarrow> session_step env s s' \<Longrightarrow> in_step s'"
proof -
  assume a: "in_step s" "session_step env s s'"
  then have "session_inv s'" using session_round_sim [of env s "Inr s'"] by (auto simp: in_step_def session_step_def)
  moreover from a have "\<not> dataSyncLost s'"
    by (auto simp: in_step_def session_step_def session_round_def dest: data_round_sync command_round_sync split: if_splits sum.splits)
  ultimately show ?thesis by (simp add: in_step_def)
qed

interpretation sessions: invariant_system "session_start env" "session_step env" in_step for env
  by unfold_locales (rule session_start_inv, assumption, rule session_step_inv)

text \<open>The loop with the number of its rounds limited: \<open>Inl\<close> what it returned, \<open>Inr\<close> where it stands.\<close>

fun rounds :: "nat \<Rightarrow> Env \<Rightarrow> Session \<Rightarrow> (error \<times> Session) + Session" where
  "rounds 0 env s = Inr s"
| "rounds (Suc n) env s = (case session_round env s of Inl r \<Rightarrow> Inl r | Inr s' \<Rightarrow> rounds n env s')"

lemma rounds_enough: "wire_size s < n \<Longrightarrow> rounds n env s = Inl (processCommands env s)"
proof (induction n arbitrary: s)
  case (Suc n)
  show ?case
  proof (cases "session_round env s")
    case (Inr s')
    with session_round_shorter [OF Inr] Suc show ?thesis by (simp add: processCommands.simps [of env s])
  qed (simp add: processCommands.simps [of env s])
qed simp

lemma rounds_reach:
  assumes "rounds n env s = Inr s'" and "reach (session_start env) (session_step env) s"
  shows "reach (session_start env) (session_step env) s'"
  using assms
proof (induction n arbitrary: s)
  case (Suc n)
  then obtain s1 where "session_round env s = Inr s1" "rounds n env s1 = Inr s'" by (auto split: sum.splits)
  with Suc show ?case by (auto simp: session_step_def intro: reach_step)
qed simp

end
