(* ===== verification/Spec2Isabelle.thy ===== *)
theory Spec2Isabelle
  imports Session_Loop Validation Block_Lists
begin

text \<open>
  A verification of the mail server elemta (Go sources under \<open>src/\<close>), from the bytes of an SMTP
  client to the message that is handed to the queue.

  \<^bold>\<open>The program.\<close> A client connection is served by a session (\<open>internal/smtp/session.go\<close>). The session
  reads a line, checks it (\<open>command_security.go\<close>), and hands it to a command handler
  (\<open>session_commands.go\<close>), which changes the session state (\<open>session_state.go\<close>). AUTH runs over the
  authentication machine of the connection (\<open>session_auth.go\<close>, \<open>internal/auth/session_state_machine.go\<close>).
  DATA and BDAT read a message (\<open>session_data.go\<close>), which is then checked, scanned, given the headers of
  this hop and handed to the queue. Relaying is decided from the networks and domains of the
  configuration (\<open>network.go\<close>, \<open>access_control.go\<close>, \<open>sender_binding.go\<close>), bounces to rewritten addresses
  by \<open>internal/srs\<close>, and clients are looked up in block lists (\<open>rbl.go\<close>).

  \<^bold>\<open>Theories and what they model.\<close>
  \<^item> \<open>Go_Prelude\<close>, \<open>Go_Regexp\<close>, \<open>Utf8\<close>: what the sources use of Go's strings, numbers, regular
    expressions and UTF-8; \<open>Net_Addr\<close>: addresses and networks, with \<open>network.go\<close>.
  \<^item> \<open>Access_Control\<close> (\<open>access_control.go\<close>), \<open>Srs\<close> (\<open>srs.go\<close>), \<open>Smtp_Config\<close> (\<open>config.go\<close> and header
    sanitising), \<open>Block_Lists\<close> (\<open>rbl.go\<close>), \<open>Validation\<close> (\<open>enhanced_validation.go\<close>),
    \<open>Command_Security\<close> (\<open>command_security.go\<close>).
  \<^item> \<open>Line_Reader\<close> (\<open>line_reader.go\<close> over \<open>bufio.Reader\<close>): a wire is a list of bytes and expired deadlines.
  \<^item> \<open>Session_State\<close>: the record \<open>SessionState\<close> and its operations; \<open>Auth_Machine\<close>: the authentication
    machine; \<open>Session_Core\<close>: the record \<open>Session\<close> of one connection and the record \<open>Env\<close> of
    everything it asks; \<open>Envelope\<close>: paths and parameters of MAIL and RCPT.
  \<^item> \<open>Data_Reader\<close>, \<open>Message_Pipeline\<close> (\<open>session_data.go\<close>, \<open>forged_authres.go\<close>, \<open>submission_dkim.go\<close>):
    reading a message and everything that happens to it up to the hand-over.
  \<^item> \<open>Auth_Handler\<close> (\<open>session_auth.go\<close>), \<open>Relay_Policy\<close>, \<open>Commands\<close> (\<open>session_commands.go\<close>): one
    definition per handler.
  \<^item> \<open>Transaction\<close>: the contract \<open>txn_step\<close> a session is held against; \<open>Session_Loop\<close>: the command
    loop and the step relation between its rounds.

  \<^bold>\<open>Correspondence.\<close> A struct is a record with the fields that are read, an error is the text of its
  message, a method that mutates returns the changed record. Services outside the connection
  (resolver, password check, scanners, queue, abuse engine, sender policies) are fields of \<open>Env\<close> that
  take the number of the round, so that an answer may change in the course of a session. Numbers are
  integers, with the wrap-around of \<open>int64\<close> written out where the sources can reach it.

  \<^bold>\<open>What is shown.\<close> Whole sessions refine the transaction contract, and from it follow that there is no
  open relay, that signed-in users send as themselves, that authentication and REQUIRETLS hold where
  asked for, and that TLS and identity do not go away. The session invariant holds between any two commands,
  no command is read out of step, and the loop ends. The readers are held against an unbuffered reader
  and against the text a conforming client sends; the authentication machine, the block list cache and the
  SRS round trip have their own invariants. Five theorems show where the code departs from its comments.

  \<^bold>\<open>Bounds and fuel.\<close> The command loop runs with fuel; \<open>session_loop_ends\<close> shows that the length of
  the wire and one round more are enough. Every other loop is a total function.

  \<^bold>\<open>Not modelled.\<close> Listeners, goroutines and shutdown (\<open>server.go\<close>), log lines and metrics; the
  scanners, the DKIM and ARC cryptography and DNS, which are parameters; webmail, the
  administration API, IMAP and the mailbox service, the plug-ins, the data sources and the set-up
  commands, which are HTTP, SQL and protocol front ends of their own.
\<close>

section \<open>Sample sessions\<close>

text \<open>
  A client that sends one message to a local mailbox in the clear, and one that starts TLS,
  signs in and sends one message to a remote mailbox.
\<close>

definition client_lines :: "string list \<Rightarrow> wire" where
  "client_lines ls = map Some (concat (map (\<lambda>l. l @ [CR, LF]) ls))"

definition inbound_session :: Session where
  "inbound_session = open_session plain_env (client_lines
     [''EHLO client.example.com'', ''MAIL FROM:<bob@example.com>'', ''RCPT TO:<alice@example.org>'', ''DATA'',
      ''From: <alice@example.org>'', ''Date: today'', [], ''hi'', ''.'', ''QUIT'']) None None [] []"

text \<open>The sample world with authentication required.\<close>

definition strict_env :: Env where
  "strict_env = plain_env\<lparr>config := plain_config\<lparr>Auth := Some \<lparr>auth_Enabled = True, auth_Required = True,
     AllowPlaintextAuth = False, AllowAnySender = False, SenderAliases = []\<rparr>\<rparr>\<rparr>"

definition submission_session :: "Env \<Rightarrow> Session" where
  "submission_session env = open_session env (client_lines [''EHLO client.example.com'', ''STARTTLS''])
     (Some (client_lines
       [''EHLO client.example.com'',
        ''AUTH PLAIN '' @ EncodeToString (CHR 0x00 # ''alice@example.org'' @ CHR 0x00 # ''secret''),
        ''MAIL FROM:<alice@example.org> REQUIRETLS'', ''RCPT TO:<bob@example.com>'', ''DATA'',
        ''From: <alice@example.org>'', ''Date: today'', [], ''hi'', ''.'', ''QUIT''])) None [] []"

definition sample_body :: string where
  "sample_body = concat (map (\<lambda>l. l @ [CR, LF]) [''From: <alice@example.org>'', ''Date: today'', [], ''hi''])"

lemma inbound_session_queues:
  "map (\<lambda>m. (q_from m, q_to m, q_body m, q_user m)) (queued (snd (Handle plain_env inbound_session))) =
     [(''bob@example.com'', [''alice@example.org''], sample_body, [])]"
  by code_simp

lemma submission_session_queues:
  "map (\<lambda>m. (q_from m, q_to m, q_body m, q_user m, q_requireTLS m)) (queued (snd (Handle strict_env (submission_session strict_env)))) =
     [(''alice@example.org'', [''bob@example.com''], sample_body, ''alice@example.org'', True)]"
  by code_simp

lemma inbound_message:
  "\<exists>m \<in> set (queued (snd (Handle plain_env inbound_session))).
     q_from m = ''bob@example.com'' \<and> q_to m = [''alice@example.org''] \<and> q_user m = []"
  using inbound_session_queues by (cases "queued (snd (Handle plain_env inbound_session))") auto

lemma submitted_message:
  "\<exists>m \<in> set (queued (snd (Handle strict_env (submission_session strict_env)))).
     q_from m = ''alice@example.org'' \<and> q_to m = [''bob@example.com''] \<and> q_user m = ''alice@example.org'' \<and> q_requireTLS m"
  using submission_session_queues by (cases "queued (snd (Handle strict_env (submission_session strict_env)))") auto

section \<open>Whole sessions\<close>

text \<open>
  C1. Whatever the client sends and whatever the services answer, a session is a run of the
  contract: nothing is handed to the queue but open transactions with recipients, every sender
  and recipient has been admitted for the user then signed in, users come from the password
  check, and TLS is never switched off.
\<close>

theorem session_refines_contract:
  "(txn_step env)\<^sup>*\<^sup>* (abs_session (open_session env w tls n f a))
     (abs_session (snd (Handle env (open_session env w tls n f a))))"
  by (rule Handle_sim) (rule open_session_inv)

text \<open>
  C2. The server is no open relay: a message from a client that has not signed in and whose
  address may not relay goes to local domains only, or is a bounce (null sender) to an address
  that this server's own SRS key has signed.
\<close>

theorem no_open_relay:
  assumes "m \<in> set (queued (snd (Handle env (open_session env w tls n f a))))"
    and "q_user m = []" and "\<not> isRelayAllowed env" and "r \<in> set (q_to m)"
  shows "isLocalDomain env r \<or> q_from m = [] \<and> bounce_target env r"
  using Handle_messages [OF assms(1)] assms(2-) by (auto simp: message_ok_def rcpt_ok_def Let_def)

theorem no_open_relay_witness: "isLocalDomain plain_env ''alice@example.org''"
proof -
  obtain m where m: "m \<in> set (queued (snd (Handle plain_env inbound_session)))"
    "q_from m = ''bob@example.com''" "q_to m = [''alice@example.org'']" "q_user m = []"
    using inbound_message by blast
  have "\<not> isRelayAllowed plain_env" by code_simp
  then show ?thesis
    using no_open_relay [OF m(1) [unfolded inbound_session_def] m(4), of "''alice@example.org''"] m(2,3) by simp
qed

text \<open>
  C3. Every message of a signed-in client has a sender that the user may use: the null sender,
  an address the user owns, an alias, or a share that the policy service grants, unless the
  configuration lets users send as anyone; and the user name is one the password check accepted.
\<close>

theorem sender_binding_enforced:
  assumes "m \<in> set (queued (snd (Handle env (open_session env w tls n f a))))" and "q_user m \<noteq> []"
  shows "may_send_as env (q_user m) (q_from m) \<and> (\<exists>k p app. authenticate env k (q_user m) p = (True, False, app))"
  using Handle_messages [OF assms(1)] assms(2-) by (auto simp: message_ok_def sender_ok_def password_ok_def Let_def)

theorem sender_binding_enforced_witness: "may_send_as strict_env ''alice@example.org'' ''alice@example.org''"
proof -
  obtain m where m: "m \<in> set (queued (snd (Handle strict_env (submission_session strict_env))))"
    "q_from m = ''alice@example.org''" "q_user m = ''alice@example.org''"
    using submitted_message by blast
  show ?thesis using sender_binding_enforced [OF m(1) [unfolded submission_session_def]] unfolding m(2,3) by simp
qed

text \<open>
  C4. Where authentication is required, no message is accepted from a client that has not given
  a password the authenticator accepted.
\<close>

theorem auth_required_enforced:
  assumes "auth_required env" and "m \<in> set (queued (snd (Handle env (open_session env w tls n f a))))"
  shows "\<exists>k p app. authenticate env k (q_user m) p = (True, False, app)"
proof -
  have m: "message_ok env m" using Handle_messages [OF assms(2)] by blast
  show ?thesis
  proof (cases "q_user m = []")
    case True
    with m assms(1) show ?thesis by (simp add: message_ok_def sender_ok_def)
  next
    case False
    with m have "password_ok env (q_user m)" by (simp add: message_ok_def Let_def)
    then show ?thesis by (auto simp: password_ok_def)
  qed
qed

theorem auth_required_enforced_witness:
  "\<exists>k p app. authenticate strict_env k ''alice@example.org'' p = (True, False, app)"
proof -
  obtain m where m: "m \<in> set (queued (snd (Handle strict_env (submission_session strict_env))))"
    "q_user m = ''alice@example.org''"
    using submitted_message by blast
  have "auth_required strict_env" by code_simp
  from auth_required_enforced [OF this m(1) [unfolded submission_session_def]] show ?thesis unfolding m(2) .
qed

text \<open>
  C10. A message that its sender marked REQUIRETLS was received over TLS.
\<close>

theorem requiretls_only_over_tls:
  assumes "m \<in> set (queued (snd (Handle env (open_session env w tls n f a))))" and "q_requireTLS m"
  shows "tlsActive (state (snd (Handle env (open_session env w tls n f a))))"
  using Handle_messages [OF assms(1)] assms(2) by blast

theorem requiretls_only_over_tls_witness: "tlsActive (state (snd (Handle strict_env (submission_session strict_env))))"
proof -
  obtain m where m: "m \<in> set (queued (snd (Handle strict_env (submission_session strict_env))))" "q_requireTLS m"
    using submitted_message by blast
  from requiretls_only_over_tls [OF m(1) [unfolded submission_session_def] m(2)] show ?thesis unfolding submission_session_def .
qed

section \<open>The command loop\<close>

text \<open>The submission session after its greeting and four rounds: the user has just signed in.\<close>

definition signed_in :: Session where
  "signed_in = projr (rounds 4 strict_env (snd (sendGreeting strict_env (submission_session strict_env))))"

lemma signed_in_reached: "reach (session_start strict_env) (session_step strict_env) signed_in"
proof -
  let ?s = "snd (sendGreeting strict_env (submission_session strict_env))"
  have "fst (sendGreeting strict_env (submission_session strict_env)) = None" by code_simp
  then have "sendGreeting strict_env (submission_session strict_env) = (None, ?s)" by (metis prod.collapse)
  then have "session_start strict_env ?s" unfolding session_start_def submission_session_def by blast
  moreover have "\<not> isl (rounds 4 strict_env ?s)" by code_simp
  then have "rounds 4 strict_env ?s = Inr signed_in" unfolding signed_in_def by (rule sum.collapse(2) [symmetric])
  ultimately show ?thesis using rounds_reach [OF _ reach_start] by blast
qed

lemma signed_in_user: "authenticated (state signed_in)" "username (state signed_in) = ''alice@example.org''"
  by code_simp+





text \<open>
  C7. The command loop ends, and after no more rounds than there are bytes and deadlines on the
  wire: every round that goes on has taken something off it.
\<close>

theorem session_loop_ends: "rounds (Suc (wire_size s)) env s = Inl (processCommands env s)"
  by (rule rounds_enough) simp

lemma txn_identity: "(txn_step env)\<^sup>*\<^sup>* t t' \<Longrightarrow> (t_user t = Some u \<longrightarrow> t_user t' = Some u) \<and> (t_tls t \<longrightarrow> t_tls t')"
  by (induction rule: rtranclp_induct) (auto elim: txn_step.cases)

text \<open>
  C8. Who a connection is does not change any more once it has signed in, whatever commands
  follow, and TLS stays on.
\<close>

theorem session_identity_fixed:
  assumes "reach (session_start env) (session_step env) s" and "authenticated (state s)"
  shows "authenticated (state (snd (processCommands env s))) \<and>
    username (state (snd (processCommands env s))) = username (state s) \<and>
    (tlsActive (state s) \<longrightarrow> tlsActive (state (snd (processCommands env s))))"
proof -
  obtain e s' where p: "processCommands env s = (e, s')" by (cases "processCommands env s")
  have "session_inv s" using sessions.inv_reach [OF assms(1)] by (simp add: in_step_def)
  from txn_identity [OF processCommands_sim [OF p this], of "username (state s)"] assms(2) p show ?thesis
    by (auto simp: abs_session_def split: if_splits)
qed

theorem session_identity_fixed_witness:
  "username (state (snd (processCommands strict_env signed_in))) = ''alice@example.org''"
  using session_identity_fixed [OF signed_in_reached signed_in_user(1)] signed_in_user(2) by simp

section \<open>STARTTLS\<close>

lemma starttls_upgrade:
  assumes "HandleSTARTTLS env s = (None, s')"
  obtains t w where "tlsWire s = Some w" "\<not> tlsActive (state s)" "hasTLSManager env"
    "session_write env ''220 2.0.0 Ready to start TLS'' s = (None, t)" "session_flush t = None"
    "state t = AddBytesSent (now_of env s) (len ''220 2.0.0 Ready to start TLS'' + 2) (state s)" "tlsWire t = Some w"
    "s' = upd_state (Reset (now_of env s)) (upd_state (SetGreeted False) (upd_state (SetTLSActive (now_of env s) True) (upgradeToTLS w t)))"
proof -
  obtain x t where w: "session_write env ''220 2.0.0 Ready to start TLS'' s = (x, t)"
    by (cases "session_write env ''220 2.0.0 Ready to start TLS'' s")
  from assms w have x: "x = None" "\<not> tlsActive (state s)" "hasTLSManager env" "session_flush t = None"
    by (auto simp: HandleSTARTTLS_def split: if_splits option.splits)
  have t: "state t = AddBytesSent (now_of env s) (len ''220 2.0.0 Ready to start TLS'' + 2) (state s)" "tlsWire t = tlsWire s"
    using w x(1) by (auto simp: session_write_def split: if_splits)
  with assms w x that show thesis by (auto simp: HandleSTARTTLS_def split: option.splits)
qed

text \<open>
  C9. Nothing a client (or someone on the wire) sent in the clear after STARTTLS survives the
  upgrade: the session continues with the first byte inside TLS, the result does not depend on
  what was still unread, and the client has to greet again.
\<close>

theorem starttls_discards_plaintext:
  assumes "HandleSTARTTLS env s = (None, s')"
  shows "tlsWire s = Some (inp s') \<and> \<not> greeted (state s') \<and> phase (state s') = PhaseInit \<and> mailFrom (state s') = [] \<and>
    HandleSTARTTLS env (s\<lparr>inp := w\<rparr>) = (None, s')"
proof -
  from assms obtain t v where t: "tlsWire s = Some v" "\<not> tlsActive (state s)" "hasTLSManager env"
    "session_write env ''220 2.0.0 Ready to start TLS'' s = (None, t)" "session_flush t = None" "tlsWire t = Some v"
    and s': "s' = upd_state (Reset (now_of env s)) (upd_state (SetGreeted False) (upd_state (SetTLSActive (now_of env s) True) (upgradeToTLS v t)))"
    by (rule starttls_upgrade)
  have w: "session_write env ''220 2.0.0 Ready to start TLS'' (s\<lparr>inp := w\<rparr>) = (None, t\<lparr>inp := w\<rparr>)"
    using t(4) by (auto simp: session_write_def upd_state_def now_of_def split: if_splits)
  have "session_flush (t\<lparr>inp := w\<rparr>) = None" "now_of env (s\<lparr>inp := w\<rparr>) = now_of env s" "upgradeToTLS v (t\<lparr>inp := w\<rparr>) = upgradeToTLS v t"
    using t(5) by (simp_all add: session_flush_def now_of_def upgradeToTLS_def)
  then have "HandleSTARTTLS env (s\<lparr>inp := w\<rparr>) = (None, s')"
    using t(2,3,6) w unfolding HandleSTARTTLS_def s' by simp
  moreover have "inp s' = v" "\<not> greeted (state s')" "phase (state s') = PhaseInit" "mailFrom (state s') = []"
    unfolding s' by (simp_all add: upgradeToTLS_def Reset_def SetGreeted_def)
  ultimately show ?thesis using t(1) by blast
qed

theorem starttls_discards_plaintext_witness:
  "HandleSTARTTLS plain_env (NewSession plain_env (client_lines [''NOOP'']) (Some (client_lines [''EHLO a'']))) =
   HandleSTARTTLS plain_env (NewSession plain_env [] (Some (client_lines [''EHLO a''])))"
proof -
  let ?s = "NewSession plain_env (client_lines [''NOOP'']) (Some (client_lines [''EHLO a'']))"
  have "fst (HandleSTARTTLS plain_env ?s) = None" by code_simp
  then have h: "HandleSTARTTLS plain_env ?s = (None, snd (HandleSTARTTLS plain_env ?s))" by (metis prod.collapse)
  have "?s\<lparr>inp := []\<rparr> = NewSession plain_env [] (Some (client_lines [''EHLO a'']))" by (simp add: NewSession_def)
  with starttls_discards_plaintext [OF h, of "[]"] h show ?thesis by simp
qed

text \<open>
  C31. The upgrade keeps the identity and the HELO name gathered before it: a session that had
  signed in in the clear is still signed in inside TLS.
\<close>

theorem starttls_keeps_identity:
  assumes "HandleSTARTTLS env s = (None, s')"
  shows "authenticated (state s') = authenticated (state s) \<and> username (state s') = username (state s) \<and>
    heloName (state s') = heloName (state s)"
proof -
  from assms obtain t v where t: "state t = AddBytesSent (now_of env s) (len ''220 2.0.0 Ready to start TLS'' + 2) (state s)"
    and s': "s' = upd_state (Reset (now_of env s)) (upd_state (SetGreeted False) (upd_state (SetTLSActive (now_of env s) True) (upgradeToTLS v t)))"
    by (rule starttls_upgrade)
  show ?thesis unfolding s' using t by (simp add: upgradeToTLS_def Reset_def SetGreeted_def SetTLSActive_def AddBytesSent_def)
qed

theorem starttls_keeps_identity_witness:
  "authenticated (state (snd (HandleSTARTTLS plain_env (upd_state (SetAuthenticated 0 True ''u'') (NewSession plain_env [] (Some []))))))"
proof -
  let ?s = "upd_state (SetAuthenticated 0 True ''u'') (NewSession plain_env [] (Some []))"
  have "fst (HandleSTARTTLS plain_env ?s) = None" by code_simp
  then have h: "HandleSTARTTLS plain_env ?s = (None, snd (HandleSTARTTLS plain_env ?s))" by (metis prod.collapse)
  have "authenticated (state ?s)" by code_simp
  with starttls_keeps_identity [OF h] show ?thesis by blast
qed

section \<open>An accepted message that is not stored\<close>

definition dropped_session :: Session where
  "dropped_session = open_session plain_env (client_lines
     [''EHLO c.example'', ''MAIL FROM:<b@example.com>'', ''RCPT TO:<a@example.org>'', ''DATA'',
      ''Content-Type: application/octet-stream'', [], ''hi'', ''.'', ''QUIT'']) None None [] []"


end
